(* ===== verification/Prelude.thy ===== *)
theory Prelude
  imports Complex_Main "HOL-Library.Word" "HOL-Library.Product_Lexorder"
begin

text \<open>
  Shared vocabulary of the development: the machine types of the model (UUIDs are 128-bit
  words, timestamps are integer microseconds), the exceptions of the services as one
  datatype, tables as lists of rows with the SQL statements the services issue against
  them, and the generic lemmas about tables and about row evolution that the component
  theories rest on.
\<close>

subsection \<open>Types\<close>

text \<open>
  A UUID is a 128-bit value; PostgreSQL orders UUIDs bytewise, which is the unsigned order
  of the word. An instant is the number of microseconds since the Unix epoch (the
  resolution of \<open>timestamptz\<close> and of Python's \<open>datetime\<close>); a Python \<open>Decimal\<close> of
  a \<open>Numeric\<close> column is the rational it denotes.
\<close>

type_synonym uuid = "128 word"
type_synonym instant = int
type_synonym decimal = rat

definition minutes :: "int \<Rightarrow> int" where
  "minutes n = n * 60 * 1000000"

definition days :: "int \<Rightarrow> int" where
  "days n = n * 24 * 60 * 60 * 1000000"

text \<open>
  Every exception class that a service raises or lets through. \<open>IntegrityError\<close> carries
  the name of the violated constraint (\<open>error.orig.diag.constraint_name\<close>), \<open>DataError\<close>
  is PostgreSQL refusing a value that does not fit its column, or the driver refusing a
  timestamp that no datetime represents.
\<close>

datatype exn =
    BookingTimeError
  | BookingUnavailableError
  | BookingStateConflictError
  | PaymentConfigurationError
  | PaymentStateConflictError
  | PaymentProviderError
  | PaymentVerificationError
  | WebhookAuthenticationError
  | WebhookPayloadError
  | ChargingSessionStateConflictError
  | ChargingSessionTimeError
  | ChargingSessionMeterError
  | ChargingSessionForbiddenError
  | StationConflictError
  | StationNotFoundError
  | StationStateConflictError
  | RegistrationConflictError string
  | AuthenticationError string
  | RefreshTokenError string
  | PasswordChangeError string
  | AccessTokenError string
  | RazorpayOrderError
  | RazorpayRefundError
  | ValidationError string
  | RuntimeError string
  | ValueError string
  | TypeError
  | AttributeError
  | KeyError
  | OverflowError
  | RedisError
  | ExternalStationProviderError
  | IntegrityError string
  | DataError

fun is_integrity_error :: "exn \<Rightarrow> bool" where
  "is_integrity_error (IntegrityError _) = True"
| "is_integrity_error _ = False"

subsection \<open>Collections of facts\<close>

named_theorems op_defs \<open>definitions of service operations\<close>
named_theorems evolve_intros \<open>introduction rules for table evolution\<close>

subsection \<open>Option and list helpers\<close>

text \<open>SQL unique constraints do not compare NULLs: only the present values must differ.\<close>

definition distinct_present :: "'a option list \<Rightarrow> bool" where
  "distinct_present xs = distinct (map the (filter (\<lambda>x. x \<noteq> None) xs))"

lemma distinct_present_simps [simp]:
  "distinct_present []"
  "distinct_present (None # xs) = distinct_present xs"
  "distinct_present (Some x # xs) = (Some x \<notin> set xs \<and> distinct_present xs)"
  by (force simp: distinct_present_def image_iff)+

lemma distinct_present_append:
  "distinct_present (xs @ [y]) = (distinct_present xs \<and> (y = None \<or> y \<notin> set xs))"
  by (induction xs) (auto simp: distinct_present_def split: option.splits)

lemma distinct_present_unique:
  assumes "distinct_present (map f xs)" "x \<in> set xs" "y \<in> set xs" "f x = f y" "f x \<noteq> None"
    and "distinct xs"
  shows "x = y"
  using assms
proof (induction xs)
  case (Cons z zs)
  then show ?case
    by (cases "f z") (auto, (metis image_eqI)+)
qed simp

lemma distinct_map_unique:
  "distinct (map f xs) \<Longrightarrow> x \<in> set xs \<Longrightarrow> y \<in> set xs \<Longrightarrow> f x = f y \<Longrightarrow> x = y"
  by (auto simp: distinct_map inj_on_def)

subsection \<open>Tables and the statements the services issue\<close>

text \<open>
  A table is the list of its rows in insertion order. \<open>select_scalar\<close> is
  \<open>session.scalar(select(..).where(p))\<close>: the first matching row or None.
  \<open>update_where\<close> is \<open>UPDATE .. SET .. WHERE\<close>, with \<open>rowcount_where\<close> its
  \<open>rowcount\<close>. \<open>store_row\<close> is the UPDATE by primary key that flushing a modified ORM
  object issues, \<open>insert_row\<close> the INSERT of \<open>session.add\<close>. \<open>page_of\<close> is
  \<open>OFFSET (page - 1) * per_page LIMIT per_page\<close>.
\<close>

definition select_scalar :: "('r \<Rightarrow> bool) \<Rightarrow> 'r list \<Rightarrow> 'r option" where
  "select_scalar p rows = find p rows"

definition update_where :: "('r \<Rightarrow> bool) \<Rightarrow> ('r \<Rightarrow> 'r) \<Rightarrow> 'r list \<Rightarrow> 'r list" where
  "update_where p f rows = map (\<lambda>r. if p r then f r else r) rows"

definition rowcount_where :: "('r \<Rightarrow> bool) \<Rightarrow> 'r list \<Rightarrow> nat" where
  "rowcount_where p rows = length (filter p rows)"

definition store_row :: "('r \<Rightarrow> 'k) \<Rightarrow> 'r \<Rightarrow> 'r list \<Rightarrow> 'r list" where
  "store_row key r rows = map (\<lambda>x. if key x = key r then r else x) rows"

definition insert_row :: "'r \<Rightarrow> 'r list \<Rightarrow> 'r list" where
  "insert_row r rows = rows @ [r]"

definition page_of :: "int \<Rightarrow> int \<Rightarrow> 'r list \<Rightarrow> 'r list" where
  "page_of page per_page rows = take (nat per_page) (drop (nat ((page - 1) * per_page)) rows)"

lemma select_scalar_Some:
  "select_scalar p rows = Some r \<Longrightarrow> r \<in> set rows \<and> p r"
  by (auto simp: select_scalar_def find_Some_iff)

lemma select_scalar_None:
  "select_scalar p rows = None \<longleftrightarrow> (\<forall>r \<in> set rows. \<not> p r)"
  by (auto simp: select_scalar_def find_None_iff)

lemma select_scalar_unique:
  assumes "r \<in> set rows" "p r" "\<And>r'. r' \<in> set rows \<Longrightarrow> p r' \<Longrightarrow> r' = r"
  shows "select_scalar p rows = Some r"
proof (cases "select_scalar p rows")
  case None
  with assms(1,2) show ?thesis by (auto simp: select_scalar_None)
next
  case (Some r')
  with assms(3) select_scalar_Some [OF Some] show ?thesis by auto
qed

lemma set_insert_row [simp]: "set (insert_row r rows) = insert r (set rows)"
  by (simp add: insert_row_def)

lemma map_insert_row [simp]: "map f (insert_row r rows) = map f rows @ [f r]"
  by (simp add: insert_row_def)

lemma filter_insert_row [simp]:
  "filter p (insert_row r rows) = filter p rows @ (if p r then [r] else [])"
  by (simp add: insert_row_def)

lemma length_store_row [simp]: "length (store_row key r rows) = length rows"
  by (simp add: store_row_def)

lemma length_update_where [simp]: "length (update_where p f rows) = length rows"
  by (simp add: update_where_def)

lemma map_update_where:
  "(\<And>r. p r \<Longrightarrow> g (f r) = g r) \<Longrightarrow> map g (update_where p f rows) = map g rows"
  by (auto simp: update_where_def)

lemma set_update_where:
  "set (update_where p f rows) = (\<lambda>r. if p r then f r else r) ` set rows"
  by (simp add: update_where_def)

lemma set_store_row_subset: "set (store_row key r rows) \<subseteq> insert r (set rows)"
  by (auto simp: store_row_def)

lemma set_store_row:
  "set (store_row key r rows) =
     (if key r \<in> key ` set rows then insert r {x \<in> set rows. key x \<noteq> key r} else set rows)"
  by (auto simp: store_row_def image_iff)

lemma map_key_store_row [simp]: "map key (store_row key r rows) = map key rows"
  by (auto simp: store_row_def)

lemma map_store_row_same:
  "(\<And>x. x \<in> set rows \<Longrightarrow> key x = key r \<Longrightarrow> g x = g r) \<Longrightarrow>
   map g (store_row key r rows) = map g rows"
  by (auto simp: store_row_def)

lemma list_all_store: "list_all P rows \<Longrightarrow> P r \<Longrightarrow> list_all P (store_row key r rows)"
  by (auto simp: store_row_def list_all_iff)

lemma distinct_map_filter_perm:
  "distinct (map f xs) \<Longrightarrow> distinct (map f (take n (sort_key k (filter p xs))))"
  by (metis distinct_map distinct_sort distinct_filter distinct_take set_take_subset set_sort
      filter_is_subset inj_on_subset subset_trans)

lemma rowcount_by_ids:
  assumes "distinct (map key rows)" "distinct ids" "set ids \<subseteq> key ` set rows"
  shows "rowcount_where (\<lambda>r. key r \<in> set ids) rows = length ids"
proof -
  let ?rs = "filter (\<lambda>r. key r \<in> set ids) rows"
  have "distinct (map key ?rs)" using assms(1) by (simp add: distinct_map_filter)
  moreover have "set (map key ?rs) = set ids" using assms(3) by auto
  ultimately have "length (map key ?rs) = length ids"
    using assms(2) by (metis distinct_card)
  then show ?thesis by (simp add: rowcount_where_def)
qed

lemma filter_cong_rows: "(\<And>x. x \<in> set xs \<Longrightarrow> p x = q x) \<Longrightarrow> rowcount_where p xs = rowcount_where q xs"
  by (simp add: rowcount_where_def cong: filter_cong)

lemma update_where_False: "update_where (\<lambda>_. False) f xs = xs"
  by (simp add: update_where_def)

lemma update_where_cong: "(\<And>x. x \<in> set xs \<Longrightarrow> p x = q x) \<Longrightarrow> update_where p f xs = update_where q f xs"
  by (simp add: update_where_def)

lemma sorted_take_rest:
  assumes "sorted (map k xs)" "x \<in> set (take n xs)" "y \<in> set xs" "y \<notin> set (take n xs)"
  shows "k x \<le> k y"
proof -
  have "set xs = set (take n xs) \<union> set (drop n xs)"
    by (metis append_take_drop_id set_append)
  with assms(3,4) have "y \<in> set (drop n xs)" by blast
  moreover
  from assms(1) have "sorted (map k (take n xs) @ map k (drop n xs))"
    by (metis append_take_drop_id map_append)
  ultimately show ?thesis using assms(2) by (auto simp: sorted_append)
qed

lemma page_of_length_le: "0 \<le> per_page \<Longrightarrow> int (length (page_of page per_page rows)) \<le> per_page"
  by (auto simp: page_of_def)

lemma page_of_subset: "set (page_of page per_page rows) \<subseteq> set rows"
  unfolding page_of_def by (meson set_drop_subset set_take_subset subset_trans)

text \<open>
  \<open>(total + per_page - 1) // per_page\<close>, the page count the routes report. Reading that
  many pages yields every row exactly once, in order.
\<close>

definition pages_of :: "int \<Rightarrow> int \<Rightarrow> int" where
  "pages_of count per_page = (count + per_page - 1) div per_page"

lemma chunks_cover: "0 < n \<Longrightarrow> concat (map (\<lambda>k. take n (drop (k * n) xs)) [0..<m]) = take (m * n) xs"
proof (induction m)
  case (Suc m)
  have "take (Suc m * n) xs = take (m * n) xs @ take n (drop (m * n) xs)"
    by (metis add.commute mult_Suc take_add)
  with Suc show ?case by simp
qed simp

lemma pages_of_covers:
  assumes "0 < per_page"
  shows "length xs \<le> nat (pages_of (int (length xs)) per_page) * nat per_page"
proof -
  let ?t = "int (length xs)" and ?p = "pages_of (int (length xs)) per_page"
  have "?t + per_page - 1 = ?p * per_page + (?t + per_page - 1) mod per_page"
    by (simp add: pages_of_def)
  moreover have "(?t + per_page - 1) mod per_page \<le> per_page - 1"
    using assms pos_mod_bound [of per_page "?t + per_page - 1"] by linarith
  ultimately have "?t \<le> ?p * per_page" by linarith
  moreover have "0 \<le> ?p" using assms by (simp add: pages_of_def pos_imp_zdiv_nonneg_iff)
  ultimately have "?t \<le> int (nat ?p * nat per_page)" using assms by simp
  then show ?thesis by linarith
qed

lemma pages_cover:
  assumes "0 < per_page"
  shows "concat (map (\<lambda>k. page_of (int k + 1) per_page xs)
           [0..<nat (pages_of (int (length xs)) per_page)]) = xs"
proof -
  have "nat (int k * per_page) = k * nat per_page" for k
    using assms by (simp add: nat_mult_distrib)
  then have "concat (map (\<lambda>k. page_of (int k + 1) per_page xs)
      [0..<nat (pages_of (int (length xs)) per_page)])
    = take (nat (pages_of (int (length xs)) per_page) * nat per_page) xs"
    using assms by (simp add: page_of_def chunks_cover)
  with pages_of_covers [OF assms, of xs] show ?thesis by simp
qed

subsection \<open>The row-store interface\<close>

text \<open>
  What the ORM session promises to the services about one table: reading by primary key
  after writing a row back returns that row, and other rows are untouched. The component
  theories interpret it for their own tables and their primary keys.
\<close>

locale row_store =
  fixes get :: "'t \<Rightarrow> 'k \<Rightarrow> 'r option"
    and put :: "'r \<Rightarrow> 't \<Rightarrow> 't"
    and key :: "'r \<Rightarrow> 'k"
  assumes get_key: "get t k = Some r \<Longrightarrow> key r = k"
    and get_put: "get (put r t) k = (if k = key r \<and> get t k \<noteq> None then Some r else get t k)"
begin

lemma get_put_same: "get t (key r) = Some r' \<Longrightarrow> get (put r t) (key r) = Some r"
  by (simp add: get_put)

lemma get_put_other: "k \<noteq> key r \<Longrightarrow> get (put r t) k = get t k"
  by (simp add: get_put)

lemma put_put_get: "key r = key r' \<Longrightarrow> get (put r (put r' t)) k = get (put r t) k"
  by (auto simp: get_put)

lemma put_commute_get:
  "key r \<noteq> key r' \<Longrightarrow> get (put r (put r' t)) k = get (put r' (put r t)) k"
  by (auto simp: get_put)

lemma put_absent: "get t (key r) = None \<Longrightarrow> get (put r t) k = get t k"
  by (simp add: get_put)

end

text \<open>Reading by primary key from a list of rows.\<close>

definition row_by :: "('r \<Rightarrow> 'k) \<Rightarrow> 'r list \<Rightarrow> 'k \<Rightarrow> 'r option" where
  "row_by key rows k = select_scalar (\<lambda>r. key r = k) rows"

lemma row_by_Some: "row_by key rows k = Some r \<Longrightarrow> r \<in> set rows \<and> key r = k"
  by (auto simp: row_by_def dest: select_scalar_Some)

lemma row_by_None: "row_by key rows k = None \<longleftrightarrow> k \<notin> key ` set rows"
  by (auto simp: row_by_def select_scalar_None)

lemma row_by_in:
  "distinct (map key rows) \<Longrightarrow> r \<in> set rows \<Longrightarrow> row_by key rows (key r) = Some r"
  unfolding row_by_def by (rule select_scalar_unique) (auto dest: distinct_map_unique)

lemma row_by_store:
  "row_by key (store_row key r rows) k =
     (if k = key r \<and> row_by key rows k \<noteq> None then Some r else row_by key rows k)"
  by (induction rows) (auto simp: row_by_def select_scalar_def store_row_def)

interpretation keyed_list: row_store "row_by key" "store_row key" key for key :: "'r \<Rightarrow> 'k"
  by unfold_locales (auto simp: row_by_store dest: row_by_Some)

subsection \<open>Evolution of tables\<close>

text \<open>
  How a transaction changes a table, row by row: the rows that were there keep their
  places and each moves by \<open>R\<close>, and rows satisfying \<open>N\<close> are appended. Deleting a row
  is not such a change: no service of the program deletes.
\<close>

fun table_evolves :: "('r \<Rightarrow> 'r \<Rightarrow> bool) \<Rightarrow> ('r \<Rightarrow> bool) \<Rightarrow> 'r list \<Rightarrow> 'r list \<Rightarrow> bool" where
  "table_evolves R N [] ys = list_all N ys"
| "table_evolves R N (x # xs) [] = False"
| "table_evolves R N (x # xs) (y # ys) = (R x y \<and> table_evolves R N xs ys)"

lemma table_evolves_Cons:
  "table_evolves R N (x # xs) ys \<longleftrightarrow> (\<exists>z zs. ys = z # zs \<and> R x z \<and> table_evolves R N xs zs)"
  by (cases ys) auto

lemma table_evolves_map:
  "(\<And>x. x \<in> set rows \<Longrightarrow> R x (f x)) \<Longrightarrow> table_evolves R N rows (map f rows)"
  by (induction rows) auto

lemma table_evolves_refl [evolve_intros]:
  "(\<And>x. R x x) \<Longrightarrow> table_evolves R N rows rows"
  using table_evolves_map [of rows R "\<lambda>x. x"] by simp

lemma table_evolves_update_where:
  assumes "\<And>x. R x x" "\<And>x. x \<in> set rows \<Longrightarrow> p x \<Longrightarrow> R x (f x)"
  shows "table_evolves R N rows (update_where p f rows)"
  unfolding update_where_def using assms by (intro table_evolves_map) auto

lemma table_evolves_store_row:
  assumes "\<And>x. R x x" "\<And>x. x \<in> set rows \<Longrightarrow> key x = key r \<Longrightarrow> R x r"
  shows "table_evolves R N rows (store_row key r rows)"
  unfolding store_row_def using assms by (intro table_evolves_map) auto

lemma table_evolves_insert_row:
  "table_evolves R N rows rows' \<Longrightarrow> N r \<Longrightarrow> table_evolves R N rows (insert_row r rows')"
  by (induction R N rows rows' rule: table_evolves.induct) (auto simp: insert_row_def)

lemma table_evolves_mono:
  "table_evolves R N xs ys \<Longrightarrow> (\<And>x y. R x y \<Longrightarrow> R' x y) \<Longrightarrow> (\<And>x. N x \<Longrightarrow> N' x) \<Longrightarrow>
   table_evolves R' N' xs ys"
  by (induction R N xs ys rule: table_evolves.induct) (auto elim: list.pred_mono_strong)

lemma table_evolves_forward:
  "table_evolves R N xs ys \<Longrightarrow> x \<in> set xs \<Longrightarrow> \<exists>y \<in> set ys. R x y"
  by (induction R N xs ys rule: table_evolves.induct) auto

lemma table_evolves_backward:
  "table_evolves R N xs ys \<Longrightarrow> y \<in> set ys \<Longrightarrow> (\<exists>x \<in> set xs. R x y) \<or> N y"
  by (induction R N xs ys rule: table_evolves.induct) (auto simp: list_all_iff)

lemma table_evolves_trans:
  assumes "table_evolves R N xs ys" "table_evolves R N ys zs"
    and RR: "\<And>x y z. R x y \<Longrightarrow> R y z \<Longrightarrow> R x z" and NR: "\<And>x y. N x \<Longrightarrow> R x y \<Longrightarrow> N y"
  shows "table_evolves R N xs zs"
  using assms(1,2)
proof (induction xs arbitrary: ys zs)
  case Nil
  then show ?case
    by (auto simp: list_all_iff dest!: table_evolves_backward intro: NR)
next
  case (Cons x xs)
  from Cons.prems(1) obtain y ys' where y: "ys = y # ys'" "R x y" "table_evolves R N xs ys'"
    by (auto simp: table_evolves_Cons)
  with Cons.prems(2) obtain z zs' where z: "zs = z # zs'" "R y z" "table_evolves R N ys' zs'"
    by (auto simp: table_evolves_Cons)
  from Cons.IH [OF y(3) z(3)] RR [OF y(2) z(2)] z(1) show ?case by simp
qed

text \<open>
  The interface between a component that changes rows and the invariants stated over
  them: rows move by \<open>move\<close>, new rows are \<open>fresh\<close>, and a move keeps the primary key.
\<close>

locale row_lifecycle =
  fixes key :: "'r \<Rightarrow> 'k"
    and move :: "'r \<Rightarrow> 'r \<Rightarrow> bool"
    and fresh :: "'r \<Rightarrow> bool"
  assumes move_refl: "move r r"
    and move_key: "move r r' \<Longrightarrow> key r' = key r"
begin

lemma evolves_keys:
  "table_evolves move fresh xs ys \<Longrightarrow> \<exists>ks. map key ys = map key xs @ ks"
  by (induction xs arbitrary: ys) (auto simp: table_evolves_Cons move_key)

lemma evolves_keys_subset:
  "table_evolves move fresh xs ys \<Longrightarrow> key ` set xs \<subseteq> key ` set ys"
  using evolves_keys by (metis Un_upper1 set_append set_map)

lemma evolves_row_by:
  "table_evolves move fresh xs ys \<Longrightarrow> row_by key xs k = Some r \<Longrightarrow>
   \<exists>r'. row_by key ys k = Some r' \<and> move r r'"
proof (induction xs arbitrary: ys)
  case Nil
  then show ?case by (simp add: row_by_def select_scalar_def)
next
  case (Cons x xs)
  from Cons.prems(1) obtain y zs where ys: "ys = y # zs" "move x y" "table_evolves move fresh xs zs"
    by (auto simp: table_evolves_Cons)
  from ys(2) have "key y = key x" by (rule move_key)
  with Cons.IH [OF ys(3)] Cons.prems(2) ys(1,2) show ?case
    by (auto simp: row_by_def select_scalar_def split: if_splits)
qed

lemma evolves_invariant:
  assumes ev: "table_evolves move fresh xs ys" and xs: "list_all I xs"
    and step: "\<And>r r'. I r \<Longrightarrow> move r r' \<Longrightarrow> I r'" and new: "\<And>r. fresh r \<Longrightarrow> I r"
  shows "list_all I ys"
  unfolding list_all_iff
proof
  fix y assume "y \<in> set ys"
  from table_evolves_backward [OF ev this] show "I y"
  proof
    assume "\<exists>x \<in> set xs. move x y"
    with xs show "I y" by (auto simp: list_all_iff dest: step)
  qed (rule new)
qed

lemma evolves_store:
  assumes "row_by key xs (key r) = Some x" "distinct (map key xs)" "move x r"
  shows "table_evolves move fresh xs (store_row key r xs)"
proof (rule table_evolves_store_row)
  fix y assume "y \<in> set xs" "key y = key r"
  with assms(1,2) have "y = x"
    using row_by_in by fastforce
  with assms(3) show "move y r" by simp
qed (rule move_refl)

end

text \<open>A lifecycle with rows that never change again.\<close>

locale terminating_lifecycle = row_lifecycle +
  fixes terminal :: "'a \<Rightarrow> bool"
  assumes terminal_move: "terminal r \<Longrightarrow> move r r' \<Longrightarrow> r' = r"
begin

lemma evolves_terminal:
  assumes "table_evolves move fresh xs ys" "row_by key xs k = Some r" "terminal r"
  shows "row_by key ys k = Some r"
  using evolves_row_by [OF assms(1,2)] terminal_move [OF assms(3)] by auto

end

text \<open>
  The interface of a machine with an invariant, and of one that refines an abstract machine
  while its invariant holds.
\<close>

locale invariant_machine =
  fixes step :: "'s \<Rightarrow> 's \<Rightarrow> bool" and inv :: "'s \<Rightarrow> bool"
  assumes preserved: "step s s' \<Longrightarrow> inv s \<Longrightarrow> inv s'"
begin

lemma run_preserves: "step\<^sup>*\<^sup>* s s' \<Longrightarrow> inv s \<Longrightarrow> inv s'"
  by (induction rule: rtranclp_induct) (auto intro: preserved)

end

locale refining_machine = invariant_machine +
  fixes abs :: "'a \<Rightarrow> 'b" and astep :: "'b \<Rightarrow> 'b \<Rightarrow> bool"
  assumes simulates: "step s s' \<Longrightarrow> inv s \<Longrightarrow> astep (abs s) (abs s')"
begin

lemma run_simulates: "step\<^sup>*\<^sup>* s s' \<Longrightarrow> inv s \<Longrightarrow> astep\<^sup>*\<^sup>* (abs s) (abs s')"
proof (induction rule: rtranclp_induct)
  case (step y z)
  then have "astep (abs y) (abs z)"
    using run_preserves by (auto intro: simulates)
  with step show ?case by (meson rtranclp.rtrancl_into_rtrancl)
qed simp

end

end
