(* ===== verification/PyValues.thy ===== *)
theory PyValues
  imports Prelude
begin

text \<open>
  The Python values the services compute with: datetimes with and without a timezone,
  decimals, UUID renderings, text, JSON documents as \<open>json.loads\<close> returns them, and
  the constant-time string comparison. A \<open>string\<close> is the UTF-8 encoding of a Python
  \<open>str\<close>, so \<open>.encode("utf-8")\<close> is the identity on it.
\<close>

subsection \<open>Text\<close>

text \<open>\<open>len(s)\<close> counts code points, that is bytes that do not continue one.\<close>

definition continuation_byte :: "char \<Rightarrow> bool" where
  "continuation_byte c \<longleftrightarrow> 128 \<le> (of_char c :: nat) \<and> (of_char c :: nat) < 192"

definition pylen :: "string \<Rightarrow> nat" where
  "pylen s = length (filter (\<lambda>c. \<not> continuation_byte c) s)"

definition is_ascii :: "string \<Rightarrow> bool" where
  "is_ascii s \<longleftrightarrow> list_all (\<lambda>c. (of_char c :: nat) < 128) s"

lemma pylen_le_length: "pylen s \<le> length s"
  by (simp add: pylen_def)

lemma pylen_ascii: "is_ascii s \<Longrightarrow> pylen s = length s"
  unfolding pylen_def is_ascii_def continuation_byte_def
  by (subst filter_True) (auto simp: list_all_iff)

text \<open>
  \<open>hmac.compare_digest(expected, supplied)\<close> on two \<open>str\<close>: a TypeError when either
  holds a non-ASCII character, equality otherwise.
\<close>

definition compare_digest :: "string \<Rightarrow> string \<Rightarrow> exn + bool" where
  "compare_digest a b = (if is_ascii a \<and> is_ascii b then Inr (a = b) else Inl TypeError)"

subsection \<open>UUID renderings\<close>

definition hex_digit :: "nat \<Rightarrow> char" where
  "hex_digit n = ''0123456789abcdef'' ! (n mod 16)"

fun hex_digits :: "nat \<Rightarrow> nat \<Rightarrow> string" where
  "hex_digits 0 n = []"
| "hex_digits (Suc k) n = hex_digits k (n div 16) @ [hex_digit n]"

text \<open>\<open>uuid.hex\<close> (32 digits) and \<open>str(uuid)\<close> (8-4-4-4-12).\<close>

definition uuid_hex :: "uuid \<Rightarrow> string" where
  "uuid_hex u = hex_digits 32 (unat u)"

definition uuid_str :: "uuid \<Rightarrow> string" where
  "uuid_str u = (let h = uuid_hex u in
     take 8 h @ ''-'' @ take 4 (drop 8 h) @ ''-'' @ take 4 (drop 12 h) @ ''-''
     @ take 4 (drop 16 h) @ ''-'' @ drop 20 h)"

lemma length_hex_digits [simp]: "length (hex_digits k n) = k"
  by (induction k arbitrary: n) auto

lemma hex_digit_inj: "hex_digit m = hex_digit n \<Longrightarrow> m mod 16 = n mod 16"
proof -
  have inj: "\<forall>i < 16. \<forall>j < 16. ''0123456789abcdef'' ! i = ''0123456789abcdef'' ! j \<longrightarrow> i = j"
    by code_simp
  assume "hex_digit m = hex_digit n"
  with inj show ?thesis
    unfolding hex_digit_def by (meson mod_less_divisor zero_less_numeral)
qed

lemma hex_digit_ascii: "is_ascii [hex_digit n]"
proof -
  have "list_all (\<lambda>c. is_ascii [c]) ''0123456789abcdef''" by (simp add: is_ascii_def)
  then show ?thesis by (simp add: hex_digit_def list_all_length)
qed

lemma hex_digits_ascii: "is_ascii (hex_digits k n)"
  using hex_digit_ascii by (induction k arbitrary: n) (auto simp: is_ascii_def)

lemma hex_digits_inj:
  "m < 16 ^ k \<Longrightarrow> n < 16 ^ k \<Longrightarrow> hex_digits k m = hex_digits k n \<Longrightarrow> m = n"
proof (induction k arbitrary: m n)
  case (Suc k)
  from Suc.prems(3) have "hex_digits k (m div 16) = hex_digits k (n div 16)"
    and low: "m mod 16 = n mod 16"
    by (auto dest: hex_digit_inj)
  moreover from Suc.prems(1,2) have "m div 16 < 16 ^ k" "n div 16 < 16 ^ k"
    by (auto simp: div_less_iff_less_mult mult.commute)
  ultimately have "m div 16 = n div 16" by (auto dest: Suc.IH)
  with low show ?case by (metis div_mult_mod_eq)
qed simp

lemma uuid_hex_inj: "uuid_hex u = uuid_hex v \<Longrightarrow> u = v"
proof -
  have "unat w < 16 ^ 32" for w :: uuid
    using unsigned_less [of w, where 'a = nat] by simp
  moreover assume "uuid_hex u = uuid_hex v"
  ultimately have "unat u = unat v"
    unfolding uuid_hex_def by (metis hex_digits_inj)
  then show "u = v" by (simp add: word_unat_eq_iff)
qed

lemma length_uuid_hex [simp]: "length (uuid_hex u) = 32"
  by (simp add: uuid_hex_def)

lemma length_uuid_str [simp]: "length (uuid_str u) = 36"
  by (simp add: uuid_str_def Let_def)

lemma uuid_hex_ascii: "is_ascii (uuid_hex u)"
  by (simp add: uuid_hex_def hex_digits_ascii)

subsection \<open>Datetimes\<close>

text \<open>
  A Python \<open>datetime\<close>: its wall clock, and for an aware one the offset of its timezone.
  An aware value denotes the instant \<open>wall - offset\<close>. The services treat a naive value
  (SQLite returns them in the tests) as UTC.
\<close>

datatype datetime = Naive int | Aware int int

fun utcoffset :: "datetime \<Rightarrow> int option" where
  "utcoffset (Naive t) = None"
| "utcoffset (Aware t off) = Some off"

fun as_utc :: "datetime \<Rightarrow> datetime" where
  "as_utc (Naive t) = Aware t 0"
| "as_utc (Aware t off) = Aware (t - off) 0"

fun wall :: "datetime \<Rightarrow> int" where
  "wall (Naive t) = t"
| "wall (Aware t off) = t"

definition instant_of :: "datetime \<Rightarrow> instant" where
  "instant_of ts = wall (as_utc ts)"

text \<open>
  Ordering two datetimes raises TypeError when exactly one is aware, and otherwise compares
  instants (aware) or wall clocks (naive).
\<close>

fun datetime_less :: "datetime \<Rightarrow> datetime \<Rightarrow> exn + bool" where
  "datetime_less (Naive s) (Naive t) = Inr (s < t)"
| "datetime_less (Aware s o1) (Aware t o2) = Inr (s - o1 < t - o2)"
| "datetime_less _ _ = Inl TypeError"

text \<open>What psycopg returns for a stored \<open>timestamptz\<close>: an aware value.\<close>

definition stored :: "instant \<Rightarrow> datetime" where
  "stored t = Aware t 0"

lemma instant_of_simps [simp]:
  "instant_of (Naive t) = t"
  "instant_of (Aware t off) = t - off"
  "instant_of (stored t) = t"
  by (simp_all add: instant_of_def stored_def)

text \<open>\<open>timestamp_is_after(timestamp, reference)\<close>; the reference is \<open>datetime.now(UTC)\<close>.\<close>

definition timestamp_is_after :: "datetime option \<Rightarrow> instant \<Rightarrow> bool" where
  "timestamp_is_after timestamp reference =
     (case timestamp of None \<Rightarrow> False | Some ts \<Rightarrow> instant_of ts > reference)"

lemma timestamp_is_after_stored [simp]:
  "timestamp_is_after (map_option stored ts) now \<longleftrightarrow> (\<exists>t. ts = Some t \<and> now < t)"
  by (cases ts) (auto simp: timestamp_is_after_def)

subsection \<open>Decimals\<close>

text \<open>
  \<open>Decimal.to_integral_value()\<close> rounds half to even, the default context's mode.
\<close>

definition to_integral_value :: "decimal \<Rightarrow> decimal" where
  "to_integral_value x =
     (let f = \<lfloor>x\<rfloor>; d = x - of_int f
      in of_int (if d < 1/2 then f else if 1/2 < d then f + 1
                 else if even f then f else f + 1))"

lemma to_integral_value_of_int [simp]: "to_integral_value (of_int n) = of_int n"
  by (simp add: to_integral_value_def Let_def)

lemma to_integral_value_eq_iff: "to_integral_value x = x \<longleftrightarrow> x \<in> \<int>"
proof
  assume "to_integral_value x = x"
  then show "x \<in> \<int>" by (metis Ints_of_int to_integral_value_def)
next
  assume "x \<in> \<int>"
  then show "to_integral_value x = x" by (auto elim: Ints_cases)
qed

text \<open>A value with at most \<open>s\<close> decimal places, and one that a \<open>Numeric(p, s)\<close> column holds.\<close>

definition has_scale :: "nat \<Rightarrow> decimal \<Rightarrow> bool" where
  "has_scale s x \<longleftrightarrow> to_integral_value (x * 10 ^ s) = x * 10 ^ s"

definition fits_numeric :: "nat \<Rightarrow> nat \<Rightarrow> decimal \<Rightarrow> bool" where
  "fits_numeric p s x \<longleftrightarrow> \<bar>x\<bar> < 10 ^ (p - s)"

lemma has_scale_iff: "has_scale s x \<longleftrightarrow> x * 10 ^ s \<in> \<int>"
  by (simp add: has_scale_def to_integral_value_eq_iff)

lemma has_scale_diff: "has_scale s x \<Longrightarrow> has_scale s y \<Longrightarrow> has_scale s (x - y)"
  unfolding has_scale_iff by (simp add: left_diff_distrib)

subsection \<open>JSON documents\<close>

text \<open>
  The values \<open>json.loads\<close> and \<open>response.json()\<close> return. A \<open>dict\<close> is the list of its
  items with distinct keys; Python's parser accepts the non-finite floats.
\<close>

datatype pyfloat = Finite rat | Infinite | NegInfinite | NaN

datatype json =
    JNull
  | JBool bool
  | JInt int
  | JFloat pyfloat
  | JStr string
  | JList "json list"
  | JObj "(string \<times> json) list"

fun is_dict :: "json \<Rightarrow> bool" where
  "is_dict (JObj _) = True"
| "is_dict _ = False"

fun is_str :: "json \<Rightarrow> bool" where
  "is_str (JStr _) = True"
| "is_str _ = False"

text \<open>\<open>payload.get(k)\<close>: a missing key and an explicit null both give None.\<close>

fun json_get :: "json \<Rightarrow> string \<Rightarrow> json" where
  "json_get (JObj kvs) k = (case map_of kvs k of None \<Rightarrow> JNull | Some v \<Rightarrow> v)"
| "json_get _ k = JNull"

fun str_of :: "json \<Rightarrow> string" where
  "str_of (JStr s) = s"
| "str_of _ = []"

text \<open>
  Python's \<open>==\<close> between a JSON value and an \<open>int\<close> or a \<open>str\<close>: numbers compare by
  value, and \<open>True == 1\<close>.
\<close>

fun json_eq_int :: "json \<Rightarrow> int \<Rightarrow> bool" where
  "json_eq_int (JInt i) n = (i = n)"
| "json_eq_int (JFloat (Finite r)) n = (r = of_int n)"
| "json_eq_int (JBool b) n = ((if b then 1 else 0) = n)"
| "json_eq_int _ n = False"

fun json_eq_str :: "json \<Rightarrow> string \<Rightarrow> bool" where
  "json_eq_str (JStr s) t = (s = t)"
| "json_eq_str _ t = False"

lemma is_str_iff: "is_str v \<longleftrightarrow> (\<exists>s. v = JStr s)"
  by (cases v) auto

lemma json_eq_str_iff [simp]: "json_eq_str v t \<longleftrightarrow> v = JStr t"
  by (cases v) auto

definition startswith :: "string \<Rightarrow> string \<Rightarrow> bool" where
  "startswith s prefix \<longleftrightarrow> take (length prefix) s = prefix"

end
