(* ===== verification/Config.thy ===== *)
theory Config
  imports PyValues
begin

text \<open>
  Application configuration (\<open>config.py\<close>): the three configuration classes as records
  built from the process environment, and \<open>get_config\<close> with its two failures. The last
  three fields are options that the code only reads with \<open>current_app.config.get\<close> and
  that no configuration class sets.
\<close>

record config =
  SECRET_KEY :: "string option"
  JWT_SECRET_KEY :: "string option"
  SQLALCHEMY_DATABASE_URI :: "string option"
  REDIS_URL :: "string option"
  OPEN_CHARGE_MAP_API_KEY :: "string option"
  RAZORPAY_KEY_ID :: "string option"
  RAZORPAY_KEY_SECRET :: "string option"
  RAZORPAY_WEBHOOK_SECRET :: "string option"
  LOGIN_MAX_FAILED_ATTEMPTS :: int
  LOGIN_LOCKOUT_MINUTES :: int
  JWT_ACCESS_TOKEN_MINUTES :: int
  JWT_REFRESH_TOKEN_DAYS :: int
  JWT_ALGORITHM :: string
  JWT_ISSUER :: string
  JWT_AUDIENCE :: string
  REFRESH_COOKIE_NAME :: string
  REFRESH_COOKIE_PATH :: string
  REFRESH_COOKIE_HTTPONLY :: bool
  REFRESH_COOKIE_SECURE :: bool
  REFRESH_COOKIE_SAMESITE :: string
  SESSION_COOKIE_HTTPONLY :: bool
  SESSION_COOKIE_SAMESITE :: string
  SESSION_COOKIE_SECURE :: bool
  RATE_LIMITING_ENABLED :: bool
  RATE_LIMIT_WINDOW_SECONDS :: int
  REGISTER_RATE_LIMIT_REQUESTS :: int
  LOGIN_RATE_LIMIT_REQUESTS :: int
  REFRESH_RATE_LIMIT_REQUESTS :: int
  EXTERNAL_STATION_RATE_LIMIT_REQUESTS :: int
  TRUST_PROXY_HEADERS :: bool
  ENABLE_HSTS :: bool
  RQ_MAINTENANCE_QUEUE :: string
  RQ_JOB_TIMEOUT_SECONDS :: int
  MAINTENANCE_BATCH_SIZE :: int
  DEBUG :: bool
  TESTING :: bool
  BOOKING_HOLD_MINUTES :: "int option"
  STATION_SEARCH_CACHE_TTL_SECONDS :: "int option"
  STATION_SEARCH_CACHE_ENABLED :: "bool option"

type_synonym environ = "string \<Rightarrow> string option"

definition BaseConfig :: "environ \<Rightarrow> config" where
  "BaseConfig getenv = \<lparr>
     SECRET_KEY = getenv ''SECRET_KEY'',
     JWT_SECRET_KEY = getenv ''JWT_SECRET_KEY'',
     SQLALCHEMY_DATABASE_URI = getenv ''DATABASE_URL'',
     REDIS_URL = getenv ''REDIS_URL'',
     OPEN_CHARGE_MAP_API_KEY = getenv ''OPEN_CHARGE_MAP_API_KEY'',
     RAZORPAY_KEY_ID = getenv ''RAZORPAY_KEY_ID'',
     RAZORPAY_KEY_SECRET = getenv ''RAZORPAY_KEY_SECRET'',
     RAZORPAY_WEBHOOK_SECRET = getenv ''RAZORPAY_WEBHOOK_SECRET'',
     LOGIN_MAX_FAILED_ATTEMPTS = 5,
     LOGIN_LOCKOUT_MINUTES = 15,
     JWT_ACCESS_TOKEN_MINUTES = 15,
     JWT_REFRESH_TOKEN_DAYS = 30,
     JWT_ALGORITHM = ''HS256'',
     JWT_ISSUER = ''chargemate-api'',
     JWT_AUDIENCE = ''chargemate-client'',
     REFRESH_COOKIE_NAME = ''refresh_token'',
     REFRESH_COOKIE_PATH = ''/auth'',
     REFRESH_COOKIE_HTTPONLY = True,
     REFRESH_COOKIE_SECURE = False,
     REFRESH_COOKIE_SAMESITE = ''Lax'',
     SESSION_COOKIE_HTTPONLY = True,
     SESSION_COOKIE_SAMESITE = ''Lax'',
     SESSION_COOKIE_SECURE = False,
     RATE_LIMITING_ENABLED = True,
     RATE_LIMIT_WINDOW_SECONDS = 60,
     REGISTER_RATE_LIMIT_REQUESTS = 5,
     LOGIN_RATE_LIMIT_REQUESTS = 10,
     REFRESH_RATE_LIMIT_REQUESTS = 30,
     EXTERNAL_STATION_RATE_LIMIT_REQUESTS = 30,
     TRUST_PROXY_HEADERS = False,
     ENABLE_HSTS = False,
     RQ_MAINTENANCE_QUEUE = ''maintenance'',
     RQ_JOB_TIMEOUT_SECONDS = 60,
     MAINTENANCE_BATCH_SIZE = 100,
     DEBUG = False,
     TESTING = False,
     BOOKING_HOLD_MINUTES = None,
     STATION_SEARCH_CACHE_TTL_SECONDS = None,
     STATION_SEARCH_CACHE_ENABLED = None \<rparr>"

definition DevelopmentConfig :: "environ \<Rightarrow> config" where
  "DevelopmentConfig getenv = (BaseConfig getenv)\<lparr>DEBUG := True\<rparr>"

definition TestingConfig :: "environ \<Rightarrow> config" where
  "TestingConfig getenv = (BaseConfig getenv)\<lparr>
     TESTING := True,
     SECRET_KEY := Some ''testing-only-secret-key'',
     JWT_SECRET_KEY := Some ''testing-only-jwt-secret-key-at-least-32-bytes'',
     SQLALCHEMY_DATABASE_URI := Some ''sqlite+pysqlite:///:memory:'',
     REDIS_URL := Some ''redis://localhost:6379/15'',
     RATE_LIMITING_ENABLED := False\<rparr>"

definition ProductionConfig :: "environ \<Rightarrow> config" where
  "ProductionConfig getenv = (BaseConfig getenv)\<lparr>
     SESSION_COOKIE_SECURE := True,
     REFRESH_COOKIE_SECURE := True,
     ENABLE_HSTS := True\<rparr>"

definition CONFIGURATIONS :: "(string \<times> (environ \<Rightarrow> config)) list" where
  "CONFIGURATIONS =
     [(''development'', DevelopmentConfig), (''testing'', TestingConfig),
      (''production'', ProductionConfig)]"

text \<open>\<open>not value\<close> for an optional string: absent or empty.\<close>

definition truthy :: "string option \<Rightarrow> bool" where
  "truthy v \<longleftrightarrow> v \<noteq> None \<and> v \<noteq> Some []"

definition lower_char :: "char \<Rightarrow> char" where
  "lower_char c =
     (if 65 \<le> (of_char c :: nat) \<and> (of_char c :: nat) \<le> 90 then char_of ((of_char c :: nat) + 32) else c)"

definition lower :: "string \<Rightarrow> string" where
  "lower s = map lower_char s"

fun join :: "string \<Rightarrow> string list \<Rightarrow> string" where
  "join sep [] = []"
| "join sep [x] = x"
| "join sep (x # xs) = x @ sep @ join sep xs"

definition get_config :: "environ \<Rightarrow> exn + config" where
  "get_config getenv =
     (let environment = lower (case getenv ''APP_ENV'' of None \<Rightarrow> ''development'' | Some e \<Rightarrow> e)
      in case map_of CONFIGURATIONS environment of
           None \<Rightarrow> Inl (RuntimeError (''Unsupported APP_ENV '' @ [CHR 0x27] @ environment @ [CHR 0x27]
                     @ ''. Choose one of: '' @ join '', '' (map fst CONFIGURATIONS) @ ''.''))
         | Some configuration_class \<Rightarrow>
             let configuration = configuration_class getenv;
                 required_values =
                   [(''SECRET_KEY'', SECRET_KEY configuration),
                    (''JWT_SECRET_KEY'', JWT_SECRET_KEY configuration),
                    (''DATABASE_URL'', SQLALCHEMY_DATABASE_URI configuration),
                    (''REDIS_URL'', REDIS_URL configuration)];
                 missing_values = map fst (filter (\<lambda>(name, v). \<not> truthy v) required_values)
             in if missing_values \<noteq> []
                then Inl (RuntimeError (''Missing required environment values: ''
                       @ join '', '' missing_values @ ''.''))
                else Inr configuration)"

text \<open>
  A configuration that \<open>get_config\<close> returns has its four required values, and the one for
  production protects its cookies.
\<close>

lemma get_config_required:
  assumes "get_config getenv = Inr c"
  shows "truthy (SECRET_KEY c) \<and> truthy (JWT_SECRET_KEY c)
    \<and> truthy (SQLALCHEMY_DATABASE_URI c) \<and> truthy (REDIS_URL c)"
  using assms by (auto simp: get_config_def Let_def filter_empty_conv split: option.splits if_splits)

lemma get_config_limits:
  assumes "get_config getenv = Inr c"
  shows "LOGIN_MAX_FAILED_ATTEMPTS c = 5 \<and> LOGIN_LOCKOUT_MINUTES c = 15
    \<and> MAINTENANCE_BATCH_SIZE c = 100"
proof -
  from assms obtain cls where "map_of CONFIGURATIONS
      (lower (case getenv ''APP_ENV'' of None \<Rightarrow> ''development'' | Some e \<Rightarrow> e)) = Some cls"
    and c: "c = cls getenv"
    by (auto simp: get_config_def Let_def split: option.splits if_splits)
  then have "cls \<in> {DevelopmentConfig, TestingConfig, ProductionConfig}"
    by (auto simp: CONFIGURATIONS_def split: if_splits)
  with c show ?thesis
    by (auto simp: DevelopmentConfig_def TestingConfig_def ProductionConfig_def BaseConfig_def)
qed

end
