(* ===== verification/Models.thy ===== *)
theory Models
  imports Config
begin

text \<open>
  The persistent state (\<open>models/*.py\<close> and the migrations that create the tables): one
  datatype per enum, one record per mapped class, the database as the record of its
  tables, the constraints PostgreSQL enforces, and what \<open>commit\<close> does with them. The
  \<open>updated_at\<close> column of \<open>TimestampMixin\<close> is never read by the program and is left out.
\<close>

subsection \<open>Enumerations\<close>

datatype UserRole = USER | STATION_ADMIN | SYSTEM_ADMIN

datatype StationStatus = S_DRAFT | S_ACTIVE | S_INACTIVE | S_MAINTENANCE

datatype ConnectorType = CCS_2 | TYPE_2 | CHADEMO | GB_T | BHARAT_DC_001

datatype PowerType = AC | DC

datatype ChargePointStatus = AVAILABLE | OUT_OF_SERVICE | CP_MAINTENANCE | RETIRED

datatype BookingStatus =
  HELD | PAYMENT_PENDING | CONFIRMED | ACTIVE | COMPLETED | CANCELLED | EXPIRED

datatype PaymentProvider = RAZORPAY

datatype PaymentStatus = INITIATED | ORDER_CREATED | AUTHORIZED | CAPTURED | FAILED | REFUNDED

datatype RefundStatus = REQUESTED | R_PENDING | R_PROCESSED | R_FAILED

datatype WebhookEventStatus = RECEIVED | PROCESSED | IGNORED

datatype ChargingSessionStatus = CS_ACTIVE | CS_COMPLETED | CS_INTERRUPTED

subsection \<open>Rows\<close>

record user =
  usr_id :: uuid
  usr_email :: string
  usr_username :: string
  usr_password_hash :: string
  usr_full_name :: string
  usr_phone :: "string option"
  usr_role :: UserRole
  usr_is_active :: bool
  usr_email_verified_at :: "instant option"
  usr_failed_login_attempts :: int
  usr_locked_until :: "instant option"
  usr_created_at :: instant

record auth_session =
  as_id :: uuid
  as_user_id :: uuid
  as_token_hash :: string
  as_family_id :: uuid
  as_expires_at :: instant
  as_revoked_at :: "instant option"
  as_last_used_at :: "instant option"
  as_replaced_by_id :: "uuid option"
  as_created_at :: instant

record charging_station =
  st_id :: uuid
  st_owner_id :: uuid
  st_name :: string
  st_description :: "string option"
  st_address_line_1 :: string
  st_address_line_2 :: "string option"
  st_city :: string
  st_state :: string
  st_postal_code :: string
  st_country_code :: string
  st_latitude :: decimal
  st_longitude :: decimal
  st_timezone :: string
  st_phone :: "string option"
  st_is_24_hours :: bool
  st_status :: StationStatus
  st_version :: int
  st_created_at :: instant

record charge_point =
  cp_id :: uuid
  cp_station_id :: uuid
  cp_code :: string
  cp_connector_type :: ConnectorType
  cp_power_type :: PowerType
  cp_max_power_kw :: decimal
  cp_booking_fee :: decimal
  cp_is_bookable :: bool
  cp_status :: ChargePointStatus
  cp_version :: int
  cp_created_at :: instant

record booking =
  bk_id :: uuid
  bk_user_id :: uuid
  bk_charge_point_id :: uuid
  bk_starts_at :: instant
  bk_ends_at :: instant
  bk_hold_expires_at :: "instant option"
  bk_status :: BookingStatus
  bk_total_amount :: "decimal option"
  bk_currency :: string
  bk_version :: int
  bk_cancelled_at :: "instant option"
  bk_created_at :: instant

record payment =
  pay_id :: uuid
  pay_booking_id :: uuid
  pay_user_id :: uuid
  pay_provider :: PaymentProvider
  pay_status :: PaymentStatus
  pay_amount :: decimal
  pay_amount_subunits :: int
  pay_currency :: string
  pay_idempotency_key :: uuid
  pay_provider_order_id :: "string option"
  pay_provider_payment_id :: "string option"
  pay_last_error_code :: "string option"
  pay_created_at :: instant

record refund =
  rf_id :: uuid
  rf_payment_id :: uuid
  rf_status :: RefundStatus
  rf_amount :: decimal
  rf_amount_subunits :: int
  rf_currency :: string
  rf_receipt :: string
  rf_provider_refund_id :: "string option"
  rf_last_error_code :: "string option"
  rf_processed_at :: "instant option"
  rf_created_at :: instant

record webhook_event =
  ev_id :: uuid
  ev_provider :: string
  ev_provider_event_id :: string
  ev_event_type :: string
  ev_payload_hash :: string
  ev_status :: WebhookEventStatus
  ev_processed_at :: "instant option"

record charging_session =
  cs_id :: uuid
  cs_booking_id :: uuid
  cs_user_id :: uuid
  cs_charge_point_id :: uuid
  cs_status :: ChargingSessionStatus
  cs_started_at :: instant
  cs_ended_at :: "instant option"
  cs_meter_start_kwh :: decimal
  cs_meter_end_kwh :: "decimal option"
  cs_energy_consumed_kwh :: "decimal option"
  cs_version :: int
  cs_created_at :: instant

record database =
  users :: "user list"
  auth_sessions :: "auth_session list"
  charging_stations :: "charging_station list"
  charge_points :: "charge_point list"
  bookings :: "booking list"
  payments :: "payment list"
  refunds :: "refund list"
  payment_webhook_events :: "webhook_event list"
  charging_sessions :: "charging_session list"

definition empty_database :: database where
  "empty_database = \<lparr>users = [], auth_sessions = [], charging_stations = [],
     charge_points = [], bookings = [], payments = [], refunds = [],
     payment_webhook_events = [], charging_sessions = []\<rparr>"

text \<open>\<open>AuthSession.is_revoked\<close>.\<close>

definition is_revoked :: "auth_session \<Rightarrow> bool" where
  "is_revoked s \<longleftrightarrow> as_revoked_at s \<noteq> None"

text \<open>The \<open>.value\<close> of the enums that reach a response or a token.\<close>

fun UserRole_value :: "UserRole \<Rightarrow> string" where
  "UserRole_value USER = ''user''"
| "UserRole_value STATION_ADMIN = ''station_admin''"
| "UserRole_value SYSTEM_ADMIN = ''system_admin''"

fun WebhookEventStatus_value :: "WebhookEventStatus \<Rightarrow> string" where
  "WebhookEventStatus_value RECEIVED = ''received''"
| "WebhookEventStatus_value PROCESSED = ''processed''"
| "WebhookEventStatus_value IGNORED = ''ignored''"

subsection \<open>Column types\<close>

text \<open>
  A value outside its column's type makes PostgreSQL raise a data error: integers of four
  bytes (two for \<open>SmallInteger\<close>), \<open>varchar(n)\<close> of at most \<open>n\<close> characters, numerics
  without overflow. A numeric with more decimals than its column is rounded instead; every
  value the services write already has the column's scale (the request schemas require it).
\<close>

definition int4 :: "int \<Rightarrow> bool" where
  "int4 n \<longleftrightarrow> - (2 ^ 31) \<le> n \<and> n < 2 ^ 31"

definition int2 :: "int \<Rightarrow> bool" where
  "int2 n \<longleftrightarrow> - (2 ^ 15) \<le> n \<and> n < 2 ^ 15"

definition varchar :: "nat \<Rightarrow> string \<Rightarrow> bool" where
  "varchar n s \<longleftrightarrow> pylen s \<le> n"

text \<open>A check on a nullable column holds of NULL.\<close>

fun nullable :: "('a \<Rightarrow> bool) \<Rightarrow> 'a option \<Rightarrow> bool" where
  "nullable p None = True"
| "nullable p (Some x) = p x"

lemma nullable_iff: "nullable p v \<longleftrightarrow> (\<forall>x. v = Some x \<longrightarrow> p x)"
  by (cases v) auto

definition user_columns :: "user \<Rightarrow> bool" where
  "user_columns u \<longleftrightarrow> varchar 255 (usr_email u) \<and> varchar 50 (usr_username u)
     \<and> varchar 255 (usr_password_hash u) \<and> varchar 100 (usr_full_name u)
     \<and> nullable (varchar 20) (usr_phone u) \<and> int2 (usr_failed_login_attempts u)"

definition auth_session_columns :: "auth_session \<Rightarrow> bool" where
  "auth_session_columns s \<longleftrightarrow> varchar 64 (as_token_hash s)"

definition station_columns :: "charging_station \<Rightarrow> bool" where
  "station_columns s \<longleftrightarrow> varchar 120 (st_name s) \<and> varchar 255 (st_address_line_1 s)
     \<and> nullable (varchar 255) (st_address_line_2 s) \<and> varchar 100 (st_city s)
     \<and> varchar 100 (st_state s) \<and> varchar 20 (st_postal_code s)
     \<and> varchar 2 (st_country_code s) \<and> fits_numeric 9 6 (st_latitude s)
     \<and> fits_numeric 9 6 (st_longitude s) \<and> varchar 64 (st_timezone s)
     \<and> nullable (varchar 20) (st_phone s) \<and> int4 (st_version s)"

definition charge_point_columns :: "charge_point \<Rightarrow> bool" where
  "charge_point_columns c \<longleftrightarrow> varchar 50 (cp_code c) \<and> fits_numeric 7 2 (cp_max_power_kw c)
     \<and> fits_numeric 10 2 (cp_booking_fee c) \<and> int4 (cp_version c)"

definition booking_columns :: "booking \<Rightarrow> bool" where
  "booking_columns b \<longleftrightarrow> nullable (fits_numeric 10 2) (bk_total_amount b)
     \<and> varchar 3 (bk_currency b) \<and> int4 (bk_version b)"

definition payment_columns :: "payment \<Rightarrow> bool" where
  "payment_columns p \<longleftrightarrow> fits_numeric 10 2 (pay_amount p) \<and> int4 (pay_amount_subunits p)
     \<and> varchar 3 (pay_currency p) \<and> nullable (varchar 100) (pay_provider_order_id p)
     \<and> nullable (varchar 100) (pay_provider_payment_id p)
     \<and> nullable (varchar 100) (pay_last_error_code p)"

definition refund_columns :: "refund \<Rightarrow> bool" where
  "refund_columns r \<longleftrightarrow> fits_numeric 10 2 (rf_amount r) \<and> int4 (rf_amount_subunits r)
     \<and> varchar 3 (rf_currency r) \<and> varchar 40 (rf_receipt r)
     \<and> nullable (varchar 100) (rf_provider_refund_id r)
     \<and> nullable (varchar 100) (rf_last_error_code r)"

definition webhook_event_columns :: "webhook_event \<Rightarrow> bool" where
  "webhook_event_columns e \<longleftrightarrow> varchar 30 (ev_provider e) \<and> varchar 100 (ev_provider_event_id e)
     \<and> varchar 100 (ev_event_type e) \<and> varchar 64 (ev_payload_hash e)"

definition charging_session_columns :: "charging_session \<Rightarrow> bool" where
  "charging_session_columns s \<longleftrightarrow> fits_numeric 12 3 (cs_meter_start_kwh s)
     \<and> nullable (fits_numeric 12 3) (cs_meter_end_kwh s)
     \<and> nullable (fits_numeric 12 3) (cs_energy_consumed_kwh s) \<and> int4 (cs_version s)"

definition columns_ok :: "database \<Rightarrow> bool" where
  "columns_ok d \<longleftrightarrow> list_all user_columns (users d)
     \<and> list_all auth_session_columns (auth_sessions d)
     \<and> list_all station_columns (charging_stations d)
     \<and> list_all charge_point_columns (charge_points d)
     \<and> list_all booking_columns (bookings d) \<and> list_all payment_columns (payments d)
     \<and> list_all refund_columns (refunds d)
     \<and> list_all webhook_event_columns (payment_webhook_events d)
     \<and> list_all charging_session_columns (charging_sessions d)"

subsection \<open>Constraints\<close>

text \<open>
  The statuses in which a booking blocks its slot, and the exclusion constraint over them:
  two blocking bookings of one charge point never overlap, slots being half-open.
\<close>

fun blocking_status :: "BookingStatus \<Rightarrow> bool" where
  "blocking_status HELD = True"
| "blocking_status PAYMENT_PENDING = True"
| "blocking_status CONFIRMED = True"
| "blocking_status ACTIVE = True"
| "blocking_status _ = False"

definition overlapping :: "booking \<Rightarrow> booking \<Rightarrow> bool" where
  "overlapping a b \<longleftrightarrow> bk_charge_point_id a = bk_charge_point_id b
     \<and> blocking_status (bk_status a) \<and> blocking_status (bk_status b)
     \<and> bk_starts_at a < bk_ends_at b \<and> bk_starts_at b < bk_ends_at a"

fun prevent_overlapping_bookings :: "booking list \<Rightarrow> bool" where
  "prevent_overlapping_bookings [] = True"
| "prevent_overlapping_bookings (b # bs) =
     (list_all (\<lambda>b'. \<not> overlapping b b') bs \<and> prevent_overlapping_bookings bs)"

definition users_constraints :: "database \<Rightarrow> (string \<times> bool) list" where
  "users_constraints d =
    [(''ck_users_email_lowercase'', list_all (\<lambda>u. usr_email u = lower (usr_email u)) (users d)),
     (''ck_users_non_negative_failed_login_attempts'',
        list_all (\<lambda>u. usr_failed_login_attempts u \<ge> 0) (users d)),
     (''ck_users_username_lowercase'',
        list_all (\<lambda>u. usr_username u = lower (usr_username u)) (users d)),
     (''pk_users'', distinct (map usr_id (users d))),
     (''uq_users_email'', distinct (map usr_email (users d))),
     (''uq_users_phone'', distinct_present (map usr_phone (users d))),
     (''uq_users_username'', distinct (map usr_username (users d)))]"

definition auth_sessions_constraints :: "database \<Rightarrow> (string \<times> bool) list" where
  "auth_sessions_constraints d =
    [(''ck_auth_sessions_expires_after_creation'',
        list_all (\<lambda>s. as_expires_at s > as_created_at s) (auth_sessions d)),
     (''pk_auth_sessions'', distinct (map as_id (auth_sessions d))),
     (''uq_auth_sessions_replaced_by_id'',
        distinct_present (map as_replaced_by_id (auth_sessions d))),
     (''uq_auth_sessions_token_hash'', distinct (map as_token_hash (auth_sessions d))),
     (''fk_auth_sessions_user_id_users'',
        list_all (\<lambda>s. as_user_id s \<in> set (map usr_id (users d))) (auth_sessions d)),
     (''fk_auth_sessions_replaced_by_id_auth_sessions'',
        list_all (\<lambda>s. nullable (\<lambda>i. i \<in> set (map as_id (auth_sessions d))) (as_replaced_by_id s))
          (auth_sessions d))]"

definition stations_constraints :: "database \<Rightarrow> (string \<times> bool) list" where
  "stations_constraints d =
    [(''ck_charging_stations_valid_latitude'',
        list_all (\<lambda>s. -90 \<le> st_latitude s \<and> st_latitude s \<le> 90) (charging_stations d)),
     (''ck_charging_stations_valid_longitude'',
        list_all (\<lambda>s. -180 \<le> st_longitude s \<and> st_longitude s \<le> 180) (charging_stations d)),
     (''ck_charging_stations_country_code_uppercase'',
        list_all (\<lambda>s. list_all (\<lambda>c. \<not> (97 \<le> (of_char c :: nat) \<and> (of_char c :: nat) \<le> 122))
          (st_country_code s)) (charging_stations d)),
     (''ck_charging_stations_positive_version'',
        list_all (\<lambda>s. st_version s > 0) (charging_stations d)),
     (''pk_charging_stations'', distinct (map st_id (charging_stations d))),
     (''fk_charging_stations_owner_id_users'',
        list_all (\<lambda>s. st_owner_id s \<in> set (map usr_id (users d))) (charging_stations d))]"

definition charge_points_constraints :: "database \<Rightarrow> (string \<times> bool) list" where
  "charge_points_constraints d =
    [(''ck_charge_points_positive_max_power_kw'',
        list_all (\<lambda>c. cp_max_power_kw c > 0) (charge_points d)),
     (''ck_charge_points_non_negative_booking_fee'',
        list_all (\<lambda>c. cp_booking_fee c \<ge> 0) (charge_points d)),
     (''ck_charge_points_positive_version'', list_all (\<lambda>c. cp_version c > 0) (charge_points d)),
     (''pk_charge_points'', distinct (map cp_id (charge_points d))),
     (''station_code'',
        distinct (map (\<lambda>c. (cp_station_id c, cp_code c)) (charge_points d))),
     (''fk_charge_points_station_id_charging_stations'',
        list_all (\<lambda>c. cp_station_id c \<in> set (map st_id (charging_stations d))) (charge_points d))]"

definition bookings_constraints :: "database \<Rightarrow> (string \<times> bool) list" where
  "bookings_constraints d =
    [(''ck_bookings_positive_duration'',
        list_all (\<lambda>b. bk_ends_at b > bk_starts_at b) (bookings d)),
     (''ck_bookings_positive_version'', list_all (\<lambda>b. bk_version b > 0) (bookings d)),
     (''ck_bookings_non_negative_total_amount'',
        list_all (\<lambda>b. nullable (\<lambda>a. a \<ge> 0) (bk_total_amount b)) (bookings d)),
     (''pk_bookings'', distinct (map bk_id (bookings d))),
     (''prevent_overlapping_bookings'', prevent_overlapping_bookings (bookings d)),
     (''fk_bookings_user_id_users'',
        list_all (\<lambda>b. bk_user_id b \<in> set (map usr_id (users d))) (bookings d)),
     (''fk_bookings_charge_point_id_charge_points'',
        list_all (\<lambda>b. bk_charge_point_id b \<in> set (map cp_id (charge_points d))) (bookings d))]"

definition payments_constraints :: "database \<Rightarrow> (string \<times> bool) list" where
  "payments_constraints d =
    [(''ck_payments_positive_amount'', list_all (\<lambda>p. pay_amount p > 0) (payments d)),
     (''ck_payments_positive_amount_subunits'',
        list_all (\<lambda>p. pay_amount_subunits p > 0) (payments d)),
     (''pk_payments'', distinct (map pay_id (payments d))),
     (''uq_payments_idempotency_key'', distinct (map pay_idempotency_key (payments d))),
     (''uq_payments_provider_order_id'',
        distinct_present (map pay_provider_order_id (payments d))),
     (''uq_payments_provider_payment_id'',
        distinct_present (map pay_provider_payment_id (payments d))),
     (''fk_payments_booking_id_bookings'',
        list_all (\<lambda>p. pay_booking_id p \<in> set (map bk_id (bookings d))) (payments d)),
     (''fk_payments_user_id_users'',
        list_all (\<lambda>p. pay_user_id p \<in> set (map usr_id (users d))) (payments d))]"

definition refunds_constraints :: "database \<Rightarrow> (string \<times> bool) list" where
  "refunds_constraints d =
    [(''ck_refunds_positive_amount'', list_all (\<lambda>r. rf_amount r > 0) (refunds d)),
     (''ck_refunds_positive_amount_subunits'',
        list_all (\<lambda>r. rf_amount_subunits r > 0) (refunds d)),
     (''pk_refunds'', distinct (map rf_id (refunds d))),
     (''uq_refunds_payment_id'', distinct (map rf_payment_id (refunds d))),
     (''uq_refunds_provider_refund_id'',
        distinct_present (map rf_provider_refund_id (refunds d))),
     (''uq_refunds_receipt'', distinct (map rf_receipt (refunds d))),
     (''fk_refunds_payment_id_payments'',
        list_all (\<lambda>r. rf_payment_id r \<in> set (map pay_id (payments d))) (refunds d))]"

definition webhook_events_constraints :: "database \<Rightarrow> (string \<times> bool) list" where
  "webhook_events_constraints d =
    [(''pk_payment_webhook_events'', distinct (map ev_id (payment_webhook_events d))),
     (''uq_payment_webhook_events_provider_event_id'',
        distinct (map ev_provider_event_id (payment_webhook_events d)))]"

definition charging_sessions_constraints :: "database \<Rightarrow> (string \<times> bool) list" where
  "charging_sessions_constraints d =
    [(''ck_charging_sessions_non_negative_meter_start'',
        list_all (\<lambda>s. cs_meter_start_kwh s \<ge> 0) (charging_sessions d)),
     (''ck_charging_sessions_valid_meter_end'',
        list_all (\<lambda>s. nullable (\<lambda>e. e \<ge> cs_meter_start_kwh s) (cs_meter_end_kwh s))
          (charging_sessions d)),
     (''ck_charging_sessions_non_negative_energy_consumed'',
        list_all (\<lambda>s. nullable (\<lambda>e. e \<ge> 0) (cs_energy_consumed_kwh s)) (charging_sessions d)),
     (''ck_charging_sessions_valid_end_time'',
        list_all (\<lambda>s. nullable (\<lambda>t. t \<ge> cs_started_at s) (cs_ended_at s)) (charging_sessions d)),
     (''ck_charging_sessions_positive_version'',
        list_all (\<lambda>s. cs_version s > 0) (charging_sessions d)),
     (''pk_charging_sessions'', distinct (map cs_id (charging_sessions d))),
     (''uq_charging_sessions_booking_id'', distinct (map cs_booking_id (charging_sessions d))),
     (''fk_charging_sessions_booking_id_bookings'',
        list_all (\<lambda>s. cs_booking_id s \<in> set (map bk_id (bookings d))) (charging_sessions d)),
     (''fk_charging_sessions_user_id_users'',
        list_all (\<lambda>s. cs_user_id s \<in> set (map usr_id (users d))) (charging_sessions d)),
     (''fk_charging_sessions_charge_point_id_charge_points'',
        list_all (\<lambda>s. cs_charge_point_id s \<in> set (map cp_id (charge_points d)))
          (charging_sessions d))]"

definition all_constraints :: "database \<Rightarrow> (string \<times> bool) list" where
  "all_constraints d = users_constraints d @ auth_sessions_constraints d
     @ stations_constraints d @ charge_points_constraints d @ bookings_constraints d
     @ payments_constraints d @ refunds_constraints d @ webhook_events_constraints d
     @ charging_sessions_constraints d"

definition constraints_hold :: "database \<Rightarrow> bool" where
  "constraints_hold d \<longleftrightarrow> list_all snd (all_constraints d)"

definition db_ok :: "database \<Rightarrow> bool" where
  "db_ok d \<longleftrightarrow> columns_ok d \<and> constraints_hold d"

subsection \<open>Transactions\<close>

text \<open>
  What PostgreSQL answers when the pending changes of a transaction are flushed: nothing, a
  data error, or an integrity error naming the first violated constraint. \<open>commit x d' d\<close>
  ends a transaction that started in \<open>d\<close>, computed \<open>x\<close> and built \<open>d'\<close>: it installs
  \<open>d'\<close>, or raises and leaves \<open>d\<close> (the services roll back). \<open>raising e d\<close> is a raise
  after which the transaction is rolled back to \<open>d\<close>, and \<open>on_integrity_error\<close> is
  \<open>except IntegrityError\<close> around a transaction.
\<close>

definition flush_error :: "database \<Rightarrow> exn option" where
  "flush_error d =
     (if \<not> columns_ok d then Some DataError
      else map_option (\<lambda>(name, holds). IntegrityError name) (find (\<lambda>c. \<not> snd c) (all_constraints d)))"

type_synonym 'a outcome = "(exn + 'a) \<times> database"

definition commit :: "'a \<Rightarrow> database \<Rightarrow> database \<Rightarrow> 'a outcome" where
  "commit x d' d = (case flush_error d' of None \<Rightarrow> (Inr x, d') | Some e \<Rightarrow> (Inl e, d))"

definition raising :: "exn \<Rightarrow> database \<Rightarrow> 'a outcome" where
  "raising e d = (Inl e, d)"

definition on_integrity_error :: "exn \<Rightarrow> 'a outcome \<Rightarrow> 'a outcome" where
  "on_integrity_error e out =
     (case out of
        (Inl e', d) \<Rightarrow> (Inl (if is_integrity_error e' then e else e'), d)
      | (Inr x, d) \<Rightarrow> (Inr x, d))"

lemma flush_error_None: "flush_error d = None \<longleftrightarrow> db_ok d"
proof -
  have "find (\<lambda>c. \<not> snd c) xs = None \<longleftrightarrow> list_all snd xs" for xs :: "(string \<times> bool) list"
    by (induction xs) auto
  then show ?thesis
    by (auto simp: flush_error_def db_ok_def constraints_hold_def)
qed

lemma commit_simps:
  "db_ok d' \<Longrightarrow> commit x d' d = (Inr x, d')"
  "\<not> db_ok d' \<Longrightarrow> \<exists>e. commit x d' d = (Inl e, d)"
  by (auto simp: commit_def flush_error_None [symmetric] split: option.splits)

lemma commit_Inr [simp]: "commit x d' d = (Inr y, d'') \<longleftrightarrow> db_ok d' \<and> y = x \<and> d'' = d'"
  by (auto simp: commit_def flush_error_None [symmetric] split: option.splits)

lemma commit_Inl: "commit x d' d = (Inl e, d'') \<longleftrightarrow> flush_error d' = Some e \<and> d'' = d"
  by (auto simp: commit_def split: option.splits)

lemma snd_commit: "snd (commit x d' d) = (if db_ok d' then d' else d)"
  by (auto simp: commit_def flush_error_None [symmetric] split: option.splits)

lemma snd_on_integrity_error [simp]: "snd (on_integrity_error e out) = snd out"
  by (auto simp: on_integrity_error_def split: prod.splits sum.splits)

lemma on_integrity_error_Inr [simp]:
  "on_integrity_error e out = (Inr x, d) \<longleftrightarrow> out = (Inr x, d)"
  by (cases out; cases "fst out") (auto simp: on_integrity_error_def)

lemma snd_case_outcome [simp]:
  "snd (case out of (Inl e, d') \<Rightarrow> (Inl e, d') | (Inr x, d') \<Rightarrow> (Inr (f x d'), d')) = snd out"
  by (auto split: prod.split sum.split)

lemma raising_simps [simp]: "snd (raising e d) = d" "raising e d \<noteq> (Inr x, d')"
  by (simp_all add: raising_def)

lemma raising_Inl [simp]: "raising e d = (Inl e', d') \<longleftrightarrow> e' = e \<and> d' = d"
  by (auto simp: raising_def)

lemma db_ok_commit: "db_ok d \<Longrightarrow> db_ok (snd (commit x d' d))"
  by (simp add: snd_commit)

subsection \<open>Which constraints a change of a table concerns\<close>

lemma db_ok_parts:
  "db_ok d \<longleftrightarrow> columns_ok d \<and> list_all snd (users_constraints d)
     \<and> list_all snd (auth_sessions_constraints d) \<and> list_all snd (stations_constraints d)
     \<and> list_all snd (charge_points_constraints d) \<and> list_all snd (bookings_constraints d)
     \<and> list_all snd (payments_constraints d) \<and> list_all snd (refunds_constraints d)
     \<and> list_all snd (webhook_events_constraints d)
     \<and> list_all snd (charging_sessions_constraints d)"
  by (simp add: db_ok_def constraints_hold_def all_constraints_def)

text \<open>The constraints of a table do not look at the tables it has no key into.\<close>

lemma users_frame [simp]:
  "users_constraints (d\<lparr>auth_sessions := xs\<rparr>) = users_constraints d"
  "users_constraints (d\<lparr>charging_stations := sts\<rparr>) = users_constraints d"
  "users_constraints (d\<lparr>charge_points := cps\<rparr>) = users_constraints d"
  "users_constraints (d\<lparr>bookings := bs\<rparr>) = users_constraints d"
  "users_constraints (d\<lparr>payments := ps\<rparr>) = users_constraints d"
  "users_constraints (d\<lparr>refunds := rs\<rparr>) = users_constraints d"
  "users_constraints (d\<lparr>payment_webhook_events := es\<rparr>) = users_constraints d"
  "users_constraints (d\<lparr>charging_sessions := ss\<rparr>) = users_constraints d"
  by (simp_all add: users_constraints_def)

lemma auth_sessions_frame [simp]:
  "auth_sessions_constraints (d\<lparr>charging_stations := sts\<rparr>) = auth_sessions_constraints d"
  "auth_sessions_constraints (d\<lparr>charge_points := cps\<rparr>) = auth_sessions_constraints d"
  "auth_sessions_constraints (d\<lparr>bookings := bs\<rparr>) = auth_sessions_constraints d"
  "auth_sessions_constraints (d\<lparr>payments := ps\<rparr>) = auth_sessions_constraints d"
  "auth_sessions_constraints (d\<lparr>refunds := rs\<rparr>) = auth_sessions_constraints d"
  "auth_sessions_constraints (d\<lparr>payment_webhook_events := es\<rparr>) = auth_sessions_constraints d"
  "auth_sessions_constraints (d\<lparr>charging_sessions := ss\<rparr>) = auth_sessions_constraints d"
  by (simp_all add: auth_sessions_constraints_def)

lemma stations_frame [simp]:
  "stations_constraints (d\<lparr>auth_sessions := xs\<rparr>) = stations_constraints d"
  "stations_constraints (d\<lparr>charge_points := cps\<rparr>) = stations_constraints d"
  "stations_constraints (d\<lparr>bookings := bs\<rparr>) = stations_constraints d"
  "stations_constraints (d\<lparr>payments := ps\<rparr>) = stations_constraints d"
  "stations_constraints (d\<lparr>refunds := rs\<rparr>) = stations_constraints d"
  "stations_constraints (d\<lparr>payment_webhook_events := es\<rparr>) = stations_constraints d"
  "stations_constraints (d\<lparr>charging_sessions := ss\<rparr>) = stations_constraints d"
  by (simp_all add: stations_constraints_def)

lemma charge_points_frame [simp]:
  "charge_points_constraints (d\<lparr>users := us\<rparr>) = charge_points_constraints d"
  "charge_points_constraints (d\<lparr>auth_sessions := xs\<rparr>) = charge_points_constraints d"
  "charge_points_constraints (d\<lparr>bookings := bs\<rparr>) = charge_points_constraints d"
  "charge_points_constraints (d\<lparr>payments := ps\<rparr>) = charge_points_constraints d"
  "charge_points_constraints (d\<lparr>refunds := rs\<rparr>) = charge_points_constraints d"
  "charge_points_constraints (d\<lparr>payment_webhook_events := es\<rparr>) = charge_points_constraints d"
  "charge_points_constraints (d\<lparr>charging_sessions := ss\<rparr>) = charge_points_constraints d"
  by (simp_all add: charge_points_constraints_def)

lemma bookings_frame [simp]:
  "bookings_constraints (d\<lparr>auth_sessions := xs\<rparr>) = bookings_constraints d"
  "bookings_constraints (d\<lparr>charging_stations := sts\<rparr>) = bookings_constraints d"
  "bookings_constraints (d\<lparr>payments := ps\<rparr>) = bookings_constraints d"
  "bookings_constraints (d\<lparr>refunds := rs\<rparr>) = bookings_constraints d"
  "bookings_constraints (d\<lparr>payment_webhook_events := es\<rparr>) = bookings_constraints d"
  "bookings_constraints (d\<lparr>charging_sessions := ss\<rparr>) = bookings_constraints d"
  by (simp_all add: bookings_constraints_def)

lemma payments_frame [simp]:
  "payments_constraints (d\<lparr>auth_sessions := xs\<rparr>) = payments_constraints d"
  "payments_constraints (d\<lparr>charging_stations := sts\<rparr>) = payments_constraints d"
  "payments_constraints (d\<lparr>charge_points := cps\<rparr>) = payments_constraints d"
  "payments_constraints (d\<lparr>refunds := rs\<rparr>) = payments_constraints d"
  "payments_constraints (d\<lparr>payment_webhook_events := es\<rparr>) = payments_constraints d"
  "payments_constraints (d\<lparr>charging_sessions := ss\<rparr>) = payments_constraints d"
  by (simp_all add: payments_constraints_def)

lemma refunds_frame [simp]:
  "refunds_constraints (d\<lparr>users := us\<rparr>) = refunds_constraints d"
  "refunds_constraints (d\<lparr>auth_sessions := xs\<rparr>) = refunds_constraints d"
  "refunds_constraints (d\<lparr>charging_stations := sts\<rparr>) = refunds_constraints d"
  "refunds_constraints (d\<lparr>charge_points := cps\<rparr>) = refunds_constraints d"
  "refunds_constraints (d\<lparr>bookings := bs\<rparr>) = refunds_constraints d"
  "refunds_constraints (d\<lparr>payment_webhook_events := es\<rparr>) = refunds_constraints d"
  "refunds_constraints (d\<lparr>charging_sessions := ss\<rparr>) = refunds_constraints d"
  by (simp_all add: refunds_constraints_def)

lemma webhook_events_frame [simp]:
  "webhook_events_constraints (d\<lparr>users := us\<rparr>) = webhook_events_constraints d"
  "webhook_events_constraints (d\<lparr>auth_sessions := xs\<rparr>) = webhook_events_constraints d"
  "webhook_events_constraints (d\<lparr>charging_stations := sts\<rparr>) = webhook_events_constraints d"
  "webhook_events_constraints (d\<lparr>charge_points := cps\<rparr>) = webhook_events_constraints d"
  "webhook_events_constraints (d\<lparr>bookings := bs\<rparr>) = webhook_events_constraints d"
  "webhook_events_constraints (d\<lparr>payments := ps\<rparr>) = webhook_events_constraints d"
  "webhook_events_constraints (d\<lparr>refunds := rs\<rparr>) = webhook_events_constraints d"
  "webhook_events_constraints (d\<lparr>charging_sessions := ss\<rparr>) = webhook_events_constraints d"
  by (simp_all add: webhook_events_constraints_def)

lemma charging_sessions_frame [simp]:
  "charging_sessions_constraints (d\<lparr>auth_sessions := xs\<rparr>) = charging_sessions_constraints d"
  "charging_sessions_constraints (d\<lparr>charging_stations := sts\<rparr>) = charging_sessions_constraints d"
  "charging_sessions_constraints (d\<lparr>payments := ps\<rparr>) = charging_sessions_constraints d"
  "charging_sessions_constraints (d\<lparr>refunds := rs\<rparr>) = charging_sessions_constraints d"
  "charging_sessions_constraints (d\<lparr>payment_webhook_events := es\<rparr>) = charging_sessions_constraints d"
  by (simp_all add: charging_sessions_constraints_def)

lemma foreign_key_mono:
  "list_all (\<lambda>x. f x \<in> key ` set ys) xs \<Longrightarrow> key ` set ys \<subseteq> key ` set zs \<Longrightarrow>
   list_all (\<lambda>x. f x \<in> key ` set zs) xs"
  by (auto simp: list_all_iff)

text \<open>Replacing one table keeps the schema when its own constraints hold and no key is lost.\<close>

lemma db_ok_bookings:
  assumes ok: "db_ok d" and ids: "bk_id ` set (bookings d) \<subseteq> bk_id ` set bs"
    and cols: "list_all booking_columns bs"
    and cons: "list_all snd (bookings_constraints (d\<lparr>bookings := bs\<rparr>))"
  shows "db_ok (d\<lparr>bookings := bs\<rparr>)"
proof -
  have "list_all snd (payments_constraints (d\<lparr>bookings := bs\<rparr>))"
    using ok by (auto simp: db_ok_parts payments_constraints_def intro: foreign_key_mono [OF _ ids])
  moreover have "list_all snd (charging_sessions_constraints (d\<lparr>bookings := bs\<rparr>))"
    using ok
    by (auto simp: db_ok_parts charging_sessions_constraints_def intro: foreign_key_mono [OF _ ids])
  moreover have "columns_ok (d\<lparr>bookings := bs\<rparr>)"
    using ok cols by (simp add: db_ok_parts columns_ok_def)
  ultimately show ?thesis
    using ok cons by (simp add: db_ok_parts)
qed

lemma db_ok_payments:
  assumes ok: "db_ok d" and ids: "pay_id ` set (payments d) \<subseteq> pay_id ` set ps"
    and cols: "list_all payment_columns ps"
    and cons: "list_all snd (payments_constraints (d\<lparr>payments := ps\<rparr>))"
  shows "db_ok (d\<lparr>payments := ps\<rparr>)"
proof -
  have "list_all snd (refunds_constraints (d\<lparr>payments := ps\<rparr>))"
    using ok by (auto simp: db_ok_parts refunds_constraints_def intro: foreign_key_mono [OF _ ids])
  moreover have "columns_ok (d\<lparr>payments := ps\<rparr>)"
    using ok cols by (simp add: db_ok_parts columns_ok_def)
  ultimately show ?thesis
    using ok cons by (simp add: db_ok_parts)
qed

lemma db_ok_refunds:
  assumes "db_ok d" "list_all refund_columns rs"
    and "list_all snd (refunds_constraints (d\<lparr>refunds := rs\<rparr>))"
  shows "db_ok (d\<lparr>refunds := rs\<rparr>)"
  using assms by (simp add: db_ok_parts columns_ok_def)

lemma db_ok_webhook_events:
  assumes "db_ok d" "list_all webhook_event_columns es"
    and "list_all snd (webhook_events_constraints (d\<lparr>payment_webhook_events := es\<rparr>))"
  shows "db_ok (d\<lparr>payment_webhook_events := es\<rparr>)"
  using assms by (simp add: db_ok_parts columns_ok_def)

lemma db_ok_charging_sessions:
  assumes "db_ok d" "list_all charging_session_columns ss"
    and "list_all snd (charging_sessions_constraints (d\<lparr>charging_sessions := ss\<rparr>))"
  shows "db_ok (d\<lparr>charging_sessions := ss\<rparr>)"
  using assms by (simp add: db_ok_parts columns_ok_def)

lemma db_ok_auth_sessions:
  assumes "db_ok d" "list_all auth_session_columns ss"
    and "list_all snd (auth_sessions_constraints (d\<lparr>auth_sessions := ss\<rparr>))"
  shows "db_ok (d\<lparr>auth_sessions := ss\<rparr>)"
  using assms by (simp add: db_ok_parts columns_ok_def)

end
