(* ===== verification/Samples.thy ===== *)
theory Samples
  imports Models
begin

text \<open>
  A small concrete database on which the witnesses of the properties evaluate the model:
  a driver, a station administrator who owns one active station with one available charge
  point, and a configuration with provider credentials.
\<close>

definition sample_config :: config where
  "sample_config = (BaseConfig (\<lambda>_. None))\<lparr>
     RAZORPAY_KEY_ID := Some ''rzp_test_key'',
     RAZORPAY_KEY_SECRET := Some ''rzp_secret'',
     RAZORPAY_WEBHOOK_SECRET := Some ''whsec''\<rparr>"

definition sample_driver :: user where
  "sample_driver = \<lparr>usr_id = 1, usr_email = ''a@b.in'', usr_username = ''asha'',
     usr_password_hash = ''h1'', usr_full_name = ''Asha'', usr_phone = None,
     usr_role = USER, usr_is_active = True, usr_email_verified_at = None,
     usr_failed_login_attempts = 0, usr_locked_until = None, usr_created_at = 0\<rparr>"

definition sample_admin :: user where
  "sample_admin = \<lparr>usr_id = 2, usr_email = ''o@b.in'', usr_username = ''owner'',
     usr_password_hash = ''h2'', usr_full_name = ''Owner'', usr_phone = None,
     usr_role = STATION_ADMIN, usr_is_active = True, usr_email_verified_at = None,
     usr_failed_login_attempts = 0, usr_locked_until = None, usr_created_at = 0\<rparr>"

definition sample_station :: charging_station where
  "sample_station = \<lparr>st_id = 10, st_owner_id = 2, st_name = ''Hub'', st_description = None,
     st_address_line_1 = ''MG Road'', st_address_line_2 = None, st_city = ''Pune'',
     st_state = ''MH'', st_postal_code = ''411001'', st_country_code = ''IN'',
     st_latitude = 18, st_longitude = 73, st_timezone = ''Asia/Kolkata'', st_phone = None,
     st_is_24_hours = True, st_status = S_ACTIVE, st_version = 1, st_created_at = 0\<rparr>"

definition sample_charge_point :: charge_point where
  "sample_charge_point = \<lparr>cp_id = 20, cp_station_id = 10, cp_code = ''A1'',
     cp_connector_type = CCS_2, cp_power_type = DC, cp_max_power_kw = 60,
     cp_booking_fee = 50, cp_is_bookable = True, cp_status = AVAILABLE,
     cp_version = 1, cp_created_at = 0\<rparr>"

definition sample_db :: database where
  "sample_db = empty_database\<lparr>users := [sample_driver, sample_admin],
     charging_stations := [sample_station], charge_points := [sample_charge_point]\<rparr>"

definition sample_booking :: "BookingStatus \<Rightarrow> booking" where
  "sample_booking s = \<lparr>bk_id = 100, bk_user_id = 1, bk_charge_point_id = 20,
     bk_starts_at = minutes 60, bk_ends_at = minutes 120,
     bk_hold_expires_at = Some (minutes 10), bk_status = s, bk_total_amount = Some 50,
     bk_currency = ''INR'', bk_version = 1, bk_cancelled_at = None, bk_created_at = 0\<rparr>"

definition sample_payment :: "PaymentStatus \<Rightarrow> payment" where
  "sample_payment s = \<lparr>pay_id = 200, pay_booking_id = 100, pay_user_id = 1,
     pay_provider = RAZORPAY, pay_status = s, pay_amount = 50, pay_amount_subunits = 5000,
     pay_currency = ''INR'', pay_idempotency_key = 300,
     pay_provider_order_id = (if s = INITIATED then None else Some ''order_1''),
     pay_provider_payment_id = (if s \<in> {INITIATED, ORDER_CREATED} then None else Some ''pay_1''),
     pay_last_error_code = None, pay_created_at = 0\<rparr>"

definition sample_paid_db :: "BookingStatus \<Rightarrow> PaymentStatus \<Rightarrow> database" where
  "sample_paid_db b p = sample_db\<lparr>bookings := [sample_booking b], payments := [sample_payment p]\<rparr>"

lemma sample_db_ok: "db_ok sample_db"
  by code_simp

lemma sample_paid_db_ok: "db_ok (sample_paid_db CONFIRMED CAPTURED)"
  by code_simp

end
