(* ===== verification/Lifecycle.thy ===== *)
theory Lifecycle
  imports Samples
begin

text \<open>
  The abstract specification of the booking platform that the service operations are
  proved against: the lifecycle graphs of bookings, payments, refunds and charging
  sessions, how a row may move along them (\<open>booking_move\<close> and its kin), and the coherence
  between the tables (\<open>coherent\<close>) that no database constraint enforces. The lemmas at the
  end say which single-row updates keep the tables coherent; the component theories apply
  them to their transactions.
\<close>

subsection \<open>Lifecycle graphs\<close>

fun booking_edge :: "BookingStatus \<Rightarrow> BookingStatus \<Rightarrow> bool" where
  "booking_edge HELD t = (t \<in> {PAYMENT_PENDING, CANCELLED, EXPIRED})"
| "booking_edge PAYMENT_PENDING t = (t \<in> {HELD, CONFIRMED, CANCELLED, EXPIRED})"
| "booking_edge CONFIRMED t = (t \<in> {ACTIVE, CANCELLED})"
| "booking_edge ACTIVE t = (t = COMPLETED)"
| "booking_edge _ t = False"

fun payment_edge :: "PaymentStatus \<Rightarrow> PaymentStatus \<Rightarrow> bool" where
  "payment_edge INITIATED t = (t \<in> {ORDER_CREATED, FAILED})"
| "payment_edge ORDER_CREATED t = (t \<in> {AUTHORIZED, CAPTURED, FAILED})"
| "payment_edge AUTHORIZED t = (t \<in> {CAPTURED, FAILED})"
| "payment_edge FAILED t = (t = CAPTURED)"
| "payment_edge CAPTURED t = (t = REFUNDED)"
| "payment_edge REFUNDED t = False"

fun refund_edge :: "RefundStatus \<Rightarrow> RefundStatus \<Rightarrow> bool" where
  "refund_edge REQUESTED t = (t \<in> {R_PENDING, R_PROCESSED, R_FAILED})"
| "refund_edge R_PENDING t = (t \<in> {R_PROCESSED, R_FAILED})"
| "refund_edge R_FAILED t = (t = R_PROCESSED)"
| "refund_edge R_PROCESSED t = False"

subsection \<open>Row moves\<close>

text \<open>
  A booking is unchanged, or takes one edge of its graph and its version goes up by one;
  nothing but the status, the version and the cancellation time ever changes.
\<close>

definition booking_move :: "booking \<Rightarrow> booking \<Rightarrow> bool" where
  "booking_move b b' \<longleftrightarrow> b' = b \<or>
     (\<exists>t c. booking_edge (bk_status b) t
        \<and> b' = b\<lparr>bk_status := t, bk_version := bk_version b + 1, bk_cancelled_at := c\<rparr>
        \<and> (t \<noteq> CANCELLED \<longrightarrow> c = bk_cancelled_at b))"

definition new_booking :: "booking \<Rightarrow> bool" where
  "new_booking b \<longleftrightarrow> bk_status b = HELD \<and> bk_version b = 1 \<and> bk_cancelled_at b = None
     \<and> bk_starts_at b < bk_ends_at b \<and> bk_hold_expires_at b \<noteq> None"

definition same_payment :: "payment \<Rightarrow> payment \<Rightarrow> bool" where
  "same_payment p p' \<longleftrightarrow> pay_id p' = pay_id p \<and> pay_booking_id p' = pay_booking_id p
     \<and> pay_user_id p' = pay_user_id p \<and> pay_provider p' = pay_provider p
     \<and> pay_amount p' = pay_amount p \<and> pay_amount_subunits p' = pay_amount_subunits p
     \<and> pay_currency p' = pay_currency p \<and> pay_idempotency_key p' = pay_idempotency_key p
     \<and> pay_created_at p' = pay_created_at p"

definition payment_move :: "payment \<Rightarrow> payment \<Rightarrow> bool" where
  "payment_move p p' \<longleftrightarrow> same_payment p p'
     \<and> (pay_status p' = pay_status p \<or> payment_edge (pay_status p) (pay_status p'))
     \<and> (pay_provider_order_id p \<noteq> None \<longrightarrow> pay_provider_order_id p' = pay_provider_order_id p)
     \<and> (pay_provider_payment_id p \<noteq> None \<longrightarrow> pay_provider_payment_id p' = pay_provider_payment_id p)"

definition payment_ids_ok :: "payment \<Rightarrow> bool" where
  "payment_ids_ok p \<longleftrightarrow> (pay_status p = INITIATED \<longrightarrow> pay_provider_order_id p = None)
     \<and> (pay_provider_order_id p = None \<longrightarrow>
          pay_status p \<in> {INITIATED, FAILED} \<and> pay_provider_payment_id p = None)
     \<and> (pay_status p \<in> {AUTHORIZED, CAPTURED, REFUNDED} \<longrightarrow> pay_provider_payment_id p \<noteq> None)"

definition new_payment :: "payment \<Rightarrow> bool" where
  "new_payment p \<longleftrightarrow> pay_status p = INITIATED \<and> payment_ids_ok p"

definition same_refund :: "refund \<Rightarrow> refund \<Rightarrow> bool" where
  "same_refund r r' \<longleftrightarrow> rf_id r' = rf_id r \<and> rf_payment_id r' = rf_payment_id r
     \<and> rf_amount r' = rf_amount r \<and> rf_amount_subunits r' = rf_amount_subunits r
     \<and> rf_currency r' = rf_currency r \<and> rf_receipt r' = rf_receipt r
     \<and> rf_created_at r' = rf_created_at r"

definition refund_move :: "refund \<Rightarrow> refund \<Rightarrow> bool" where
  "refund_move r r' \<longleftrightarrow> same_refund r r'
     \<and> (rf_status r' = rf_status r \<or> refund_edge (rf_status r) (rf_status r'))
     \<and> (rf_provider_refund_id r \<noteq> None \<longrightarrow> rf_provider_refund_id r' = rf_provider_refund_id r)"

definition new_refund :: "refund \<Rightarrow> bool" where
  "new_refund r \<longleftrightarrow> rf_status r = REQUESTED \<and> rf_provider_refund_id r = None
     \<and> rf_receipt r = ''cmr_'' @ uuid_hex (rf_id r)"

text \<open>
  A charging session is unchanged or is completed: its end time, final reading and energy
  are written once, with the energy the difference of the readings.
\<close>

definition session_move :: "charging_session \<Rightarrow> charging_session \<Rightarrow> bool" where
  "session_move s s' \<longleftrightarrow> s' = s \<or>
     (cs_status s = CS_ACTIVE \<and> (\<exists>now reading. reading \<ge> cs_meter_start_kwh s \<and>
        s' = s\<lparr>cs_status := CS_COMPLETED, cs_ended_at := Some now,
               cs_meter_end_kwh := Some reading,
               cs_energy_consumed_kwh := Some (reading - cs_meter_start_kwh s),
               cs_version := cs_version s + 1\<rparr>))"

definition new_session :: "charging_session \<Rightarrow> bool" where
  "new_session s \<longleftrightarrow> cs_status s = CS_ACTIVE \<and> cs_version s = 1 \<and> cs_ended_at s = None
     \<and> cs_meter_end_kwh s = None \<and> cs_energy_consumed_kwh s = None"

interpretation booking_life: terminating_lifecycle bk_id booking_move new_booking
    "\<lambda>b. bk_status b \<in> {COMPLETED, CANCELLED, EXPIRED}"
  by unfold_locales (auto simp: booking_move_def elim: booking_edge.elims)

interpretation payment_life: row_lifecycle pay_id payment_move new_payment
  by unfold_locales (auto simp: payment_move_def same_payment_def)

interpretation refund_life: row_lifecycle rf_id refund_move new_refund
  by unfold_locales (auto simp: refund_move_def same_refund_def)

interpretation session_life: terminating_lifecycle cs_id session_move new_session
    "\<lambda>s. cs_status s \<noteq> CS_ACTIVE"
  by unfold_locales (auto simp: session_move_def)

definition core_evolves :: "database \<Rightarrow> database \<Rightarrow> bool" where
  "core_evolves d d' \<longleftrightarrow>
     table_evolves booking_move new_booking (bookings d) (bookings d')
     \<and> table_evolves payment_move new_payment (payments d) (payments d')
     \<and> table_evolves refund_move new_refund (refunds d) (refunds d')
     \<and> table_evolves session_move new_session (charging_sessions d) (charging_sessions d')"

lemmas core_refl = table_evolves_refl [of booking_move, OF booking_life.move_refl]
  table_evolves_refl [of payment_move, OF payment_life.move_refl]
  table_evolves_refl [of refund_move, OF refund_life.move_refl]
  table_evolves_refl [of session_move, OF session_life.move_refl]

lemma core_evolves_refl [simp]: "core_evolves d d"
  by (simp add: core_evolves_def core_refl)

subsection \<open>Coherence between the tables\<close>

definition paid_status :: "BookingStatus \<Rightarrow> bool" where
  "paid_status s \<longleftrightarrow> s \<in> {CONFIRMED, ACTIVE, COMPLETED}"

text \<open>Every payment is for the amount of its booking, in hundredths, by the booking's user.\<close>

definition payment_coherent :: "booking set \<Rightarrow> payment \<Rightarrow> bool" where
  "payment_coherent B p \<longleftrightarrow> payment_ids_ok p \<and> of_int (pay_amount_subunits p) = pay_amount p * 100
     \<and> (\<exists>b \<in> B. bk_id b = pay_booking_id p \<and> bk_user_id b = pay_user_id p
          \<and> bk_total_amount b = Some (pay_amount p) \<and> bk_currency b = pay_currency p)"

text \<open>A booking that is confirmed or used has a captured payment.\<close>

definition booking_paid :: "payment set \<Rightarrow> booking \<Rightarrow> bool" where
  "booking_paid P b \<longleftrightarrow>
     (paid_status (bk_status b) \<longrightarrow> (\<exists>p \<in> P. pay_booking_id p = bk_id b \<and> pay_status p = CAPTURED))"

text \<open>
  A refund is for the whole of a captured payment of a cancelled booking, and the payment
  is marked refunded exactly when the refund was processed.
\<close>

definition refund_coherent :: "booking set \<Rightarrow> payment set \<Rightarrow> refund \<Rightarrow> bool" where
  "refund_coherent B P r \<longleftrightarrow> (rf_status r = REQUESTED \<longrightarrow> rf_provider_refund_id r = None)
     \<and> (\<exists>p \<in> P. pay_id p = rf_payment_id r \<and> pay_amount p = rf_amount r
          \<and> pay_amount_subunits p = rf_amount_subunits r \<and> pay_currency p = rf_currency r
          \<and> pay_status p = (if rf_status r = R_PROCESSED then REFUNDED else CAPTURED)
          \<and> (\<exists>b \<in> B. bk_id b = pay_booking_id p \<and> bk_status b = CANCELLED))"

definition payment_refunded :: "refund set \<Rightarrow> payment \<Rightarrow> bool" where
  "payment_refunded R p \<longleftrightarrow> (pay_status p = REFUNDED \<longrightarrow> (\<exists>r \<in> R. rf_payment_id r = pay_id p))"

text \<open>A session is active with its booking, and completed with it.\<close>

definition session_coherent :: "booking set \<Rightarrow> charging_session \<Rightarrow> bool" where
  "session_coherent B s \<longleftrightarrow> cs_status s \<noteq> CS_INTERRUPTED
     \<and> (\<exists>b \<in> B. bk_id b = cs_booking_id s \<and> bk_user_id b = cs_user_id s
          \<and> bk_charge_point_id b = cs_charge_point_id s
          \<and> bk_status b = (if cs_status s = CS_ACTIVE then ACTIVE else COMPLETED))"

definition booking_has_session :: "charging_session set \<Rightarrow> booking \<Rightarrow> bool" where
  "booking_has_session S b \<longleftrightarrow>
     (bk_status b \<in> {ACTIVE, COMPLETED} \<longrightarrow> (\<exists>s \<in> S. cs_booking_id s = bk_id b))"

definition active_points :: "charging_session list \<Rightarrow> uuid list" where
  "active_points ss = map cs_charge_point_id (filter (\<lambda>s. cs_status s = CS_ACTIVE) ss)"

definition coherent :: "database \<Rightarrow> bool" where
  "coherent d \<longleftrightarrow>
     Ball (set (payments d)) (payment_coherent (set (bookings d)))
     \<and> Ball (set (bookings d)) (booking_paid (set (payments d)))
     \<and> Ball (set (refunds d)) (refund_coherent (set (bookings d)) (set (payments d)))
     \<and> Ball (set (payments d)) (payment_refunded (set (refunds d)))
     \<and> Ball (set (charging_sessions d)) (session_coherent (set (bookings d)))
     \<and> Ball (set (bookings d)) (booking_has_session (set (charging_sessions d)))
     \<and> distinct (active_points (charging_sessions d))"

text \<open>The keys that the coherence lemmas rely on; constraints of the schema give them.\<close>

definition keys_ok :: "database \<Rightarrow> bool" where
  "keys_ok d \<longleftrightarrow> distinct (map bk_id (bookings d)) \<and> distinct (map pay_id (payments d))
     \<and> distinct (map rf_id (refunds d)) \<and> distinct (map rf_payment_id (refunds d))
     \<and> distinct (map cs_id (charging_sessions d))
     \<and> distinct (map cs_booking_id (charging_sessions d))"

lemma db_ok_keys: "db_ok d \<Longrightarrow> keys_ok d"
  by (simp add: db_ok_def constraints_hold_def all_constraints_def bookings_constraints_def
      payments_constraints_def refunds_constraints_def charging_sessions_constraints_def
      keys_ok_def)

lemma coherent_empty: "coherent empty_database"
  by (simp add: coherent_def empty_database_def active_points_def)

subsection \<open>Updates that keep the tables coherent\<close>

lemma booking_move_same:
  assumes "booking_move b b'"
  shows "bk_id b' = bk_id b" "bk_user_id b' = bk_user_id b"
    "bk_charge_point_id b' = bk_charge_point_id b" "bk_total_amount b' = bk_total_amount b"
    "bk_currency b' = bk_currency b" "bk_starts_at b' = bk_starts_at b"
    "bk_ends_at b' = bk_ends_at b" "bk_hold_expires_at b' = bk_hold_expires_at b"
  using assms by (auto simp: booking_move_def)

lemma booking_move_edge:
  "booking_move b b' \<Longrightarrow> b' = b \<or> booking_edge (bk_status b) (bk_status b')"
  unfolding booking_move_def by (elim disjE exE conjE) simp_all

lemma booking_move_cancelled:
  "booking_move b b' \<Longrightarrow> bk_status b = CANCELLED \<Longrightarrow> bk_status b' = CANCELLED"
  by (drule booking_move_edge) auto

lemma payment_coherent_bookings:
  assumes "payment_coherent B p" "\<And>b. b \<in> B \<Longrightarrow> \<exists>b' \<in> B'. booking_move b b'"
  shows "payment_coherent B' p"
proof -
  from assms(1) obtain b where "b \<in> B" "bk_id b = pay_booking_id p" "bk_user_id b = pay_user_id p"
    "bk_total_amount b = Some (pay_amount p)" "bk_currency b = pay_currency p"
    by (auto simp: payment_coherent_def)
  moreover from assms(2) [OF this(1)] obtain b' where "b' \<in> B'" "booking_move b b'" by blast
  ultimately show ?thesis
    using assms(1) unfolding payment_coherent_def by (metis booking_move_same(1,2,4,5))
qed

lemma refund_coherent_bookings:
  assumes "refund_coherent B P r" "\<And>b. b \<in> B \<Longrightarrow> \<exists>b' \<in> B'. booking_move b b'"
  shows "refund_coherent B' P r"
proof -
  from assms(1) obtain p b where pb: "p \<in> P" "pay_id p = rf_payment_id r"
    "pay_amount p = rf_amount r" "pay_amount_subunits p = rf_amount_subunits r"
    "pay_currency p = rf_currency r"
    "pay_status p = (if rf_status r = R_PROCESSED then REFUNDED else CAPTURED)"
    "b \<in> B" "bk_id b = pay_booking_id p" "bk_status b = CANCELLED"
    by (auto simp: refund_coherent_def)
  from assms(2) [OF pb(7)] obtain b' where "b' \<in> B'" "booking_move b b'" by blast
  with pb(8,9) have "b' \<in> B'" "bk_id b' = pay_booking_id p" "bk_status b' = CANCELLED"
    by (auto simp: booking_move_same booking_move_cancelled)
  moreover have "rf_status r = REQUESTED \<longrightarrow> rf_provider_refund_id r = None"
    using assms(1) by (simp add: refund_coherent_def)
  moreover have "\<exists>b \<in> B'. bk_id b = pay_booking_id p \<and> bk_status b = CANCELLED"
    using calculation by blast
  ultimately show ?thesis
    unfolding refund_coherent_def by (intro conjI bexI [OF _ pb(1)]) (use pb(2-6) in simp_all)
qed

text \<open>
  Changes of bookings that neither start nor complete a charging session: every row moves
  along its lifecycle, away from the session statuses, and becomes confirmed only when a
  captured payment is there.
\<close>

definition quiet_move :: "payment set \<Rightarrow> booking \<Rightarrow> booking \<Rightarrow> bool" where
  "quiet_move P b b' \<longleftrightarrow> booking_move b b'
     \<and> (b' = b \<or> (bk_status b' \<notin> {ACTIVE, COMPLETED} \<and> booking_paid P b'))"

lemma quiet_move_refl [simp]: "quiet_move P b b"
  by (simp add: quiet_move_def booking_life.move_refl)

lemma quiet_move_session:
  "quiet_move P b b' \<Longrightarrow> bk_status b \<in> {ACTIVE, COMPLETED} \<Longrightarrow> b' = b"
  unfolding quiet_move_def by (auto dest: booking_move_edge)

lemma quiet_evolves_booking:
  "table_evolves (quiet_move P) new_booking xs ys \<Longrightarrow> table_evolves booking_move new_booking xs ys"
  by (erule table_evolves_mono) (auto simp: quiet_move_def)

lemma coherent_quiet:
  assumes co: "coherent d"
    and ev: "table_evolves (quiet_move (set (payments d))) new_booking (bookings d) bs"
  shows "coherent (d\<lparr>bookings := bs\<rparr>)"
proof -
  let ?P = "set (payments d)" and ?B = "set (bookings d)"
  have fwd: "\<exists>b' \<in> set bs. quiet_move ?P b b'" if "b \<in> ?B" for b
    using table_evolves_forward [OF ev that] .
  then have mv: "\<exists>b' \<in> set bs. booking_move b b'" if "b \<in> ?B" for b
    using that by (auto simp: quiet_move_def)
  have bwd: "(\<exists>b \<in> ?B. quiet_move ?P b b') \<or> new_booking b'" if "b' \<in> set bs" for b'
    using table_evolves_backward [OF ev that] .
  have "Ball (set (payments d)) (payment_coherent (set bs))"
    using co mv by (auto simp: coherent_def intro: payment_coherent_bookings)
  moreover have "Ball (set bs) (booking_paid ?P)"
  proof
    fix b' assume "b' \<in> set bs"
    from bwd [OF this] show "booking_paid ?P b'"
      using co by (auto simp: coherent_def quiet_move_def new_booking_def booking_paid_def paid_status_def)
  qed
  moreover have "Ball (set (refunds d)) (refund_coherent (set bs) ?P)"
    using co mv by (auto simp: coherent_def intro: refund_coherent_bookings)
  moreover have "Ball (set (charging_sessions d)) (session_coherent (set bs))"
  proof
    fix s assume "s \<in> set (charging_sessions d)"
    with co have s: "session_coherent ?B s" by (auto simp: coherent_def)
    then obtain b where b: "b \<in> ?B" "bk_id b = cs_booking_id s" "bk_user_id b = cs_user_id s"
      "bk_charge_point_id b = cs_charge_point_id s"
      "bk_status b = (if cs_status s = CS_ACTIVE then ACTIVE else COMPLETED)"
      by (auto simp: session_coherent_def)
    then have "bk_status b \<in> {ACTIVE, COMPLETED}" by auto
    with fwd [OF b(1)] have "b \<in> set bs" by (auto dest: quiet_move_session)
    with s b show "session_coherent (set bs) s" by (auto simp: session_coherent_def)
  qed
  moreover have "Ball (set bs) (booking_has_session (set (charging_sessions d)))"
  proof
    fix b' assume "b' \<in> set bs"
    from bwd [OF this] show "booking_has_session (set (charging_sessions d)) b'"
      using co by (auto simp: coherent_def quiet_move_def new_booking_def booking_has_session_def)
  qed
  ultimately show ?thesis
    using co by (simp add: coherent_def)
qed

text \<open>
  Changes of payments other than marking one refunded: a captured payment stays captured,
  so whatever rests on it (a confirmed booking, a refund) keeps its support.
\<close>

definition plain_payment_move :: "payment \<Rightarrow> payment \<Rightarrow> bool" where
  "plain_payment_move p p' \<longleftrightarrow> payment_move p p' \<and> (p' = p \<or> payment_ids_ok p')
     \<and> (pay_status p' = REFUNDED \<longleftrightarrow> pay_status p = REFUNDED)"

definition added_payment :: "booking set \<Rightarrow> payment \<Rightarrow> bool" where
  "added_payment B p \<longleftrightarrow> payment_coherent B p \<and> pay_status p = INITIATED"

lemma plain_payment_move_refl [simp]: "plain_payment_move p p"
  by (simp add: plain_payment_move_def payment_life.move_refl)

lemma plain_payment_captured:
  "plain_payment_move p p' \<Longrightarrow> pay_status p \<in> {CAPTURED, REFUNDED} \<Longrightarrow> pay_status p' = pay_status p"
  by (auto simp: plain_payment_move_def payment_move_def)

lemma plain_payment_same: "plain_payment_move p p' \<Longrightarrow> same_payment p p'"
  by (simp add: plain_payment_move_def payment_move_def)

lemma payment_coherent_move:
  "payment_coherent B p \<Longrightarrow> plain_payment_move p p' \<Longrightarrow> payment_coherent B p'"
  by (auto simp: payment_coherent_def plain_payment_move_def payment_move_def same_payment_def)

lemma plain_evolves_payment:
  "table_evolves plain_payment_move (added_payment B) xs ys \<Longrightarrow>
   table_evolves payment_move new_payment xs ys"
  by (erule table_evolves_mono)
     (auto simp: plain_payment_move_def added_payment_def new_payment_def payment_coherent_def)

lemma booking_paid_payments:
  assumes "booking_paid P b" "\<And>p. p \<in> P \<Longrightarrow> \<exists>p' \<in> P'. plain_payment_move p p'"
  shows "booking_paid P' b"
  unfolding booking_paid_def
proof
  assume "paid_status (bk_status b)"
  with assms(1) obtain p where "p \<in> P" "pay_booking_id p = bk_id b" "pay_status p = CAPTURED"
    by (auto simp: booking_paid_def)
  moreover from assms(2) [OF this(1)] obtain p' where "p' \<in> P'" "plain_payment_move p p'" by blast
  ultimately show "\<exists>p \<in> P'. pay_booking_id p = bk_id b \<and> pay_status p = CAPTURED"
    using plain_payment_captured [of p p'] plain_payment_same [of p p']
    by (intro bexI [of _ p']) (auto simp: same_payment_def)
qed

lemma refund_coherent_payments:
  assumes "refund_coherent B P r" "\<And>p. p \<in> P \<Longrightarrow> \<exists>p' \<in> P'. plain_payment_move p p'"
  shows "refund_coherent B P' r"
proof -
  from assms(1) obtain p where p: "p \<in> P" "pay_id p = rf_payment_id r"
    "pay_amount p = rf_amount r" "pay_amount_subunits p = rf_amount_subunits r"
    "pay_currency p = rf_currency r"
    "pay_status p = (if rf_status r = R_PROCESSED then REFUNDED else CAPTURED)"
    "\<exists>b \<in> B. bk_id b = pay_booking_id p \<and> bk_status b = CANCELLED"
    by (auto simp: refund_coherent_def)
  from assms(2) [OF p(1)] obtain p' where p': "p' \<in> P'" "plain_payment_move p p'" by blast
  with p(6) have "pay_status p' = pay_status p"
    by (intro plain_payment_captured) auto
  with p p' plain_payment_same [OF p'(2)] assms(1) show ?thesis
    unfolding refund_coherent_def same_payment_def by (intro conjI bexI [OF _ p'(1)]) simp_all
qed

lemma coherent_payments:
  assumes co: "coherent d"
    and ev: "table_evolves plain_payment_move (added_payment (set (bookings d))) (payments d) ps"
  shows "coherent (d\<lparr>payments := ps\<rparr>)"
proof -
  have fwd: "\<exists>p' \<in> set ps. plain_payment_move p p'" if "p \<in> set (payments d)" for p
    using table_evolves_forward [OF ev that] .
  have bwd: "(\<exists>p \<in> set (payments d). plain_payment_move p p') \<or> added_payment (set (bookings d)) p'"
    if "p' \<in> set ps" for p'
    using table_evolves_backward [OF ev that] .
  have "Ball (set ps) (payment_coherent (set (bookings d)))"
    using co bwd by (auto simp: coherent_def added_payment_def dest: payment_coherent_move)
  moreover have "Ball (set (bookings d)) (booking_paid (set ps))"
    using co fwd by (auto simp: coherent_def intro: booking_paid_payments)
  moreover have "Ball (set (refunds d)) (refund_coherent (set (bookings d)) (set ps))"
    using co fwd by (auto simp: coherent_def intro: refund_coherent_payments)
  moreover have "Ball (set ps) (payment_refunded (set (refunds d)))"
  proof
    fix p' assume "p' \<in> set ps"
    from bwd [OF this] show "payment_refunded (set (refunds d)) p'"
      using co by (auto simp: coherent_def payment_refunded_def added_payment_def
          plain_payment_move_def payment_move_def same_payment_def)
  qed
  ultimately show ?thesis
    using co by (simp add: coherent_def)
qed

text \<open>Changes of refunds other than processing one.\<close>

definition plain_refund_move :: "refund \<Rightarrow> refund \<Rightarrow> bool" where
  "plain_refund_move r r' \<longleftrightarrow> refund_move r r'
     \<and> (rf_status r' = REQUESTED \<longrightarrow> rf_provider_refund_id r' = rf_provider_refund_id r)
     \<and> (rf_status r' = R_PROCESSED \<longleftrightarrow> rf_status r = R_PROCESSED)"

definition added_refund :: "booking set \<Rightarrow> payment set \<Rightarrow> refund \<Rightarrow> bool" where
  "added_refund B P r \<longleftrightarrow> refund_coherent B P r \<and> new_refund r"

lemma plain_refund_move_refl [simp]: "plain_refund_move r r"
  by (simp add: plain_refund_move_def refund_life.move_refl)

lemma refund_move_requested:
  "refund_move r r' \<Longrightarrow> rf_status r' = REQUESTED \<Longrightarrow> rf_status r = REQUESTED"
  by (cases "rf_status r") (auto simp: refund_move_def)

lemma refund_coherent_move:
  assumes "refund_coherent B P r" "plain_refund_move r r'"
  shows "refund_coherent B P r'"
proof -
  have same: "rf_payment_id r' = rf_payment_id r" "rf_amount r' = rf_amount r"
    "rf_amount_subunits r' = rf_amount_subunits r" "rf_currency r' = rf_currency r"
    "(rf_status r' = R_PROCESSED) = (rf_status r = R_PROCESSED)"
    using assms(2) by (auto simp: plain_refund_move_def refund_move_def same_refund_def)
  have "rf_status r' = REQUESTED \<longrightarrow> rf_provider_refund_id r' = None"
    using assms refund_move_requested [of r r']
    by (auto simp: refund_coherent_def plain_refund_move_def)
  with assms(1) show ?thesis
    unfolding refund_coherent_def same by simp
qed

lemma plain_evolves_refund:
  "table_evolves plain_refund_move (added_refund B P) xs ys \<Longrightarrow>
   table_evolves refund_move new_refund xs ys"
  by (erule table_evolves_mono) (auto simp: plain_refund_move_def added_refund_def)

lemma coherent_refunds:
  assumes co: "coherent d"
    and ev: "table_evolves plain_refund_move (added_refund (set (bookings d)) (set (payments d)))
               (refunds d) rs"
  shows "coherent (d\<lparr>refunds := rs\<rparr>)"
proof -
  have fwd: "\<exists>r' \<in> set rs. plain_refund_move r r'" if "r \<in> set (refunds d)" for r
    using table_evolves_forward [OF ev that] .
  have bwd: "(\<exists>r \<in> set (refunds d). plain_refund_move r r')
      \<or> added_refund (set (bookings d)) (set (payments d)) r'" if "r' \<in> set rs" for r'
    using table_evolves_backward [OF ev that] .
  have "Ball (set rs) (refund_coherent (set (bookings d)) (set (payments d)))"
  proof
    fix r' assume "r' \<in> set rs"
    from bwd [OF this] co show "refund_coherent (set (bookings d)) (set (payments d)) r'"
      by (auto simp: coherent_def added_refund_def intro: refund_coherent_move)
  qed
  moreover have "Ball (set (payments d)) (payment_refunded (set rs))"
  proof
    fix p assume "p \<in> set (payments d)"
    with co have "payment_refunded (set (refunds d)) p" by (auto simp: coherent_def)
    then show "payment_refunded (set rs) p"
      unfolding payment_refunded_def
      using fwd by (fastforce simp: plain_refund_move_def refund_move_def same_refund_def)
  qed
  ultimately show ?thesis
    using co by (simp add: coherent_def)
qed

text \<open>
  Processing a refund changes the refund and its payment together. The three lemmas before
  the update lemma say that nothing else rested on the payment being captured.
\<close>

lemma paid_elsewhere:
  assumes "booking_paid P b'" "keys_ok d" "P = set (payments d)" "p \<in> P"
    and "b \<in> set (bookings d)" "bk_id b = pay_booking_id p" "bk_status b = CANCELLED"
    and "b' \<in> set (bookings d)"
  shows "booking_paid {x \<in> P. pay_id x \<noteq> pay_id p} b'"
  unfolding booking_paid_def
proof
  assume paid: "paid_status (bk_status b')"
  with assms(1) obtain q where q: "q \<in> P" "pay_booking_id q = bk_id b'" "pay_status q = CAPTURED"
    by (fastforce simp: booking_paid_def)
  from assms(2,5,7,8) paid have "bk_id b \<noteq> bk_id b'"
    by (auto simp: keys_ok_def paid_status_def dest: distinct_map_unique)
  with q assms(6) have "q \<noteq> p" by auto
  with assms(2,3,4) q(1) have "pay_id q \<noteq> pay_id p"
    by (auto simp: keys_ok_def dest: distinct_map_unique)
  with q show "\<exists>p \<in> {x \<in> P. pay_id x \<noteq> pay_id p}. pay_booking_id p = bk_id b' \<and> pay_status p = CAPTURED"
    by auto
qed

lemma refund_elsewhere:
  assumes "refund_coherent B P x" "rf_payment_id x \<noteq> pay_id p"
  shows "refund_coherent B (insert p' {x \<in> P. pay_id x \<noteq> pay_id p}) x"
  using assms unfolding refund_coherent_def by auto

lemma refunded_elsewhere:
  assumes "payment_refunded (set (refunds d)) x" "keys_ok d" "r \<in> set (refunds d)"
    and "rf_payment_id r \<noteq> pay_id x"
  shows "payment_refunded (insert r' {y \<in> set (refunds d). rf_id y \<noteq> rf_id r}) x"
  unfolding payment_refunded_def
proof
  assume "pay_status x = REFUNDED"
  with assms(1) obtain y where y: "y \<in> set (refunds d)" "rf_payment_id y = pay_id x"
    by (auto simp: payment_refunded_def)
  with assms(4) have "y \<noteq> r" by auto
  with assms(2,3) y(1) have "rf_id y \<noteq> rf_id r"
    by (auto simp: keys_ok_def dest: distinct_map_unique)
  with y show "\<exists>z \<in> insert r' {y \<in> set (refunds d). rf_id y \<noteq> rf_id r}. rf_payment_id z = pay_id x"
    by auto
qed

lemma coherent_process_refund:
  assumes co: "coherent d" and keys: "keys_ok d"
    and r: "r \<in> set (refunds d)" "refund_move r r'" "rf_status r' = R_PROCESSED"
    and p: "p \<in> set (payments d)" "pay_id p = rf_payment_id r"
  shows "coherent (d\<lparr>refunds := store_row rf_id r' (refunds d),
           payments := store_row pay_id (p\<lparr>pay_status := REFUNDED\<rparr>) (payments d)\<rparr>)"
    (is "coherent (d\<lparr>refunds := ?rs, payments := ?ps\<rparr>)")
proof -
  let ?B = "set (bookings d)" and ?P = "set (payments d)" and ?p = "p\<lparr>pay_status := REFUNDED\<rparr>"
  from r(2) have same: "rf_id r' = rf_id r" "rf_payment_id r' = rf_payment_id r"
    "rf_amount r' = rf_amount r" "rf_amount_subunits r' = rf_amount_subunits r"
    "rf_currency r' = rf_currency r"
    by (auto simp: refund_move_def same_refund_def)
  from keys have pid: "distinct (map pay_id (payments d))"
    and rpid: "distinct (map rf_payment_id (refunds d))"
    by (auto simp: keys_ok_def)
  have ps: "set ?ps = insert ?p {x \<in> ?P. pay_id x \<noteq> pay_id p}"
    using p(1) by (auto simp: set_store_row)
  have rs: "set ?rs = insert r' {x \<in> set (refunds d). rf_id x \<noteq> rf_id r}"
    using r(1) same(1) by (auto simp: set_store_row)
  from co r(1) have "refund_coherent ?B ?P r" by (auto simp: coherent_def)
  then obtain p0 b where p0: "p0 \<in> ?P" "pay_id p0 = rf_payment_id r"
    "pay_amount p0 = rf_amount r" "pay_amount_subunits p0 = rf_amount_subunits r"
    "pay_currency p0 = rf_currency r" "pay_status p0 \<in> {CAPTURED, REFUNDED}"
    and b: "b \<in> ?B" "bk_id b = pay_booking_id p0" "bk_status b = CANCELLED"
    by (auto simp: refund_coherent_def split: if_splits)
  have "p0 = p" using distinct_map_unique [OF pid p0(1) p(1)] p0(2) p(2) by simp
  note p0 = p0 [unfolded this] and b = b [unfolded this]
  have "Ball (set ?ps) (payment_coherent ?B)"
    using co p(1) p0(6) unfolding ps
    by (auto simp: coherent_def payment_coherent_def payment_ids_ok_def)
  moreover have "Ball ?B (booking_paid (set ?ps))"
  proof
    fix b' assume b': "b' \<in> ?B"
    with co have "booking_paid ?P b'" by (auto simp: coherent_def)
    from paid_elsewhere [OF this keys refl p(1) b b'] show "booking_paid (set ?ps) b'"
      unfolding ps by (auto simp: booking_paid_def)
  qed
  moreover have "Ball (set ?rs) (refund_coherent ?B (set ?ps))"
  proof
    fix x assume "x \<in> set ?rs"
    then consider "x = r'" | "x \<in> set (refunds d)" "rf_id x \<noteq> rf_id r" unfolding rs by auto
    then show "refund_coherent ?B (set ?ps) x"
    proof cases
      case 1
      have "?p \<in> set ?ps" unfolding ps by simp
      with 1 r(3) p0(2-5) b same show ?thesis
        unfolding refund_coherent_def by (intro conjI bexI [of _ ?p]) auto
    next
      case 2
      with co rpid r(1) p(2) show ?thesis unfolding ps
        by (intro refund_elsewhere) (auto simp: coherent_def dest: distinct_map_unique)
    qed
  qed
  moreover have "Ball (set ?ps) (payment_refunded (set ?rs))"
    using co p(2) same(2) refunded_elsewhere [OF _ keys r(1)] unfolding ps rs
    by (auto simp: coherent_def payment_refunded_def [of _ ?p])
  ultimately show ?thesis
    using co by (simp add: coherent_def)
qed

text \<open>Starting and completing a charging session change the booking and the session together.\<close>

lemma active_points_insert:
  "active_points (insert_row s ss) =
     active_points ss @ (if cs_status s = CS_ACTIVE then [cs_charge_point_id s] else [])"
  by (simp add: active_points_def)

lemma active_points_complete:
  "distinct (active_points ss) \<Longrightarrow> cs_status s \<noteq> CS_ACTIVE \<Longrightarrow>
   distinct (active_points (store_row cs_id s ss))"
proof (induction ss)
  case (Cons x ss)
  have "set (active_points (store_row cs_id s ss)) \<subseteq> set (active_points ss)"
    using Cons.prems(2) by (auto simp: active_points_def store_row_def)
  with Cons show ?case
    by (auto simp: active_points_def store_row_def split: if_splits)
qed (simp add: active_points_def store_row_def)

lemma coherent_sessions_bookings:
  assumes co: "coherent d"
    and ev: "table_evolves booking_move new_booking (bookings d) bs"
    and paid: "Ball (set bs) (booking_paid (set (payments d)))"
    and ss: "Ball (set ss) (session_coherent (set bs))"
      "Ball (set bs) (booking_has_session (set ss))" "distinct (active_points ss)"
  shows "coherent (d\<lparr>bookings := bs, charging_sessions := ss\<rparr>)"
proof -
  have mv: "\<exists>b' \<in> set bs. booking_move b b'" if "b \<in> set (bookings d)" for b
    using table_evolves_forward [OF ev that] .
  have "Ball (set (payments d)) (payment_coherent (set bs))"
    using co mv by (auto simp: coherent_def intro: payment_coherent_bookings)
  moreover have "Ball (set (refunds d)) (refund_coherent (set bs) (set (payments d)))"
    using co mv by (auto simp: coherent_def intro: refund_coherent_bookings)
  ultimately show ?thesis
    using co paid ss by (simp add: coherent_def)
qed

lemma store_booking_evolves:
  assumes "keys_ok d" "b \<in> set (bookings d)" "R b b'" "bk_id b' = bk_id b" "\<And>x. R x x"
  shows "table_evolves R N (bookings d) (store_row bk_id b' (bookings d))"
proof (rule table_evolves_store_row)
  fix x assume "x \<in> set (bookings d)" "bk_id x = bk_id b'"
  with assms(1,2,4) have "x = b" by (auto simp: keys_ok_def dest: distinct_map_unique)
  with assms(3) show "R x b'" by simp
qed (rule assms(5))

lemma store_payment_evolves:
  assumes "keys_ok d" "p \<in> set (payments d)" "R p p'" "pay_id p' = pay_id p" "\<And>x. R x x"
  shows "table_evolves R N (payments d) (store_row pay_id p' (payments d))"
proof (rule table_evolves_store_row)
  fix x assume "x \<in> set (payments d)" "pay_id x = pay_id p'"
  with assms(1,2,4) have "x = p" by (auto simp: keys_ok_def dest: distinct_map_unique)
  with assms(3) show "R x p'" by simp
qed (rule assms(5))

lemma store_refund_evolves:
  assumes "keys_ok d" "r \<in> set (refunds d)" "R r r'" "rf_id r' = rf_id r" "\<And>x. R x x"
  shows "table_evolves R N (refunds d) (store_row rf_id r' (refunds d))"
proof (rule table_evolves_store_row)
  fix x assume "x \<in> set (refunds d)" "rf_id x = rf_id r'"
  with assms(1,2,4) have "x = r" by (auto simp: keys_ok_def dest: distinct_map_unique)
  with assms(3) show "R x r'" by simp
qed (rule assms(5))

lemma store_session_evolves:
  assumes "keys_ok d" "s \<in> set (charging_sessions d)" "R s s'" "cs_id s' = cs_id s" "\<And>x. R x x"
  shows "table_evolves R N (charging_sessions d) (store_row cs_id s' (charging_sessions d))"
proof (rule table_evolves_store_row)
  fix x assume "x \<in> set (charging_sessions d)" "cs_id x = cs_id s'"
  with assms(1,2,4) have "x = s" by (auto simp: keys_ok_def dest: distinct_map_unique)
  with assms(3) show "R x s'" by simp
qed (rule assms(5))

lemma session_coherent_elsewhere:
  assumes "session_coherent (set (bookings d)) s" "cs_booking_id s \<noteq> bk_id b'"
  shows "session_coherent (set (store_row bk_id b' (bookings d))) s"
  using assms unfolding session_coherent_def by (auto simp: set_store_row)

lemma has_session_elsewhere:
  "booking_has_session S b \<Longrightarrow> (\<And>s. s \<in> S \<Longrightarrow> cs_booking_id s = bk_id b \<Longrightarrow> \<exists>s' \<in> S'. cs_booking_id s' = bk_id b) \<Longrightarrow>
   booking_has_session S' b"
  by (fastforce simp: booking_has_session_def)

lemma session_booking:
  assumes "session_coherent (set (bookings d)) s" "keys_ok d" "b \<in> set (bookings d)"
    and "cs_booking_id s = bk_id b"
  shows "bk_status b = (if cs_status s = CS_ACTIVE then ACTIVE else COMPLETED)"
    and "bk_user_id b = cs_user_id s" and "bk_charge_point_id b = cs_charge_point_id s"
proof -
  from assms(1) obtain b0 where b0: "b0 \<in> set (bookings d)" "bk_id b0 = cs_booking_id s"
    "bk_user_id b0 = cs_user_id s" "bk_charge_point_id b0 = cs_charge_point_id s"
    "bk_status b0 = (if cs_status s = CS_ACTIVE then ACTIVE else COMPLETED)"
    by (auto simp: session_coherent_def)
  from assms(2) have "distinct (map bk_id (bookings d))" by (simp add: keys_ok_def)
  from distinct_map_unique [OF this b0(1) assms(3)] b0(2) assms(4) have "b0 = b" by simp
  with b0 show "bk_status b = (if cs_status s = CS_ACTIVE then ACTIVE else COMPLETED)"
    "bk_user_id b = cs_user_id s" "bk_charge_point_id b = cs_charge_point_id s"
    by simp_all
qed

lemma coherent_start:
  assumes co: "coherent d" and keys: "keys_ok d"
    and b: "b \<in> set (bookings d)" "bk_status b = CONFIRMED"
      "b' = b\<lparr>bk_status := ACTIVE, bk_version := bk_version b + 1\<rparr>"
    and s: "cs_booking_id s = bk_id b" "cs_user_id s = bk_user_id b"
      "cs_charge_point_id s = bk_charge_point_id b" "cs_status s = CS_ACTIVE"
      "cs_charge_point_id s \<notin> set (active_points (charging_sessions d))"
  shows "coherent (d\<lparr>bookings := store_row bk_id b' (bookings d),
                     charging_sessions := insert_row s (charging_sessions d)\<rparr>)"
proof (rule coherent_sessions_bookings [OF co])
  have mv: "booking_move b b'"
    unfolding booking_move_def b(3) using b(2) by (intro disjI2 exI [of _ ACTIVE] exI [of _ "bk_cancelled_at b"]) simp
  show "table_evolves booking_move new_booking (bookings d) (store_row bk_id b' (bookings d))"
    using keys b mv by (intro store_booking_evolves [of d b]) (auto simp: booking_life.move_refl)
  have bs: "set (store_row bk_id b' (bookings d)) = insert b' {x \<in> set (bookings d). bk_id x \<noteq> bk_id b}"
    using b by (auto simp: set_store_row)
  show "Ball (set (store_row bk_id b' (bookings d))) (booking_paid (set (payments d)))"
    using co b unfolding bs by (auto simp: coherent_def booking_paid_def paid_status_def)
  show "Ball (set (insert_row s (charging_sessions d)))
          (session_coherent (set (store_row bk_id b' (bookings d))))"
  proof
    fix x assume "x \<in> set (insert_row s (charging_sessions d))"
    then consider "x = s" | "x \<in> set (charging_sessions d)" by auto
    then show "session_coherent (set (store_row bk_id b' (bookings d))) x"
    proof cases
      case 1
      with b s show ?thesis unfolding session_coherent_def bs by auto
    next
      case 2
      with co have x: "session_coherent (set (bookings d)) x" by (auto simp: coherent_def)
      have "cs_booking_id x \<noteq> bk_id b"
        using session_booking(1) [OF x keys b(1)] b(2) by (auto split: if_splits)
      with x b(3) show ?thesis by (intro session_coherent_elsewhere) auto
    qed
  qed
  show "Ball (set (store_row bk_id b' (bookings d)))
          (booking_has_session (set (insert_row s (charging_sessions d))))"
    using co b s unfolding bs by (auto simp: coherent_def booking_has_session_def)
  show "distinct (active_points (insert_row s (charging_sessions d)))"
    using co s by (simp add: coherent_def active_points_insert)
qed

lemma coherent_complete:
  assumes co: "coherent d" and keys: "keys_ok d"
    and b: "b \<in> set (bookings d)" "bk_status b = ACTIVE"
      "b' = b\<lparr>bk_status := COMPLETED, bk_version := bk_version b + 1\<rparr>"
    and s: "s \<in> set (charging_sessions d)" "cs_booking_id s = bk_id b"
      "cs_id s' = cs_id s" "cs_booking_id s' = cs_booking_id s" "cs_user_id s' = cs_user_id s"
      "cs_charge_point_id s' = cs_charge_point_id s" "cs_status s' = CS_COMPLETED"
  shows "coherent (d\<lparr>bookings := store_row bk_id b' (bookings d),
                     charging_sessions := store_row cs_id s' (charging_sessions d)\<rparr>)"
proof (rule coherent_sessions_bookings [OF co])
  have mv: "booking_move b b'"
    unfolding booking_move_def b(3) using b(2)
    by (intro disjI2 exI [of _ COMPLETED] exI [of _ "bk_cancelled_at b"]) simp
  show "table_evolves booking_move new_booking (bookings d) (store_row bk_id b' (bookings d))"
    using keys b mv by (intro store_booking_evolves [of d b]) (auto simp: booking_life.move_refl)
  have bs: "set (store_row bk_id b' (bookings d)) = insert b' {x \<in> set (bookings d). bk_id x \<noteq> bk_id b}"
    using b by (auto simp: set_store_row)
  have ss: "set (store_row cs_id s' (charging_sessions d)) =
      insert s' {x \<in> set (charging_sessions d). cs_id x \<noteq> cs_id s}"
    using s by (auto simp: set_store_row)
  show "Ball (set (store_row bk_id b' (bookings d))) (booking_paid (set (payments d)))"
    using co b unfolding bs by (auto simp: coherent_def booking_paid_def paid_status_def)
  from co s(1) have sc: "session_coherent (set (bookings d)) s" by (auto simp: coherent_def)
  show "Ball (set (store_row cs_id s' (charging_sessions d)))
          (session_coherent (set (store_row bk_id b' (bookings d))))"
  proof
    fix x assume "x \<in> set (store_row cs_id s' (charging_sessions d))"
    then consider "x = s'" | "x \<in> set (charging_sessions d)" "cs_id x \<noteq> cs_id s"
      unfolding ss by auto
    then show "session_coherent (set (store_row bk_id b' (bookings d))) x"
    proof cases
      case 1
      with session_booking(2,3) [OF sc keys b(1) s(2)] b s show ?thesis unfolding session_coherent_def bs by auto
    next
      case 2
      with keys s(1,2) have "cs_booking_id x \<noteq> bk_id b"
        by (auto simp: keys_ok_def dest: distinct_map_unique)
      with 2 co b(3) show ?thesis
        by (intro session_coherent_elsewhere) (auto simp: coherent_def)
    qed
  qed
  show "Ball (set (store_row bk_id b' (bookings d)))
          (booking_has_session (set (store_row cs_id s' (charging_sessions d))))"
  proof
    fix x assume "x \<in> set (store_row bk_id b' (bookings d))"
    then consider "x = b'" | "x \<in> set (bookings d)" unfolding bs by auto
    then show "booking_has_session (set (store_row cs_id s' (charging_sessions d))) x"
    proof cases
      case 1
      with b(3) s show ?thesis unfolding booking_has_session_def ss by auto
    next
      case 2
      with co have "booking_has_session (set (charging_sessions d)) x" by (auto simp: coherent_def)
      then show ?thesis
      proof (rule has_session_elsewhere)
        fix y assume y: "y \<in> set (charging_sessions d)" "cs_booking_id y = bk_id x"
        with keys s(1) have "y = s \<or> cs_id y \<noteq> cs_id s"
          by (auto simp: keys_ok_def dest: distinct_map_unique)
        with y s(4) show "\<exists>s'' \<in> set (store_row cs_id s' (charging_sessions d)).
            cs_booking_id s'' = bk_id x"
          unfolding ss by auto
      qed
    qed
  qed
  show "distinct (active_points (store_row cs_id s' (charging_sessions d)))"
    using co s by (intro active_points_complete) (auto simp: coherent_def)
qed

subsection \<open>The contract of a transaction\<close>

text \<open>
  What every transaction of the core services owes: started in a state that satisfies the
  schema and is coherent, it ends in one, having moved every row along its lifecycle. A
  transaction that raises and rolls back owes nothing more.
\<close>

definition safe_step :: "database \<Rightarrow> database \<Rightarrow> bool" where
  "safe_step d d' \<longleftrightarrow>
     (db_ok d \<and> coherent d \<longrightarrow> db_ok d' \<and> coherent d' \<and> core_evolves d d')"

lemma safe_step_refl [simp]: "safe_step d d"
  by (simp add: safe_step_def)

lemma safe_commit:
  assumes "\<lbrakk>db_ok d; coherent d; keys_ok d; db_ok d'\<rbrakk> \<Longrightarrow> coherent d' \<and> core_evolves d d'"
  shows "safe_step d (snd (commit x d' d))"
  using assms by (auto simp: safe_step_def snd_commit db_ok_keys)

lemma safe_commit_quiet:
  assumes "\<lbrakk>db_ok d; coherent d; keys_ok d; db_ok d'\<rbrakk> \<Longrightarrow>
      table_evolves (quiet_move (set (payments d))) new_booking (bookings d) (bookings d')"
    and "d' = d\<lparr>bookings := bookings d'\<rparr>"
  shows "safe_step d (snd (commit x d' d))"
proof (rule safe_commit)
  assume "db_ok d" "coherent d" "keys_ok d" "db_ok d'"
  from assms(1) [OF this] \<open>coherent d\<close> have "coherent (d\<lparr>bookings := bookings d'\<rparr>)"
    "table_evolves booking_move new_booking (bookings d) (bookings d')"
    by (auto intro: coherent_quiet quiet_evolves_booking)
  moreover from assms(2) have "payments d' = payments d" "refunds d' = refunds d"
    "charging_sessions d' = charging_sessions d"
    by (cases d, cases d', simp)+
  ultimately show "coherent d' \<and> core_evolves d d'"
    using assms(2) by (simp add: core_evolves_def core_refl)
qed

lemma safe_same_tables:
  assumes "bookings d' = bookings d" "payments d' = payments d" "refunds d' = refunds d"
    "charging_sessions d' = charging_sessions d"
  shows "safe_step d (snd (commit x d' d))"
  using assms by (intro safe_commit) (simp add: coherent_def core_evolves_def core_refl)

end
