(* ===== verification/Bookings.thy ===== *)
theory Bookings
  imports Lifecycle
begin

text \<open>
  Booking holds and queries (\<open>bookings/schemas.py\<close>, \<open>bookings/service.py\<close>): creating a
  hold under the charge point's row lock, expiring stale holds, listing and reading the
  bookings of a user, and cancelling under optimistic concurrency. The row locks
  serialise the transactions on one charge point, so each operation is one step from a
  database to a database.
\<close>

subsection \<open>Requests\<close>

record BookingHoldRequest =
  hr_charge_point_id :: uuid
  hr_starts_at :: datetime
  hr_ends_at :: datetime

definition MAXIMUM_BOOKING_DURATION :: int where
  "MAXIMUM_BOOKING_DURATION = minutes (8 * 60)"

definition validate_time_range :: "BookingHoldRequest \<Rightarrow> exn + BookingHoldRequest" where
  "validate_time_range self =
     (if utcoffset (hr_starts_at self) = None \<or> utcoffset (hr_ends_at self) = None
      then Inl (ValidationError ''starts_at and ends_at must include a timezone'')
      else if instant_of (hr_ends_at self) \<le> instant_of (hr_starts_at self)
      then Inl (ValidationError ''ends_at must be later than starts_at'')
      else if instant_of (hr_ends_at self) - instant_of (hr_starts_at self) > MAXIMUM_BOOKING_DURATION
      then Inl (ValidationError ''a booking cannot exceed eight hours'')
      else Inr self)"

record BookingListQuery =
  bq_status :: "BookingStatus option"
  bq_page :: int
  bq_per_page :: int

definition BookingListQuery_valid :: "BookingListQuery \<Rightarrow> bool" where
  "BookingListQuery_valid q \<longleftrightarrow> 1 \<le> bq_page q \<and> 1 \<le> bq_per_page q \<and> bq_per_page q \<le> 100"

definition CancelBookingRequest_valid :: "int \<Rightarrow> bool" where
  "CancelBookingRequest_valid version \<longleftrightarrow> 1 \<le> version"

subsection \<open>The service\<close>

definition DEFAULT_HOLD_MINUTES :: int where
  "DEFAULT_HOLD_MINUTES = 10"

definition BLOCKING_BOOKING_STATUSES :: "BookingStatus list" where
  "BLOCKING_BOOKING_STATUSES = [HELD, PAYMENT_PENDING, CONFIRMED, ACTIVE]"

definition CANCELLABLE_BOOKING_STATUSES :: "BookingStatus list" where
  "CANCELLABLE_BOOKING_STATUSES = [HELD, PAYMENT_PENDING, CONFIRMED]"

text \<open>
  The inner join with the parent station: a charge point comes with its station. Every
  charge point has one, by the foreign key.
\<close>

definition locked_charge_point :: "uuid \<Rightarrow> database \<Rightarrow> (charge_point \<times> charging_station) option" where
  "locked_charge_point charge_point_id d =
     (case select_scalar (\<lambda>c. cp_id c = charge_point_id
             \<and> cp_station_id c \<in> set (map st_id (charging_stations d))) (charge_points d) of
        None \<Rightarrow> None
      | Some c \<Rightarrow> (case row_by st_id (charging_stations d) (cp_station_id c) of
          None \<Rightarrow> None
        | Some s \<Rightarrow> Some (c, s)))"

fun charge_point_accepts_bookings :: "(charge_point \<times> charging_station) option \<Rightarrow> bool" where
  "charge_point_accepts_bookings None = False"
| "charge_point_accepts_bookings (Some (charge_point, station)) =
     (cp_is_bookable charge_point \<and> cp_status charge_point = AVAILABLE
      \<and> st_status station = S_ACTIVE)"

text \<open>\<open>Booking.hold_expires_at <= now\<close>; NULL compares as unknown, so not at all.\<close>

definition hold_is_stale :: "instant \<Rightarrow> booking \<Rightarrow> bool" where
  "hold_is_stale now b \<longleftrightarrow> bk_status b = HELD
     \<and> (case bk_hold_expires_at b of None \<Rightarrow> False | Some t \<Rightarrow> t \<le> now)"

definition expired_booking :: "booking \<Rightarrow> booking" where
  "expired_booking b = b\<lparr>bk_status := EXPIRED, bk_version := bk_version b + 1\<rparr>"

definition expire_stale_holds :: "uuid \<Rightarrow> instant \<Rightarrow> database \<Rightarrow> database" where
  "expire_stale_holds charge_point_id now d =
     d\<lparr>bookings := update_where
        (\<lambda>b. bk_charge_point_id b = charge_point_id \<and> hold_is_stale now b)
        expired_booking (bookings d)\<rparr>"

definition expire_user_stale_holds :: "uuid \<Rightarrow> instant \<Rightarrow> database \<Rightarrow> database" where
  "expire_user_stale_holds user_id now d =
     d\<lparr>bookings := update_where
        (\<lambda>b. bk_user_id b = user_id \<and> hold_is_stale now b) expired_booking (bookings d)\<rparr>"

definition has_overlapping_booking :: "uuid \<Rightarrow> instant \<Rightarrow> instant \<Rightarrow> database \<Rightarrow> bool" where
  "has_overlapping_booking charge_point_id starts_at ends_at d =
     (select_scalar (\<lambda>b. bk_charge_point_id b = charge_point_id
        \<and> bk_status b \<in> set BLOCKING_BOOKING_STATUSES
        \<and> bk_starts_at b < ends_at \<and> bk_ends_at b > starts_at) (bookings d) \<noteq> None)"

definition hold_minutes :: "config \<Rightarrow> int" where
  "hold_minutes cfg =
     (case BOOKING_HOLD_MINUTES cfg of None \<Rightarrow> DEFAULT_HOLD_MINUTES | Some m \<Rightarrow> m)"

text \<open>The row that a hold inserts, with the column defaults.\<close>

definition held_booking ::
    "config \<Rightarrow> instant \<Rightarrow> uuid \<Rightarrow> user \<Rightarrow> charge_point \<Rightarrow> BookingHoldRequest \<Rightarrow> booking" where
  "held_booking cfg now new_id usr charge_point payload = \<lparr>
     bk_id = new_id,
     bk_user_id = usr_id usr,
     bk_charge_point_id = cp_id charge_point,
     bk_starts_at = instant_of (hr_starts_at payload),
     bk_ends_at = instant_of (hr_ends_at payload),
     bk_hold_expires_at = Some (now + minutes (hold_minutes cfg)),
     bk_status = HELD,
     bk_total_amount = Some (cp_booking_fee charge_point),
     bk_currency = ''INR'',
     bk_version = 1,
     bk_cancelled_at = None,
     bk_created_at = now\<rparr>"

text \<open>
  \<open>new_id\<close> is the \<open>uuid4()\<close> of the new row and \<open>now\<close> the clock. The UPDATE of the stale
  holds is part of the transaction: a later raise rolls it back.
\<close>

definition create_booking_hold ::
    "config \<Rightarrow> instant \<Rightarrow> uuid \<Rightarrow> user \<Rightarrow> BookingHoldRequest \<Rightarrow> database \<Rightarrow> booking outcome" where
  "create_booking_hold cfg now new_id usr payload d =
     (if instant_of (hr_starts_at payload) \<le> now then raising BookingTimeError d
      else let locked = locked_charge_point (hr_charge_point_id payload) d in
        if \<not> charge_point_accepts_bookings locked then raising BookingUnavailableError d
        else let charge_point = fst (the locked);
                 d1 = expire_stale_holds (cp_id charge_point) now d in
          if has_overlapping_booking (cp_id charge_point) (instant_of (hr_starts_at payload))
               (instant_of (hr_ends_at payload)) d1
          then raising BookingUnavailableError d
          else let booking = held_booking cfg now new_id usr charge_point payload
            in on_integrity_error BookingUnavailableError
                 (commit booking (d1\<lparr>bookings := insert_row booking (bookings d1)\<rparr>) d))"

record 'a page =
  pg_items :: "'a list"
  pg_total :: int
  pg_page :: int
  pg_per_page :: int

text \<open>
  \<open>order_by(starts_at.desc(), id)\<close> is the stable sort by the negated start and the id.
\<close>

definition booking_history_order :: "booking list \<Rightarrow> booking list" where
  "booking_history_order bs = sort_key (\<lambda>b. (- bk_starts_at b, bk_id b)) bs"

definition find_user_bookings ::
    "instant \<Rightarrow> uuid \<Rightarrow> BookingListQuery \<Rightarrow> database \<Rightarrow> booking page outcome" where
  "find_user_bookings now user_id query d =
     (case commit () (expire_user_stale_holds user_id now d) d of
        (Inl e, d') \<Rightarrow> (Inl e, d')
      | (Inr _, d') \<Rightarrow>
          let matching = filter (\<lambda>b. bk_user_id b = user_id
                \<and> (case bq_status query of None \<Rightarrow> True | Some s \<Rightarrow> bk_status b = s)) (bookings d')
          in (Inr \<lparr>pg_items = page_of (bq_page query) (bq_per_page query)
                     (booking_history_order matching),
                   pg_total = int (length matching),
                   pg_page = bq_page query,
                   pg_per_page = bq_per_page query\<rparr>, d'))"

definition get_user_booking :: "instant \<Rightarrow> uuid \<Rightarrow> uuid \<Rightarrow> database \<Rightarrow> booking option outcome" where
  "get_user_booking now user_id booking_id d =
     (case commit () (expire_user_stale_holds user_id now d) d of
        (Inl e, d') \<Rightarrow> (Inl e, d')
      | (Inr _, d') \<Rightarrow>
          (Inr (select_scalar (\<lambda>b. bk_id b = booking_id \<and> bk_user_id b = user_id) (bookings d')), d'))"

text \<open>
  The conditional UPDATE of \<open>cancel_user_booking\<close>: its WHERE clause, and the row count
  that decides between success and a state conflict.
\<close>

definition cancellable :: "instant \<Rightarrow> uuid \<Rightarrow> uuid \<Rightarrow> int \<Rightarrow> booking \<Rightarrow> bool" where
  "cancellable now user_id booking_id expected_version b \<longleftrightarrow>
     bk_id b = booking_id \<and> bk_user_id b = user_id \<and> bk_version b = expected_version
     \<and> bk_status b \<in> set CANCELLABLE_BOOKING_STATUSES
     \<and> (bk_status b \<noteq> HELD \<or> (case bk_hold_expires_at b of None \<Rightarrow> False | Some t \<Rightarrow> t > now))"

definition cancel_user_booking ::
    "instant \<Rightarrow> uuid \<Rightarrow> uuid \<Rightarrow> int \<Rightarrow> database \<Rightarrow> booking option outcome" where
  "cancel_user_booking now user_id booking_id expected_version d =
     (let where_clause = cancellable now user_id booking_id expected_version;
          d1 = d\<lparr>bookings := update_where where_clause
                  (\<lambda>b. b\<lparr>bk_status := CANCELLED, bk_cancelled_at := Some now,
                         bk_version := bk_version b + 1\<rparr>) (bookings d)\<rparr>
      in if rowcount_where where_clause (bookings d) \<noteq> 1 then raising BookingStateConflictError d
         else commit (row_by bk_id (bookings d1) booking_id) d1 d)"

subsection \<open>Every operation is a safe step\<close>

lemma expired_booking_quiet: "hold_is_stale now b \<Longrightarrow> quiet_move P b (expired_booking b)"
  unfolding quiet_move_def booking_move_def expired_booking_def hold_is_stale_def
  by (intro conjI disjI2 exI [of _ EXPIRED] exI [of _ "bk_cancelled_at b"])
     (auto simp: booking_paid_def paid_status_def)

lemma expire_evolves:
  "(\<And>b. p b \<Longrightarrow> hold_is_stale now b) \<Longrightarrow>
   table_evolves (quiet_move P) N bs (update_where p expired_booking bs)"
  by (rule table_evolves_update_where) (auto intro: expired_booking_quiet)

lemma expire_user_safe:
  "safe_step d (snd (commit x (expire_user_stale_holds user_id now d) d))"
  by (rule safe_commit_quiet) (auto simp: expire_user_stale_holds_def intro: expire_evolves)

lemma held_booking_new:
  assumes "db_ok d'" "held_booking cfg now i u c payload \<in> set (bookings d')"
  shows "new_booking (held_booking cfg now i u c payload)"
proof -
  from assms have "bk_starts_at (held_booking cfg now i u c payload)
      < bk_ends_at (held_booking cfg now i u c payload)"
    by (auto simp: db_ok_def constraints_hold_def all_constraints_def bookings_constraints_def
        list_all_iff)
  then show ?thesis by (simp add: new_booking_def held_booking_def)
qed

lemma hold_commit_safe:
  assumes "\<And>b. p b \<Longrightarrow> hold_is_stale now b" "b = held_booking cfg now i u c payload"
  shows "safe_step d (snd (commit x
           (d\<lparr>bookings := insert_row b (update_where p expired_booking (bookings d))\<rparr>) d))"
proof (rule safe_commit_quiet)
  let ?d' = "d\<lparr>bookings := insert_row b (update_where p expired_booking (bookings d))\<rparr>"
  assume "db_ok ?d'"
  with assms(2) have "new_booking b"
    using held_booking_new [of ?d'] by simp
  with assms(1) show "table_evolves (quiet_move (set (payments d))) new_booking (bookings d)
      (bookings ?d')"
    by (auto intro!: table_evolves_insert_row expire_evolves)
qed simp

lemma create_booking_hold_safe: "safe_step d (snd (create_booking_hold cfg now i u payload d))"
  by (auto simp: create_booking_hold_def Let_def expire_stale_holds_def intro!: hold_commit_safe)

lemma find_user_bookings_safe: "safe_step d (snd (find_user_bookings now user_id query d))"
  unfolding find_user_bookings_def Let_def by (simp add: expire_user_safe)

lemma get_user_booking_safe: "safe_step d (snd (get_user_booking now user_id booking_id d))"
  by (simp add: get_user_booking_def expire_user_safe)

lemma cancellable_quiet:
  "cancellable now u i v b \<Longrightarrow>
   quiet_move P b (b\<lparr>bk_status := CANCELLED, bk_cancelled_at := Some now, bk_version := bk_version b + 1\<rparr>)"
  unfolding quiet_move_def booking_move_def cancellable_def CANCELLABLE_BOOKING_STATUSES_def
  by (intro conjI disjI2 exI [of _ CANCELLED] exI [of _ "Some now"])
     (auto simp: booking_paid_def paid_status_def)

lemma cancel_user_booking_safe: "safe_step d (snd (cancel_user_booking now u i v d))"
  unfolding cancel_user_booking_def Let_def
  by (auto intro!: safe_commit_quiet table_evolves_update_where dest: cancellable_quiet)

subsection \<open>When a hold succeeds\<close>

text \<open>
  The specification of a hold: the charge point exists and takes bookings, and every
  booking that blocks it, other than holds that have run out, lies outside the slot.
\<close>

definition bookable_point :: "uuid \<Rightarrow> database \<Rightarrow> charge_point option" where
  "bookable_point i d =
     (if charge_point_accepts_bookings (locked_charge_point i d)
      then map_option fst (locked_charge_point i d) else None)"

definition slot_free :: "database \<Rightarrow> instant \<Rightarrow> uuid \<Rightarrow> instant \<Rightarrow> instant \<Rightarrow> bool" where
  "slot_free d now i s e \<longleftrightarrow> list_all (\<lambda>b. bk_charge_point_id b \<noteq> i
     \<or> \<not> blocking_status (bk_status b) \<or> hold_is_stale now b
     \<or> bk_ends_at b \<le> s \<or> e \<le> bk_starts_at b) (bookings d)"

lemma blocking_statuses [simp]: "s \<in> set BLOCKING_BOOKING_STATUSES \<longleftrightarrow> blocking_status s"
  by (cases s) (simp_all add: BLOCKING_BOOKING_STATUSES_def)

lemma has_overlap_iff:
  "has_overlapping_booking i s e (expire_stale_holds i now d) \<longleftrightarrow> \<not> slot_free d now i s e"
proof -
  let ?f = "\<lambda>b. if bk_charge_point_id b = i \<and> hold_is_stale now b then expired_booking b else b"
  let ?p = "\<lambda>b. bk_charge_point_id b = i \<and> blocking_status (bk_status b)
     \<and> bk_starts_at b < e \<and> s < bk_ends_at b"
  have "has_overlapping_booking i s e (expire_stale_holds i now d) \<longleftrightarrow>
      (\<exists>b \<in> set (bookings d). ?p (?f b))"
    by (auto simp: has_overlapping_booking_def select_scalar_None expire_stale_holds_def
        set_update_where)
  moreover have "?p (?f b) \<longleftrightarrow> ?p b \<and> \<not> hold_is_stale now b" for b
    by (auto simp: expired_booking_def)
  ultimately show ?thesis
    by (auto simp: slot_free_def list_all_iff not_le)
qed

lemma prevent_overlapping_append:
  "prevent_overlapping_bookings (xs @ [y]) \<longleftrightarrow>
   prevent_overlapping_bookings xs \<and> (\<forall>x \<in> set xs. \<not> overlapping x y)"
  by (induction xs) (auto simp: list_all_iff)

lemma overlapping_sym: "overlapping a b \<Longrightarrow> overlapping b a"
  by (auto simp: overlapping_def)

lemma prevent_overlapping_pair:
  "prevent_overlapping_bookings xs \<Longrightarrow> x \<in> set xs \<Longrightarrow> y \<in> set xs \<Longrightarrow> x \<noteq> y \<Longrightarrow> \<not> overlapping x y"
  by (induction xs) (auto simp: list_all_iff dest: overlapping_sym)

lemma prevent_overlapping_map:
  assumes "\<And>a b. overlapping (f a) (f b) \<Longrightarrow> overlapping a b" "prevent_overlapping_bookings xs"
  shows "prevent_overlapping_bookings (map f xs)"
  using assms(2) by (induction xs) (auto simp: list_all_iff dest: assms(1))

lemma expire_overlapping:
  "prevent_overlapping_bookings xs \<Longrightarrow>
   prevent_overlapping_bookings (update_where p expired_booking xs)"
  unfolding update_where_def
  by (erule prevent_overlapping_map [rotated])
     (auto simp: overlapping_def expired_booking_def split: if_splits)

text \<open>
  Under the schema, a new identifier and the eight-hour validation, the row of a free slot
  satisfies every constraint: the overlap check of the code decides alone.
\<close>

definition version_headroom :: "database \<Rightarrow> bool" where
  "version_headroom d \<longleftrightarrow> list_all (\<lambda>b. bk_version b < 2 ^ 31 - 1) (bookings d)"

lemma validate_time_range_Inr:
  "validate_time_range payload = Inr r \<Longrightarrow> r = payload
     \<and> instant_of (hr_starts_at payload) < instant_of (hr_ends_at payload)
     \<and> instant_of (hr_ends_at payload) - instant_of (hr_starts_at payload) \<le> MAXIMUM_BOOKING_DURATION"
  by (auto simp: validate_time_range_def split: if_splits)

lemma bookable_pointD:
  assumes "bookable_point i d = Some c"
  shows "c \<in> set (charge_points d)" "cp_id c = i" "cp_is_bookable c" "cp_status c = AVAILABLE"
    "\<exists>st \<in> set (charging_stations d). st_id st = cp_station_id c \<and> st_status st = S_ACTIVE"
  using assms
  by (auto simp: bookable_point_def locked_charge_point_def split: if_splits option.splits
      dest!: select_scalar_Some row_by_Some)

lemma expired_columns:
  "db_ok d \<Longrightarrow> version_headroom d \<Longrightarrow>
   list_all booking_columns (update_where p expired_booking (bookings d))"
  by (auto simp: db_ok_def columns_ok_def version_headroom_def list_all_iff set_update_where
      booking_columns_def expired_booking_def int4_def)

lemma expired_constraints:
  assumes "db_ok d"
  shows "list_all snd (bookings_constraints
    (d\<lparr>bookings := update_where p expired_booking (bookings d)\<rparr>))"
proof -
  let ?bs = "update_where p expired_booking (bookings d)"
  have keep: "map g ?bs = map g (bookings d)" if "\<And>b. g (expired_booking b) = g b" for g :: "booking \<Rightarrow> 'x"
    using that by (simp add: map_update_where)
  from assms have bc: "list_all snd (bookings_constraints d)" by (simp add: db_ok_parts)
  then have "map bk_id ?bs = map bk_id (bookings d)"
    and "prevent_overlapping_bookings ?bs"
    by (auto simp: bookings_constraints_def expire_overlapping expired_booking_def intro!: keep)
  with bc show ?thesis
    by (auto simp: bookings_constraints_def list_all_iff set_update_where expired_booking_def)
qed

lemma hold_db_ok:
  assumes ok: "db_ok d" and head: "version_headroom d"
    and u: "usr_id u \<in> usr_id ` set (users d)" and i: "i \<notin> bk_id ` set (bookings d)"
    and v: "validate_time_range payload = Inr payload"
    and c: "bookable_point (hr_charge_point_id payload) d = Some c"
    and free: "slot_free d now (cp_id c) (instant_of (hr_starts_at payload))
                 (instant_of (hr_ends_at payload))"
  shows "db_ok (d\<lparr>bookings := insert_row (held_booking cfg now i u c payload)
           (bookings (expire_stale_holds (cp_id c) now d))\<rparr>)"
proof (rule db_ok_bookings [OF ok])
  let ?b = "held_booking cfg now i u c payload"
  let ?bs = "bookings (expire_stale_holds (cp_id c) now d)"
  have ids: "map bk_id ?bs = map bk_id (bookings d)"
    by (simp add: expire_stale_holds_def expired_booking_def map_update_where)
  then have idset: "bk_id ` set ?bs = bk_id ` set (bookings d)" by (metis list.set_map)
  then show "bk_id ` set (bookings d) \<subseteq> bk_id ` set (insert_row ?b ?bs)" by auto
  from c have cin: "c \<in> set (charge_points d)" by (rule bookable_pointD)
  with ok have "fits_numeric 10 2 (cp_booking_fee c)" "cp_booking_fee c \<ge> 0"
    by (auto simp: db_ok_parts columns_ok_def charge_point_columns_def charge_points_constraints_def
        list_all_iff)
  then have bcol: "booking_columns ?b"
    by (simp add: booking_columns_def held_booking_def varchar_def pylen_def int4_def)
  with expired_columns [OF ok head] show "list_all booking_columns (insert_row ?b ?bs)"
    by (simp add: insert_row_def expire_stale_holds_def)
  have "\<not> overlapping x ?b" if "x \<in> set ?bs" for x
    using that free
    by (auto simp: overlapping_def held_booking_def expire_stale_holds_def set_update_where
        expired_booking_def slot_free_def list_all_iff not_less split: if_splits)
  then show "list_all snd (bookings_constraints (d\<lparr>bookings := insert_row ?b ?bs\<rparr>))"
    using expired_constraints [OF ok] validate_time_range_Inr [OF v] u i cin idset
      \<open>cp_booking_fee c \<ge> 0\<close>
    by (simp add: bookings_constraints_def insert_row_def prevent_overlapping_append
        expire_stale_holds_def held_booking_def)
qed

lemma bookable_point_locked:
  "charge_point_accepts_bookings (locked_charge_point i d) \<longleftrightarrow>
     bookable_point i d = Some (fst (the (locked_charge_point i d)))"
  by (cases "locked_charge_point i d") (auto simp: bookable_point_def)

lemma bookable_point_None:
  "bookable_point i d = None \<longleftrightarrow> \<not> charge_point_accepts_bookings (locked_charge_point i d)"
  by (cases "locked_charge_point i d") (auto simp: bookable_point_def)

lemma expire_stale_holds_store [simp]:
  "(expire_stale_holds i now d)\<lparr>bookings := bs\<rparr> = d\<lparr>bookings := bs\<rparr>"
  by (simp add: expire_stale_holds_def)

lemma create_booking_hold_cases:
  "create_booking_hold cfg now i u payload d =
     (if instant_of (hr_starts_at payload) \<le> now then raising BookingTimeError d
      else case bookable_point (hr_charge_point_id payload) d of
        None \<Rightarrow> raising BookingUnavailableError d
      | Some c \<Rightarrow>
          if slot_free d now (cp_id c) (instant_of (hr_starts_at payload))
               (instant_of (hr_ends_at payload))
          then on_integrity_error BookingUnavailableError
            (commit (held_booking cfg now i u c payload)
              (d\<lparr>bookings := insert_row (held_booking cfg now i u c payload)
                   (bookings (expire_stale_holds (cp_id c) now d))\<rparr>) d)
          else raising BookingUnavailableError d)"
  using bookable_point_locked [of "hr_charge_point_id payload" d]
    bookable_point_None [of "hr_charge_point_id payload" d]
  by (auto simp: create_booking_hold_def Let_def has_overlap_iff split: option.split)

text \<open>
  C13. The outcome of a hold request is decided by the clock, the charge point and the live
  bookings of the charge point alone: with a valid request, a known user and a fresh
  identifier, the hold is created exactly when the start lies in the future, the charge
  point takes bookings and no live booking overlaps the slot; otherwise the request fails
  with the time or the unavailability error. The database constraints never reject it.
\<close>

theorem create_booking_hold_decides:
  assumes "db_ok d" "version_headroom d" "usr_id u \<in> usr_id ` set (users d)"
    and "i \<notin> bk_id ` set (bookings d)" "validate_time_range payload = Inr payload"
  shows "fst (create_booking_hold cfg now i u payload d) =
     (if instant_of (hr_starts_at payload) \<le> now then Inl BookingTimeError
      else case bookable_point (hr_charge_point_id payload) d of
        None \<Rightarrow> Inl BookingUnavailableError
      | Some c \<Rightarrow>
          if slot_free d now (cp_id c) (instant_of (hr_starts_at payload))
               (instant_of (hr_ends_at payload))
          then Inr (held_booking cfg now i u c payload) else Inl BookingUnavailableError)"
  using hold_db_ok [OF assms]
  by (auto simp: create_booking_hold_cases raising_def commit_simps on_integrity_error_def
      split: option.split)

definition sample_hold_request :: BookingHoldRequest where
  "sample_hold_request = \<lparr>hr_charge_point_id = 20, hr_starts_at = Aware (minutes 60) 0,
     hr_ends_at = Aware (minutes 120) 0\<rparr>"

theorem create_booking_hold_decides_witness:
  "fst (create_booking_hold sample_config 0 100 sample_driver sample_hold_request sample_db)
     = Inr (held_booking sample_config 0 100 sample_driver sample_charge_point sample_hold_request)"
proof -
  have h: "version_headroom sample_db" "usr_id sample_driver \<in> usr_id ` set (users sample_db)"
    "(100::uuid) \<notin> bk_id ` set (bookings sample_db)"
    "validate_time_range sample_hold_request = Inr sample_hold_request"
    by code_simp+
  have "bookable_point 20 sample_db = Some sample_charge_point"
    "slot_free sample_db 0 20 (minutes 60) (minutes 120)"
    by code_simp+
  then show ?thesis
    using create_booking_hold_decides [OF sample_db_ok h, of sample_config 0]
    by (simp add: sample_hold_request_def sample_charge_point_def minutes_def)
qed

text \<open>
  A successful hold is exclusive: the new booking is stored as held by the requesting
  user for the fee of the charge point, no other live booking of the charge point overlaps
  its slot, and every other row of the table is the one before, except that the stale holds
  of this charge point have expired.
\<close>

theorem create_booking_hold_exclusive:
  assumes "create_booking_hold cfg now i u payload d = (Inr b, d')"
  shows "b \<in> set (bookings d') \<and> bk_status b = HELD \<and> bk_user_id b = usr_id u
    \<and> (\<exists>c. bookable_point (hr_charge_point_id payload) d = Some c
          \<and> bk_total_amount b = Some (cp_booking_fee c))
    \<and> list_all (\<lambda>x. x = b \<or> \<not> overlapping x b) (bookings d')
    \<and> bookings d' = update_where
         (\<lambda>x. bk_charge_point_id x = bk_charge_point_id b \<and> hold_is_stale now x)
         expired_booking (bookings d) @ [b]"
proof -
  from assms obtain c where c: "bookable_point (hr_charge_point_id payload) d = Some c"
    and b: "b = held_booking cfg now i u c payload"
    and d': "d' = d\<lparr>bookings := insert_row b (bookings (expire_stale_holds (cp_id c) now d))\<rparr>"
    and ok: "db_ok d'"
    by (auto simp: create_booking_hold_cases split: if_splits option.splits)
  have mem: "b \<in> set (bookings d')" unfolding d' by simp
  from ok have "prevent_overlapping_bookings (bookings d')"
    by (simp add: db_ok_parts bookings_constraints_def)
  from prevent_overlapping_pair [OF this _ mem]
  have "list_all (\<lambda>x. x = b \<or> \<not> overlapping x b) (bookings d')"
    by (auto simp: list_all_iff)
  with mem c show ?thesis
    unfolding d' b by (auto simp: held_booking_def expire_stale_holds_def insert_row_def)
qed

theorem create_booking_hold_exclusive_witness:
  "\<exists>b d'. create_booking_hold sample_config 0 100 sample_driver sample_hold_request sample_db
      = (Inr b, d') \<and> b \<in> set (bookings d') \<and> bk_total_amount b = Some 50"
proof -
  have "\<not> isl (fst (create_booking_hold sample_config 0 100 sample_driver sample_hold_request
      sample_db))"
    by code_simp
  then obtain b d' where bd: "create_booking_hold sample_config 0 100 sample_driver
      sample_hold_request sample_db = (Inr b, d')"
    by (metis isl_def old.sum.exhaust prod.collapse)
  have "bookable_point 20 sample_db = Some sample_charge_point" by code_simp
  with create_booking_hold_exclusive [OF bd] bd show ?thesis
    by (auto simp: sample_hold_request_def sample_charge_point_def)
qed

subsection \<open>History and cancellation under optimistic concurrency\<close>

lemma update_whereE:
  assumes "y \<in> set (update_where p f rows)"
  obtains x where "y = (if p x then f x else x)"
  using assms unfolding set_update_where by (rule imageE) (rule that)

text \<open>
  The history is complete: walking through the reported number of pages returns every
  booking of the user that has the asked status (after this user's stale holds expired)
  exactly once, sorted by start time descending and then by identifier, and the total
  counts them. No booking of another user appears.
\<close>

theorem find_user_bookings_complete:
  assumes "1 \<le> n" "find_user_bookings now u \<lparr>bq_status = st, bq_page = 1, bq_per_page = n\<rparr> d = (Inr first, d')"
  shows "\<exists>matching. matching = filter (\<lambda>b. bk_user_id b = u
        \<and> (case st of None \<Rightarrow> True | Some s \<Rightarrow> bk_status b = s)) (bookings d')
    \<and> pg_total first = int (length matching)
    \<and> concat (map (\<lambda>k. case fst (find_user_bookings now u
          \<lparr>bq_status = st, bq_page = int k + 1, bq_per_page = n\<rparr> d) of
            Inr p \<Rightarrow> pg_items p | Inl _ \<Rightarrow> []) [0..<nat (pages_of (pg_total first) n)])
       = booking_history_order matching
    \<and> list_all (\<lambda>b. \<not> hold_is_stale now b) matching"
proof -
  let ?m = "filter (\<lambda>b. bk_user_id b = u
        \<and> (case st of None \<Rightarrow> True | Some s \<Rightarrow> bk_status b = s)) (bookings d')"
  from assms(2) have d': "d' = expire_user_stale_holds u now d" "db_ok d'"
    and tot: "pg_total first = int (length ?m)"
    by (auto simp: find_user_bookings_def Let_def split: prod.splits sum.splits)
  then have pages: "fst (find_user_bookings now u \<lparr>bq_status = st, bq_page = k, bq_per_page = n\<rparr> d)
      = Inr \<lparr>pg_items = page_of k n (booking_history_order ?m), pg_total = int (length ?m),
             pg_page = k, pg_per_page = n\<rparr>" for k
    by (simp add: find_user_bookings_def Let_def commit_simps)
  have "length (booking_history_order ?m) = length ?m" by (simp add: booking_history_order_def)
  with assms(1) pages_cover [of n "booking_history_order ?m"]
  have "concat (map (\<lambda>k. page_of (int k + 1) n (booking_history_order ?m))
      [0..<nat (pages_of (pg_total first) n)]) = booking_history_order ?m"
    by (simp add: tot)
  moreover have "\<not> hold_is_stale now b" if "b \<in> set (bookings d')" "bk_user_id b = u" for b
  proof -
    have "bookings d' = update_where (\<lambda>b. bk_user_id b = u \<and> hold_is_stale now b)
        expired_booking (bookings d)"
      by (simp add: d'(1) expire_user_stale_holds_def)
    from that(1) [unfolded this] obtain x where x: "b = (if bk_user_id x = u \<and> hold_is_stale now x
        then expired_booking x else x)"
      by (rule update_whereE)
    have "\<not> hold_is_stale now (expired_booking x)" by (simp add: hold_is_stale_def expired_booking_def)
    with x that(2) show ?thesis by (auto split: if_splits)
  qed
  then have "list_all (\<lambda>b. \<not> hold_is_stale now b) ?m" by (simp add: list_all_iff)
  ultimately show ?thesis
    unfolding pages sum.case page.select_convs
    by (intro exI [of _ ?m] conjI refl tot)
qed

theorem find_user_bookings_complete_witness:
  "\<exists>first d'. find_user_bookings (minutes 5) 1 \<lparr>bq_status = None, bq_page = 1, bq_per_page = 20\<rparr>
      (sample_db\<lparr>bookings := [sample_booking HELD]\<rparr>) = (Inr first, d') \<and> pg_total first \<ge> 0"
proof -
  let ?f = "find_user_bookings (minutes 5) 1 \<lparr>bq_status = None, bq_page = 1, bq_per_page = 20\<rparr>
      (sample_db\<lparr>bookings := [sample_booking HELD]\<rparr>)"
  have "\<not> isl (fst ?f)" by code_simp
  then obtain first d' where r: "?f = (Inr first, d')"
    by (metis isl_def old.sum.exhaust prod.collapse)
  from find_user_bookings_complete [OF _ r] r show ?thesis by auto
qed

text \<open>
  Cancelling is decided by the version the caller saw: when it succeeds, the booking was
  the caller's, had that version and now is cancelled with the next one, so a second
  cancellation with the same version by anyone fails with a state conflict and changes
  nothing; all other bookings are untouched.
\<close>

theorem cancel_user_booking_once:
  assumes "cancel_user_booking now u j v d = (Inr result, d')"
  shows "(\<exists>b \<in> set (bookings d). cancellable now u j v b
       \<and> row_by bk_id (bookings d') j = Some (b\<lparr>bk_status := CANCELLED, bk_cancelled_at := Some now,
            bk_version := v + 1\<rparr>))
    \<and> filter (\<lambda>b. bk_id b \<noteq> j) (bookings d') = filter (\<lambda>b. bk_id b \<noteq> j) (bookings d)
    \<and> cancel_user_booking now' u' j v d' = (Inl BookingStateConflictError, d')"
proof -
  let ?f = "\<lambda>b. b\<lparr>bk_status := CANCELLED, bk_cancelled_at := Some now, bk_version := bk_version b + 1\<rparr>"
  let ?w = "cancellable now u j v"
  from assms have one: "rowcount_where ?w (bookings d) = 1" and ok: "db_ok d'"
    and d': "d' = d\<lparr>bookings := update_where ?w ?f (bookings d)\<rparr>"
    by (auto simp: cancel_user_booking_def Let_def split: if_splits)
  from one have "filter ?w (bookings d) \<noteq> []" by (auto simp: rowcount_where_def)
  then obtain b where b: "b \<in> set (bookings d)" "?w b" by (auto simp: filter_empty_conv)
  then have id: "bk_id b = j" "bk_version b = v" by (auto simp: cancellable_def)
  from ok have keys: "distinct (map bk_id (bookings d'))" by (simp add: db_ok_parts bookings_constraints_def)
  have mem: "?f b \<in> set (bookings d')" using b by (auto simp: d' set_update_where)
  with keys id have "row_by bk_id (bookings d') j = Some (?f b)"
    using row_by_in [OF keys mem] by simp
  moreover have "filter (\<lambda>b. bk_id b \<noteq> j) (update_where ?w ?f bs) = filter (\<lambda>b. bk_id b \<noteq> j) bs" for bs
    by (induction bs) (auto simp: update_where_def cancellable_def)
  moreover have "\<not> cancellable now' u' j v x" if "x \<in> set (bookings d')" for x
  proof (cases "bk_id x = j")
    case True
    with distinct_map_unique [OF keys that mem] id have "x = ?f b" by simp
    then show ?thesis by (simp add: cancellable_def CANCELLABLE_BOOKING_STATUSES_def)
  qed (simp add: cancellable_def)
  then have "filter (cancellable now' u' j v) (bookings d') = []" by (simp add: filter_empty_conv)
  then have "cancel_user_booking now' u' j v d' = (Inl BookingStateConflictError, d')"
    by (simp add: cancel_user_booking_def rowcount_where_def raising_def)
  ultimately show ?thesis using b id by (auto simp: d')
qed

theorem cancel_user_booking_once_witness:
  "\<exists>r d'. cancel_user_booking 5 1 100 1 (sample_db\<lparr>bookings := [sample_booking HELD]\<rparr>) = (Inr r, d')
     \<and> cancel_user_booking 6 1 100 1 d' = (Inl BookingStateConflictError, d')"
proof -
  let ?c = "cancel_user_booking 5 1 100 1 (sample_db\<lparr>bookings := [sample_booking HELD]\<rparr>)"
  have "\<not> isl (fst ?c)" by code_simp
  then obtain r d' where r: "?c = (Inr r, d')"
    by (metis isl_def old.sum.exhaust prod.collapse)
  with cancel_user_booking_once [OF r, of 6 1] show ?thesis by blast
qed

end
