(* ===== verification/Razorpay.thy ===== *)
theory Razorpay
  imports Bookings
begin

text \<open>
  The boundary to the payment provider: signature checks (\<open>payments/signatures.py\<close>) and
  the three provider calls with the validation of their answers (\<open>payments/razorpay.py\<close>).
  HMAC-SHA256, SHA-256 and the JSON reader are parameters, collected in a record; a
  provider answer is a parameter of each call: a JSON document, or None when the request,
  the status code or the body made \<open>httpx\<close> or the JSON reader raise.
\<close>

subsection \<open>Signatures\<close>

record primitives =
  hmac_sha256_hexdigest :: "string \<Rightarrow> string \<Rightarrow> string"
  sha256_hexdigest :: "string \<Rightarrow> string"
  json_loads :: "string \<Rightarrow> json option"

text \<open>The documented behaviour of a hexadecimal digest: it is ASCII text.\<close>

definition hexdigests_ascii :: "primitives \<Rightarrow> bool" where
  "hexdigests_ascii prims \<longleftrightarrow> (\<forall>k m. is_ascii (hmac_sha256_hexdigest prims k m))"

definition verify_hmac :: "primitives \<Rightarrow> string \<Rightarrow> string \<Rightarrow> string \<Rightarrow> bool" where
  "verify_hmac prims message supplied_signature secret =
     (case compare_digest (hmac_sha256_hexdigest prims secret message) supplied_signature of
        Inl _ \<Rightarrow> False
      | Inr b \<Rightarrow> b)"

definition verify_checkout_signature ::
    "primitives \<Rightarrow> string \<Rightarrow> string \<Rightarrow> string \<Rightarrow> string \<Rightarrow> bool" where
  "verify_checkout_signature prims order_id payment_id supplied_signature key_secret =
     verify_hmac prims (order_id @ ''|'' @ payment_id) supplied_signature key_secret"

definition verify_webhook_signature :: "primitives \<Rightarrow> string \<Rightarrow> string \<Rightarrow> string \<Rightarrow> bool" where
  "verify_webhook_signature prims raw_body supplied_signature webhook_secret =
     verify_hmac prims raw_body supplied_signature webhook_secret"

definition sha256_hex :: "primitives \<Rightarrow> string \<Rightarrow> string" where
  "sha256_hex prims value = sha256_hexdigest prims value"

lemma verify_hmac_iff:
  "verify_hmac prims m s k \<longleftrightarrow>
     is_ascii (hmac_sha256_hexdigest prims k m) \<and> s = hmac_sha256_hexdigest prims k m"
  by (auto simp: verify_hmac_def compare_digest_def)

lemma verify_hmac_unforged: "verify_hmac prims m s k \<Longrightarrow> s = hmac_sha256_hexdigest prims k m"
  by (simp add: verify_hmac_iff)

subsection \<open>Provider calls\<close>

record provider_request =
  rq_method :: string
  rq_url :: string
  rq_auth :: "string \<times> string"
  rq_json :: "json option"

type_synonym provider = "provider_request \<Rightarrow> json option"

definition RAZORPAY_ORDERS_URL :: string where
  "RAZORPAY_ORDERS_URL = ''https://api.razorpay.com/v1/orders''"

definition RAZORPAY_PAYMENTS_URL :: string where
  "RAZORPAY_PAYMENTS_URL = ''https://api.razorpay.com/v1/payments''"

text \<open>
  The amount and the status keep the JSON value of the answer: Python's \<open>==\<close> accepts the
  float 5000.0 for the integer 5000.
\<close>

record RazorpayOrder =
  ro_id :: string
  ro_amount_subunits :: json
  ro_currency :: string
  ro_status :: string

record RazorpayRefund =
  rr_id :: string
  rr_payment_id :: string
  rr_amount_subunits :: json
  rr_currency :: string
  rr_status :: string

definition valid_order_payload :: "json \<Rightarrow> int \<Rightarrow> string \<Rightarrow> bool" where
  "valid_order_payload payload expected_amount_subunits expected_currency \<longleftrightarrow>
     is_dict payload \<and> is_str (json_get payload ''id'')
     \<and> startswith (str_of (json_get payload ''id'')) ''order_''
     \<and> json_eq_int (json_get payload ''amount'') expected_amount_subunits
     \<and> json_eq_str (json_get payload ''currency'') expected_currency
     \<and> json_eq_str (json_get payload ''status'') ''created''"

text \<open>
  \<open>status in {..}\<close> hashes the status first: a list or an object is unhashable and raises
  TypeError, which the callers do not turn into their provider error.
\<close>

fun hashable :: "json \<Rightarrow> bool" where
  "hashable (JList _) = False"
| "hashable (JObj _) = False"
| "hashable _ = True"

definition REFUND_STATUSES :: "string list" where
  "REFUND_STATUSES = [''pending'', ''processed'', ''failed'']"

definition valid_refund_payload :: "json \<Rightarrow> string \<Rightarrow> int \<Rightarrow> string \<Rightarrow> exn + bool" where
  "valid_refund_payload payload expected_payment_id expected_amount_subunits expected_currency =
     (if is_dict payload \<and> is_str (json_get payload ''id'')
         \<and> startswith (str_of (json_get payload ''id'')) ''rfnd_''
         \<and> json_eq_str (json_get payload ''payment_id'') expected_payment_id
         \<and> json_eq_int (json_get payload ''amount'') expected_amount_subunits
         \<and> json_eq_str (json_get payload ''currency'') expected_currency
      then if hashable (json_get payload ''status'')
        then Inr (list_ex (\<lambda>s. json_eq_str (json_get payload ''status'') s) REFUND_STATUSES)
        else Inl TypeError
      else Inr False)"

definition razorpay_refund_of :: "json \<Rightarrow> RazorpayRefund" where
  "razorpay_refund_of payload = \<lparr>
     rr_id = str_of (json_get payload ''id''),
     rr_payment_id = str_of (json_get payload ''payment_id''),
     rr_amount_subunits = json_get payload ''amount'',
     rr_currency = str_of (json_get payload ''currency''),
     rr_status = str_of (json_get payload ''status'')\<rparr>"

definition notes_json :: "(string \<times> string) list \<Rightarrow> json" where
  "notes_json notes = JObj (map (\<lambda>(k, v). (k, JStr v)) notes)"

definition create_razorpay_order ::
    "provider \<Rightarrow> string \<Rightarrow> string \<Rightarrow> int \<Rightarrow> string \<Rightarrow> string \<Rightarrow> (string \<times> string) list
     \<Rightarrow> exn + RazorpayOrder" where
  "create_razorpay_order http key_id key_secret amount_subunits currency receipt notes =
     (case http \<lparr>rq_method = ''POST'', rq_url = RAZORPAY_ORDERS_URL,
            rq_auth = (key_id, key_secret),
            rq_json = Some (JObj [(''amount'', JInt amount_subunits), (''currency'', JStr currency),
              (''receipt'', JStr receipt), (''notes'', notes_json notes)])\<rparr> of
        None \<Rightarrow> Inl RazorpayOrderError
      | Some payload \<Rightarrow>
          if \<not> valid_order_payload payload amount_subunits currency then Inl RazorpayOrderError
          else Inr \<lparr>ro_id = str_of (json_get payload ''id''),
                    ro_amount_subunits = json_get payload ''amount'',
                    ro_currency = str_of (json_get payload ''currency''),
                    ro_status = str_of (json_get payload ''status'')\<rparr>)"

definition create_razorpay_refund ::
    "provider \<Rightarrow> string \<Rightarrow> string \<Rightarrow> string \<Rightarrow> int \<Rightarrow> string \<Rightarrow> string \<Rightarrow> (string \<times> string) list
     \<Rightarrow> exn + RazorpayRefund" where
  "create_razorpay_refund http key_id key_secret payment_id amount_subunits currency receipt notes =
     (case http \<lparr>rq_method = ''POST'',
            rq_url = RAZORPAY_PAYMENTS_URL @ ''/'' @ payment_id @ ''/refund'',
            rq_auth = (key_id, key_secret),
            rq_json = Some (JObj [(''amount'', JInt amount_subunits), (''speed'', JStr ''normal''),
              (''receipt'', JStr receipt), (''notes'', notes_json notes)])\<rparr> of
        None \<Rightarrow> Inl RazorpayRefundError
      | Some payload \<Rightarrow>
          (case valid_refund_payload payload payment_id amount_subunits currency of
             Inl e \<Rightarrow> Inl e
           | Inr valid \<Rightarrow>
               if \<not> valid then Inl RazorpayRefundError else Inr (razorpay_refund_of payload)))"

definition fetch_razorpay_refund ::
    "provider \<Rightarrow> string \<Rightarrow> string \<Rightarrow> string \<Rightarrow> string \<Rightarrow> int \<Rightarrow> string \<Rightarrow> exn + RazorpayRefund" where
  "fetch_razorpay_refund http key_id key_secret refund_id payment_id amount_subunits currency =
     (case http \<lparr>rq_method = ''GET'',
            rq_url = ''https://api.razorpay.com/v1/refunds/'' @ refund_id,
            rq_auth = (key_id, key_secret), rq_json = None\<rparr> of
        None \<Rightarrow> Inl RazorpayRefundError
      | Some payload \<Rightarrow>
          (case valid_refund_payload payload payment_id amount_subunits currency of
             Inl e \<Rightarrow> Inl e
           | Inr valid \<Rightarrow>
               if \<not> valid \<or> \<not> json_eq_str (json_get payload ''id'') refund_id
               then Inl RazorpayRefundError else Inr (razorpay_refund_of payload)))"

subsection \<open>What an accepted answer says\<close>

text \<open>
  The services use the answers of the two refund calls alike: each is one row of a table
  of calls that share this contract.
\<close>

definition trusted_refund :: "RazorpayRefund \<Rightarrow> string \<Rightarrow> int \<Rightarrow> string \<Rightarrow> bool" where
  "trusted_refund r payment_id amount_subunits currency \<longleftrightarrow>
     startswith (rr_id r) ''rfnd_'' \<and> rr_payment_id r = payment_id
     \<and> json_eq_int (rr_amount_subunits r) amount_subunits
     \<and> rr_currency r = currency \<and> rr_status r \<in> set REFUND_STATUSES"

lemma valid_refund_trusted:
  assumes "valid_refund_payload payload p a c = Inr True"
  shows "trusted_refund (razorpay_refund_of payload) p a c"
  using assms
  by (auto simp: valid_refund_payload_def trusted_refund_def razorpay_refund_of_def list_ex_iff
      split: if_splits)

lemma valid_refund_error: "valid_refund_payload payload p a c = Inl e \<Longrightarrow> e = TypeError"
  by (auto simp: valid_refund_payload_def split: if_splits)

locale refund_call =
  fixes call :: "provider \<Rightarrow> string \<Rightarrow> int \<Rightarrow> string \<Rightarrow> exn + RazorpayRefund"
  assumes accepted: "call http p a c = Inr r \<Longrightarrow> trusted_refund r p a c"
    and refused: "call http p a c = Inl e \<Longrightarrow> e \<in> {RazorpayRefundError, TypeError}"
    and unreachable: "(\<And>rq. http rq = None) \<Longrightarrow> call http p a c = Inl RazorpayRefundError"
begin

lemma status_cases:
  assumes "call http p a c = Inr r"
  obtains "rr_status r = ''pending''" | "rr_status r = ''processed''" | "rr_status r = ''failed''"
  using accepted [OF assms] by (auto simp: trusted_refund_def REFUND_STATUSES_def)

lemma amount_exact:
  "call http p a c = Inr r \<Longrightarrow> rr_amount_subunits r = JInt n \<Longrightarrow> n = a"
  by (drule accepted) (simp add: trusted_refund_def)

end

interpretation create_refund: refund_call
    "\<lambda>http p a c. create_razorpay_refund http key_id key_secret p a c receipt nts"
    for key_id key_secret receipt nts
proof unfold_locales
  fix http p a c r
  assume "create_razorpay_refund http key_id key_secret p a c receipt nts = Inr r"
  then show "trusted_refund r p a c"
    by (auto simp: create_razorpay_refund_def valid_refund_trusted split: option.splits sum.splits if_splits)
next
  fix http p a c e
  assume "create_razorpay_refund http key_id key_secret p a c receipt nts = Inl e"
  then show "e \<in> {RazorpayRefundError, TypeError}"
    by (auto simp: create_razorpay_refund_def dest: valid_refund_error
        split: option.splits sum.splits if_splits)
qed (simp add: create_razorpay_refund_def)

interpretation fetch_refund: refund_call
    "\<lambda>http p a c. fetch_razorpay_refund http key_id key_secret refund_id p a c"
    for key_id key_secret refund_id
proof unfold_locales
  fix http p a c r
  assume "fetch_razorpay_refund http key_id key_secret refund_id p a c = Inr r"
  then show "trusted_refund r p a c"
    by (auto simp: fetch_razorpay_refund_def valid_refund_trusted split: option.splits sum.splits if_splits)
next
  fix http p a c e
  assume "fetch_razorpay_refund http key_id key_secret refund_id p a c = Inl e"
  then show "e \<in> {RazorpayRefundError, TypeError}"
    by (auto simp: fetch_razorpay_refund_def dest: valid_refund_error
        split: option.splits sum.splits if_splits)
qed (simp add: fetch_razorpay_refund_def)

lemma fetch_razorpay_refund_id:
  "fetch_razorpay_refund http k s i p a c = Inr r \<Longrightarrow> rr_id r = i"
  by (auto simp: fetch_razorpay_refund_def razorpay_refund_of_def
      split: option.splits sum.splits if_splits)

text \<open>
  An order that the provider call returns is the order asked for: whatever the provider
  answers, a returned order has an identifier in the order namespace, the requested amount
  and currency and the status created; every other answer is the provider error.
\<close>

theorem create_razorpay_order_validates:
  "case create_razorpay_order http key_id key_secret amount currency receipt notes of
     Inr order \<Rightarrow> startswith (ro_id order) ''order_''
        \<and> json_eq_int (ro_amount_subunits order) amount
        \<and> ro_currency order = currency \<and> ro_status order = ''created''
   | Inl e \<Rightarrow> e = RazorpayOrderError"
  by (auto simp: create_razorpay_order_def valid_order_payload_def split: option.split)

text \<open>
  A refund answer whose status is a JSON list or object escapes the validation: the
  membership test hashes it and raises TypeError, so the provider call ends neither in a
  refund nor in its own error class, whenever the other fields match the request.
\<close>

theorem refund_status_unhashable:
  assumes "\<not> hashable (json_get payload ''status'')"
    and "is_dict payload" "json_get payload ''id'' = JStr (''rfnd_'' @ suffix)"
    and "json_get payload ''payment_id'' = JStr payment_id"
    and "json_get payload ''amount'' = JInt amount" "json_get payload ''currency'' = JStr currency"
  shows "create_razorpay_refund (\<lambda>_. Some payload) key_id key_secret payment_id amount currency
     receipt notes = Inl TypeError"
  using assms
  by (simp add: create_razorpay_refund_def valid_refund_payload_def startswith_def)

theorem refund_status_unhashable_witness:
  "create_razorpay_refund (\<lambda>_. Some (JObj [(''id'', JStr ''rfnd_1''), (''payment_id'', JStr ''pay_1''),
       (''amount'', JInt 5000), (''currency'', JStr ''INR''), (''status'', JList [])]))
     ''key'' ''secret'' ''pay_1'' 5000 ''INR'' ''cmr_1'' [] = Inl TypeError"
  by (rule refund_status_unhashable [where suffix = "''1''"]) simp_all

end
