(* ===== verification/Payments.thy ===== *)
theory Payments
  imports Razorpay
begin

text \<open>
  Payment attempts (\<open>payments/schemas.py\<close>, \<open>payments/service.py\<close>): the idempotent checkout
  in three transactions around a provider call made without locks, its compensation, and
  the authentication of the fields a checkout widget returns. What other transactions do
  while the provider call runs is the parameter \<open>others\<close>.
\<close>

subsection \<open>Requests and results\<close>

record CreatePaymentOrderRequest =
  cr_booking_id :: uuid
  cr_booking_version :: int
  cr_idempotency_key :: uuid

record VerifyCheckoutPaymentRequest =
  vr_razorpay_order_id :: string
  vr_razorpay_payment_id :: string
  vr_razorpay_signature :: string

definition CreatePaymentOrderRequest_valid :: "CreatePaymentOrderRequest \<Rightarrow> bool" where
  "CreatePaymentOrderRequest_valid r \<longleftrightarrow> 1 \<le> cr_booking_version r"

definition VerifyCheckoutPaymentRequest_valid :: "VerifyCheckoutPaymentRequest \<Rightarrow> bool" where
  "VerifyCheckoutPaymentRequest_valid r \<longleftrightarrow>
     1 \<le> pylen (vr_razorpay_order_id r) \<and> pylen (vr_razorpay_order_id r) \<le> 100
     \<and> 1 \<le> pylen (vr_razorpay_payment_id r) \<and> pylen (vr_razorpay_payment_id r) \<le> 100
     \<and> pylen (vr_razorpay_signature r) = 64"

record CheckoutOrder =
  co_payment :: payment
  co_booking :: "booking option"
  co_public_key_id :: string

record PaymentAttemptSnapshot =
  pa_payment_id :: uuid
  pa_booking_id :: uuid
  pa_amount_subunits :: int
  pa_currency :: string

subsection \<open>The service\<close>

definition CURRENCY_SUBUNITS :: int where
  "CURRENCY_SUBUNITS = 100"

definition to_currency_subunits :: "decimal \<Rightarrow> exn + int" where
  "to_currency_subunits amount =
     (let subunits = amount * of_int CURRENCY_SUBUNITS
      in if subunits \<noteq> to_integral_value subunits then Inl PaymentStateConflictError
         else Inr \<lfloor>subunits\<rfloor>)"

fun booking_can_enter_payment :: "booking option \<Rightarrow> int \<Rightarrow> instant \<Rightarrow> bool" where
  "booking_can_enter_payment None expected_version now = False"
| "booking_can_enter_payment (Some b) expected_version now =
     (bk_status b = HELD \<and> bk_version b = expected_version
      \<and> timestamp_is_after (map_option stored (bk_hold_expires_at b)) now
      \<and> (case bk_total_amount b of None \<Rightarrow> False | Some amount \<Rightarrow> amount > 0))"

text \<open>\<open>if not key_id or not key_secret\<close>: both credentials, when both are configured.\<close>

definition credentials :: "config \<Rightarrow> (string \<times> string) option" where
  "credentials cfg =
     (if truthy (RAZORPAY_KEY_ID cfg) \<and> truthy (RAZORPAY_KEY_SECRET cfg)
      then Some (the (RAZORPAY_KEY_ID cfg), the (RAZORPAY_KEY_SECRET cfg)) else None)"

definition initiated_payment :: "instant \<Rightarrow> uuid \<Rightarrow> user \<Rightarrow> uuid \<Rightarrow> booking \<Rightarrow> int \<Rightarrow> payment" where
  "initiated_payment now new_id usr idempotency_key b amount_subunits = \<lparr>
     pay_id = new_id, pay_booking_id = bk_id b, pay_user_id = usr_id usr,
     pay_provider = RAZORPAY, pay_status = INITIATED,
     pay_amount = the (bk_total_amount b), pay_amount_subunits = amount_subunits,
     pay_currency = bk_currency b, pay_idempotency_key = idempotency_key,
     pay_provider_order_id = None, pay_provider_payment_id = None,
     pay_last_error_code = None, pay_created_at = now\<rparr>"

definition begin_payment_attempt ::
    "instant \<Rightarrow> uuid \<Rightarrow> user \<Rightarrow> CreatePaymentOrderRequest \<Rightarrow> database
     \<Rightarrow> PaymentAttemptSnapshot outcome" where
  "begin_payment_attempt now new_id usr payload d =
     (let found = select_scalar (\<lambda>b. bk_id b = cr_booking_id payload \<and> bk_user_id b = usr_id usr)
                    (bookings d)
      in if \<not> booking_can_enter_payment found (cr_booking_version payload) now
         then raising PaymentStateConflictError d
         else let b = the found
           in case to_currency_subunits (the (bk_total_amount b)) of
                Inl e \<Rightarrow> raising e d
              | Inr amount_subunits \<Rightarrow>
                  let p = initiated_payment now new_id usr (cr_idempotency_key payload) b
                            amount_subunits;
                      b' = b\<lparr>bk_status := PAYMENT_PENDING, bk_version := bk_version b + 1\<rparr>
                  in on_integrity_error PaymentStateConflictError
                       (commit \<lparr>pa_payment_id = new_id, pa_booking_id = bk_id b,
                                pa_amount_subunits = amount_subunits, pa_currency = bk_currency b\<rparr>
                          (d\<lparr>bookings := store_row bk_id b' (bookings d),
                             payments := insert_row p (payments d)\<rparr>) d))"

definition failed_attempt :: "payment \<Rightarrow> RazorpayOrder \<Rightarrow> payment" where
  "failed_attempt p provider_order = p\<lparr>pay_provider_order_id := Some (ro_id provider_order),
     pay_status := FAILED, pay_last_error_code := Some ''booking_state_changed''\<rparr>"

definition ordered_attempt :: "payment \<Rightarrow> RazorpayOrder \<Rightarrow> payment" where
  "ordered_attempt p provider_order = p\<lparr>pay_provider_order_id := Some (ro_id provider_order),
     pay_status := ORDER_CREATED\<rparr>"

definition store_payment :: "payment \<Rightarrow> database \<Rightarrow> database" where
  "store_payment p d = d\<lparr>payments := store_row pay_id p (payments d)\<rparr>"

definition store_booking :: "booking \<Rightarrow> database \<Rightarrow> database" where
  "store_booking b d = d\<lparr>bookings := store_row bk_id b (bookings d)\<rparr>"

definition finalize_provider_order ::
    "uuid \<Rightarrow> uuid \<Rightarrow> RazorpayOrder \<Rightarrow> database \<Rightarrow> (payment \<times> booking) outcome" where
  "finalize_provider_order payment_id booking_id provider_order d =
     (case (row_by pay_id (payments d) payment_id, row_by bk_id (bookings d) booking_id) of
        (Some p, Some b) \<Rightarrow>
          if pay_status p \<noteq> INITIATED \<or> bk_status b \<noteq> PAYMENT_PENDING
          then (case commit () (store_payment (failed_attempt p provider_order) d) d of
                  (Inl e, d') \<Rightarrow> (Inl e, d')
                | (Inr _, d') \<Rightarrow> (Inl PaymentStateConflictError, d'))
          else commit (ordered_attempt p provider_order, b)
                 (store_payment (ordered_attempt p provider_order) d) d
      | _ \<Rightarrow> raising AttributeError d)"

definition released_booking :: "instant \<Rightarrow> booking \<Rightarrow> booking" where
  "released_booking now b = b\<lparr>
     bk_status := (if timestamp_is_after (map_option stored (bk_hold_expires_at b)) now
                   then HELD else EXPIRED),
     bk_version := bk_version b + 1\<rparr>"

definition compensate_provider_failure ::
    "instant \<Rightarrow> uuid \<Rightarrow> uuid \<Rightarrow> database \<Rightarrow> unit outcome" where
  "compensate_provider_failure now payment_id booking_id d =
     (case (row_by pay_id (payments d) payment_id, row_by bk_id (bookings d) booking_id) of
        (Some p, Some b) \<Rightarrow>
          let p' = (if pay_status p = INITIATED
                    then p\<lparr>pay_status := FAILED, pay_last_error_code := Some ''provider_order_failed''\<rparr>
                    else p);
              b' = (if bk_status b = PAYMENT_PENDING then released_booking now b else b)
          in commit () (store_booking b' (store_payment p' d)) d
      | _ \<Rightarrow> raising AttributeError d)"

definition existing_checkout ::
    "payment \<Rightarrow> uuid \<Rightarrow> uuid \<Rightarrow> string \<Rightarrow> database \<Rightarrow> CheckoutOrder outcome" where
  "existing_checkout p user_id booking_id key_id d =
     (if pay_user_id p \<noteq> user_id \<or> pay_booking_id p \<noteq> booking_id \<or> pay_status p \<noteq> ORDER_CREATED
      then (Inl PaymentStateConflictError, d)
      else (Inr \<lparr>co_payment = p, co_booking = row_by bk_id (bookings d) booking_id,
                 co_public_key_id = key_id\<rparr>, d))"

text \<open>
  The two clocks are those of the attempt and of a compensation. The provider call and the
  transactions of \<open>others\<close> happen between the first and the second transaction.
\<close>

definition order_call :: "provider \<Rightarrow> string \<times> string \<Rightarrow> PaymentAttemptSnapshot \<Rightarrow> exn + RazorpayOrder" where
  "order_call http creds attempt =
     create_razorpay_order http (fst creds) (snd creds) (pa_amount_subunits attempt)
       (pa_currency attempt) (''cm_'' @ uuid_str (pa_payment_id attempt))
       [(''payment_id'', uuid_str (pa_payment_id attempt)),
        (''booking_id'', uuid_str (pa_booking_id attempt))]"

definition conclude_order ::
    "instant \<Rightarrow> string \<Rightarrow> PaymentAttemptSnapshot \<Rightarrow> exn + RazorpayOrder \<Rightarrow> database
     \<Rightarrow> CheckoutOrder outcome" where
  "conclude_order now key_id attempt answer d =
     (case answer of
        Inl RazorpayOrderError \<Rightarrow>
          (case compensate_provider_failure now (pa_payment_id attempt) (pa_booking_id attempt) d of
             (Inl e, d') \<Rightarrow> (Inl e, d')
           | (Inr _, d') \<Rightarrow> (Inl PaymentProviderError, d'))
      | Inl e \<Rightarrow> (Inl e, d)
      | Inr provider_order \<Rightarrow>
          (case finalize_provider_order (pa_payment_id attempt) (pa_booking_id attempt)
                  provider_order d of
             (Inl e, d') \<Rightarrow> (Inl e, d')
           | (Inr (p, b), d') \<Rightarrow>
               (Inr \<lparr>co_payment = p, co_booking = Some b, co_public_key_id = key_id\<rparr>, d')))"

definition create_payment_order ::
    "config \<Rightarrow> provider \<Rightarrow> (database \<Rightarrow> database) \<Rightarrow> instant \<Rightarrow> instant \<Rightarrow> uuid \<Rightarrow> user
     \<Rightarrow> CreatePaymentOrderRequest \<Rightarrow> database \<Rightarrow> CheckoutOrder outcome" where
  "create_payment_order cfg http others now later new_id usr payload d =
     (case credentials cfg of
        None \<Rightarrow> (Inl PaymentConfigurationError, d)
      | Some creds \<Rightarrow>
          (case select_scalar (\<lambda>p. pay_idempotency_key p = cr_idempotency_key payload) (payments d) of
             Some existing \<Rightarrow>
               existing_checkout existing (usr_id usr) (cr_booking_id payload) (fst creds) d
           | None \<Rightarrow>
               (case begin_payment_attempt now new_id usr payload d of
                  (Inl e, d') \<Rightarrow> (Inl e, d')
                | (Inr attempt, d') \<Rightarrow>
                    conclude_order later (fst creds) attempt (order_call http creds attempt)
                      (others d'))))"

definition verify_checkout_payment ::
    "primitives \<Rightarrow> config \<Rightarrow> user \<Rightarrow> VerifyCheckoutPaymentRequest \<Rightarrow> database \<Rightarrow> payment outcome" where
  "verify_checkout_payment prims cfg usr payload d =
     (if \<not> truthy (RAZORPAY_KEY_SECRET cfg) then (Inl PaymentConfigurationError, d)
      else case select_scalar (\<lambda>p. pay_provider_order_id p = Some (vr_razorpay_order_id payload)
                  \<and> pay_user_id p = usr_id usr) (payments d) of
        None \<Rightarrow> raising PaymentVerificationError d
      | Some p \<Rightarrow>
          if \<not> verify_checkout_signature prims (the (pay_provider_order_id p))
                 (vr_razorpay_payment_id payload) (vr_razorpay_signature payload)
                 (the (RAZORPAY_KEY_SECRET cfg))
          then raising PaymentVerificationError d
          else if pay_provider_payment_id p \<noteq> None
                  \<and> pay_provider_payment_id p \<noteq> Some (vr_razorpay_payment_id payload)
          then raising PaymentVerificationError d
          else if pay_provider_payment_id p \<noteq> None \<and> pay_status p \<in> {AUTHORIZED, CAPTURED}
          then (Inr p, d)
          else if pay_status p \<noteq> ORDER_CREATED then raising PaymentVerificationError d
          else let p' = p\<lparr>pay_provider_payment_id := Some (vr_razorpay_payment_id payload),
                          pay_status := AUTHORIZED\<rparr>
            in on_integrity_error PaymentVerificationError (commit p' (store_payment p' d) d))"

subsection \<open>Every transaction is a safe step\<close>

lemma safe_commit_payments:
  assumes "\<lbrakk>db_ok d; coherent d; keys_ok d; db_ok d'\<rbrakk> \<Longrightarrow>
      table_evolves plain_payment_move (added_payment (set (bookings d))) (payments d) (payments d')
      \<and> table_evolves (quiet_move (set (payments d'))) new_booking (bookings d) (bookings d')"
    and frame: "refunds d' = refunds d" "charging_sessions d' = charging_sessions d"
  shows "safe_step d (snd (commit x d' d))"
proof (rule safe_commit)
  assume hyps: "db_ok d" "coherent d" "keys_ok d" "db_ok d'"
  from assms(1) [OF hyps]
  have ps: "table_evolves plain_payment_move (added_payment (set (bookings d))) (payments d) (payments d')"
    and bs: "table_evolves (quiet_move (set (payments d'))) new_booking (bookings d) (bookings d')"
    by auto
  have "coherent (d\<lparr>payments := payments d'\<rparr>)"
    using hyps(2) ps by (rule coherent_payments)
  from coherent_quiet [OF this, of "bookings d'"] bs
  have "coherent (d\<lparr>payments := payments d', bookings := bookings d'\<rparr>)" by simp
  then have "coherent d'" using frame by (simp add: coherent_def)
  moreover have "core_evolves d d'"
    using plain_evolves_payment [OF ps] quiet_evolves_booking [OF bs] frame
    by (simp add: core_evolves_def core_refl)
  ultimately show "coherent d' \<and> core_evolves d d'" by simp
qed

lemma store_frame [simp]:
  "payments (store_booking b d) = payments d" "bookings (store_payment p d) = bookings d"
  "refunds (store_booking b d) = refunds d" "refunds (store_payment p d) = refunds d"
  "charging_sessions (store_booking b d) = charging_sessions d"
  "charging_sessions (store_payment p d) = charging_sessions d"
  "bookings (store_booking b d) = store_row bk_id b (bookings d)"
  "payments (store_payment p d) = store_row pay_id p (payments d)"
  by (simp_all add: store_booking_def store_payment_def)

lemma store_payment_plain:
  assumes "keys_ok d" "p \<in> set (payments d)" "plain_payment_move p p'"
  shows "table_evolves plain_payment_move N (payments d) (store_row pay_id p' (payments d))"
  using assms plain_payment_same [OF assms(3)]
  by (intro store_payment_evolves [of d p]) (auto simp: same_payment_def)

lemma store_booking_quiet:
  assumes "keys_ok d" "b \<in> set (bookings d)" "quiet_move P b b'"
  shows "table_evolves (quiet_move P) N (bookings d) (store_row bk_id b' (bookings d))"
proof -
  have "bk_id b' = bk_id b"
    using assms(3) booking_move_same(1) [of b b'] by (simp add: quiet_move_def)
  with assms show ?thesis by (intro store_booking_evolves [of d b]) auto
qed

lemmas quiet_refl = table_evolves_refl [of "quiet_move P" for P, OF quiet_move_refl]
lemmas plain_payment_refl = table_evolves_refl [of plain_payment_move, OF plain_payment_move_refl]

text \<open>Moving a booking to a status that no captured payment needs to back.\<close>

lemma quiet_status:
  assumes "booking_edge (bk_status b) t" "t \<in> {HELD, PAYMENT_PENDING, EXPIRED}"
  shows "quiet_move P b (b\<lparr>bk_status := t, bk_version := bk_version b + 1\<rparr>)"
  unfolding quiet_move_def booking_move_def using assms
  by (intro conjI disjI2 exI [of _ t] exI [of _ "bk_cancelled_at b"])
     (auto simp: booking_paid_def paid_status_def)

lemma released_quiet: "bk_status b = PAYMENT_PENDING \<Longrightarrow> quiet_move P b (released_booking now b)"
  unfolding released_booking_def by (rule quiet_status) auto

lemma to_currency_subunits_Inr:
  "to_currency_subunits a = Inr n \<longleftrightarrow> of_int n = a * 100"
proof -
  have "to_integral_value (a * 100) = a * 100 \<and> n = \<lfloor>a * 100\<rfloor> \<longleftrightarrow> of_int n = a * 100"
    unfolding to_integral_value_eq_iff
  proof
    assume "a * 100 \<in> \<int> \<and> n = \<lfloor>a * 100\<rfloor>"
    then show "of_int n = a * 100" by (auto elim!: Ints_cases)
  next
    assume "of_int n = a * 100"
    then have "a * 100 = of_int n" by simp
    then show "a * 100 \<in> \<int> \<and> n = \<lfloor>a * 100\<rfloor>" by simp
  qed
  then show ?thesis
    by (auto simp: to_currency_subunits_def Let_def CURRENCY_SUBUNITS_def)
qed

lemma initiated_added:
  assumes "b \<in> set (bookings d)" "bk_user_id b = usr_id usr" "bk_total_amount b = Some a"
    and "to_currency_subunits a = Inr n"
  shows "added_payment (set (bookings d)) (initiated_payment now i usr k b n)"
  using assms assms(4) [unfolded to_currency_subunits_Inr]
  by (auto simp: added_payment_def initiated_payment_def payment_coherent_def payment_ids_ok_def)

lemma timestamp_is_after_Some [simp]: "timestamp_is_after (Some (stored t)) now \<longleftrightarrow> now < t"
  by (simp add: timestamp_is_after_def)

lemma snd_case_raise [simp]:
  "snd (case out of (Inl e, d') \<Rightarrow> (Inl e, d') | (Inr x, d') \<Rightarrow> (Inl (f x), d')) = snd out"
  by (auto split: prod.split sum.split)

lemma booking_can_enter_payment_iff:
  "booking_can_enter_payment found v now \<longleftrightarrow>
     (\<exists>b t a. found = Some b \<and> bk_status b = HELD \<and> bk_version b = v
        \<and> bk_hold_expires_at b = Some t \<and> now < t \<and> bk_total_amount b = Some a \<and> a > 0)"
  by (cases found) (auto split: option.splits)

text \<open>What a successful attempt found and what it stored.\<close>

lemma begin_payment_attempt_cases:
  obtains e where "begin_payment_attempt now i usr payload d = (Inl e, d)"
  | b t a n where "b \<in> set (bookings d)" "bk_id b = cr_booking_id payload"
      "bk_user_id b = usr_id usr" "bk_status b = HELD" "bk_version b = cr_booking_version payload"
      "bk_hold_expires_at b = Some t" "now < t" "bk_total_amount b = Some a" "a > 0"
      "to_currency_subunits a = Inr n"
      "begin_payment_attempt now i usr payload d = on_integrity_error PaymentStateConflictError
         (commit \<lparr>pa_payment_id = i, pa_booking_id = bk_id b, pa_amount_subunits = n,
                  pa_currency = bk_currency b\<rparr>
            (d\<lparr>bookings := store_row bk_id (b\<lparr>bk_status := PAYMENT_PENDING,
                   bk_version := bk_version b + 1\<rparr>) (bookings d),
               payments := insert_row (initiated_payment now i usr (cr_idempotency_key payload) b n)
                 (payments d)\<rparr>) d)"
proof -
  let ?found = "select_scalar (\<lambda>b. bk_id b = cr_booking_id payload \<and> bk_user_id b = usr_id usr)
                  (bookings d)"
  show thesis
  proof (cases "booking_can_enter_payment ?found (cr_booking_version payload) now")
    case False
    then show thesis
      by (intro that(1) [of PaymentStateConflictError]) (simp add: begin_payment_attempt_def raising_def)
  next
    case True
    then obtain b t a where b: "?found = Some b" "bk_status b = HELD"
      "bk_version b = cr_booking_version payload" "bk_hold_expires_at b = Some t" "now < t"
      "bk_total_amount b = Some a" "a > 0"
      unfolding booking_can_enter_payment_iff by blast
    note found = select_scalar_Some [OF b(1)]
    show thesis
    proof (cases "to_currency_subunits a")
      case (Inl e)
      with b show thesis
        by (intro that(1) [of e]) (simp add: begin_payment_attempt_def raising_def)
    next
      case (Inr n)
      with b found show thesis
        by (intro that(2) [of b t a n]) (simp_all add: begin_payment_attempt_def Let_def)
    qed
  qed
qed

lemma begin_payment_attempt_safe: "safe_step d (snd (begin_payment_attempt now i usr payload d))"
proof (cases rule: begin_payment_attempt_cases [of now i usr payload d])
  case 1
  then show ?thesis by simp
next
  case (2 b t a n)
  show ?thesis
    unfolding 2(11) snd_on_integrity_error
  proof (rule safe_commit_payments, intro conjI)
    assume k: "keys_ok d"
    from 2 show "table_evolves plain_payment_move (added_payment (set (bookings d))) (payments d)
      (payments (d\<lparr>bookings := store_row bk_id (b\<lparr>bk_status := PAYMENT_PENDING,
           bk_version := bk_version b + 1\<rparr>) (bookings d),
        payments := insert_row (initiated_payment now i usr (cr_idempotency_key payload) b n)
          (payments d)\<rparr>))"
      by (auto intro!: table_evolves_insert_row plain_payment_refl initiated_added)
    from 2(1,4) k show "table_evolves (quiet_move P) new_booking (bookings d)
      (bookings (d\<lparr>bookings := store_row bk_id (b\<lparr>bk_status := PAYMENT_PENDING,
           bk_version := bk_version b + 1\<rparr>) (bookings d),
        payments := insert_row (initiated_payment now i usr (cr_idempotency_key payload) b n)
          (payments d)\<rparr>))" for P
      by (auto intro!: store_booking_quiet quiet_status)
  qed simp_all
qed

text \<open>
  The second transaction relies on its attempt being unfinished: it writes the payment
  failed when it finds the booking changed, whatever the payment's status is.
\<close>

definition attempt_unfinished :: "uuid \<Rightarrow> database \<Rightarrow> bool" where
  "attempt_unfinished i d \<longleftrightarrow>
     (\<forall>p \<in> set (payments d). pay_id p = i \<longrightarrow> pay_status p = INITIATED)"

lemma finished_plain:
  assumes "pay_status p = INITIATED" "payment_ids_ok p"
  shows "plain_payment_move p (failed_attempt p order)" "plain_payment_move p (ordered_attempt p order)"
  using assms
  by (auto simp: plain_payment_move_def payment_move_def same_payment_def payment_ids_ok_def
      failed_attempt_def ordered_attempt_def)

lemma coherent_payment_ids: "coherent d \<Longrightarrow> p \<in> set (payments d) \<Longrightarrow> payment_ids_ok p"
  by (auto simp: coherent_def payment_coherent_def)

lemma safe_store_payment:
  assumes "\<lbrakk>coherent d; keys_ok d\<rbrakk> \<Longrightarrow> \<exists>p \<in> set (payments d). plain_payment_move p p'"
  shows "safe_step d (snd (commit x (store_payment p' d) d))"
proof (rule safe_commit_payments, intro conjI)
  assume co: "coherent d" "keys_ok d"
  with assms show "table_evolves plain_payment_move (added_payment (set (bookings d))) (payments d)
      (payments (store_payment p' d))"
    by (auto intro: store_payment_plain)
qed (simp_all add: quiet_refl)

lemma finalize_provider_order_safe:
  assumes "attempt_unfinished i d"
  shows "safe_step d (snd (finalize_provider_order i j order d))"
proof (cases "(row_by pay_id (payments d) i, row_by bk_id (bookings d) j)")
  case (Pair pp bb)
  show ?thesis
  proof (cases "pp = None \<or> bb = None")
    case True
    with Pair show ?thesis by (auto simp: finalize_provider_order_def split: option.splits)
  next
    case False
    then obtain p b where pb: "pp = Some p" "bb = Some b" by auto
    with Pair have p: "p \<in> set (payments d)" "pay_id p = i"
      by (auto dest: row_by_Some)
    with assms have "pay_status p = INITIATED" by (auto simp: attempt_unfinished_def)
    then have safe: "safe_step d (snd (commit x (store_payment (failed_attempt p order) d) d))"
      "safe_step d (snd (commit y (store_payment (ordered_attempt p order) d) d))"
      for x :: unit and y :: "payment \<times> booking"
      using p by (auto intro!: safe_store_payment bexI [of _ p] finished_plain coherent_payment_ids)
    from Pair pb safe show ?thesis by (simp add: finalize_provider_order_def)
  qed
qed

lemma compensate_provider_failure_safe:
  "safe_step d (snd (compensate_provider_failure now i j d))"
proof (cases "(row_by pay_id (payments d) i, row_by bk_id (bookings d) j)")
  case (Pair pp bb)
  show ?thesis
  proof (cases "pp = None \<or> bb = None")
    case True
    with Pair show ?thesis by (auto simp: compensate_provider_failure_def split: option.splits)
  next
    case False
    then obtain p b where pb: "pp = Some p" "bb = Some b" by auto
    with Pair have p: "p \<in> set (payments d)" and b: "b \<in> set (bookings d)"
      by (auto dest: row_by_Some)
    let ?p' = "if pay_status p = INITIATED
               then p\<lparr>pay_status := FAILED, pay_last_error_code := Some ''provider_order_failed''\<rparr> else p"
    let ?b' = "if bk_status b = PAYMENT_PENDING then released_booking now b else b"
    have mv: "plain_payment_move p ?p'" if "coherent d"
      using coherent_payment_ids [OF that p]
      by (auto simp: plain_payment_move_def payment_move_def same_payment_def payment_ids_ok_def)
    have "safe_step d (snd (commit () (store_booking ?b' (store_payment ?p' d)) d))"
    proof (rule safe_commit_payments, intro conjI)
      assume "coherent d" "keys_ok d"
      then show "table_evolves plain_payment_move (added_payment (set (bookings d))) (payments d)
          (payments (store_booking ?b' (store_payment ?p' d)))"
        using p mv by (auto intro: store_payment_plain)
      from \<open>keys_ok d\<close> b show "table_evolves (quiet_move P) new_booking (bookings d)
          (bookings (store_booking ?b' (store_payment ?p' d)))" for P
        by (auto intro!: store_booking_quiet released_quiet)
    qed simp_all
    with Pair pb show ?thesis by (simp add: compensate_provider_failure_def)
  qed
qed

lemma verify_checkout_payment_safe:
  "safe_step d (snd (verify_checkout_payment prims cfg usr payload d))"
proof -
  have "safe_step d (snd (commit x (store_payment
      (p\<lparr>pay_provider_payment_id := Some j, pay_status := AUTHORIZED\<rparr>) d) d))"
    if "p \<in> set (payments d)" "pay_status p = ORDER_CREATED"
      "pay_provider_payment_id p = None \<or> pay_provider_payment_id p = Some j" for p j and x :: payment
    using that
    by (intro safe_store_payment bexI [of _ p])
       (auto simp: plain_payment_move_def payment_move_def same_payment_def payment_ids_ok_def
         dest: coherent_payment_ids)
  then show ?thesis
    by (auto simp: verify_checkout_payment_def Let_def split: option.splits
        dest!: select_scalar_Some)
qed

subsection \<open>Operations of several transactions\<close>

text \<open>
  A run is a sequence of safe steps: an operation that closes its transaction around a
  provider call owes a run, and so do the transactions that others slip in between.
\<close>

definition safe_run :: "database \<Rightarrow> database \<Rightarrow> bool" where
  "safe_run d d' \<longleftrightarrow>
     (db_ok d \<and> coherent d \<longrightarrow> db_ok d' \<and> coherent d' \<and> core_evolves\<^sup>*\<^sup>* d d')"

lemma safe_run_refl [simp]: "safe_run d d"
  by (simp add: safe_run_def)

lemma safe_step_run: "safe_step d d' \<Longrightarrow> safe_run d d'"
  by (auto simp: safe_step_def safe_run_def)

lemma safe_run_trans: "safe_run d d' \<Longrightarrow> safe_run d' d'' \<Longrightarrow> safe_run d d''"
  by (auto simp: safe_run_def)

lemma same_payment_trans: "same_payment p q \<Longrightarrow> same_payment q r \<Longrightarrow> same_payment p r"
  by (simp add: same_payment_def)

lemma run_payment:
  assumes "core_evolves\<^sup>*\<^sup>* d d'" "row_by pay_id (payments d) k = Some p"
  shows "\<exists>p'. row_by pay_id (payments d') k = Some p' \<and> same_payment p p'"
  using assms
proof (induction rule: rtranclp_induct)
  case base
  then show ?case by (auto simp: same_payment_def)
next
  case (step y z)
  then obtain p1 where p1: "row_by pay_id (payments y) k = Some p1" "same_payment p p1" by auto
  from step.hyps(2) have "table_evolves payment_move new_payment (payments y) (payments z)"
    by (simp add: core_evolves_def)
  from payment_life.evolves_row_by [OF this p1(1)] p1(2) show ?case
    by (auto simp: payment_move_def intro: same_payment_trans)
qed

text \<open>
  What the checkout asks of the transactions that run during the provider call: they are
  safe and leave the unfinished attempt alone.
\<close>

definition spares_attempt :: "uuid \<Rightarrow> (database \<Rightarrow> database) \<Rightarrow> bool" where
  "spares_attempt i others \<longleftrightarrow>
     (\<forall>x. safe_run x (others x) \<and> (attempt_unfinished i x \<longrightarrow> attempt_unfinished i (others x)))"

lemma spares_attempt_id [simp]: "spares_attempt i id"
  by (simp add: spares_attempt_def)

lemma conclude_order_safe:
  assumes "attempt_unfinished (pa_payment_id attempt) d"
  shows "safe_step d (snd (conclude_order now key_id attempt answer d))"
proof -
  have "safe_step d d'" if "finalize_provider_order (pa_payment_id attempt) (pa_booking_id attempt)
      order d = (r, d')" for order r d'
    using finalize_provider_order_safe [OF assms, of "pa_booking_id attempt" order] that by simp
  moreover have "safe_step d d'" if "compensate_provider_failure now (pa_payment_id attempt)
      (pa_booking_id attempt) d = (r, d')" for r d'
    using compensate_provider_failure_safe [of d now "pa_payment_id attempt" "pa_booking_id attempt"]
      that by simp
  ultimately show ?thesis
    unfolding conclude_order_def by (auto split: sum.split prod.split exn.split)
qed

lemma begin_payment_attempt_unfinished:
  assumes "begin_payment_attempt now i usr payload d = (Inr attempt, d')"
  shows "pa_payment_id attempt = i \<and> attempt_unfinished i d' \<and> db_ok d'"
proof (cases rule: begin_payment_attempt_cases [of now i usr payload d])
  case 1
  with assms show ?thesis by simp
next
  case (2 b t a n)
  from assms [unfolded 2(11)] have d': "db_ok d'" "pa_payment_id attempt = i"
    and ps: "payments d' = insert_row (initiated_payment now i usr (cr_idempotency_key payload) b n)
      (payments d)"
    by auto
  from d'(1) have "distinct (map pay_id (payments d'))" by (auto dest: db_ok_keys simp: keys_ok_def)
  then have "i \<notin> pay_id ` set (payments d)"
    unfolding ps by (simp add: initiated_payment_def)
  then have "attempt_unfinished i d'"
    unfolding attempt_unfinished_def ps by (auto simp: initiated_payment_def)
  with d' show ?thesis by simp
qed

lemma create_payment_order_safe:
  assumes "spares_attempt i others"
  shows "safe_run d (snd (create_payment_order cfg http others now later i usr payload d))"
proof -
  have "safe_run d (snd (conclude_order later key attempt answer (others d')))"
    if "begin_payment_attempt now i usr payload d = (Inr attempt, d')" for attempt d' key answer
  proof -
    from that begin_payment_attempt_safe [of d now i usr payload] have "safe_run d d'"
      by (auto intro: safe_step_run)
    moreover from assms have "safe_run d' (others d')" by (simp add: spares_attempt_def)
    moreover from begin_payment_attempt_unfinished [OF that] assms
    have "attempt_unfinished (pa_payment_id attempt) (others d')" by (simp add: spares_attempt_def)
    then have "safe_run (others d') (snd (conclude_order later key attempt answer (others d')))"
      by (intro safe_step_run conclude_order_safe)
    ultimately show ?thesis by (blast intro: safe_run_trans)
  qed
  moreover have "safe_run d d'" if "begin_payment_attempt now i usr payload d = (Inl e, d')" for e d'
    using that begin_payment_attempt_safe [of d now i usr payload] by (auto intro: safe_step_run)
  ultimately show ?thesis
    unfolding create_payment_order_def existing_checkout_def
    by (auto split: option.split prod.split sum.split)
qed

subsection \<open>Checkout properties\<close>

text \<open>Concrete data for the witnesses: a held booking, and a provider that accepts or refuses.\<close>

definition sample_held_db :: database where
  "sample_held_db = sample_db\<lparr>bookings := [sample_booking HELD]\<rparr>"

definition sample_order_request :: CreatePaymentOrderRequest where
  "sample_order_request = \<lparr>cr_booking_id = 100, cr_booking_version = 1, cr_idempotency_key = 300\<rparr>"

definition accepting_provider :: provider where
  "accepting_provider rq = Some (JObj [(''id'', JStr ''order_1''), (''amount'', JInt 5000),
     (''currency'', JStr ''INR''), (''status'', JStr ''created'')])"

definition unreachable_provider :: provider where
  "unreachable_provider rq = None"

definition sample_primitives :: "(string \<times> json) list \<Rightarrow> primitives" where
  "sample_primitives bodies = \<lparr>hmac_sha256_hexdigest = (\<lambda>k m. k @ ''/'' @ m),
     sha256_hexdigest = (\<lambda>m. ''h'' @ m), json_loads = map_of bodies\<rparr>"

lemma sample_held_ok: "db_ok sample_held_db" "coherent sample_held_db"
  by code_simp+

lemma sample_checkout:
  obtains co d' where "create_payment_order sample_config accepting_provider id 0 1 200 sample_driver
    sample_order_request sample_held_db = (Inr co, d')"
proof -
  have "\<not> isl (fst (create_payment_order sample_config accepting_provider id 0 1 200 sample_driver
    sample_order_request sample_held_db))"
    by code_simp
  then show thesis by (metis that isl_def old.sum.exhaust prod.collapse)
qed

lemma distinct_mapI: "distinct (map f xs) \<Longrightarrow> distinct xs"
  by (simp add: distinct_map)

lemma finalize_provider_order_Inr:
  assumes "finalize_provider_order i j order d = (Inr (p, b), d')"
  shows "p \<in> set (payments d') \<and> pay_id p = i \<and> pay_status p = ORDER_CREATED
    \<and> pay_provider_order_id p = Some (ro_id order) \<and> db_ok d' \<and> bookings d' = bookings d
    \<and> row_by bk_id (bookings d) j = Some b \<and> bk_status b = PAYMENT_PENDING
    \<and> (\<exists>p0. row_by pay_id (payments d) i = Some p0 \<and> same_payment p0 p)"
proof -
  from assms obtain p0 where p0: "row_by pay_id (payments d) i = Some p0"
    and b: "row_by bk_id (bookings d) j = Some b" "bk_status b = PAYMENT_PENDING"
    and p: "p = ordered_attempt p0 order" and d': "d' = store_payment p d" "db_ok d'"
    unfolding finalize_provider_order_def
    by (auto split: option.splits if_splits prod.splits sum.splits)
  from row_by_Some [OF p0] have "p \<in> set (payments d')"
    unfolding d' p by (auto simp: set_store_row ordered_attempt_def)
  with p0 b d' row_by_Some [OF p0] show ?thesis
    by (auto simp: p ordered_attempt_def same_payment_def)
qed

text \<open>A successful checkout is either a replay of a stored one or a new finished attempt.\<close>

lemma create_payment_order_Inr:
  assumes "create_payment_order cfg http others now later i usr payload d = (Inr co, d')"
  obtains (replay) creds where "credentials cfg = Some creds" "co_public_key_id co = fst creds"
      "d' = d" "co_payment co \<in> set (payments d)"
      "pay_idempotency_key (co_payment co) = cr_idempotency_key payload"
      "pay_user_id (co_payment co) = usr_id usr"
      "pay_booking_id (co_payment co) = cr_booking_id payload"
      "pay_status (co_payment co) = ORDER_CREATED"
      "co_booking co = row_by bk_id (bookings d) (cr_booking_id payload)"
  | (new) creds attempt d1 order b where "credentials cfg = Some creds"
      "co_public_key_id co = fst creds"
      "begin_payment_attempt now i usr payload d = (Inr attempt, d1)"
      "order_call http creds attempt = Inr order"
      "finalize_provider_order i (pa_booking_id attempt) order (others d1)
         = (Inr (co_payment co, b), d')"
      "co_booking co = Some b"
proof -
  from assms obtain creds where creds: "credentials cfg = Some creds"
    by (auto simp: create_payment_order_def split: option.splits)
  show thesis
  proof (cases "select_scalar (\<lambda>p. pay_idempotency_key p = cr_idempotency_key payload) (payments d)")
    case (Some p)
    with assms creds select_scalar_Some [OF Some] show thesis
      by (intro replay [of creds]) (auto simp: create_payment_order_def existing_checkout_def split: if_splits)
  next
    case None
    with assms creds obtain attempt d1 where
      att: "begin_payment_attempt now i usr payload d = (Inr attempt, d1)"
      and c: "conclude_order later (fst creds) attempt (order_call http creds attempt) (others d1)
        = (Inr co, d')"
      by (auto simp: create_payment_order_def split: prod.splits sum.splits)
    from c obtain order p b where "order_call http creds attempt = Inr order"
      "finalize_provider_order (pa_payment_id attempt) (pa_booking_id attempt) order (others d1)
         = (Inr (p, b), d')"
      "co = \<lparr>co_payment = p, co_booking = Some b, co_public_key_id = fst creds\<rparr>"
      unfolding conclude_order_def by (auto split: sum.splits prod.splits exn.splits)
    with creds att begin_payment_attempt_unfinished [OF att] show thesis
      by (intro new) auto
  qed
qed

lemma begin_payment_attempt_stored:
  assumes "begin_payment_attempt now i usr payload d = (Inr attempt, d')"
  shows "pa_booking_id attempt = cr_booking_id payload
    \<and> (\<exists>p b. row_by pay_id (payments d') i = Some p
        \<and> pay_idempotency_key p = cr_idempotency_key payload
        \<and> pay_user_id p = usr_id usr \<and> pay_booking_id p = cr_booking_id payload
        \<and> pay_amount_subunits p = pa_amount_subunits attempt
        \<and> row_by bk_id (bookings d') (cr_booking_id payload) = Some b
        \<and> bk_status b = PAYMENT_PENDING)"
proof (cases rule: begin_payment_attempt_cases [of now i usr payload d])
  case 1
  with assms show ?thesis by simp
next
  case (2 b t a n)
  let ?p = "initiated_payment now i usr (cr_idempotency_key payload) b n"
  let ?b = "b\<lparr>bk_status := PAYMENT_PENDING, bk_version := bk_version b + 1\<rparr>"
  from assms [unfolded 2(11)] have att: "pa_booking_id attempt = bk_id b"
    "pa_amount_subunits attempt = n" and ok: "db_ok d'"
    and d': "payments d' = insert_row ?p (payments d)" "bookings d' = store_row bk_id ?b (bookings d)"
    by auto
  from ok have "distinct (map pay_id (payments d'))" "distinct (map bk_id (bookings d'))"
    by (auto dest: db_ok_keys simp: keys_ok_def)
  moreover have "?p \<in> set (payments d')" "?b \<in> set (bookings d')"
    using 2(1) unfolding d' by (auto simp: set_store_row)
  ultimately have "row_by pay_id (payments d') (pay_id ?p) = Some ?p"
    "row_by bk_id (bookings d') (bk_id ?b) = Some ?b"
    by (blast intro: row_by_in)+
  with att 2 show ?thesis by (auto simp: initiated_payment_def)
qed

text \<open>
  C14. A checkout charges the fee: whatever the provider answers and whatever safe
  transactions run meanwhile, a returned checkout holds a stored payment with a provider
  order, of the requesting user for the requested booking, whose amount is the booking's
  total and whose subunits are a hundred times that amount.
\<close>

theorem create_payment_order_charges_fee:
  assumes "db_ok d" "coherent d" "spares_attempt i others"
    and "create_payment_order cfg http others now later i usr payload d = (Inr co, d')"
  shows "co_payment co \<in> set (payments d') \<and> pay_status (co_payment co) = ORDER_CREATED
    \<and> pay_provider_order_id (co_payment co) \<noteq> None
    \<and> pay_user_id (co_payment co) = usr_id usr
    \<and> of_int (pay_amount_subunits (co_payment co)) = pay_amount (co_payment co) * 100
    \<and> (\<exists>b \<in> set (bookings d'). bk_id b = cr_booking_id payload \<and> bk_user_id b = usr_id usr
         \<and> bk_total_amount b = Some (pay_amount (co_payment co)))"
proof -
  let ?p = "co_payment co"
  have "safe_run d d'"
    using create_payment_order_safe [OF assms(3), of d cfg http now later usr payload] assms(4)
    by simp
  with assms(1,2) have co': "coherent d'" by (simp add: safe_run_def)
  have "?p \<in> set (payments d') \<and> pay_status ?p = ORDER_CREATED \<and> pay_user_id ?p = usr_id usr
      \<and> pay_booking_id ?p = cr_booking_id payload"
    using assms(4)
  proof (cases rule: create_payment_order_Inr)
    case replay
    then show ?thesis by simp
  next
    case (new creds attempt d1 order b)
    from begin_payment_attempt_safe [of d now i usr payload] new(3) assms(1,2)
    have "db_ok d1" "coherent d1" by (auto simp: safe_step_def)
    with assms(3) have "core_evolves\<^sup>*\<^sup>* d1 (others d1)"
      by (simp add: spares_attempt_def safe_run_def)
    with begin_payment_attempt_stored [OF new(3)] run_payment [of d1 "others d1" i]
      finalize_provider_order_Inr [OF new(5)]
    show ?thesis by (auto simp: same_payment_def)
  qed
  moreover from this co' have "payment_coherent (set (bookings d')) ?p"
    by (auto simp: coherent_def)
  ultimately show ?thesis
    unfolding payment_coherent_def payment_ids_ok_def by auto
qed

theorem create_payment_order_charges_fee_witness:
  "\<exists>co d'. create_payment_order sample_config accepting_provider id 0 1 200 sample_driver
     sample_order_request sample_held_db = (Inr co, d')
     \<and> pay_status (co_payment co) = ORDER_CREATED \<and> pay_user_id (co_payment co) = 1"
proof (rule sample_checkout)
  fix co d'
  assume r: "create_payment_order sample_config accepting_provider id 0 1 200 sample_driver
     sample_order_request sample_held_db = (Inr co, d')"
  from create_payment_order_charges_fee [OF sample_held_ok spares_attempt_id r] r show ?thesis
    by (auto simp: sample_driver_def)
qed



lemma flush_error_cases: "flush_error d = Some e \<Longrightarrow> e = DataError \<or> (\<exists>n. e = IntegrityError n)"
  by (auto simp: flush_error_def split: if_splits)

lemma commit_error:
  "commit x d' d = (Inl e, d'') \<Longrightarrow> e = DataError \<or> (\<exists>n. e = IntegrityError n)"
  by (auto simp: commit_Inl dest: flush_error_cases)

lemma begin_payment_attempt_error:
  assumes "begin_payment_attempt now i usr payload d = (Inl e, d')"
  shows "e \<in> {PaymentStateConflictError, DataError} \<and> d' = d"
proof -
  have "\<exists>e0. on_integrity_error PaymentStateConflictError (commit x d1 d) = (Inl e, d') \<Longrightarrow>
      e \<in> {PaymentStateConflictError, DataError} \<and> d' = d" for x :: PaymentAttemptSnapshot and d1
    by (auto simp: on_integrity_error_def commit_def split: option.splits dest!: flush_error_cases)
  moreover have "to_currency_subunits a = Inl e' \<Longrightarrow> e' = PaymentStateConflictError" for a e'
    by (auto simp: to_currency_subunits_def Let_def split: if_splits)
  ultimately show ?thesis
    using assms by (auto simp: begin_payment_attempt_def Let_def split: if_splits sum.splits)
qed

lemma finalize_provider_order_error:
  "finalize_provider_order i j order d = (Inl e, d') \<Longrightarrow> e \<noteq> PaymentProviderError"
  by (auto simp: finalize_provider_order_def split: option.splits if_splits prod.splits sum.splits
      dest!: commit_error)

lemma create_payment_order_provider_error:
  assumes "create_payment_order cfg http others now later i usr payload d = (Inl PaymentProviderError, d')"
  obtains attempt d1 where "begin_payment_attempt now i usr payload d = (Inr attempt, d1)"
    "compensate_provider_failure later (pa_payment_id attempt) (pa_booking_id attempt) (others d1)
       = (Inr (), d')"
proof -
  from assms obtain creds where creds: "credentials cfg = Some creds"
    "select_scalar (\<lambda>p. pay_idempotency_key p = cr_idempotency_key payload) (payments d) = None"
    by (auto simp: create_payment_order_def existing_checkout_def split: option.splits if_splits)
  with assms obtain attempt d1 where
    att: "begin_payment_attempt now i usr payload d = (Inr attempt, d1)"
    and c: "conclude_order later (fst creds) attempt (order_call http creds attempt) (others d1)
      = (Inl PaymentProviderError, d')"
    by (auto simp: create_payment_order_def split: prod.splits sum.splits
        dest: begin_payment_attempt_error)
  have "order_call http creds attempt = Inl e \<Longrightarrow> e = RazorpayOrderError" for e
    by (auto simp: order_call_def create_razorpay_order_def split: option.splits if_splits)
  moreover have "compensate_provider_failure later x y z \<noteq> (Inl PaymentProviderError, d')" for x y z
    by (auto simp: compensate_provider_failure_def Let_def split: option.splits dest!: commit_error)
  ultimately have "compensate_provider_failure later (pa_payment_id attempt) (pa_booking_id attempt)
      (others d1) = (Inr (), d')"
    using c
    by (auto simp: conclude_order_def split: sum.splits exn.splits prod.splits
        dest: finalize_provider_order_error)
  with att show thesis by (rule that)
qed

lemma store_row_twice: "key r = key r' \<Longrightarrow> store_row key r (store_row key r' rows) = store_row key r rows"
  by (induction rows) (auto simp: store_row_def)

lemma store_row_absent: "key r \<notin> key ` set rows \<Longrightarrow> store_row key r rows = rows"
  by (induction rows) (auto simp: store_row_def)

lemma store_row_inserted:
  "key r = key r' \<Longrightarrow> key r' \<notin> key ` set rows \<Longrightarrow> store_row key r (insert_row r' rows) = rows @ [r]"
  using store_row_absent [of key r rows] by (simp add: store_row_def insert_row_def)



lemma captured_store:
  assumes "distinct (map pay_id ps)" "q \<in> set ps" "pay_id p = pay_id q" "pay_status q \<noteq> CAPTURED"
    "pay_status p \<noteq> CAPTURED"
  shows "filter (\<lambda>q. pay_status q = CAPTURED) (store_row pay_id p ps)
    = filter (\<lambda>q. pay_status q = CAPTURED) ps"
  using assms
proof (induction ps)
  case (Cons x xs)
  show ?case
  proof (cases "x = q")
    case True
    with Cons.prems have "store_row pay_id p xs = xs"
      by (intro store_row_absent) auto
    with True Cons.prems show ?thesis by (simp add: store_row_def)
  next
    case False
    with Cons show ?thesis by (auto simp: store_row_def)
  qed
qed simp

lemma guarded_commit_Inr:
  "(if a then raising e d else if b then (Inr q, d) else if c then raising e d
    else on_integrity_error e (commit r d1 d)) = (Inr p, d') \<Longrightarrow>
   \<not> a \<and> b \<and> p = q \<and> d' = d \<or> \<not> a \<and> \<not> b \<and> \<not> c \<and> p = r \<and> d' = d1 \<and> db_ok d1"
  by (auto split: if_splits)

text \<open>
  A successful verification found the caller's payment of the order with a valid signature; it
  was authorized already, or is authorized now.
\<close>

definition checkout_of :: "user \<Rightarrow> VerifyCheckoutPaymentRequest \<Rightarrow> payment \<Rightarrow> bool" where
  "checkout_of usr payload p \<longleftrightarrow> pay_provider_order_id p = Some (vr_razorpay_order_id payload)
     \<and> pay_user_id p = usr_id usr"

lemma verify_checkout_payment_Inr:
  assumes "verify_checkout_payment prims cfg usr payload d = (Inr p, d')"
  obtains q where "truthy (RAZORPAY_KEY_SECRET cfg)"
    "select_scalar (checkout_of usr payload) (payments d) = Some q"
    "verify_checkout_signature prims (vr_razorpay_order_id payload) (vr_razorpay_payment_id payload)
       (vr_razorpay_signature payload) (the (RAZORPAY_KEY_SECRET cfg))"
    "d' = d \<and> p = q \<and> pay_status q \<in> {AUTHORIZED, CAPTURED}
       \<and> pay_provider_payment_id q = Some (vr_razorpay_payment_id payload)
     \<or> pay_status q = ORDER_CREATED \<and> d' = store_payment p d \<and> db_ok d'
       \<and> p = q\<lparr>pay_provider_payment_id := Some (vr_razorpay_payment_id payload), pay_status := AUTHORIZED\<rparr>"
proof -
  from assms obtain q where q: "truthy (RAZORPAY_KEY_SECRET cfg)"
    "select_scalar (checkout_of usr payload) (payments d) = Some q"
    "verify_checkout_signature prims (the (pay_provider_order_id q))
       (vr_razorpay_payment_id payload) (vr_razorpay_signature payload) (the (RAZORPAY_KEY_SECRET cfg))"
    by (auto simp: verify_checkout_payment_def checkout_of_def [abs_def] split: option.splits if_splits)
  let ?r = "q\<lparr>pay_provider_payment_id := Some (vr_razorpay_payment_id payload), pay_status := AUTHORIZED\<rparr>"
  have "verify_checkout_payment prims cfg usr payload d =
     (if pay_provider_payment_id q \<noteq> None
         \<and> pay_provider_payment_id q \<noteq> Some (vr_razorpay_payment_id payload)
      then raising PaymentVerificationError d
      else if pay_provider_payment_id q \<noteq> None \<and> pay_status q \<in> {AUTHORIZED, CAPTURED}
      then (Inr q, d)
      else if pay_status q \<noteq> ORDER_CREATED then raising PaymentVerificationError d
      else on_integrity_error PaymentVerificationError (commit ?r (store_payment ?r d) d))"
    using q by (simp add: verify_checkout_payment_def checkout_of_def [abs_def] Let_def)
  from guarded_commit_Inr [OF this [unfolded assms, symmetric]] q select_scalar_Some [OF q(2)] show thesis
    by (intro that [of q]) (auto simp: checkout_of_def)
qed

lemma authorized_selected:
  assumes "p \<in> set (payments d)" "checkout_of usr payload p" "db_ok d"
  shows "select_scalar (checkout_of usr payload) (payments d) = Some p"
proof (rule select_scalar_unique [of p _ "checkout_of usr payload", OF assms(1,2)])
  fix r
  assume "r \<in> set (payments d)" "checkout_of usr payload r"
  moreover from assms(3) have "distinct (map pay_id (payments d))"
    "distinct_present (map pay_provider_order_id (payments d))"
    by (simp_all add: db_ok_parts payments_constraints_def)
  ultimately show "r = p"
    using assms(1,2) distinct_mapI [of pay_id "payments d"]
    by (intro distinct_present_unique [of pay_provider_order_id "payments d"]) (simp_all add: checkout_of_def)
qed



end
