(* ===== verification/Webhooks.thy ===== *)
theory Webhooks
  imports Payments
begin

text \<open>
  Provider webhooks (\<open>payments/webhooks.py\<close>): authentication, deduplication by event
  identifier and body hash, and the application of payment and refund events to payments,
  bookings and refunds. The duplicate check and the insertion of the event read the
  database at different moments (\<open>seen\<close> and \<open>d\<close>), between which a concurrent delivery of
  the same event may commit.
\<close>

subsection \<open>Events\<close>

definition SUPPORTED_PAYMENT_EVENTS :: "string list" where
  "SUPPORTED_PAYMENT_EVENTS = [''payment.authorized'', ''payment.captured'', ''payment.failed'']"

definition SUPPORTED_REFUND_EVENTS :: "string list" where
  "SUPPORTED_REFUND_EVENTS = [''refund.processed'', ''refund.failed'']"

definition SUPPORTED_EVENTS :: "string list" where
  "SUPPORTED_EVENTS = SUPPORTED_PAYMENT_EVENTS @ SUPPORTED_REFUND_EVENTS"

definition existing_event :: "string \<Rightarrow> string \<Rightarrow> database \<Rightarrow> exn + bool" where
  "existing_event provider_event_id payload_hash d =
     (case select_scalar (\<lambda>e. ev_provider_event_id e = provider_event_id) (payment_webhook_events d) of
        None \<Rightarrow> Inr False
      | Some existing \<Rightarrow>
          if ev_payload_hash existing \<noteq> payload_hash then Inl WebhookAuthenticationError else Inr True)"

definition nested_entity :: "json \<Rightarrow> string \<Rightarrow> exn + json" where
  "nested_entity payload entity_name =
     (let provider_payload = json_get payload ''payload'';
          wrapper = json_get provider_payload entity_name;
          entity = json_get wrapper ''entity''
      in if \<not> is_dict provider_payload then Inl WebhookPayloadError
         else if \<not> is_dict wrapper then Inl WebhookPayloadError
         else if \<not> is_dict entity then Inl WebhookPayloadError
         else Inr entity)"

definition provider_amount_matches :: "payment \<Rightarrow> json \<Rightarrow> bool" where
  "provider_amount_matches p entity \<longleftrightarrow>
     json_eq_int (json_get entity ''amount'') (pay_amount_subunits p)
     \<and> json_eq_str (json_get entity ''currency'') (pay_currency p)"

text \<open>
  The appliers take the locked rows with their pending changes and return the database to
  flush. A payment of a booking that does not exist, which the foreign key excludes, would
  raise an attribute error.
\<close>

definition apply_captured_payment :: "payment \<Rightarrow> database \<Rightarrow> exn + database" where
  "apply_captured_payment p d =
     (if pay_status p = REFUNDED then Inr (store_payment p d)
      else let p1 = p\<lparr>pay_status := CAPTURED\<rparr>
        in case row_by bk_id (bookings d) (pay_booking_id p) of
             None \<Rightarrow> Inl AttributeError
           | Some b \<Rightarrow>
               if bk_status b = PAYMENT_PENDING
               then Inr (store_booking (b\<lparr>bk_status := CONFIRMED, bk_version := bk_version b + 1\<rparr>)
                      (store_payment p1 d))
               else if bk_status b \<noteq> CONFIRMED
               then Inr (store_payment
                      (p1\<lparr>pay_last_error_code := Some ''captured_after_booking_closed''\<rparr>) d)
               else Inr (store_payment p1 d))"

definition apply_failed_payment :: "instant \<Rightarrow> payment \<Rightarrow> database \<Rightarrow> exn + database" where
  "apply_failed_payment now p d =
     (if pay_status p \<in> {CAPTURED, REFUNDED} then Inr (store_payment p d)
      else let p1 = p\<lparr>pay_status := FAILED\<rparr>
        in case row_by bk_id (bookings d) (pay_booking_id p) of
             None \<Rightarrow> Inl AttributeError
           | Some b \<Rightarrow>
               if bk_status b = PAYMENT_PENDING
               then Inr (store_booking (released_booking now b) (store_payment p1 d))
               else Inr (store_payment p1 d))"

definition with_status :: "WebhookEventStatus \<Rightarrow> exn + database \<Rightarrow> exn + (WebhookEventStatus \<times> database)" where
  "with_status s result = map_sum id (Pair s) result"

definition apply_payment_event ::
    "instant \<Rightarrow> string \<Rightarrow> json \<Rightarrow> database \<Rightarrow> exn + (WebhookEventStatus \<times> database)" where
  "apply_payment_event now event_type entity d =
     (let order_id = json_get entity ''order_id''; payment_id = json_get entity ''id''
      in if \<not> is_str order_id \<or> \<not> is_str payment_id then Inl WebhookPayloadError
         else case select_scalar (\<lambda>p. pay_provider_order_id p = Some (str_of order_id)) (payments d) of
           None \<Rightarrow> Inr (IGNORED, d)
         | Some p \<Rightarrow>
             if \<not> provider_amount_matches p entity
             then Inr (IGNORED, store_payment
                    (p\<lparr>pay_last_error_code := Some ''provider_amount_mismatch''\<rparr>) d)
             else if pay_provider_payment_id p \<noteq> None
                     \<and> pay_provider_payment_id p \<noteq> Some (str_of payment_id)
             then Inr (IGNORED, store_payment
                    (p\<lparr>pay_last_error_code := Some ''provider_payment_id_mismatch''\<rparr>) d)
             else let p1 = p\<lparr>pay_provider_payment_id := Some (str_of payment_id)\<rparr>
               in if event_type = ''payment.authorized''
                  then Inr (PROCESSED, store_payment
                    (if pay_status p1 = ORDER_CREATED then p1\<lparr>pay_status := AUTHORIZED\<rparr> else p1) d)
                  else if event_type = ''payment.captured''
                  then with_status PROCESSED (apply_captured_payment p1 d)
                  else if event_type = ''payment.failed''
                  then with_status PROCESSED (apply_failed_payment now p1 d)
                  else Inr (RECEIVED, store_payment p1 d))"

definition store_refund :: "refund \<Rightarrow> database \<Rightarrow> database" where
  "store_refund r d = d\<lparr>refunds := store_row rf_id r (refunds d)\<rparr>"

definition apply_refund_event ::
    "instant \<Rightarrow> string \<Rightarrow> json \<Rightarrow> database \<Rightarrow> exn + (WebhookEventStatus \<times> database)" where
  "apply_refund_event now event_type entity d =
     (let refund_id = json_get entity ''id''; provider_payment_id = json_get entity ''payment_id''
      in if \<not> is_str refund_id \<or> \<not> is_str provider_payment_id then Inl WebhookPayloadError
         else case select_scalar (\<lambda>p. pay_provider_payment_id p = Some (str_of provider_payment_id))
                (payments d) of
           None \<Rightarrow> Inr (IGNORED, d)
         | Some p \<Rightarrow> (case select_scalar (\<lambda>r. rf_payment_id r = pay_id p) (refunds d) of
             None \<Rightarrow> Inr (IGNORED, d)
           | Some r \<Rightarrow>
               if \<not> json_eq_int (json_get entity ''amount'') (rf_amount_subunits r)
                  \<or> \<not> json_eq_str (json_get entity ''currency'') (rf_currency r)
               then Inr (IGNORED, store_refund
                      (r\<lparr>rf_last_error_code := Some ''provider_refund_amount_mismatch''\<rparr>) d)
               else if rf_provider_refund_id r \<noteq> None
                       \<and> rf_provider_refund_id r \<noteq> Some (str_of refund_id)
               then Inr (IGNORED, store_refund
                      (r\<lparr>rf_last_error_code := Some ''provider_refund_id_mismatch''\<rparr>) d)
               else let r1 = r\<lparr>rf_provider_refund_id := Some (str_of refund_id)\<rparr>
                 in if event_type = ''refund.processed''
                    then Inr (PROCESSED, store_payment (p\<lparr>pay_status := REFUNDED\<rparr>)
                      (store_refund (r1\<lparr>rf_status := R_PROCESSED, rf_processed_at := Some now\<rparr>) d))
                    else if rf_status r1 \<noteq> R_PROCESSED
                    then Inr (PROCESSED, store_refund (r1\<lparr>rf_status := R_FAILED,
                           rf_last_error_code := Some ''provider_refund_failed''\<rparr>) d)
                    else Inr (PROCESSED, store_refund r1 d)))"

definition received_event :: "uuid \<Rightarrow> string \<Rightarrow> string \<Rightarrow> string \<Rightarrow> webhook_event" where
  "received_event new_id provider_event_id event_type payload_hash = \<lparr>
     ev_id = new_id, ev_provider = ''razorpay'', ev_provider_event_id = provider_event_id,
     ev_event_type = event_type, ev_payload_hash = payload_hash, ev_status = RECEIVED,
     ev_processed_at = None\<rparr>"

definition insert_event :: "webhook_event \<Rightarrow> database \<Rightarrow> database" where
  "insert_event e d = d\<lparr>payment_webhook_events := insert_row e (payment_webhook_events d)\<rparr>"

text \<open>The event applied to the database that already holds its row.\<close>

definition apply_event ::
    "instant \<Rightarrow> json \<Rightarrow> database \<Rightarrow> exn + (WebhookEventStatus \<times> database)" where
  "apply_event now payload d =
     (let event_type = str_of (json_get payload ''event'')
      in if event_type \<notin> set SUPPORTED_EVENTS then Inr (IGNORED, d)
         else if event_type \<in> set SUPPORTED_REFUND_EVENTS
         then (case nested_entity payload ''refund'' of
                 Inl e \<Rightarrow> Inl e
               | Inr entity \<Rightarrow> apply_refund_event now event_type entity d)
         else (case nested_entity payload ''payment'' of
                 Inl e \<Rightarrow> Inl e
               | Inr entity \<Rightarrow> apply_payment_event now event_type entity d))"

definition finish_event :: "instant \<Rightarrow> webhook_event \<Rightarrow> WebhookEventStatus \<Rightarrow> database \<Rightarrow> database" where
  "finish_event now e status d = d\<lparr>payment_webhook_events := store_row ev_id
     (e\<lparr>ev_status := status, ev_processed_at := Some now\<rparr>) (payment_webhook_events d)\<rparr>"

definition process_razorpay_webhook ::
    "primitives \<Rightarrow> instant \<Rightarrow> uuid \<Rightarrow> string \<Rightarrow> string option \<Rightarrow> string option \<Rightarrow> string
     \<Rightarrow> database \<Rightarrow> database \<Rightarrow> string outcome" where
  "process_razorpay_webhook prims now new_id raw_body supplied_signature provider_event_id
       webhook_secret seen d =
     (if \<not> truthy supplied_signature \<or> \<not> truthy provider_event_id
         \<or> \<not> verify_webhook_signature prims raw_body (the supplied_signature) webhook_secret
      then raising WebhookAuthenticationError d
      else case json_loads prims raw_body of
        None \<Rightarrow> raising WebhookPayloadError d
      | Some payload \<Rightarrow>
          if \<not> is_dict payload \<or> \<not> is_str (json_get payload ''event'')
          then raising WebhookPayloadError d
          else let payload_hash = sha256_hex prims raw_body;
                   event_id = the provider_event_id;
                   event = received_event new_id event_id (str_of (json_get payload ''event''))
                             payload_hash
            in case existing_event event_id payload_hash seen of
                 Inl e \<Rightarrow> raising e d
               | Inr duplicate \<Rightarrow>
                   if duplicate then (Inr ''duplicate'', d)
                   else (case flush_error (insert_event event d) of
                     Some e \<Rightarrow>
                       if is_integrity_error e
                       then (case existing_event event_id payload_hash d of
                               Inl e' \<Rightarrow> raising e' d
                             | Inr known \<Rightarrow> if known then (Inr ''duplicate'', d)
                                            else raising WebhookAuthenticationError d)
                       else raising e d
                   | None \<Rightarrow>
                       (case apply_event now payload (insert_event event d) of
                          Inl e \<Rightarrow> raising e d
                        | Inr (status, d1) \<Rightarrow>
                            commit (WebhookEventStatus_value status)
                              (finish_event now event status d1) d)))"

subsection \<open>Every delivery is a safe step\<close>

lemma safe_plain_refund:
  assumes "\<lbrakk>coherent d; keys_ok d\<rbrakk> \<Longrightarrow> \<exists>r \<in> set (refunds d). plain_refund_move r r'"
    and "refunds d' = store_row rf_id r' (refunds d)" "payments d' = payments d"
    and "bookings d' = bookings d" "charging_sessions d' = charging_sessions d"
  shows "safe_step d (snd (commit x d' d))"
proof (rule safe_commit)
  assume hyps: "db_ok d" "coherent d" "keys_ok d"
  with assms(1) obtain r where r: "r \<in> set (refunds d)" "plain_refund_move r r'" by blast
  then have "rf_id r' = rf_id r" by (auto simp: plain_refund_move_def refund_move_def same_refund_def)
  with r hyps(3) have ev: "table_evolves plain_refund_move N (refunds d) (store_row rf_id r' (refunds d))"
    for N by (intro store_refund_evolves [of d r]) auto
  with hyps(2) have "coherent (d\<lparr>refunds := store_row rf_id r' (refunds d)\<rparr>)"
    by (rule coherent_refunds)
  then have "coherent d'" using assms(2-5) by (simp add: coherent_def)
  moreover have "core_evolves d d'"
    using plain_evolves_refund [OF ev] assms(2-5)
    by (simp add: core_evolves_def core_refl)
  ultimately show "coherent d' \<and> core_evolves d d'" by simp
qed

lemma refund_payment_status:
  assumes "coherent d" "keys_ok d" "r \<in> set (refunds d)" "p \<in> set (payments d)"
    and "pay_id p = rf_payment_id r"
  shows "pay_status p = (if rf_status r = R_PROCESSED then REFUNDED else CAPTURED)"
proof -
  from assms(1,3) obtain q where "q \<in> set (payments d)" "pay_id q = rf_payment_id r"
    "pay_status q = (if rf_status r = R_PROCESSED then REFUNDED else CAPTURED)"
    by (auto simp: coherent_def refund_coherent_def)
  with assms(2,4,5) show ?thesis
    using distinct_map_unique [of pay_id "payments d" q p] by (simp add: keys_ok_def)
qed

lemma safe_process_refund:
  assumes "\<lbrakk>coherent d; keys_ok d\<rbrakk> \<Longrightarrow> r \<in> set (refunds d) \<and> refund_move r r'
      \<and> p \<in> set (payments d) \<and> pay_id p = rf_payment_id r"
    and "rf_status r' = R_PROCESSED"
    and "refunds d' = store_row rf_id r' (refunds d)"
    and "payments d' = store_row pay_id (p\<lparr>pay_status := REFUNDED\<rparr>) (payments d)"
    and "bookings d' = bookings d" "charging_sessions d' = charging_sessions d"
  shows "safe_step d (snd (commit x d' d))"
proof (rule safe_commit)
  assume hyps: "db_ok d" "coherent d" "keys_ok d"
  from assms(1) [OF hyps(2,3)] have rp: "r \<in> set (refunds d)" "refund_move r r'"
    "p \<in> set (payments d)" "pay_id p = rf_payment_id r" by auto
  from coherent_process_refund [OF hyps(2,3) rp(1,2) assms(2) rp(3,4)]
  have "coherent d'" using assms(3-6) by (simp add: coherent_def)
  moreover have "payment_move p (p\<lparr>pay_status := REFUNDED\<rparr>)"
    using refund_payment_status [OF hyps(2,3) rp(1,3,4)]
    by (auto simp: payment_move_def same_payment_def split: if_splits)
  then have "table_evolves payment_move new_payment (payments d) (payments d')"
    unfolding assms(4) using hyps(3) rp(3)
    by (intro store_payment_evolves [of d p]) (auto simp: payment_life.move_refl)
  moreover have "table_evolves refund_move new_refund (refunds d) (refunds d')"
    unfolding assms(3) using hyps(3) rp(1,2)
    by (intro store_refund_evolves [of d r]) (auto simp: refund_life.move_refl refund_move_def same_refund_def)
  ultimately show "coherent d' \<and> core_evolves d d'"
    using assms(5,6) by (simp add: core_evolves_def core_refl)
qed

text \<open>A payment event changes one payment along its lifecycle and at most its booking.\<close>

definition payment_change :: "database \<Rightarrow> database \<Rightarrow> bool" where
  "payment_change d d' \<longleftrightarrow> refunds d' = refunds d \<and> charging_sessions d' = charging_sessions d
     \<and> (\<exists>p \<in> set (payments d). \<exists>p'. plain_payment_move p p'
          \<and> payments d' = store_row pay_id p' (payments d))
     \<and> (bookings d' = bookings d \<or> (\<exists>b \<in> set (bookings d). \<exists>b'.
          quiet_move (set (payments d')) b b' \<and> bookings d' = store_row bk_id b' (bookings d)))"

lemma payment_change_store:
  "p \<in> set (payments d) \<Longrightarrow> plain_payment_move p p' \<Longrightarrow> payment_change d (store_payment p' d)"
  by (auto simp: payment_change_def)

lemma payment_change_both:
  assumes "p \<in> set (payments d)" "plain_payment_move p p'" "b \<in> set (bookings d)"
    and "quiet_move (set (store_row pay_id p' (payments d))) b b'"
  shows "payment_change d (store_booking b' (store_payment p' d))"
  using assms by (auto simp: payment_change_def)

lemma payment_change_safe:
  assumes "\<lbrakk>coherent d; keys_ok d\<rbrakk> \<Longrightarrow> payment_change d d'"
    and "refunds d' = refunds d" "charging_sessions d' = charging_sessions d"
  shows "safe_step d (snd (commit x d' d))"
proof (rule safe_commit_payments)
  assume hyps: "db_ok d" "coherent d" "keys_ok d" "db_ok d'"
  from assms(1) [OF hyps(2,3)] hyps(3)
  show "table_evolves plain_payment_move (added_payment (set (bookings d))) (payments d) (payments d')
      \<and> table_evolves (quiet_move (set (payments d'))) new_booking (bookings d) (bookings d')"
    unfolding payment_change_def
    by (auto intro: store_payment_plain store_booking_quiet simp: quiet_refl)
qed (fact assms)+

lemma event_frame [simp]:
  "payments (insert_event e d) = payments d" "bookings (insert_event e d) = bookings d"
  "refunds (insert_event e d) = refunds d" "charging_sessions (insert_event e d) = charging_sessions d"
  "payments (finish_event n e s d) = payments d" "bookings (finish_event n e s d) = bookings d"
  "refunds (finish_event n e s d) = refunds d"
  "charging_sessions (finish_event n e s d) = charging_sessions d"
  by (simp_all add: insert_event_def finish_event_def)

lemma store_refund_frame [simp]:
  "payments (store_refund r d) = payments d" "bookings (store_refund r d) = bookings d"
  "charging_sessions (store_refund r d) = charging_sessions d"
  "refunds (store_refund r d) = store_row rf_id r (refunds d)"
  by (simp_all add: store_refund_def)

lemma with_status_Inr [simp]: "with_status s res = Inr (t, d) \<longleftrightarrow> res = Inr d \<and> t = s"
  by (cases res) (auto simp: with_status_def)

text \<open>The payment of an event has a provider order, so its attempt is finished.\<close>

lemma ordered_payment_plain:
  assumes "payment_ids_ok p" "pay_provider_order_id p \<noteq> None"
    and "pay_provider_payment_id p \<noteq> None \<longrightarrow> pay_provider_payment_id p = j"
    and "s = pay_status p \<or> payment_edge (pay_status p) s" "s \<noteq> REFUNDED \<or> s = pay_status p"
    and "j \<noteq> None"
  shows "plain_payment_move p (p\<lparr>pay_provider_payment_id := j, pay_status := s, pay_last_error_code := c\<rparr>)"
    (is "plain_payment_move p ?p")
proof -
  have "s \<noteq> INITIATED"
    using assms(1,2,4) by (cases "pay_status p") (auto simp: payment_ids_ok_def)
  with assms(2,6) have "payment_ids_ok ?p" by (auto simp: payment_ids_ok_def)
  moreover have "payment_move p ?p"
    using assms(3,4) by (auto simp: payment_move_def same_payment_def)
  moreover have "s = REFUNDED \<longleftrightarrow> pay_status p = REFUNDED"
    using assms(4,5) by (cases "pay_status p") auto
  ultimately show ?thesis by (simp add: plain_payment_move_def)
qed

lemma error_code_plain: "payment_ids_ok p \<Longrightarrow> plain_payment_move p (p\<lparr>pay_last_error_code := c\<rparr>)"
  by (simp add: plain_payment_move_def payment_move_def same_payment_def payment_ids_ok_def)

lemma captured_edge:
  "payment_ids_ok p \<Longrightarrow> pay_provider_order_id p \<noteq> None \<Longrightarrow> pay_status p \<noteq> REFUNDED \<Longrightarrow>
   CAPTURED = pay_status p \<or> payment_edge (pay_status p) CAPTURED"
  by (cases "pay_status p") (auto simp: payment_ids_ok_def)

lemma failed_edge:
  "pay_status p \<notin> {CAPTURED, REFUNDED} \<Longrightarrow> FAILED = pay_status p \<or> payment_edge (pay_status p) FAILED"
  by (cases "pay_status p") auto

text \<open>A booking whose payment was captured may be confirmed.\<close>

lemma confirmed_quiet:
  assumes "bk_status b = PAYMENT_PENDING" "p \<in> P" "pay_booking_id p = bk_id b" "pay_status p = CAPTURED"
  shows "quiet_move P b (b\<lparr>bk_status := CONFIRMED, bk_version := bk_version b + 1\<rparr>)"
  unfolding quiet_move_def booking_move_def using assms
  by (intro conjI disjI2 exI [of _ CONFIRMED] exI [of _ "bk_cancelled_at b"])
     (auto simp: booking_paid_def)

lemma apply_captured_change:
  assumes r: "apply_captured_payment (p\<lparr>pay_provider_payment_id := Some j\<rparr>) d = Inr d1"
    and p: "p \<in> set (payments d)" "payment_ids_ok p" "pay_provider_order_id p \<noteq> None"
    and j: "pay_provider_payment_id p \<noteq> None \<longrightarrow> pay_provider_payment_id p = Some j"
  shows "payment_change d d1"
proof (cases "pay_status p = REFUNDED")
  case True
  have "plain_payment_move p (p\<lparr>pay_provider_payment_id := Some j\<rparr>)"
    using ordered_payment_plain [OF p(2,3) j, of "pay_status p" "pay_last_error_code p"] by simp
  with True r p(1) show ?thesis
    by (auto simp: apply_captured_payment_def intro: payment_change_store)
next
  case False
  let ?p = "\<lambda>c. p\<lparr>pay_provider_payment_id := Some j, pay_status := CAPTURED, pay_last_error_code := c\<rparr>"
  have mv: "plain_payment_move p (?p c)" for c
    using p j captured_edge [OF p(2,3) False] by (intro ordered_payment_plain) auto
  from False r obtain b where b: "row_by bk_id (bookings d) (pay_booking_id p) = Some b"
    by (auto simp: apply_captured_payment_def Let_def split: option.splits)
  note bs = row_by_Some [OF b]
  show ?thesis
  proof (cases "bk_status b = PAYMENT_PENDING")
    case True
    let ?d = "store_booking (b\<lparr>bk_status := CONFIRMED, bk_version := bk_version b + 1\<rparr>)
                (store_payment (?p (pay_last_error_code p)) d)"
    from True False r b have d1: "d1 = ?d" by (simp add: apply_captured_payment_def Let_def)
    have "?p (pay_last_error_code p) \<in> set (store_row pay_id (?p (pay_last_error_code p)) (payments d))"
      using p(1) by (auto simp: set_store_row)
    with True bs have "quiet_move (set (store_row pay_id (?p (pay_last_error_code p)) (payments d))) b
        (b\<lparr>bk_status := CONFIRMED, bk_version := bk_version b + 1\<rparr>)"
      by (intro confirmed_quiet [where p = "?p (pay_last_error_code p)"]) simp_all
    with bs show ?thesis
      unfolding d1 by (intro payment_change_both [OF p(1) mv]) auto
  next
    case False
    with \<open>pay_status p \<noteq> REFUNDED\<close> r b have "\<exists>c. d1 = store_payment (?p c) d"
      by (auto simp: apply_captured_payment_def Let_def split: if_splits)
        (metis payment.surjective payment.update_convs(12))
    with payment_change_store [OF p(1) mv] show ?thesis by auto
  qed
qed

lemma apply_failed_change:
  assumes r: "apply_failed_payment now (p\<lparr>pay_provider_payment_id := Some j\<rparr>) d = Inr d1"
    and p: "p \<in> set (payments d)" "payment_ids_ok p" "pay_provider_order_id p \<noteq> None"
    and j: "pay_provider_payment_id p \<noteq> None \<longrightarrow> pay_provider_payment_id p = Some j"
  shows "payment_change d d1"
proof -
  have mv: "plain_payment_move p (p\<lparr>pay_provider_payment_id := Some j, pay_status := s\<rparr>)"
    if "s = pay_status p \<or> payment_edge (pay_status p) s" "s \<noteq> REFUNDED \<or> s = pay_status p" for s
    using ordered_payment_plain [OF p(2,3) j that, of "pay_last_error_code p"] by simp
  show ?thesis
  proof (cases "pay_status p \<in> {CAPTURED, REFUNDED}")
    case True
    with r have "d1 = store_payment (p\<lparr>pay_provider_payment_id := Some j\<rparr>) d"
      by (simp add: apply_failed_payment_def)
    with mv [of "pay_status p"] p(1) show ?thesis by (simp add: payment_change_store)
  next
    case False
    then have "plain_payment_move p (p\<lparr>pay_provider_payment_id := Some j, pay_status := FAILED\<rparr>)"
      using failed_edge [OF False] by (intro mv) auto
    moreover from False r obtain b where "row_by bk_id (bookings d) (pay_booking_id p) = Some b"
      by (auto simp: apply_failed_payment_def Let_def split: option.splits)
    moreover from row_by_Some [OF this] have "b \<in> set (bookings d)" by simp
    ultimately show ?thesis
      using False r p(1) released_quiet [of b _ now]
      by (auto simp: apply_failed_payment_def Let_def split: if_splits
          intro!: payment_change_store payment_change_both)
  qed
qed

lemma apply_payment_event_change:
  assumes r: "apply_payment_event now t entity d = Inr (s, d1)" and co: "coherent d"
  shows "d1 = d \<or> payment_change d d1"
proof (cases "select_scalar (\<lambda>p. pay_provider_order_id p = Some (str_of (json_get entity ''order_id'')))
    (payments d)")
  case None
  with r show ?thesis by (auto simp: apply_payment_event_def Let_def split: if_splits)
next
  case (Some p)
  let ?j = "str_of (json_get entity ''id'')"
  let ?p1 = "p\<lparr>pay_provider_payment_id := Some ?j\<rparr>"
  from select_scalar_Some [OF Some] co have p: "p \<in> set (payments d)" "payment_ids_ok p"
    "pay_provider_order_id p \<noteq> None" by (auto intro: coherent_payment_ids)
  have code: "payment_change d (store_payment (p\<lparr>pay_last_error_code := c\<rparr>) d)" for c
    by (rule payment_change_store [OF p(1) error_code_plain [OF p(2)]])
  show ?thesis
  proof (cases "pay_provider_payment_id p \<noteq> None \<and> pay_provider_payment_id p \<noteq> Some ?j")
    case True
    with r Some code show ?thesis by (auto simp: apply_payment_event_def Let_def split: if_splits)
  next
    case False
    then have j: "pay_provider_payment_id p \<noteq> None \<longrightarrow> pay_provider_payment_id p = Some ?j" by blast
    have mv: "plain_payment_move p (p\<lparr>pay_provider_payment_id := Some ?j, pay_status := u\<rparr>)"
      if "u = pay_status p \<or> payment_edge (pay_status p) u" "u \<noteq> REFUNDED \<or> u = pay_status p" for u
      using ordered_payment_plain [OF p(2,3) j that, of "pay_last_error_code p"] by simp
    have "payment_change d (store_payment ?p1 d)"
      using mv [of "pay_status p"] by (simp add: payment_change_store [OF p(1)])
    moreover have "payment_change d (store_payment (?p1\<lparr>pay_status := AUTHORIZED\<rparr>) d)"
      if "pay_status p = ORDER_CREATED"
      using mv [of AUTHORIZED] that by (simp add: payment_change_store [OF p(1)])
    ultimately show ?thesis
      using r Some False code apply_captured_change [OF _ p j, of d1] apply_failed_change [OF _ p j, of now d1]
      by (auto simp: apply_payment_event_def Let_def split: if_splits)
  qed
qed

text \<open>What a refund event does to its refund, and to the payment when it was processed.\<close>

lemma apply_refund_event_cases:
  assumes "apply_refund_event now t entity d = Inr (s, d1)"
  obtains "d1 = d"
  | r r' where "r \<in> set (refunds d)" "plain_refund_move r r'" "d1 = store_refund r' d"
  | r r' p where "r \<in> set (refunds d)" "rf_status r' = R_PROCESSED" "refund_move r r'"
      "p \<in> set (payments d)" "pay_id p = rf_payment_id r"
      "d1 = store_payment (p\<lparr>pay_status := REFUNDED\<rparr>) (store_refund r' d)"
proof -
  let ?i = "str_of (json_get entity ''id'')"
  show thesis
  proof (cases "\<exists>p r. select_scalar (\<lambda>p. pay_provider_payment_id p
      = Some (str_of (json_get entity ''payment_id''))) (payments d) = Some p
      \<and> select_scalar (\<lambda>r. rf_payment_id r = pay_id p) (refunds d) = Some r")
    case False
    with assms show thesis
      by (intro that(1)) (auto simp: apply_refund_event_def Let_def split: if_splits option.splits)
  next
    case True
    then obtain p r where sel: "select_scalar (\<lambda>p. pay_provider_payment_id p
        = Some (str_of (json_get entity ''payment_id''))) (payments d) = Some p"
      "select_scalar (\<lambda>r. rf_payment_id r = pay_id p) (refunds d) = Some r" by blast
    from select_scalar_Some [OF sel(1)] select_scalar_Some [OF sel(2)]
    have p: "p \<in> set (payments d)" and r: "r \<in> set (refunds d)" "rf_payment_id r = pay_id p" by auto
    have code: "plain_refund_move r (r\<lparr>rf_last_error_code := c\<rparr>)" for c
      by (simp add: plain_refund_move_def refund_move_def same_refund_def)
    show thesis
    proof (cases "rf_provider_refund_id r \<noteq> None \<and> rf_provider_refund_id r \<noteq> Some ?i")
      case True
      with assms sel obtain c where "d1 = store_refund (r\<lparr>rf_last_error_code := c\<rparr>) d"
        by (simp add: apply_refund_event_def Let_def split: if_split_asm) blast+
      with code show thesis by (intro that(2) [OF r(1)])
    next
      case False
      let ?proc = "r\<lparr>rf_provider_refund_id := Some ?i, rf_status := R_PROCESSED,
                     rf_processed_at := Some now\<rparr>"
      from False have proc: "refund_move r ?proc"
        by (cases "rf_status r") (auto simp: refund_move_def same_refund_def)
      let ?id = "r\<lparr>rf_provider_refund_id := Some ?i\<rparr>"
      let ?fail = "?id\<lparr>rf_status := R_FAILED, rf_last_error_code := Some ''provider_refund_failed''\<rparr>"
      from False have fail: "plain_refund_move r ?fail" if "rf_status r \<noteq> R_PROCESSED"
        using that by (cases "rf_status r")
          (auto simp: plain_refund_move_def refund_move_def same_refund_def)
      from False have keep: "plain_refund_move r ?id" if "rf_status r = R_PROCESSED"
        using that by (auto simp: plain_refund_move_def refund_move_def same_refund_def)
      from assms sel False consider c where "d1 = store_refund (r\<lparr>rf_last_error_code := c\<rparr>) d"
        | "d1 = store_payment (p\<lparr>pay_status := REFUNDED\<rparr>) (store_refund ?proc d)"
        | "rf_status r \<noteq> R_PROCESSED" "d1 = store_refund ?fail d"
        | "rf_status r = R_PROCESSED" "d1 = store_refund ?id d"
        by (simp add: apply_refund_event_def Let_def split: if_split_asm) blast+
      then show thesis
        by cases (use that(2) [OF r(1) code] that(2) [OF r(1) fail] that(2) [OF r(1) keep]
            that(3) [OF r(1) _ proc p] r(2) in simp_all)
    qed
  qed
qed

lemma finish_event_safe:
  assumes r: "apply_event now payload (insert_event e d) = Inr (s, d1)"
  shows "safe_step d (snd (commit x (finish_event now e s d1) d))"
proof (cases "coherent d")
  case True
  let ?d = "insert_event e d"
  from True have co: "coherent ?d" by (simp add: coherent_def)
  from r consider "d1 = ?d"
    | t entity where "apply_payment_event now t entity ?d = Inr (s, d1)"
    | t entity where "apply_refund_event now t entity ?d = Inr (s, d1)"
    by (auto simp: apply_event_def Let_def split: if_splits sum.splits)
  then show ?thesis
  proof cases
    case 1
    then show ?thesis by (intro safe_same_tables) simp_all
  next
    case 2
    from apply_payment_event_change [OF this co] show ?thesis
    proof
      assume "payment_change ?d d1"
      then have "payment_change d (finish_event now e s d1)" by (simp add: payment_change_def)
      then show ?thesis by (intro payment_change_safe) (simp_all add: payment_change_def)
    qed (auto intro!: safe_same_tables)
  next
    case 3
    then show ?thesis
    proof (cases rule: apply_refund_event_cases)
      case 1
      then show ?thesis by (intro safe_same_tables) simp_all
    next
      case (2 r r')
      then show ?thesis by (intro safe_plain_refund [where r' = r']) auto
    next
      case (3 r r' p)
      then show ?thesis by (intro safe_process_refund [where r = r and r' = r' and p = p]) auto
    qed
  qed
qed (simp add: safe_step_def)

lemma process_razorpay_webhook_safe:
  "safe_step d (snd (process_razorpay_webhook prims now i body sig ev secret seen d))"
  unfolding process_razorpay_webhook_def Let_def
  by (auto split: option.split sum.split prod.split intro: finish_event_safe)

subsection \<open>Properties of deliveries\<close>

text \<open>A delivery that returns either was known already or inserted and finished its event.\<close>

lemma process_razorpay_webhook_Inr:
  assumes "process_razorpay_webhook prims now i body sig ev secret seen d = (Inr st, d')"
  obtains payload where "truthy sig" "truthy ev" "verify_webhook_signature prims body (the sig) secret"
    "json_loads prims body = Some payload" "is_dict payload" "is_str (json_get payload ''event'')"
    "st = ''duplicate'' \<and> d' = d \<and> (existing_event (the ev) (sha256_hex prims body) seen = Inr True
        \<or> existing_event (the ev) (sha256_hex prims body) d = Inr True)
     \<or> (\<exists>s d1. db_ok d' \<and> st = WebhookEventStatus_value s
         \<and> apply_event now payload (insert_event (received_event i (the ev)
              (str_of (json_get payload ''event'')) (sha256_hex prims body)) d) = Inr (s, d1)
         \<and> d' = finish_event now (received_event i (the ev)
              (str_of (json_get payload ''event'')) (sha256_hex prims body)) s d1)"
proof -
  from assms obtain payload where auth: "truthy sig" "truthy ev"
    "verify_webhook_signature prims body (the sig) secret"
    "json_loads prims body = Some payload" "is_dict payload" "is_str (json_get payload ''event'')"
    unfolding process_razorpay_webhook_def Let_def
    by (auto split: if_splits option.splits)
  note assms [unfolded process_razorpay_webhook_def Let_def]
  with auth show thesis
    by (intro that [OF auth]) (auto split: if_splits option.splits sum.splits prod.splits)
qed

lemma store_payment_events [simp]:
  "payment_webhook_events (store_payment p d) = payment_webhook_events d"
  "payment_webhook_events (store_booking b d) = payment_webhook_events d"
  "payment_webhook_events (store_refund r d) = payment_webhook_events d"
  by (simp_all add: store_payment_def store_booking_def store_refund_def)

lemma apply_event_events:
  assumes "apply_event now payload d = Inr (s, d1)"
  shows "payment_webhook_events d1 = payment_webhook_events d"
proof -
  have "apply_captured_payment p d = Inr d1 \<Longrightarrow> payment_webhook_events d1 = payment_webhook_events d"
    "apply_failed_payment now p d = Inr d1 \<Longrightarrow> payment_webhook_events d1 = payment_webhook_events d" for p
    by (auto simp: apply_captured_payment_def apply_failed_payment_def Let_def
        split: if_splits option.splits)
  then have "apply_payment_event now t e d = Inr (s, d1) \<Longrightarrow>
      payment_webhook_events d1 = payment_webhook_events d" for t e
    by (auto simp: apply_payment_event_def Let_def split: if_splits option.splits)
  moreover have "apply_refund_event now t e d = Inr (s, d1) \<Longrightarrow>
      payment_webhook_events d1 = payment_webhook_events d" for t e
    by (erule apply_refund_event_cases) auto
  ultimately show ?thesis
    using assms by (auto simp: apply_event_def Let_def split: if_splits sum.splits)
qed

lemma existing_event_True:
  "existing_event i h d = Inr True \<longleftrightarrow> (\<exists>e. select_scalar (\<lambda>e. ev_provider_event_id e = i)
     (payment_webhook_events d) = Some e \<and> ev_payload_hash e = h)"
  by (auto simp: existing_event_def split: option.split if_split)

lemma existing_event_stored:
  assumes "db_ok d" "e \<in> set (payment_webhook_events d)"
  shows "existing_event (ev_provider_event_id e) (ev_payload_hash e) d = Inr True"
proof -
  from assms(1) have "distinct (map ev_provider_event_id (payment_webhook_events d))"
    by (simp add: db_ok_parts webhook_events_constraints_def)
  from distinct_map_unique [OF this _ assms(2)]
  have "select_scalar (\<lambda>x. ev_provider_event_id x = ev_provider_event_id e)
      (payment_webhook_events d) = Some e"
    using assms(2) by (intro select_scalar_unique) auto
  then show ?thesis by (simp add: existing_event_True)
qed

lemma finished_event_stored:
  assumes "apply_event now payload (insert_event e d) = Inr (s, d1)"
  shows "e\<lparr>ev_status := s, ev_processed_at := Some now\<rparr>
    \<in> set (payment_webhook_events (finish_event now e s d1))"
  using apply_event_events [OF assms]
  by (simp add: finish_event_def insert_event_def set_store_row)

text \<open>Inserting the event a second time violates a constraint and nothing else.\<close>

lemma second_insert_flush:
  assumes ok: "db_ok d" and e: "e \<in> set (payment_webhook_events d)"
  shows "\<exists>n. flush_error (insert_event (received_event i (ev_provider_event_id e)
      (ev_event_type e) (ev_payload_hash e)) d) = Some (IntegrityError n)"
proof -
  let ?d = "insert_event (received_event i (ev_provider_event_id e) (ev_event_type e)
              (ev_payload_hash e)) d"
  from ok e have "webhook_event_columns e"
    by (auto simp: db_ok_def columns_ok_def list_all_iff)
  then have "webhook_event_columns (received_event i (ev_provider_event_id e) (ev_event_type e)
      (ev_payload_hash e))"
    by (simp add: webhook_event_columns_def received_event_def varchar_def pylen_def
        continuation_byte_def)
  with ok have "columns_ok ?d"
    by (simp add: db_ok_def columns_ok_def insert_event_def insert_row_def)
  moreover have "\<not> db_ok ?d"
    using e by (auto simp: db_ok_parts webhook_events_constraints_def insert_event_def
        received_event_def)
  then have "flush_error ?d \<noteq> None" by (simp add: flush_error_None)
  ultimately show ?thesis
    by (auto simp: flush_error_def split: if_splits)
qed

text \<open>
  C12. A webhook is applied at most once: once a delivery was applied, delivering the same
  body under the same event identifier again, in any later database that still holds the
  committed events, is answered as a duplicate and changes nothing. This holds also when
  the second delivery raced the first, so that its own duplicate check read a database
  without the event and only the unique constraint stops it.
\<close>

theorem webhook_applied_once:
  assumes "process_razorpay_webhook prims now i body sig ev secret seen d = (Inr st, d')"
    and "st \<noteq> ''duplicate''"
    and "db_ok later" "set (payment_webhook_events d') \<subseteq> set (payment_webhook_events later)"
    and "existing_event (the ev) (sha256_hex prims body) seen' \<in> {Inr False, Inr True}"
  shows "process_razorpay_webhook prims now' i' body sig ev secret seen' later
     = (Inr ''duplicate'', later)"
  using assms(1)
proof (rule process_razorpay_webhook_Inr)
  fix payload
  let ?h = "sha256_hex prims body" and ?t = "str_of (json_get payload ''event'')"
  let ?e = "\<lambda>i. received_event i (the ev) ?t ?h"
  assume auth: "truthy sig" "truthy ev" "verify_webhook_signature prims body (the sig) secret"
    "json_loads prims body = Some payload" "is_dict payload" "is_str (json_get payload ''event'')"
    and res: "st = ''duplicate'' \<and> d' = d \<and> (existing_event (the ev) ?h seen = Inr True
        \<or> existing_event (the ev) ?h d = Inr True)
     \<or> (\<exists>s d1. db_ok d' \<and> st = WebhookEventStatus_value s
         \<and> apply_event now payload (insert_event (?e i) d) = Inr (s, d1)
         \<and> d' = finish_event now (?e i) s d1)"
  from res assms(2) obtain s d1 where "apply_event now payload (insert_event (?e i) d) = Inr (s, d1)"
    "d' = finish_event now (?e i) s d1" by blast
  with finished_event_stored assms(4) obtain e where e: "e \<in> set (payment_webhook_events later)"
    "ev_provider_event_id e = the ev" "ev_payload_hash e = ?h" "ev_event_type e = ?t"
    by (fastforce simp: received_event_def)
  from existing_event_stored [OF assms(3) e(1)] e have known: "existing_event (the ev) ?h later = Inr True"
    by simp
  from second_insert_flush [OF assms(3) e(1), of i'] e obtain n
    where "flush_error (insert_event (?e i') later) = Some (IntegrityError n)" by auto
  with auth known assms(5) show ?thesis
    by (auto simp: process_razorpay_webhook_def Let_def)
qed

text \<open>
  What an applied payment event may do to the bookings: nothing, or the payment found by
  its order agrees with the event in amount and currency, and its booking, which was waiting
  for the payment, is confirmed by a capture or released by a failure.
\<close>

lemma apply_payment_event_bookings:
  assumes "apply_payment_event now t entity d = Inr (s, d1)"
  shows "bookings d1 = bookings d \<or> (\<exists>p b. p \<in> set (payments d) \<and> b \<in> set (bookings d)
     \<and> pay_provider_order_id p = Some (str_of (json_get entity ''order_id''))
     \<and> provider_amount_matches p entity
     \<and> bk_id b = pay_booking_id p \<and> bk_status b = PAYMENT_PENDING
     \<and> (t = ''payment.captured'' \<and> bookings d1
          = store_row bk_id (b\<lparr>bk_status := CONFIRMED, bk_version := bk_version b + 1\<rparr>) (bookings d)
        \<or> t = ''payment.failed'' \<and> bookings d1 = store_row bk_id (released_booking now b) (bookings d)))"
proof -
  have cap: "bookings d1 = bookings d \<or> (\<exists>b. row_by bk_id (bookings d) (pay_booking_id p) = Some b
      \<and> bk_status b = PAYMENT_PENDING \<and> bookings d1
        = store_row bk_id (b\<lparr>bk_status := CONFIRMED, bk_version := bk_version b + 1\<rparr>) (bookings d))"
    if "apply_captured_payment p d = Inr d1" for p
    using that by (auto simp: apply_captured_payment_def Let_def split: if_splits option.splits)
  have fail: "bookings d1 = bookings d \<or> (\<exists>b. row_by bk_id (bookings d) (pay_booking_id p) = Some b
      \<and> bk_status b = PAYMENT_PENDING
      \<and> bookings d1 = store_row bk_id (released_booking now b) (bookings d))"
    if "apply_failed_payment now p d = Inr d1" for p
    using that by (auto simp: apply_failed_payment_def Let_def split: if_splits option.splits)
  show ?thesis
  proof (cases "bookings d1 = bookings d")
    case False
    with assms obtain p where sel: "select_scalar (\<lambda>p. pay_provider_order_id p
        = Some (str_of (json_get entity ''order_id''))) (payments d) = Some p"
      and am: "provider_amount_matches p entity"
      and ap: "t = ''payment.captured'' \<and> apply_captured_payment
            (p\<lparr>pay_provider_payment_id := Some (str_of (json_get entity ''id''))\<rparr>) d = Inr d1
        \<or> t = ''payment.failed'' \<and> apply_failed_payment now
            (p\<lparr>pay_provider_payment_id := Some (str_of (json_get entity ''id''))\<rparr>) d = Inr d1"
      by (auto simp: apply_payment_event_def Let_def split: if_splits option.splits)
    from ap False obtain b where b: "row_by bk_id (bookings d) (pay_booking_id p) = Some b"
      "bk_status b = PAYMENT_PENDING"
      "t = ''payment.captured'' \<and> bookings d1
          = store_row bk_id (b\<lparr>bk_status := CONFIRMED, bk_version := bk_version b + 1\<rparr>) (bookings d)
       \<or> t = ''payment.failed'' \<and> bookings d1 = store_row bk_id (released_booking now b) (bookings d)"
      by (auto dest!: cap fail)
    with select_scalar_Some [OF sel] am row_by_Some [OF b(1)] show ?thesis
      by (intro disjI2 exI [of _ p] exI [of _ b]) simp
  qed simp
qed

lemma apply_refund_event_bookings:
  "apply_refund_event now t entity d = Inr (s, d1) \<Longrightarrow> bookings d1 = bookings d"
  by (erule apply_refund_event_cases) auto

lemma store_row_member:
  assumes "distinct (map key rows)" "x \<in> set rows" "y \<in> set (store_row key r rows)"
    and "key y = key x" "y \<noteq> x" "z \<in> set rows" "key z = key r"
  shows "x = z \<and> y = r"
proof -
  from assms(3) obtain w where w: "w \<in> set rows" "y = (if key w = key r then r else w)"
    by (auto simp: store_row_def)
  have "key w = key r"
  proof (rule ccontr)
    assume "key w \<noteq> key r"
    with w have "y = w" by simp
    with assms(1,2,4) w(1) have "y = x" by (auto dest: distinct_map_unique)
    with assms(5) show False by simp
  qed
  with w assms show ?thesis by (auto dest: distinct_map_unique)
qed

text \<open>The only payment event that leaves a booking newly confirmed is the capture of its payment.\<close>

lemma confirming_payment_event:
  assumes "apply_payment_event now t entity (insert_event e d) = Inr (s, d1)"
    and "distinct (map bk_id (bookings d))" "b \<in> set (bookings d)" "b' \<in> set (bookings d1)"
    and "bk_id b' = bk_id b" "b' \<noteq> b" "bk_status b' = CONFIRMED"
  obtains p where "t = ''payment.captured''" "p \<in> set (payments d)" "pay_booking_id p = bk_id b"
    "json_get entity ''order_id'' = JStr (the (pay_provider_order_id p))" "provider_amount_matches p entity"
    "bk_status b = PAYMENT_PENDING" "bk_version b' = bk_version b + 1"
proof -
  have "b' \<notin> set (bookings d)"
    using assms(2,3,5,6) by (auto dest: distinct_map_unique)
  with assms(4) have ne: "bookings d1 \<noteq> bookings (insert_event e d)" by auto
  from apply_payment_event_bookings [OF assms(1)] ne obtain p q where p: "p \<in> set (payments d)"
    "pay_provider_order_id p = Some (str_of (json_get entity ''order_id''))"
    "provider_amount_matches p entity"
    and q: "q \<in> set (bookings d)" "bk_id q = pay_booking_id p" "bk_status q = PAYMENT_PENDING"
    and how: "t = ''payment.captured'' \<and> bookings d1
          = store_row bk_id (q\<lparr>bk_status := CONFIRMED, bk_version := bk_version q + 1\<rparr>) (bookings d)
        \<or> t = ''payment.failed'' \<and> bookings d1 = store_row bk_id (released_booking now q) (bookings d)"
    by auto
  have not_released: "bk_status (released_booking now q) \<noteq> CONFIRMED"
    "bk_id (released_booking now q) = bk_id q"
    by (simp_all add: released_booking_def)
  note member = store_row_member [OF assms(2,3) _ assms(5,6) q(1)]
  have "bookings d1 \<noteq> store_row bk_id (released_booking now q) (bookings d)"
    using assms(4,7) member [of "released_booking now q"] not_released by auto
  with how have t: "t = ''payment.captured''" and b: "b = q"
    and b': "b' = q\<lparr>bk_status := CONFIRMED, bk_version := bk_version q + 1\<rparr>"
    using assms(4) member [of "q\<lparr>bk_status := CONFIRMED, bk_version := bk_version q + 1\<rparr>"]
    by auto
  from assms(1) have "is_str (json_get entity ''order_id'')"
    by (auto simp: apply_payment_event_def Let_def split: if_splits)
  with p have "json_get entity ''order_id'' = JStr (the (pay_provider_order_id p))"
    by (auto simp: is_str_iff)
  with p q b b' t show thesis by (intro that [of p]) simp_all
qed

text \<open>
  C11. Only money confirms a booking: when a delivery turns a booking confirmed, the delivery
  carried the HMAC of its body under the webhook secret, its event is a capture, and the
  payment of that booking which the event names by order agrees with it in amount and
  currency; the booking was waiting for payment and its version rises by one.
\<close>

theorem webhook_confirms_captured:
  assumes "process_razorpay_webhook prims now i body sig ev secret seen d = (Inr st, d')"
    and "db_ok d" "b \<in> set (bookings d)" "b' \<in> set (bookings d')" "bk_id b' = bk_id b"
    and "bk_status b' = CONFIRMED" "bk_status b \<noteq> CONFIRMED"
  shows "\<exists>payload entity p. the sig = hmac_sha256_hexdigest prims secret body
    \<and> json_loads prims body = Some payload
    \<and> json_get payload ''event'' = JStr ''payment.captured''
    \<and> nested_entity payload ''payment'' = Inr entity
    \<and> p \<in> set (payments d) \<and> pay_booking_id p = bk_id b
    \<and> json_get entity ''order_id'' = JStr (the (pay_provider_order_id p))
    \<and> json_eq_int (json_get entity ''amount'') (pay_amount_subunits p)
    \<and> json_get entity ''currency'' = JStr (pay_currency p)
    \<and> bk_status b = PAYMENT_PENDING \<and> bk_version b' = bk_version b + 1"
  using assms(1)
proof (rule process_razorpay_webhook_Inr)
  fix payload
  let ?t = "str_of (json_get payload ''event'')"
  let ?e = "received_event i (the ev) ?t (sha256_hex prims body)"
  assume auth: "verify_webhook_signature prims body (the sig) secret"
    "json_loads prims body = Some payload" "is_str (json_get payload ''event'')"
    and res: "st = ''duplicate'' \<and> d' = d \<and> (existing_event (the ev) (sha256_hex prims body) seen = Inr True
        \<or> existing_event (the ev) (sha256_hex prims body) d = Inr True)
     \<or> (\<exists>s d1. db_ok d' \<and> st = WebhookEventStatus_value s
         \<and> apply_event now payload (insert_event ?e d) = Inr (s, d1) \<and> d' = finish_event now ?e s d1)"
  from assms(2) have keys: "distinct (map bk_id (bookings d))" by (auto dest: db_ok_keys simp: keys_ok_def)
  have moved: "b' \<noteq> b" using assms(6,7) by auto
  then have "b' \<notin> set (bookings d)"
    using keys assms(3,5) by (auto dest: distinct_map_unique)
  with assms(4) have "bookings d' \<noteq> bookings d" by auto
  with res obtain s d1 where ap: "apply_event now payload (insert_event ?e d) = Inr (s, d1)"
    and d': "d' = finish_event now ?e s d1" and ne: "bookings d1 \<noteq> bookings (insert_event ?e d)" by auto
  from ap ne obtain entity where ent: "nested_entity payload ''payment'' = Inr entity"
    and pe: "apply_payment_event now ?t entity (insert_event ?e d) = Inr (s, d1)"
    by (auto simp: apply_event_def Let_def split: if_splits sum.splits
        dest: apply_refund_event_bookings)
  have "b' \<in> set (bookings d1)" using assms(4) by (simp add: d')
  from confirming_payment_event [OF pe keys assms(3) this assms(5) moved assms(6)] obtain p where
    p: "?t = ''payment.captured''" "p \<in> set (payments d)" "pay_booking_id p = bk_id b"
      "json_get entity ''order_id'' = JStr (the (pay_provider_order_id p))" "provider_amount_matches p entity"
      "bk_status b = PAYMENT_PENDING" "bk_version b' = bk_version b + 1" .
  with auth ent show ?thesis
    by (intro exI [of _ payload] exI [of _ entity] exI [of _ p])
       (auto simp: is_str_iff provider_amount_matches_def verify_webhook_signature_def verify_hmac_iff)
qed

subsection \<open>Witnesses\<close>

definition event_body :: "string \<Rightarrow> string \<Rightarrow> string \<Rightarrow> int \<Rightarrow> json" where
  "event_body event order payment_id amount = JObj [(''event'', JStr event),
     (''payload'', JObj [(''payment'', JObj [(''entity'', JObj [(''id'', JStr payment_id),
        (''order_id'', JStr order), (''amount'', JInt amount), (''currency'', JStr ''INR'')])])])]"

definition capture_primitives :: primitives where
  "capture_primitives = sample_primitives
     [(''c1'', event_body ''payment.captured'' ''order_1'' ''pay_1'' 5000)]"

definition deliver_capture :: "database \<Rightarrow> database \<Rightarrow> uuid \<Rightarrow> string outcome" where
  "deliver_capture seen d i = process_razorpay_webhook capture_primitives 5 i ''c1''
     (Some ''whsec/c1'') (Some ''evt_1'') ''whsec'' seen d"

text \<open>Delivering the capture to the waiting booking is applied and confirms it.\<close>

lemma deliver_capture_sample:
  obtains d' where "deliver_capture (sample_paid_db PAYMENT_PENDING ORDER_CREATED)
      (sample_paid_db PAYMENT_PENDING ORDER_CREATED) 900 = (Inr ''processed'', d')"
    "bookings d' = [(sample_booking CONFIRMED)\<lparr>bk_version := 2\<rparr>]" "db_ok d'"
    "length (payment_webhook_events d') = 1"
proof -
  let ?r = "deliver_capture (sample_paid_db PAYMENT_PENDING ORDER_CREATED)
      (sample_paid_db PAYMENT_PENDING ORDER_CREATED) 900"
  have "case ?r of (r, d') \<Rightarrow> r = Inr ''processed'' \<and> bookings d' = [(sample_booking CONFIRMED)\<lparr>bk_version := 2\<rparr>]
      \<and> db_ok d' \<and> length (payment_webhook_events d') = 1"
    by code_simp
  then show thesis by (intro that [of "snd ?r"]) (auto simp: prod_eq_iff)
qed

theorem webhook_applied_once_witness:
  "\<exists>d'. deliver_capture (sample_paid_db PAYMENT_PENDING ORDER_CREATED)
       (sample_paid_db PAYMENT_PENDING ORDER_CREATED) 900 = (Inr ''processed'', d')
     \<and> deliver_capture (sample_paid_db PAYMENT_PENDING ORDER_CREATED) d' 901 = (Inr ''duplicate'', d')"
proof (rule deliver_capture_sample)
  fix d'
  assume r: "deliver_capture (sample_paid_db PAYMENT_PENDING ORDER_CREATED)
      (sample_paid_db PAYMENT_PENDING ORDER_CREATED) 900 = (Inr ''processed'', d')" "db_ok d'"
  have "existing_event (the (Some ''evt_1'')) (sha256_hex capture_primitives ''c1'')
      (sample_paid_db PAYMENT_PENDING ORDER_CREATED) = Inr False"
    by code_simp
  with webhook_applied_once [OF r(1) [unfolded deliver_capture_def] _ r(2)] r(1) show ?thesis
    by (auto simp: deliver_capture_def)
qed

theorem webhook_confirms_captured_witness:
  "\<exists>d' payload. deliver_capture (sample_paid_db PAYMENT_PENDING ORDER_CREATED)
       (sample_paid_db PAYMENT_PENDING ORDER_CREATED) 900 = (Inr ''processed'', d')
     \<and> json_get payload ''event'' = JStr ''payment.captured''"
proof (rule deliver_capture_sample)
  fix d'
  assume r: "deliver_capture (sample_paid_db PAYMENT_PENDING ORDER_CREATED)
      (sample_paid_db PAYMENT_PENDING ORDER_CREATED) 900 = (Inr ''processed'', d')"
    "bookings d' = [(sample_booking CONFIRMED)\<lparr>bk_version := 2\<rparr>]"
  have ok: "db_ok (sample_paid_db PAYMENT_PENDING ORDER_CREATED)" by code_simp
  have "sample_booking PAYMENT_PENDING \<in> set (bookings (sample_paid_db PAYMENT_PENDING ORDER_CREATED))"
    by (simp add: sample_paid_db_def)
  from webhook_confirms_captured [OF r(1) [unfolded deliver_capture_def] ok this,
      of "(sample_booking CONFIRMED)\<lparr>bk_version := 2\<rparr>"] r
  show ?thesis by (auto simp: sample_booking_def)
qed

end
