(* ===== verification/Cancellation.thy ===== *)
theory Cancellation
  imports Webhooks
begin

text \<open>
  Cancelling a booking (\<open>bookings/cancellation.py\<close>): unpaid bookings are cancelled at once;
  a confirmed booking is cancelled together with a requested refund of its captured payment,
  the provider is called without locks, and its answer is recorded in a second transaction.
\<close>

subsection \<open>The operation\<close>

definition DIRECT_CANCELLATION_STATUSES :: "BookingStatus list" where
  "DIRECT_CANCELLATION_STATUSES = [HELD, PAYMENT_PENDING]"

record CancellationOutcome =
  cn_booking :: "booking option"
  cn_refund :: "refund option"
  cn_provider_error :: bool

record RefundRequestSnapshot =
  rs_refund_id :: uuid
  rs_booking_id :: uuid
  rs_payment_id :: uuid
  rs_provider_payment_id :: string
  rs_amount_subunits :: int
  rs_currency :: string
  rs_receipt :: string

definition existing_cancellation :: "booking \<Rightarrow> database \<Rightarrow> CancellationOutcome" where
  "existing_cancellation b d = \<lparr>cn_booking = Some b,
     cn_refund = select_scalar (\<lambda>r. list_ex (\<lambda>p. pay_id p = rf_payment_id r
        \<and> pay_booking_id p = bk_id b) (payments d)) (refunds d),
     cn_provider_error = False\<rparr>"

definition cancelled_booking :: "instant \<Rightarrow> booking \<Rightarrow> booking" where
  "cancelled_booking now b =
     b\<lparr>bk_status := CANCELLED, bk_cancelled_at := Some now, bk_version := bk_version b + 1\<rparr>"

definition requested_refund :: "instant \<Rightarrow> uuid \<Rightarrow> payment \<Rightarrow> refund" where
  "requested_refund now refund_id p = \<lparr>rf_id = refund_id, rf_payment_id = pay_id p,
     rf_status = REQUESTED, rf_amount = pay_amount p,
     rf_amount_subunits = pay_amount_subunits p, rf_currency = pay_currency p,
     rf_receipt = ''cmr_'' @ uuid_hex refund_id, rf_provider_refund_id = None,
     rf_last_error_code = None, rf_processed_at = None, rf_created_at = now\<rparr>"

definition refund_snapshot :: "uuid \<Rightarrow> refund \<Rightarrow> payment \<Rightarrow> RefundRequestSnapshot" where
  "refund_snapshot booking_id r p = \<lparr>rs_refund_id = rf_id r, rs_booking_id = booking_id,
     rs_payment_id = pay_id p, rs_provider_payment_id = the (pay_provider_payment_id p),
     rs_amount_subunits = pay_amount_subunits p, rs_currency = pay_currency p,
     rs_receipt = rf_receipt r\<rparr>"

text \<open>The left result is a finished cancellation, the right one a refund to ask for.\<close>

definition prepare_cancellation ::
    "instant \<Rightarrow> uuid \<Rightarrow> uuid \<Rightarrow> uuid \<Rightarrow> int \<Rightarrow> database
     \<Rightarrow> (CancellationOutcome + RefundRequestSnapshot) outcome" where
  "prepare_cancellation now refund_id user_id booking_id expected_version d =
     (case select_scalar (\<lambda>b. bk_id b = booking_id \<and> bk_user_id b = user_id) (bookings d) of
        None \<Rightarrow> raising BookingStateConflictError d
      | Some b \<Rightarrow>
          if bk_status b = CANCELLED
          then let outcome = existing_cancellation b d
            in if cn_refund outcome = None then raising BookingStateConflictError d
               else (Inr (Inl outcome), d)
          else if bk_version b \<noteq> expected_version then raising BookingStateConflictError d
          else if bk_status b \<in> set DIRECT_CANCELLATION_STATUSES
          then if bk_status b = HELD
                  \<and> \<not> timestamp_is_after (map_option stored (bk_hold_expires_at b)) now
               then raising BookingStateConflictError d
               else let d1 = store_booking (cancelled_booking now b) d
                 in on_integrity_error BookingStateConflictError
                      (commit (Inl \<lparr>cn_booking = row_by bk_id (bookings d1) booking_id,
                                    cn_refund = None, cn_provider_error = False\<rparr>) d1 d)
          else if bk_status b \<noteq> CONFIRMED then raising BookingStateConflictError d
          else (case select_scalar (\<lambda>p. pay_booking_id p = bk_id b \<and> pay_status p = CAPTURED)
                  (payments d) of
             None \<Rightarrow> raising BookingStateConflictError d
           | Some p \<Rightarrow>
               if pay_provider_payment_id p = None then raising BookingStateConflictError d
               else let r = requested_refund now refund_id p
                 in on_integrity_error BookingStateConflictError
                      (commit (Inr (refund_snapshot booking_id r p))
                         ((store_booking (cancelled_booking now b) d)
                            \<lparr>refunds := insert_row r (refunds d)\<rparr>) d)))"

definition record_refund_failure ::
    "RefundRequestSnapshot \<Rightarrow> string \<Rightarrow> database \<Rightarrow> CancellationOutcome outcome" where
  "record_refund_failure prepared error_code d =
     (case row_by rf_id (refunds d) (rs_refund_id prepared) of
        None \<Rightarrow> raising AttributeError d
      | Some r \<Rightarrow>
          let r' = (if rf_status r = REQUESTED
                    then r\<lparr>rf_status := R_FAILED, rf_last_error_code := Some error_code\<rparr> else r)
          in commit \<lparr>cn_booking = row_by bk_id (bookings d) (rs_booking_id prepared),
                     cn_refund = Some r', cn_provider_error = True\<rparr> (store_refund r' d) d)"

definition finalize_refund ::
    "instant \<Rightarrow> RefundRequestSnapshot \<Rightarrow> RazorpayRefund \<Rightarrow> database \<Rightarrow> CancellationOutcome outcome" where
  "finalize_refund now prepared provider_refund d =
     (case row_by rf_id (refunds d) (rs_refund_id prepared) of
        None \<Rightarrow> raising AttributeError d
      | Some r \<Rightarrow>
          let booking = row_by bk_id (bookings d) (rs_booking_id prepared);
              r1 = r\<lparr>rf_provider_refund_id := Some (rr_id provider_refund)\<rparr>
          in if rf_status r \<noteq> REQUESTED
             then (Inr \<lparr>cn_booking = booking, cn_refund = Some r, cn_provider_error = False\<rparr>, d)
             else if rr_status provider_refund = ''processed''
             then (case row_by pay_id (payments d) (rs_payment_id prepared) of
                     None \<Rightarrow> raising AttributeError d
                   | Some p \<Rightarrow>
                       let r2 = r1\<lparr>rf_status := R_PROCESSED, rf_processed_at := Some now\<rparr>
                       in on_integrity_error BookingStateConflictError
                            (commit \<lparr>cn_booking = booking, cn_refund = Some r2,
                                     cn_provider_error = False\<rparr>
                               (store_payment (p\<lparr>pay_status := REFUNDED\<rparr>) (store_refund r2 d)) d))
             else let r2 = (if rr_status provider_refund = ''pending'' then r1\<lparr>rf_status := R_PENDING\<rparr>
                            else r1\<lparr>rf_status := R_FAILED,
                                    rf_last_error_code := Some ''provider_refund_failed''\<rparr>)
               in on_integrity_error BookingStateConflictError
                    (commit \<lparr>cn_booking = booking, cn_refund = Some r2,
                             cn_provider_error = (rf_status r2 = R_FAILED)\<rparr> (store_refund r2 d) d))"

definition refund_call ::
    "provider \<Rightarrow> string \<times> string \<Rightarrow> RefundRequestSnapshot \<Rightarrow> exn + RazorpayRefund" where
  "refund_call http creds prepared =
     create_razorpay_refund http (fst creds) (snd creds) (rs_provider_payment_id prepared)
       (rs_amount_subunits prepared) (rs_currency prepared) (rs_receipt prepared)
       [(''refund_id'', uuid_str (rs_refund_id prepared)),
        (''booking_id'', uuid_str (rs_booking_id prepared))]"

definition conclude_cancellation ::
    "config \<Rightarrow> provider \<Rightarrow> instant \<Rightarrow> RefundRequestSnapshot \<Rightarrow> database \<Rightarrow> CancellationOutcome outcome" where
  "conclude_cancellation cfg http now prepared d =
     (case credentials cfg of
        None \<Rightarrow> record_refund_failure prepared ''provider_not_configured'' d
      | Some creds \<Rightarrow>
          (case refund_call http creds prepared of
             Inl RazorpayRefundError \<Rightarrow> record_refund_failure prepared ''provider_refund_failed'' d
           | Inl e \<Rightarrow> (Inl e, d)
           | Inr provider_refund \<Rightarrow> finalize_refund now prepared provider_refund d))"

definition cancel_booking_with_refund ::
    "config \<Rightarrow> provider \<Rightarrow> (database \<Rightarrow> database) \<Rightarrow> instant \<Rightarrow> instant \<Rightarrow> uuid \<Rightarrow> uuid \<Rightarrow> uuid
     \<Rightarrow> int \<Rightarrow> database \<Rightarrow> CancellationOutcome outcome" where
  "cancel_booking_with_refund cfg http others now later refund_id user_id booking_id
       expected_version d =
     (case prepare_cancellation now refund_id user_id booking_id expected_version d of
        (Inl e, d') \<Rightarrow> (Inl e, d')
      | (Inr (Inl outcome), d') \<Rightarrow> (Inr outcome, d')
      | (Inr (Inr prepared), d') \<Rightarrow>
          conclude_cancellation cfg http later prepared (others d'))"

subsection \<open>Every transaction is a safe step\<close>

lemma cancelled_quiet:
  "bk_status b \<in> {HELD, PAYMENT_PENDING, CONFIRMED} \<Longrightarrow> quiet_move P b (cancelled_booking now b)"
  unfolding quiet_move_def booking_move_def cancelled_booking_def
  by (intro conjI disjI2 exI [of _ CANCELLED] exI [of _ "Some now"])
     (auto simp: booking_paid_def paid_status_def)

lemma safe_store_booking:
  assumes "\<lbrakk>coherent d; keys_ok d\<rbrakk> \<Longrightarrow> \<exists>b \<in> set (bookings d). quiet_move (set (payments d)) b b'"
  shows "safe_step d (snd (commit x (store_booking b' d) d))"
proof (rule safe_commit_quiet)
  assume "coherent d" "keys_ok d"
  with assms show "table_evolves (quiet_move (set (payments d))) new_booking (bookings d)
      (bookings (store_booking b' d))"
    by (auto intro: store_booking_quiet)
qed (simp add: store_booking_def)

lemma safe_request_refund:
  assumes b: "b \<in> set (bookings d)" "bk_status b = CONFIRMED"
    and p: "p \<in> set (payments d)" "pay_booking_id p = bk_id b" "pay_status p = CAPTURED"
  shows "safe_step d (snd (commit x ((store_booking (cancelled_booking now b) d)
           \<lparr>refunds := insert_row (requested_refund now i p) (refunds d)\<rparr>) d))"
    (is "safe_step d (snd (commit x ?d d))")
proof (rule safe_commit)
  let ?b = "cancelled_booking now b" and ?r = "requested_refund now i p"
  assume hyps: "db_ok d" "coherent d" "keys_ok d"
  have bs: "table_evolves (quiet_move (set (payments d))) new_booking (bookings d)
      (store_row bk_id ?b (bookings d))"
    using b(2) by (intro store_booking_quiet [OF hyps(3) b(1)] cancelled_quiet) simp
  have d1: "coherent (store_booking ?b d)"
    unfolding store_booking_def by (rule coherent_quiet [OF hyps(2) bs])
  have "?b \<in> set (store_row bk_id ?b (bookings d))" "bk_status ?b = CANCELLED" "bk_id ?b = bk_id b"
    using b(1) by (auto simp: set_store_row cancelled_booking_def)
  then have "\<exists>x \<in> set (store_row bk_id ?b (bookings d)). bk_id x = pay_booking_id p \<and> bk_status x = CANCELLED"
    using p(2) by (intro bexI [of _ ?b]) auto
  then have "added_refund (set (store_row bk_id ?b (bookings d))) (set (payments d)) ?r"
    using p unfolding added_refund_def refund_coherent_def
    by (intro conjI bexI [of _ p]) (auto simp: new_refund_def requested_refund_def)
  then have rs: "table_evolves plain_refund_move (added_refund (set (store_row bk_id ?b (bookings d)))
      (set (payments d))) (refunds d) (insert_row ?r (refunds d))"
    by (intro table_evolves_insert_row table_evolves_refl plain_refund_move_refl)
  then have "coherent ((store_booking ?b d)\<lparr>refunds := insert_row ?r (refunds d)\<rparr>)"
    by (intro coherent_refunds [OF d1]) simp
  moreover have "core_evolves d ?d"
    using quiet_evolves_booking [OF bs] plain_evolves_refund [OF rs]
    by (simp add: core_evolves_def core_refl)
  ultimately show "coherent ?d \<and> core_evolves d ?d" by simp
qed

lemma prepare_cancellation_safe:
  "safe_step d (snd (prepare_cancellation now i u j v d))"
  unfolding prepare_cancellation_def Let_def
  by (auto simp: DIRECT_CANCELLATION_STATUSES_def split: option.split dest!: select_scalar_Some
      intro!: safe_request_refund safe_store_booking bexI cancelled_quiet)

lemma record_refund_failure_safe: "safe_step d (snd (record_refund_failure s c d))"
proof (cases "row_by rf_id (refunds d) (rs_refund_id s)")
  case (Some r)
  have "plain_refund_move r (if rf_status r = REQUESTED
      then r\<lparr>rf_status := R_FAILED, rf_last_error_code := Some c\<rparr> else r)"
    by (auto simp: plain_refund_move_def refund_move_def same_refund_def)
  with row_by_Some [OF Some] Some show ?thesis
    by (auto simp: record_refund_failure_def Let_def intro!: safe_plain_refund)
qed (simp add: record_refund_failure_def)

text \<open>The refund of the snapshot is stored, for the payment the snapshot names.\<close>

definition snapshot_stored :: "RefundRequestSnapshot \<Rightarrow> database \<Rightarrow> bool" where
  "snapshot_stored s d \<longleftrightarrow>
     (\<exists>r \<in> set (refunds d). rf_id r = rs_refund_id s \<and> rf_payment_id r = rs_payment_id s)"

lemma snapshot_stored_step: "core_evolves d d' \<Longrightarrow> snapshot_stored s d \<Longrightarrow> snapshot_stored s d'"
  unfolding core_evolves_def snapshot_stored_def
  by (auto dest!: table_evolves_forward [of refund_move] simp: refund_move_def same_refund_def)

lemma snapshot_stored_run: "core_evolves\<^sup>*\<^sup>* d d' \<Longrightarrow> snapshot_stored s d \<Longrightarrow> snapshot_stored s d'"
  by (induction rule: rtranclp_induct) (auto intro: snapshot_stored_step)

lemma finalize_refund_safe:
  assumes "snapshot_stored s d"
  shows "safe_step d (snd (finalize_refund now s answer d))"
proof (cases "row_by rf_id (refunds d) (rs_refund_id s)")
  case None
  then show ?thesis by (simp add: finalize_refund_def)
next
  case (Some r)
  note r = row_by_Some [OF Some]
  let ?r1 = "r\<lparr>rf_provider_refund_id := Some (rr_id answer)\<rparr>"
  let ?proc = "?r1\<lparr>rf_status := R_PROCESSED, rf_processed_at := Some now\<rparr>"
  have "safe_step d (snd (commit x (store_refund (?r1\<lparr>rf_status := st, rf_last_error_code := c\<rparr>) d) d))"
    if "st \<in> {R_PENDING, R_FAILED}" "rf_status r = REQUESTED"  for st c and x :: CancellationOutcome
    using r that
    by (intro safe_plain_refund [of d "?r1\<lparr>rf_status := st, rf_last_error_code := c\<rparr>"])
       (auto simp: plain_refund_move_def refund_move_def same_refund_def coherent_def
         refund_coherent_def intro!: bexI [of _ r])
  from this [where st = R_PENDING and c = "rf_last_error_code r"]
    this [where st = R_FAILED and c = "Some ''provider_refund_failed''"]
  have other: "rf_status r = REQUESTED \<Longrightarrow> safe_step d (snd (commit x
      (store_refund (?r1\<lparr>rf_status := R_PENDING\<rparr>) d) d))"
    "rf_status r = REQUESTED \<Longrightarrow> safe_step d (snd (commit x (store_refund (?r1\<lparr>rf_status := R_FAILED,
        rf_last_error_code := Some ''provider_refund_failed''\<rparr>) d) d))" for x :: CancellationOutcome
    by simp_all
  have "safe_step d (snd (commit x (store_payment (p\<lparr>pay_status := REFUNDED\<rparr>) (store_refund ?proc d)) d))"
    if st: "rf_status r = REQUESTED" and p: "row_by pay_id (payments d) (rs_payment_id s) = Some p"
    for p and x :: CancellationOutcome
  proof (rule safe_process_refund [of d r ?proc p])
    assume hyps: "coherent d" "keys_ok d"
    from assms hyps(2) r have "rf_payment_id r = rs_payment_id s"
      by (auto simp: snapshot_stored_def keys_ok_def dest: distinct_map_unique)
    moreover from hyps(1) r st have "rf_provider_refund_id r = None"
      by (auto simp: coherent_def refund_coherent_def)
    ultimately show "r \<in> set (refunds d) \<and> refund_move r ?proc \<and> p \<in> set (payments d)
        \<and> pay_id p = rf_payment_id r"
      using r st row_by_Some [OF p] by (auto simp: refund_move_def same_refund_def)
  qed simp_all
  with Some other show ?thesis
    by (auto simp: finalize_refund_def Let_def split: option.split)
qed

lemma conclude_cancellation_safe:
  assumes "snapshot_stored s d"
  shows "safe_step d (snd (conclude_cancellation cfg http now s d))"
  using finalize_refund_safe [OF assms, of now] record_refund_failure_safe [of d s]
  unfolding conclude_cancellation_def
  by (auto split: option.split sum.split exn.split)

lemma prepare_cancellation_Inr:
  assumes "prepare_cancellation now i u j v d = (Inr (Inr s), d')"
  obtains b p where "b \<in> set (bookings d)" "bk_id b = j" "bk_user_id b = u" "bk_version b = v"
    "bk_status b = CONFIRMED" "p \<in> set (payments d)" "pay_booking_id p = j"
    "pay_status p = CAPTURED" "pay_provider_payment_id p \<noteq> None"
    "s = refund_snapshot j (requested_refund now i p) p" "db_ok d'"
    "d' = (store_booking (cancelled_booking now b) d)
       \<lparr>refunds := insert_row (requested_refund now i p) (refunds d)\<rparr>"
proof -
  from assms obtain b where b: "select_scalar (\<lambda>b. bk_id b = j \<and> bk_user_id b = u) (bookings d) = Some b"
    "bk_version b = v" "bk_status b = CONFIRMED"
    by (auto simp: prepare_cancellation_def Let_def split: option.splits if_splits)
  with assms obtain p where p: "select_scalar (\<lambda>p. pay_booking_id p = bk_id b \<and> pay_status p = CAPTURED)
      (payments d) = Some p" "pay_provider_payment_id p \<noteq> None"
    "s = refund_snapshot j (requested_refund now i p) p" "db_ok d'"
    "d' = (store_booking (cancelled_booking now b) d)
       \<lparr>refunds := insert_row (requested_refund now i p) (refunds d)\<rparr>"
    by (auto simp: prepare_cancellation_def Let_def DIRECT_CANCELLATION_STATUSES_def
        split: option.splits if_splits)
  from select_scalar_Some [OF b(1)] select_scalar_Some [OF p(1)] b(2,3) p(2-5) show thesis
    by (intro that) auto
qed

lemma prepared_snapshot_stored:
  assumes "prepare_cancellation now i u j v d = (Inr (Inr s), d')"
  shows "snapshot_stored s d'"
  using assms by (rule prepare_cancellation_Inr)
    (simp add: snapshot_stored_def refund_snapshot_def requested_refund_def)

lemma cancel_booking_with_refund_safe:
  assumes others: "\<And>x. safe_run x (others x)"
  shows "safe_run d (snd (cancel_booking_with_refund cfg http others now later i u j v d))"
proof (cases "db_ok d \<and> coherent d")
  case True
  have prep: "safe_step d d1" if "prepare_cancellation now i u j v d = (r, d1)" for r d1
    using prepare_cancellation_safe [of d now i u j v] that by simp
  have "safe_run d (snd (conclude_cancellation cfg http later s (others d1)))"
    if r: "prepare_cancellation now i u j v d = (Inr (Inr s), d1)" for s d1
  proof -
    from prep [OF r] True have d1: "db_ok d1" "coherent d1" by (auto simp: safe_step_def)
    with others [of d1] have "core_evolves\<^sup>*\<^sup>* d1 (others d1)" by (simp add: safe_run_def)
    with prepared_snapshot_stored [OF r] have "snapshot_stored s (others d1)"
      by (blast intro: snapshot_stored_run)
    then show ?thesis
      using prep [OF r] others [of d1]
      by (blast intro: safe_run_trans safe_step_run conclude_cancellation_safe)
  qed
  with prep show ?thesis
    unfolding cancel_booking_with_refund_def
    by (auto split: prod.split sum.split intro: safe_step_run)
qed (auto simp: safe_run_def)

subsection \<open>Properties of cancellations\<close>

text \<open>
  The first transaction of a cancellation changes exactly one booking: it belongs to
  the caller, has the version the caller saw and is an unexpired hold, waiting for payment
  or confirmed; it becomes cancelled at that moment with the next version. No payment
  changes, and a refund is added exactly when the booking was confirmed.
\<close>

theorem prepare_cancellation_effect:
  assumes "prepare_cancellation now i u j v d = (Inr out, d')" "d' \<noteq> d"
  shows "\<exists>b \<in> set (bookings d). bk_id b = j \<and> bk_user_id b = u \<and> bk_version b = v
    \<and> (bk_status b = HELD \<and> (\<exists>t. bk_hold_expires_at b = Some t \<and> now < t)
       \<or> bk_status b = PAYMENT_PENDING \<or> bk_status b = CONFIRMED)
    \<and> bookings d' = store_row bk_id (b\<lparr>bk_status := CANCELLED, bk_cancelled_at := Some now,
        bk_version := bk_version b + 1\<rparr>) (bookings d)
    \<and> payments d' = payments d
    \<and> (if bk_status b = CONFIRMED then \<exists>r. refunds d' = refunds d @ [r] else refunds d' = refunds d)"
proof (cases out)
  case (Inr s)
  from assms(1) [unfolded Inr] show ?thesis
  proof (rule prepare_cancellation_Inr)
    fix b p
    assume "b \<in> set (bookings d)" "bk_id b = j" "bk_user_id b = u" "bk_version b = v"
      "bk_status b = CONFIRMED" "d' = (store_booking (cancelled_booking now b) d)
       \<lparr>refunds := insert_row (requested_refund now i p) (refunds d)\<rparr>"
    then show ?thesis
      by (intro bexI [of _ b]) (auto simp: cancelled_booking_def insert_row_def)
  qed
next
  case (Inl outcome)
  with assms obtain b where b: "select_scalar (\<lambda>b. bk_id b = j \<and> bk_user_id b = u) (bookings d) = Some b"
    "bk_version b = v" "bk_status b \<in> {HELD, PAYMENT_PENDING}"
    "bk_status b = HELD \<longrightarrow> (\<exists>t. bk_hold_expires_at b = Some t \<and> now < t)"
    "d' = store_booking (cancelled_booking now b) d"
    by (auto simp: prepare_cancellation_def Let_def DIRECT_CANCELLATION_STATUSES_def
        split: option.splits if_splits)
  with select_scalar_Some [OF b(1)] show ?thesis
    by (intro bexI [of _ b]) (auto simp: cancelled_booking_def)
qed

text \<open>
  The refund that a cancellation requests is the whole fee: it is stored in the same
  transaction that cancels the booking, for a captured payment of the booking, over the
  booking's total amount, and the provider is asked for exactly a hundred times that amount
  in the smallest unit.
\<close>

theorem cancellation_refunds_whole_fee:
  assumes "db_ok d" "coherent d" "prepare_cancellation now i u j v d = (Inr (Inr s), d')"
  shows "\<exists>b \<in> set (bookings d). \<exists>p \<in> set (payments d). \<exists>r \<in> set (refunds d'). \<exists>amount.
      bk_id b = j \<and> bk_total_amount b = Some amount
    \<and> pay_booking_id p = j \<and> pay_status p = CAPTURED
    \<and> rf_payment_id r = pay_id p \<and> rf_status r = REQUESTED \<and> rf_amount r = amount
    \<and> rs_refund_id s = rf_id r \<and> rs_payment_id s = pay_id p
    \<and> pay_provider_payment_id p = Some (rs_provider_payment_id s)
    \<and> of_int (rs_amount_subunits s) = amount * 100"
  using assms(3)
proof (rule prepare_cancellation_Inr)
  fix b p
  let ?r = "requested_refund now i p"
  assume b: "b \<in> set (bookings d)" "bk_id b = j" and p: "p \<in> set (payments d)" "pay_booking_id p = j"
    "pay_status p = CAPTURED" "pay_provider_payment_id p \<noteq> None"
    and s: "s = refund_snapshot j ?r p"
    and d': "d' = (store_booking (cancelled_booking now b) d)\<lparr>refunds := insert_row ?r (refunds d)\<rparr>"
  from assms(1) have keys: "distinct (map bk_id (bookings d))" by (auto dest: db_ok_keys simp: keys_ok_def)
  from assms(2) p(1) have pc: "payment_coherent (set (bookings d)) p" by (auto simp: coherent_def)
  then obtain b0 where b0: "b0 \<in> set (bookings d)" "bk_id b0 = j"
    "bk_total_amount b0 = Some (pay_amount p)" using p(2) by (auto simp: payment_coherent_def)
  with keys b have "bk_total_amount b = Some (pay_amount p)" by (auto dest: distinct_map_unique)
  with b p s d' pc show ?thesis
    by (intro bexI [of _ b] bexI [of _ p] bexI [of _ ?r] exI [of _ "pay_amount p"])
       (auto simp: requested_refund_def refund_snapshot_def payment_coherent_def)
qed

lemma cancelled_run:
  assumes "core_evolves\<^sup>*\<^sup>* d d'" "\<exists>b \<in> set (bookings d). bk_id b = j \<and> bk_user_id b = u \<and> bk_status b = CANCELLED"
  shows "\<exists>b \<in> set (bookings d'). bk_id b = j \<and> bk_user_id b = u \<and> bk_status b = CANCELLED"
  using assms
proof (induction rule: rtranclp_induct)
  case (step y z)
  then obtain b where b: "b \<in> set (bookings y)" "bk_id b = j" "bk_user_id b = u" "bk_status b = CANCELLED"
    by auto
  from step.hyps(2) b(1) obtain b' where "b' \<in> set (bookings z)" "booking_move b b'"
    by (auto simp: core_evolves_def dest: table_evolves_forward)
  with b show ?case
    by (auto simp: booking_move_same booking_move_cancelled intro!: bexI [of _ b'])
qed

text \<open>
  Retrying a cancellation is safe: after the refund was requested, whatever the other
  transactions did since, cancelling the same booking again (with any version, provider
  and configuration) returns a stored refund of this booking, asks the provider nothing
  and changes nothing.
\<close>

theorem cancellation_retry:
  assumes "prepare_cancellation now i u j v d = (Inr (Inr s), d')"
    and "core_evolves\<^sup>*\<^sup>* d' later" "db_ok later"
  shows "\<exists>b r. b \<in> set (bookings later) \<and> bk_id b = j \<and> bk_status b = CANCELLED
    \<and> r \<in> set (refunds later) \<and> (\<exists>p \<in> set (payments later). pay_id p = rf_payment_id r \<and> pay_booking_id p = j)
    \<and> cancel_booking_with_refund cfg http others now' t i' u j v' later
       = (Inr \<lparr>cn_booking = Some b, cn_refund = Some r, cn_provider_error = False\<rparr>, later)"
  using assms(1)
proof (rule prepare_cancellation_Inr)
  fix b0 p0
  assume b0: "b0 \<in> set (bookings d)" "bk_id b0 = j" "bk_user_id b0 = u" "bk_status b0 = CONFIRMED"
    and p0: "p0 \<in> set (payments d)" "pay_booking_id p0 = j"
    and s: "s = refund_snapshot j (requested_refund now i p0) p0" and ok: "db_ok d'"
    and d': "d' = (store_booking (cancelled_booking now b0) d)
       \<lparr>refunds := insert_row (requested_refund now i p0) (refunds d)\<rparr>"
  have "cancelled_booking now b0 \<in> set (bookings d')"
    using b0 unfolding d' by (auto simp: set_store_row cancelled_booking_def)
  then have "\<exists>b \<in> set (bookings d'). bk_id b = j \<and> bk_user_id b = u \<and> bk_status b = CANCELLED"
    using b0 by (intro bexI [of _ "cancelled_booking now b0"]) (auto simp: cancelled_booking_def)
  from cancelled_run [OF assms(2) this] obtain b where b: "b \<in> set (bookings later)"
    "bk_id b = j" "bk_user_id b = u" "bk_status b = CANCELLED" by blast
  from assms(3) have keys: "distinct (map bk_id (bookings later))" "distinct (map pay_id (payments later))"
    by (auto dest: db_ok_keys simp: keys_ok_def)
  have sel: "select_scalar (\<lambda>b. bk_id b = j \<and> bk_user_id b = u) (bookings later) = Some b"
    using b keys(1) by (intro select_scalar_unique) (auto dest: distinct_map_unique)
  have "p0 \<in> set (payments d')" using p0 by (simp add: d')
  with ok have "row_by pay_id (payments d') (pay_id p0) = Some p0"
    by (intro row_by_in) (auto dest: db_ok_keys simp: keys_ok_def)
  from run_payment [OF assms(2) this] obtain p where p: "p \<in> set (payments later)"
    "pay_id p = pay_id p0" "pay_booking_id p = j"
    using p0(2) by (auto dest!: row_by_Some simp: same_payment_def)
  from snapshot_stored_run [OF assms(2) prepared_snapshot_stored [OF assms(1)]] obtain r0 where
    "r0 \<in> set (refunds later)" "rf_payment_id r0 = pay_id p0"
    by (auto simp: snapshot_stored_def s refund_snapshot_def)
  with p have "cn_refund (existing_cancellation b later) \<noteq> None"
    using b(2) by (auto simp: existing_cancellation_def select_scalar_None list_ex_iff
        intro!: bexI [of _ r0] bexI [of _ p])
  then obtain r where r: "cn_refund (existing_cancellation b later) = Some r" by blast
  then have "r \<in> set (refunds later) \<and> (\<exists>p \<in> set (payments later). pay_id p = rf_payment_id r
      \<and> pay_booking_id p = j)"
    using b(2) by (auto simp: existing_cancellation_def list_ex_iff dest!: select_scalar_Some)
  moreover from sel b(4) r have "prepare_cancellation now' i' u j v' later =
      (Inr (Inl \<lparr>cn_booking = Some b, cn_refund = Some r, cn_provider_error = False\<rparr>), later)"
    by (simp add: prepare_cancellation_def Let_def) (simp add: existing_cancellation_def)
  ultimately show ?thesis
    using b by (intro exI [of _ b] exI [of _ r]) (simp add: cancel_booking_with_refund_def)
qed

lemma stored_refund_member:
  "row_by rf_id (refunds d) i = Some r \<Longrightarrow> rf_id r' = rf_id r \<Longrightarrow> r' \<in> set (store_row rf_id r' (refunds d))"
  by (auto simp: set_store_row dest!: row_by_Some)

lemma conclude_cancellation_refund:
  assumes "conclude_cancellation cfg http now s d = (Inr out, d')" "cn_refund out = Some r"
  shows "r \<in> set (refunds d')"
proof -
  have rec: "r \<in> set (refunds d')" if "record_refund_failure s c d = (Inr out, d')" for c
    using that assms(2)
    by (auto simp: record_refund_failure_def Let_def stored_refund_member
        split: option.splits if_splits)
  have fin: "r \<in> set (refunds d')" if "finalize_refund now s answer d = (Inr out, d')" for answer
    using that assms(2)
    by (auto simp: finalize_refund_def Let_def stored_refund_member
        split: option.splits if_splits dest: row_by_Some)
  from assms(1) rec fin show ?thesis
    by (auto simp: conclude_cancellation_def split: option.splits sum.splits exn.splits)
qed

text \<open>
  C18. However the provider and the other transactions behave, a cancellation that reports a
  refund reports a stored one, and the books balance at that moment: it is over the whole
  amount of a payment of a cancelled booking, and the payment is marked refunded exactly
  when the refund was processed.
\<close>

theorem cancellation_books_balance:
  assumes "db_ok d" "coherent d" "\<forall>x. safe_run x (others x)"
    and "cancel_booking_with_refund cfg http others now later i u j v d = (Inr out, d')"
    and "cn_refund out = Some r"
  shows "r \<in> set (refunds d') \<and> (\<exists>p \<in> set (payments d'). \<exists>b \<in> set (bookings d').
      pay_id p = rf_payment_id r \<and> pay_amount p = rf_amount r
    \<and> bk_id b = pay_booking_id p \<and> bk_status b = CANCELLED
    \<and> (pay_status p = REFUNDED \<longleftrightarrow> rf_status r = R_PROCESSED)
    \<and> (pay_status p = CAPTURED \<longleftrightarrow> rf_status r \<noteq> R_PROCESSED))"
proof -
  have "safe_run d d'"
    using cancel_booking_with_refund_safe [of others d cfg http now later i u j v] assms(3,4) by simp
  with assms(1,2) have co: "coherent d'" by (simp add: safe_run_def)
  have "r \<in> set (refunds d')"
    using assms(4,5) unfolding cancel_booking_with_refund_def
    by (auto split: prod.splits sum.splits dest: conclude_cancellation_refund)
      (auto simp: prepare_cancellation_def Let_def existing_cancellation_def
        split: option.splits if_splits dest!: select_scalar_Some)
  moreover from this co have "refund_coherent (set (bookings d')) (set (payments d')) r"
    by (simp add: coherent_def)
  then obtain p b where "p \<in> set (payments d')" "pay_id p = rf_payment_id r" "pay_amount p = rf_amount r"
    "pay_status p = (if rf_status r = R_PROCESSED then REFUNDED else CAPTURED)"
    "b \<in> set (bookings d')" "bk_id b = pay_booking_id p" "bk_status b = CANCELLED"
    unfolding refund_coherent_def by blast
  ultimately show ?thesis
    by (intro conjI bexI [of _ p] bexI [of _ b]) simp_all
qed

text \<open>
  A refund can get stuck: when the provider answers with a refund whose status is not a
  string, the operation ends in a type error after the booking was cancelled; the refund
  stays requested without a provider identifier and the payment stays captured, although
  the caller was told nothing of it.
\<close>

theorem cancellation_stuck_refund:
  assumes "prepare_cancellation now i u j v d = (Inr (Inr s), d')"
    and "credentials cfg = Some creds"
    and "\<not> hashable (json_get payload ''status'')" "is_dict payload"
    and "json_get payload ''id'' = JStr (''rfnd_'' @ suffix)"
    and "json_get payload ''payment_id'' = JStr (rs_provider_payment_id s)"
    and "json_get payload ''amount'' = JInt (rs_amount_subunits s)"
    and "json_get payload ''currency'' = JStr (rs_currency s)"
  shows "cancel_booking_with_refund cfg (\<lambda>_. Some payload) id now later i u j v d = (Inl TypeError, d')
    \<and> (\<exists>r \<in> set (refunds d'). rf_id r = rs_refund_id s \<and> rf_status r = REQUESTED
         \<and> rf_provider_refund_id r = None)
    \<and> (\<exists>p \<in> set (payments d'). pay_id p = rs_payment_id s \<and> pay_status p = CAPTURED)"
proof -
  from assms(2-8) have "conclude_cancellation cfg (\<lambda>_. Some payload) later s d' = (Inl TypeError, d')"
    by (simp add: conclude_cancellation_def refund_call_def create_razorpay_refund_def
        valid_refund_payload_def startswith_def)
  with assms(1) show ?thesis
    by (rule_tac prepare_cancellation_Inr [OF assms(1)])
      (auto simp: cancel_booking_with_refund_def requested_refund_def refund_snapshot_def)
qed

subsection \<open>Witnesses\<close>

definition refunding_provider :: "string \<Rightarrow> provider" where
  "refunding_provider status rq = Some (JObj [(''id'', JStr ''rfnd_1''), (''payment_id'', JStr ''pay_1''),
     (''amount'', JInt 5000), (''currency'', JStr ''INR''), (''status'', JStr status)])"

lemma sample_cancellation:
  obtains s d' where "prepare_cancellation 9 400 1 100 1 (sample_paid_db CONFIRMED CAPTURED)
      = (Inr (Inr s), d')" "rs_amount_subunits s = 5000" "rs_provider_payment_id s = ''pay_1''"
    "rs_currency s = ''INR''" "d' \<noteq> sample_paid_db CONFIRMED CAPTURED"
proof -
  let ?r = "prepare_cancellation 9 400 1 100 1 (sample_paid_db CONFIRMED CAPTURED)"
  have r: "case ?r of (Inr (Inr s), d') \<Rightarrow> rs_amount_subunits s = 5000
      \<and> rs_provider_payment_id s = ''pay_1'' \<and> rs_currency s = ''INR''
      \<and> map bk_status (bookings d') = [CANCELLED] | _ \<Rightarrow> False"
    by code_simp
  have "map bk_status (bookings (sample_paid_db CONFIRMED CAPTURED)) = [CONFIRMED]" by code_simp
  with r show thesis by (auto split: prod.splits sum.splits intro: that)
qed

lemma sample_paid_coherent: "coherent (sample_paid_db CONFIRMED CAPTURED)"
  by code_simp

theorem prepare_cancellation_effect_witness:
  "\<exists>out d'. prepare_cancellation 9 400 1 100 1 (sample_paid_db CONFIRMED CAPTURED) = (Inr out, d')
     \<and> payments d' = payments (sample_paid_db CONFIRMED CAPTURED)"
proof (rule sample_cancellation)
  fix s d'
  assume r: "prepare_cancellation 9 400 1 100 1 (sample_paid_db CONFIRMED CAPTURED) = (Inr (Inr s), d')"
    "d' \<noteq> sample_paid_db CONFIRMED CAPTURED"
  from prepare_cancellation_effect [OF this] r(1) show ?thesis by blast
qed

theorem cancellation_refunds_whole_fee_witness:
  "\<exists>s d'. prepare_cancellation 9 400 1 100 1 (sample_paid_db CONFIRMED CAPTURED) = (Inr (Inr s), d')
     \<and> (\<exists>r \<in> set (refunds d'). rf_amount r = 50)"
proof (rule sample_cancellation)
  fix s d'
  assume r: "prepare_cancellation 9 400 1 100 1 (sample_paid_db CONFIRMED CAPTURED) = (Inr (Inr s), d')"
    "rs_amount_subunits s = 5000"
  from cancellation_refunds_whole_fee [OF sample_paid_db_ok sample_paid_coherent r(1)] r
  show ?thesis by auto
qed

theorem cancellation_retry_witness:
  "\<exists>s d'. prepare_cancellation 9 400 1 100 1 (sample_paid_db CONFIRMED CAPTURED) = (Inr (Inr s), d')
     \<and> snd (cancel_booking_with_refund sample_config (refunding_provider ''failed'') id 10 11 401 1 100 7 d') = d'"
proof (rule sample_cancellation)
  fix s d'
  assume r: "prepare_cancellation 9 400 1 100 1 (sample_paid_db CONFIRMED CAPTURED) = (Inr (Inr s), d')"
  then have ok: "db_ok d'" by (rule prepare_cancellation_Inr)
  from cancellation_retry [OF r rtranclp.rtrancl_refl ok,
      of sample_config "refunding_provider ''failed''" id 10 11 401 7] r
  show ?thesis by auto
qed

theorem cancellation_books_balance_witness:
  "\<exists>out r d'. cancel_booking_with_refund sample_config (refunding_provider ''processed'') id 9 11 400 1
       100 1 (sample_paid_db CONFIRMED CAPTURED) = (Inr out, d') \<and> cn_refund out = Some r
     \<and> r \<in> set (refunds d')"
proof -
  let ?c = "cancel_booking_with_refund sample_config (refunding_provider ''processed'') id 9 11 400 1
       100 1 (sample_paid_db CONFIRMED CAPTURED)"
  have "case ?c of (Inr out, d') \<Rightarrow> map_option rf_status (cn_refund out) = Some R_PROCESSED | _ \<Rightarrow> False"
    by code_simp
  then obtain out r d' where r: "?c = (Inr out, d')" "cn_refund out = Some r"
    by (auto split: prod.splits sum.splits)
  have "\<forall>x. safe_run x (id x)" by simp
  from cancellation_books_balance [OF sample_paid_db_ok sample_paid_coherent this r] r
  show ?thesis by blast
qed

theorem cancellation_stuck_refund_witness:
  "\<exists>d'. cancel_booking_with_refund sample_config (\<lambda>_. Some (JObj [(''id'', JStr ''rfnd_1''),
       (''payment_id'', JStr ''pay_1''), (''amount'', JInt 5000), (''currency'', JStr ''INR''),
       (''status'', JList [])])) id 9 11 400 1 100 1 (sample_paid_db CONFIRMED CAPTURED)
     = (Inl TypeError, d')"
proof (rule sample_cancellation)
  fix s d'
  assume r: "prepare_cancellation 9 400 1 100 1 (sample_paid_db CONFIRMED CAPTURED) = (Inr (Inr s), d')"
    "rs_amount_subunits s = 5000" "rs_provider_payment_id s = ''pay_1''" "rs_currency s = ''INR''"
  have creds: "credentials sample_config = Some (''rzp_test_key'', ''rzp_secret'')" by code_simp
  show ?thesis
    by (rule exI [of _ d'])
      (rule conjunct1 [OF cancellation_stuck_refund [OF r(1) creds, where suffix = "''1''"]],
       simp_all add: r)
qed

end
