(* ===== verification/ChargingSessions.thy ===== *)
theory ChargingSessions
  imports Cancellation
begin

text \<open>
  Charging sessions (\<open>charging_sessions/schemas.py\<close>, \<open>charging_sessions/service.py\<close>): an
  operator turns a confirmed booking into active charger usage and completes it with a
  final meter reading; drivers and operators list what concerns them.
\<close>

subsection \<open>Requests\<close>

text \<open>\<open>Field(ge=0, max_digits=p, decimal_places=s)\<close> on a \<open>Decimal\<close>.\<close>

definition decimal_field :: "nat \<Rightarrow> nat \<Rightarrow> decimal \<Rightarrow> bool" where
  "decimal_field p s x \<longleftrightarrow> 0 \<le> x \<and> has_scale s x \<and> fits_numeric p s x"

record StartChargingSessionRequest =
  sr_booking_id :: uuid
  sr_booking_version :: int
  sr_meter_start_kwh :: decimal

definition StartChargingSessionRequest_valid :: "StartChargingSessionRequest \<Rightarrow> bool" where
  "StartChargingSessionRequest_valid r \<longleftrightarrow>
     1 \<le> sr_booking_version r \<and> decimal_field 12 3 (sr_meter_start_kwh r)"

record CompleteChargingSessionRequest =
  cm_version :: int
  cm_meter_end_kwh :: decimal

definition CompleteChargingSessionRequest_valid :: "CompleteChargingSessionRequest \<Rightarrow> bool" where
  "CompleteChargingSessionRequest_valid r \<longleftrightarrow>
     1 \<le> cm_version r \<and> decimal_field 12 3 (cm_meter_end_kwh r)"

record ChargingSessionListQuery =
  sq_status :: "ChargingSessionStatus option"
  sq_page :: int
  sq_per_page :: int

record ChargingOperationListQuery =
  oq_station_id :: "uuid option"
  oq_page :: int
  oq_per_page :: int

definition ChargingSessionListQuery_valid :: "ChargingSessionListQuery \<Rightarrow> bool" where
  "ChargingSessionListQuery_valid q \<longleftrightarrow> 1 \<le> sq_page q \<and> 1 \<le> sq_per_page q \<and> sq_per_page q \<le> 100"

definition ChargingOperationListQuery_valid :: "ChargingOperationListQuery \<Rightarrow> bool" where
  "ChargingOperationListQuery_valid q \<longleftrightarrow> 1 \<le> oq_page q \<and> 1 \<le> oq_per_page q \<and> oq_per_page q \<le> 100"

subsection \<open>The service\<close>

definition EARLY_START_MINUTES :: int where
  "EARLY_START_MINUTES = 15"

definition inside_start_window :: "booking \<Rightarrow> instant \<Rightarrow> bool" where
  "inside_start_window b now \<longleftrightarrow>
     instant_of (stored (bk_starts_at b)) - minutes EARLY_START_MINUTES \<le> now
     \<and> now < instant_of (stored (bk_ends_at b))"

text \<open>The lazy load of \<open>charge_point.station\<close> reads the parent row.\<close>

definition operator_controls_charge_point :: "user \<Rightarrow> charge_point option \<Rightarrow> database \<Rightarrow> bool" where
  "operator_controls_charge_point operator charge_point d =
     (case charge_point of
        None \<Rightarrow> False
      | Some c \<Rightarrow> usr_role operator = SYSTEM_ADMIN
          \<or> (case row_by st_id (charging_stations d) (cp_station_id c) of
               None \<Rightarrow> False
             | Some s \<Rightarrow> st_owner_id s = usr_id operator))"

definition started_session ::
    "instant \<Rightarrow> uuid \<Rightarrow> booking \<Rightarrow> StartChargingSessionRequest \<Rightarrow> charging_session" where
  "started_session now new_id b payload = \<lparr>cs_id = new_id, cs_booking_id = bk_id b,
     cs_user_id = bk_user_id b, cs_charge_point_id = bk_charge_point_id b,
     cs_status = CS_ACTIVE, cs_started_at = now, cs_ended_at = None,
     cs_meter_start_kwh = sr_meter_start_kwh payload, cs_meter_end_kwh = None,
     cs_energy_consumed_kwh = None, cs_version = 1, cs_created_at = now\<rparr>"

definition active_session_on :: "uuid \<Rightarrow> database \<Rightarrow> uuid option" where
  "active_session_on charge_point_id d =
     map_option cs_id (select_scalar (\<lambda>s. cs_charge_point_id s = charge_point_id
        \<and> cs_status s = CS_ACTIVE) (charging_sessions d))"

definition start_charging_session ::
    "instant \<Rightarrow> uuid \<Rightarrow> user \<Rightarrow> StartChargingSessionRequest \<Rightarrow> database \<Rightarrow> charging_session outcome" where
  "start_charging_session now new_id operator payload d =
     (case row_by bk_id (bookings d) (sr_booking_id payload) of
        None \<Rightarrow> raising ChargingSessionStateConflictError d
      | Some b \<Rightarrow>
          if bk_status b \<noteq> CONFIRMED \<or> bk_version b \<noteq> sr_booking_version payload
          then raising ChargingSessionStateConflictError d
          else if \<not> inside_start_window b now then raising ChargingSessionTimeError d
          else if \<not> operator_controls_charge_point operator
                     (row_by cp_id (charge_points d) (bk_charge_point_id b)) d
          then raising ChargingSessionForbiddenError d
          else if active_session_on (bk_charge_point_id b) d \<noteq> None
          then raising ChargingSessionStateConflictError d
          else let s = started_session now new_id b payload;
                   b' = b\<lparr>bk_status := ACTIVE, bk_version := bk_version b + 1\<rparr>
            in on_integrity_error ChargingSessionStateConflictError
                 (commit s (d\<lparr>bookings := store_row bk_id b' (bookings d),
                              charging_sessions := insert_row s (charging_sessions d)\<rparr>) d))"

definition completed_session ::
    "instant \<Rightarrow> charging_session \<Rightarrow> CompleteChargingSessionRequest \<Rightarrow> charging_session" where
  "completed_session now s payload = s\<lparr>cs_status := CS_COMPLETED, cs_ended_at := Some now,
     cs_meter_end_kwh := Some (cm_meter_end_kwh payload),
     cs_energy_consumed_kwh := Some (cm_meter_end_kwh payload - cs_meter_start_kwh s),
     cs_version := cs_version s + 1\<rparr>"

definition complete_charging_session ::
    "instant \<Rightarrow> user \<Rightarrow> uuid \<Rightarrow> CompleteChargingSessionRequest \<Rightarrow> database \<Rightarrow> charging_session outcome" where
  "complete_charging_session now operator session_id payload d =
     (case row_by cs_id (charging_sessions d) session_id of
        None \<Rightarrow> raising ChargingSessionStateConflictError d
      | Some s \<Rightarrow>
          if cs_status s \<noteq> CS_ACTIVE \<or> cs_version s \<noteq> cm_version payload
          then raising ChargingSessionStateConflictError d
          else if cm_meter_end_kwh payload < cs_meter_start_kwh s
          then raising ChargingSessionMeterError d
          else (case row_by bk_id (bookings d) (cs_booking_id s) of
             None \<Rightarrow> raising AttributeError d
           | Some b \<Rightarrow>
               if bk_status b \<noteq> ACTIVE then raising ChargingSessionStateConflictError d
               else if \<not> operator_controls_charge_point operator
                          (row_by cp_id (charge_points d) (cs_charge_point_id s)) d
               then raising ChargingSessionForbiddenError d
               else let s' = completed_session now s payload;
                        b' = b\<lparr>bk_status := COMPLETED, bk_version := bk_version b + 1\<rparr>
                 in commit s' (d\<lparr>bookings := store_row bk_id b' (bookings d),
                                 charging_sessions := store_row cs_id s' (charging_sessions d)\<rparr>) d))"

definition find_user_charging_sessions ::
    "uuid \<Rightarrow> ChargingSessionListQuery \<Rightarrow> database \<Rightarrow> charging_session page" where
  "find_user_charging_sessions user_id query d =
     (let matching = filter (\<lambda>s. cs_user_id s = user_id
            \<and> (case sq_status query of None \<Rightarrow> True | Some st \<Rightarrow> cs_status s = st)) (charging_sessions d)
      in \<lparr>pg_items = page_of (sq_page query) (sq_per_page query)
             (sort_key (\<lambda>s. (- cs_started_at s, cs_id s)) matching),
          pg_total = int (length matching), pg_page = sq_page query,
          pg_per_page = sq_per_page query\<rparr>)"

text \<open>
  The inner joins of the operator's queue: a booking with its charge point and station.
\<close>

definition booking_station :: "database \<Rightarrow> booking \<Rightarrow> charging_station option" where
  "booking_station d b =
     (case row_by cp_id (charge_points d) (bk_charge_point_id b) of
        None \<Rightarrow> None
      | Some c \<Rightarrow> row_by st_id (charging_stations d) (cp_station_id c))"

definition operable_booking ::
    "instant \<Rightarrow> user \<Rightarrow> ChargingOperationListQuery \<Rightarrow> database \<Rightarrow> booking \<Rightarrow> bool" where
  "operable_booking now operator query d b =
     (case booking_station d b of
        None \<Rightarrow> False
      | Some s \<Rightarrow> (bk_status b = ACTIVE \<or> bk_status b = CONFIRMED \<and> bk_ends_at b > now)
          \<and> (usr_role operator = SYSTEM_ADMIN \<or> st_owner_id s = usr_id operator)
          \<and> (case oq_station_id query of None \<Rightarrow> True | Some i \<Rightarrow> st_id s = i))"

definition find_operator_charging_operations ::
    "instant \<Rightarrow> user \<Rightarrow> ChargingOperationListQuery \<Rightarrow> database \<Rightarrow> booking page" where
  "find_operator_charging_operations now operator query d =
     (let matching = filter (operable_booking now operator query d) (bookings d)
      in \<lparr>pg_items = page_of (oq_page query) (oq_per_page query)
             (sort_key (\<lambda>b. (bk_starts_at b, bk_id b)) matching),
          pg_total = int (length matching), pg_page = oq_page query,
          pg_per_page = oq_per_page query\<rparr>)"

definition get_user_charging_session :: "uuid \<Rightarrow> uuid \<Rightarrow> database \<Rightarrow> charging_session option" where
  "get_user_charging_session user_id session_id d =
     select_scalar (\<lambda>s. cs_id s = session_id \<and> cs_user_id s = user_id) (charging_sessions d)"

subsection \<open>What success means\<close>

lemma start_charging_session_Inr:
  assumes "start_charging_session now i op payload d = (Inr s, d')"
  obtains b c where "b \<in> set (bookings d)" "bk_id b = sr_booking_id payload" "bk_status b = CONFIRMED"
    "bk_version b = sr_booking_version payload" "inside_start_window b now"
    "row_by cp_id (charge_points d) (bk_charge_point_id b) = Some c"
    "operator_controls_charge_point op (Some c) d"
    "active_session_on (bk_charge_point_id b) d = None" "s = started_session now i b payload" "db_ok d'"
    "d' = d\<lparr>bookings := store_row bk_id (b\<lparr>bk_status := ACTIVE, bk_version := bk_version b + 1\<rparr>)
              (bookings d), charging_sessions := insert_row s (charging_sessions d)\<rparr>"
proof -
  from assms obtain b where b: "row_by bk_id (bookings d) (sr_booking_id payload) = Some b"
    "bk_status b = CONFIRMED" "bk_version b = sr_booking_version payload" "inside_start_window b now"
    "operator_controls_charge_point op (row_by cp_id (charge_points d) (bk_charge_point_id b)) d"
    "active_session_on (bk_charge_point_id b) d = None" "s = started_session now i b payload" "db_ok d'"
    "d' = d\<lparr>bookings := store_row bk_id (b\<lparr>bk_status := ACTIVE, bk_version := bk_version b + 1\<rparr>)
              (bookings d), charging_sessions := insert_row s (charging_sessions d)\<rparr>"
    by (auto simp: start_charging_session_def Let_def split: option.splits if_splits)
  from b(5) obtain c where "row_by cp_id (charge_points d) (bk_charge_point_id b) = Some c"
    by (auto simp: operator_controls_charge_point_def split: option.splits)
  with b row_by_Some [OF b(1)] show thesis by (intro that) auto
qed

lemma complete_charging_session_Inr:
  assumes "complete_charging_session now op i payload d = (Inr s', d')"
  obtains s b where "s \<in> set (charging_sessions d)" "cs_id s = i" "cs_status s = CS_ACTIVE"
    "cs_version s = cm_version payload" "cs_meter_start_kwh s \<le> cm_meter_end_kwh payload"
    "b \<in> set (bookings d)" "bk_id b = cs_booking_id s" "bk_status b = ACTIVE"
    "operator_controls_charge_point op (row_by cp_id (charge_points d) (cs_charge_point_id s)) d"
    "s' = completed_session now s payload" "db_ok d'"
    "d' = d\<lparr>bookings := store_row bk_id (b\<lparr>bk_status := COMPLETED, bk_version := bk_version b + 1\<rparr>)
              (bookings d), charging_sessions := store_row cs_id s' (charging_sessions d)\<rparr>"
proof -
  from assms obtain s b where s: "row_by cs_id (charging_sessions d) i = Some s" "cs_status s = CS_ACTIVE"
    "cs_version s = cm_version payload" "cs_meter_start_kwh s \<le> cm_meter_end_kwh payload"
    and b: "row_by bk_id (bookings d) (cs_booking_id s) = Some b" "bk_status b = ACTIVE"
    "operator_controls_charge_point op (row_by cp_id (charge_points d) (cs_charge_point_id s)) d"
    "s' = completed_session now s payload" "db_ok d'"
    "d' = d\<lparr>bookings := store_row bk_id (b\<lparr>bk_status := COMPLETED, bk_version := bk_version b + 1\<rparr>)
              (bookings d), charging_sessions := store_row cs_id s' (charging_sessions d)\<rparr>"
    by (auto simp: complete_charging_session_def Let_def not_less split: option.splits if_splits)
  from row_by_Some [OF s(1)] row_by_Some [OF b(1)] s b show thesis by (intro that) auto
qed

lemma outcome_cases:
  obtains e where "out = (Inl e, d)" | e d' where "out = (Inl e, d')" "d' \<noteq> d" | x d' where "out = (Inr x, d')"
  by (metis old.sum.exhaust prod.collapse)

text \<open>An operation that changes nothing when it fails is safe when its successes are.\<close>

lemma safe_by_success:
  assumes "\<And>e d'. out = (Inl e, d') \<Longrightarrow> d' = d"
    and "\<And>x d'. \<lbrakk>out = (Inr x, d'); db_ok d; coherent d; keys_ok d\<rbrakk> \<Longrightarrow> db_ok d' \<and> coherent d' \<and> core_evolves d d'"
  shows "safe_step d (snd out)"
  using assms
  by (cases out rule: outcome_cases [where d = d]) (auto simp: safe_step_def db_ok_keys)

lemma commit_Inl_same: "commit x d1 d = (Inl e, d') \<Longrightarrow> d' = d"
  by (simp add: commit_Inl)

lemma on_integrity_error_Inl_same:
  "on_integrity_error c (commit x d1 d) = (Inl e, d') \<Longrightarrow> d' = d"
  by (auto simp: on_integrity_error_def commit_def split: option.splits)

lemma start_charging_session_safe: "safe_step d (snd (start_charging_session now i op payload d))"
proof (rule safe_by_success)
  fix e d' assume "start_charging_session now i op payload d = (Inl e, d')"
  then show "d' = d"
    by (auto simp: start_charging_session_def Let_def split: option.splits if_splits
        dest: on_integrity_error_Inl_same)
next
  fix s d' assume r: "start_charging_session now i op payload d = (Inr s, d')"
    and hyps: "db_ok d" "coherent d" "keys_ok d"
  from r show "db_ok d' \<and> coherent d' \<and> core_evolves d d'"
  proof (rule start_charging_session_Inr)
    fix b :: booking
    let ?b = "b\<lparr>bk_status := ACTIVE, bk_version := bk_version b + 1\<rparr>"
    assume b: "b \<in> set (bookings d)" "bk_status b = CONFIRMED"
      and free: "active_session_on (bk_charge_point_id b) d = None"
      and s: "s = started_session now i b payload" and ok: "db_ok d'"
      and d': "d' = d\<lparr>bookings := store_row bk_id ?b (bookings d),
                      charging_sessions := insert_row s (charging_sessions d)\<rparr>"
    have "coherent d'"
      unfolding d' using free
      by (intro coherent_start [OF hyps(2,3) b refl])
        (auto simp: s started_session_def active_session_on_def select_scalar_None active_points_def)
    moreover have "booking_move b ?b"
      unfolding booking_move_def using b(2)
      by (intro disjI2 exI [of _ ACTIVE] exI [of _ "bk_cancelled_at b"]) simp
    then have "table_evolves booking_move new_booking (bookings d) (store_row bk_id ?b (bookings d))"
      using hyps(3) b(1) by (intro store_booking_evolves [of d b]) (auto simp: booking_life.move_refl)
    moreover have "new_session s" by (simp add: s started_session_def new_session_def)
    then have "table_evolves session_move new_session (charging_sessions d)
        (insert_row s (charging_sessions d))"
      by (intro table_evolves_insert_row core_refl)
    ultimately show ?thesis
      using ok by (simp add: d' core_evolves_def core_refl)
  qed
qed

lemma complete_charging_session_safe:
  "safe_step d (snd (complete_charging_session now op i payload d))"
proof (rule safe_by_success)
  fix e d' assume "complete_charging_session now op i payload d = (Inl e, d')"
  then show "d' = d"
    by (auto simp: complete_charging_session_def Let_def split: option.splits if_splits
        dest: commit_Inl_same)
next
  fix s' d' assume r: "complete_charging_session now op i payload d = (Inr s', d')"
    and hyps: "db_ok d" "coherent d" "keys_ok d"
  from r show "db_ok d' \<and> coherent d' \<and> core_evolves d d'"
  proof (rule complete_charging_session_Inr)
    fix s :: charging_session and b :: booking
    let ?b = "b\<lparr>bk_status := COMPLETED, bk_version := bk_version b + 1\<rparr>"
    assume s: "s \<in> set (charging_sessions d)" "cs_status s = CS_ACTIVE"
      "cs_meter_start_kwh s \<le> cm_meter_end_kwh payload"
      and b: "b \<in> set (bookings d)" "bk_id b = cs_booking_id s" "bk_status b = ACTIVE"
      and s': "s' = completed_session now s payload" and ok: "db_ok d'"
      and d': "d' = d\<lparr>bookings := store_row bk_id ?b (bookings d),
                      charging_sessions := store_row cs_id s' (charging_sessions d)\<rparr>"
    have "coherent d'"
      unfolding d' using b(2)
      by (intro coherent_complete [OF hyps(2,3) b(1,3) refl s(1)]) (auto simp: s' completed_session_def)
    moreover have "booking_move b ?b"
      unfolding booking_move_def using b(3)
      by (intro disjI2 exI [of _ COMPLETED] exI [of _ "bk_cancelled_at b"]) simp
    then have "table_evolves booking_move new_booking (bookings d) (store_row bk_id ?b (bookings d))"
      using hyps(3) b(1) by (intro store_booking_evolves [of d b]) (auto simp: booking_life.move_refl)
    moreover have "session_move s s'"
      using s unfolding session_move_def s' completed_session_def by blast
    then have "table_evolves session_move new_session (charging_sessions d)
        (store_row cs_id s' (charging_sessions d))"
      using hyps(3) s(1)
      by (intro store_session_evolves [of d s]) (auto simp: session_life.move_refl s' completed_session_def)
    ultimately show ?thesis
      using ok by (simp add: d' core_evolves_def core_refl)
  qed
qed

subsection \<open>Properties of charging sessions\<close>

lemma controls_iff:
  "operator_controls_charge_point op (Some c) d \<longleftrightarrow> usr_role op = SYSTEM_ADMIN
     \<or> (\<exists>s. row_by st_id (charging_stations d) (cp_station_id c) = Some s \<and> st_owner_id s = usr_id op)"
  by (auto simp: operator_controls_charge_point_def split: option.split)

text \<open>
  C19. Charging starts only on a confirmed booking, in its time window (from fifteen minutes
  before its start until its end), by an operator who administers the system or owns the
  station of its charge point, and only while no other session is active on that charge
  point; exactly that booking becomes active and exactly one session for its driver is
  added, with the reading given.
\<close>

theorem start_charging_session_effect:
  assumes "start_charging_session now i op payload d = (Inr s, d')"
  shows "\<exists>b \<in> set (bookings d). \<exists>c \<in> set (charge_points d).
      bk_id b = sr_booking_id payload \<and> bk_status b = CONFIRMED
    \<and> bk_version b = sr_booking_version payload
    \<and> bk_starts_at b - minutes 15 \<le> now \<and> now < bk_ends_at b
    \<and> cp_id c = bk_charge_point_id b
    \<and> (usr_role op = SYSTEM_ADMIN \<or> (\<exists>st \<in> set (charging_stations d). st_id st = cp_station_id c
         \<and> st_owner_id st = usr_id op))
    \<and> bk_charge_point_id b \<notin> set (active_points (charging_sessions d))
    \<and> bookings d' = store_row bk_id (b\<lparr>bk_status := ACTIVE, bk_version := bk_version b + 1\<rparr>) (bookings d)
    \<and> charging_sessions d' = charging_sessions d @ [s]
    \<and> cs_booking_id s = bk_id b \<and> cs_user_id s = bk_user_id b \<and> cs_status s = CS_ACTIVE
    \<and> cs_charge_point_id s = cp_id c \<and> cs_meter_start_kwh s = sr_meter_start_kwh payload
    \<and> payments d' = payments d \<and> refunds d' = refunds d"
  using assms
proof (rule start_charging_session_Inr)
  fix b :: booking and c :: charge_point
  assume b: "b \<in> set (bookings d)" "bk_id b = sr_booking_id payload" "bk_status b = CONFIRMED"
    "bk_version b = sr_booking_version payload" "inside_start_window b now"
    and c: "row_by cp_id (charge_points d) (bk_charge_point_id b) = Some c"
    "operator_controls_charge_point op (Some c) d"
    and free: "active_session_on (bk_charge_point_id b) d = None"
    and s: "s = started_session now i b payload"
    and d': "d' = d\<lparr>bookings := store_row bk_id (b\<lparr>bk_status := ACTIVE, bk_version := bk_version b + 1\<rparr>)
              (bookings d), charging_sessions := insert_row s (charging_sessions d)\<rparr>"
  from free have "bk_charge_point_id b \<notin> set (active_points (charging_sessions d))"
    by (auto simp: active_session_on_def select_scalar_None active_points_def)
  moreover from c(2) have "usr_role op = SYSTEM_ADMIN \<or> (\<exists>st \<in> set (charging_stations d).
      st_id st = cp_station_id c \<and> st_owner_id st = usr_id op)"
    by (auto simp: controls_iff dest: row_by_Some)
  moreover from b(5) have "bk_starts_at b - minutes 15 \<le> now \<and> now < bk_ends_at b"
    by (simp add: inside_start_window_def EARLY_START_MINUTES_def)
  ultimately show ?thesis
    using b row_by_Some [OF c(1)]
    by (intro bexI [of _ b] bexI [of _ c]) (simp_all add: d' s started_session_def insert_row_def)
qed

lemma store_booking_status_ok:
  assumes ok: "db_ok d" and b: "b \<in> set (bookings d)" "bk_version b < 2 ^ 31 - 1"
    and t: "blocking_status t \<Longrightarrow> blocking_status (bk_status b)"
  shows "db_ok (d\<lparr>bookings := store_row bk_id (b\<lparr>bk_status := t, bk_version := bk_version b + 1\<rparr>) (bookings d)\<rparr>)"
    (is "db_ok (d\<lparr>bookings := store_row bk_id ?b (bookings d)\<rparr>)")
proof (rule db_ok_bookings [OF ok])
  let ?bs = "store_row bk_id ?b (bookings d)"
  let ?f = "\<lambda>x. if bk_id x = bk_id b then ?b else x"
  have bs: "?bs = map ?f (bookings d)" by (simp add: store_row_def)
  from ok have cons: "list_all snd (bookings_constraints d)" and cols: "list_all booking_columns (bookings d)"
    by (simp_all add: db_ok_parts columns_ok_def)
  then have keys: "distinct (map bk_id (bookings d))" by (simp add: bookings_constraints_def)
  have same: "x = b" if "x \<in> set (bookings d)" "bk_id x = bk_id b" for x
    using distinct_map_unique [OF keys that(1) b(1) that(2)] .
  have ids: "map bk_id ?bs = map bk_id (bookings d)" by simp
  then show "bk_id ` set (bookings d) \<subseteq> bk_id ` set ?bs" by (metis list.set_map order_refl)
  show "list_all booking_columns ?bs"
    using cols b by (auto simp: bs list_all_iff booking_columns_def int4_def)
  have f: "overlapping (?f x) (?f y) \<Longrightarrow> overlapping x y"
    if "x \<in> set (bookings d)" "y \<in> set (bookings d)" for x y
    using same [OF that(1)] same [OF that(2)] t by (auto simp: overlapping_def split: if_splits)
  have "prevent_overlapping_bookings (map ?f xs)"
    if "set xs \<subseteq> set (bookings d)" "prevent_overlapping_bookings xs" for xs
    using that by (induction xs) (auto simp: list_all_iff dest: f)
  from this [OF subset_refl] cons have "prevent_overlapping_bookings ?bs"
    unfolding bs by (simp add: bookings_constraints_def)
  moreover have "bk_starts_at b < bk_ends_at b" "nullable (\<lambda>a. a \<ge> 0) (bk_total_amount b)"
    "bk_user_id b \<in> usr_id ` set (users d)" "0 < bk_version b"
    "bk_charge_point_id b \<in> cp_id ` set (charge_points d)"
    using cons b(1) by (auto simp: bookings_constraints_def list_all_iff)
  ultimately show "list_all snd (bookings_constraints (d\<lparr>bookings := ?bs\<rparr>))"
    using cons keys by (simp add: bookings_constraints_def list_all_store)
qed

lemma complete_session_ok:
  assumes ok: "db_ok d" and s: "s \<in> set (charging_sessions d)" "cs_version s = 1"
    "cs_started_at s \<le> now" "cs_meter_start_kwh s \<le> cm_meter_end_kwh payload"
    "fits_numeric 12 3 (cm_meter_end_kwh payload)"
  shows "db_ok (d\<lparr>charging_sessions := store_row cs_id (completed_session now s payload) (charging_sessions d)\<rparr>)"
proof (rule db_ok_charging_sessions [OF ok])
  let ?s = "completed_session now s payload"
  have ss: "store_row cs_id ?s (charging_sessions d) =
      map (\<lambda>x. if cs_id x = cs_id s then ?s else x) (charging_sessions d)"
    by (simp add: store_row_def completed_session_def)
  from ok have cons: "list_all snd (charging_sessions_constraints d)"
    and cols: "list_all charging_session_columns (charging_sessions d)"
    by (simp_all add: db_ok_parts columns_ok_def)
  from cons s(1) have pos: "0 \<le> cs_meter_start_kwh s"
    by (auto simp: charging_sessions_constraints_def list_all_iff)
  from cons have keys: "distinct (map cs_id (charging_sessions d))"
    by (simp add: charging_sessions_constraints_def)
  from cols s(1) have "charging_session_columns s" by (auto simp: list_all_iff)
  with s pos have "charging_session_columns ?s"
    by (auto simp: charging_session_columns_def completed_session_def fits_numeric_def int4_def)
  with cols show "list_all charging_session_columns (store_row cs_id ?s (charging_sessions d))"
    by (auto simp: ss list_all_iff)
  have "map cs_booking_id (store_row cs_id ?s (charging_sessions d)) = map cs_booking_id (charging_sessions d)"
    using distinct_map_unique [OF keys _ s(1)]
    by (intro map_store_row_same) (auto simp: completed_session_def)
  moreover have "cs_user_id s \<in> usr_id ` set (users d)" "cs_booking_id s \<in> bk_id ` set (bookings d)"
    "cs_charge_point_id s \<in> cp_id ` set (charge_points d)"
    using cons s(1) by (auto simp: charging_sessions_constraints_def list_all_iff)
  ultimately show "list_all snd (charging_sessions_constraints
      (d\<lparr>charging_sessions := store_row cs_id ?s (charging_sessions d)\<rparr>))"
    using cons s pos keys
    by (simp add: charging_sessions_constraints_def list_all_store completed_session_def)
qed



subsection \<open>Witnesses\<close>

definition sample_start_request :: StartChargingSessionRequest where
  "sample_start_request = \<lparr>sr_booking_id = 100, sr_booking_version = 1, sr_meter_start_kwh = 10\<rparr>"

lemma sample_start:
  obtains s d' where "start_charging_session (minutes 70) 500 sample_admin sample_start_request
      (sample_paid_db CONFIRMED CAPTURED) = (Inr s, d')" "version_headroom d'"
proof -
  let ?r = "start_charging_session (minutes 70) 500 sample_admin sample_start_request
      (sample_paid_db CONFIRMED CAPTURED)"
  have "case ?r of (Inr s, d') \<Rightarrow> version_headroom d' | _ \<Rightarrow> False" by code_simp
  then show thesis by (auto split: prod.splits sum.splits intro: that)
qed

theorem start_charging_session_effect_witness:
  "\<exists>s d'. start_charging_session (minutes 70) 500 sample_admin sample_start_request
      (sample_paid_db CONFIRMED CAPTURED) = (Inr s, d') \<and> cs_meter_start_kwh s = 10"
proof (rule sample_start)
  fix s d'
  assume r: "start_charging_session (minutes 70) 500 sample_admin sample_start_request
      (sample_paid_db CONFIRMED CAPTURED) = (Inr s, d')"
  from start_charging_session_effect [OF r] r show ?thesis by (auto simp: sample_start_request_def)
qed



end
