(* ===== verification/Maintenance.thy ===== *)
theory Maintenance
  imports Cancellation
begin

text \<open>
  The maintenance jobs (\<open>maintenance/service.py\<close>, \<open>maintenance/tasks.py\<close>): expiring one
  locked batch of abandoned holds, and reconciling pending refunds with the provider. The
  rows that \<open>FOR UPDATE SKIP LOCKED\<close> passes over are a parameter of the batch; what the
  other transactions do between two refunds is a parameter of the reconciliation.
\<close>

subsection \<open>Expiring abandoned holds\<close>

text \<open>
  \<open>ORDER BY hold_expires_at, id LIMIT batch_size FOR UPDATE SKIP LOCKED\<close>: a locked row
  does not count towards the limit. PostgreSQL refuses a negative limit with a data error.
\<close>

definition stale_batch :: "instant \<Rightarrow> int \<Rightarrow> (uuid \<Rightarrow> bool) \<Rightarrow> booking list \<Rightarrow> uuid list" where
  "stale_batch now batch_size locked bs =
     map bk_id (take (nat batch_size)
       (sort_key (\<lambda>b. (the (bk_hold_expires_at b), bk_id b))
         (filter (\<lambda>b. hold_is_stale now b \<and> \<not> locked (bk_id b)) bs)))"

definition expire_stale_booking_holds ::
    "instant \<Rightarrow> int \<Rightarrow> (uuid \<Rightarrow> bool) \<Rightarrow> database \<Rightarrow> nat outcome" where
  "expire_stale_booking_holds now batch_size locked d =
     (if batch_size < 0 then raising DataError d
      else let booking_ids = stale_batch now batch_size locked (bookings d) in
        if booking_ids = [] then commit 0 d d
        else let where_clause = (\<lambda>b. bk_id b \<in> set booking_ids \<and> hold_is_stale now b)
          in commit (rowcount_where where_clause (bookings d))
               (d\<lparr>bookings := update_where where_clause expired_booking (bookings d)\<rparr>) d)"

subsection \<open>Reconciling refunds\<close>

record RefundSnapshot =
  sn_refund_id :: uuid
  sn_provider_refund_id :: string
  sn_provider_payment_id :: string
  sn_amount_subunits :: int
  sn_currency :: string

record counts =
  checked :: nat
  processed :: nat
  failed :: nat
  errors :: nat

text \<open>The inner join pairs a refund with its payment; \<open>refund.payment_id\<close> is a foreign key.\<close>

definition reconcilable :: "database \<Rightarrow> refund \<Rightarrow> bool" where
  "reconcilable d r \<longleftrightarrow> rf_status r = R_PENDING \<and> rf_provider_refund_id r \<noteq> None
     \<and> (case row_by pay_id (payments d) (rf_payment_id r) of
          None \<Rightarrow> False | Some p \<Rightarrow> pay_provider_payment_id p \<noteq> None)"

definition reconcile_snapshot :: "database \<Rightarrow> refund \<Rightarrow> RefundSnapshot" where
  "reconcile_snapshot d r = \<lparr>
     sn_refund_id = rf_id r,
     sn_provider_refund_id = the (rf_provider_refund_id r),
     sn_provider_payment_id =
       the (pay_provider_payment_id (the (row_by pay_id (payments d) (rf_payment_id r)))),
     sn_amount_subunits = rf_amount_subunits r,
     sn_currency = rf_currency r\<rparr>"

definition pending_refund_snapshots :: "int \<Rightarrow> database \<Rightarrow> RefundSnapshot list outcome" where
  "pending_refund_snapshots batch_size d =
     (if batch_size < 0 then raising DataError d
      else commit (map (reconcile_snapshot d) (take (nat batch_size)
             (sort_key (\<lambda>r. (rf_created_at r, rf_id r)) (filter (reconcilable d) (refunds d))))) d d)"

definition apply_reconciled_refund ::
    "instant \<Rightarrow> uuid \<Rightarrow> RazorpayRefund \<Rightarrow> database \<Rightarrow> string outcome" where
  "apply_reconciled_refund now refund_id provider_refund d =
     (case row_by rf_id (refunds d) refund_id of
        None \<Rightarrow> commit ''unchanged'' d d
      | Some r \<Rightarrow>
          if rf_status r \<noteq> R_PENDING then commit ''unchanged'' d d
          else if rr_status provider_refund = ''processed''
          then (case row_by pay_id (payments d) (rf_payment_id r) of
                  None \<Rightarrow> raising AttributeError d
                | Some p \<Rightarrow> commit (rr_status provider_refund)
                    (store_payment (p\<lparr>pay_status := REFUNDED\<rparr>)
                      (store_refund (r\<lparr>rf_status := R_PROCESSED, rf_processed_at := Some now,
                         rf_last_error_code := None\<rparr>) d)) d)
          else if rr_status provider_refund = ''failed''
          then commit (rr_status provider_refund)
                 (store_refund (r\<lparr>rf_status := R_FAILED,
                    rf_last_error_code := Some ''provider_refund_failed''\<rparr>) d) d
          else commit (rr_status provider_refund) d d)"

definition count_outcome :: "string \<Rightarrow> counts \<Rightarrow> counts" where
  "count_outcome outcome c =
     (if outcome = ''processed'' then c\<lparr>processed := processed c + 1\<rparr>
      else if outcome = ''failed'' then c\<lparr>failed := failed c + 1\<rparr> else c)"

text \<open>
  The loop over the snapshots: \<open>others\<close> is what the other transactions do while the
  provider is asked about one refund, \<open>clock\<close> the time of its second transaction.
\<close>

fun reconcile_each ::
    "(RefundSnapshot \<Rightarrow> exn + RazorpayRefund) \<Rightarrow> (uuid \<Rightarrow> database \<Rightarrow> database) \<Rightarrow> (uuid \<Rightarrow> instant)
     \<Rightarrow> RefundSnapshot list \<Rightarrow> counts \<Rightarrow> database \<Rightarrow> counts outcome" where
  "reconcile_each fetcher others clock [] c d = (Inr c, d)"
| "reconcile_each fetcher others clock (snapshot # snapshots) c d =
     (let c1 = c\<lparr>checked := checked c + 1\<rparr>; d1 = others (sn_refund_id snapshot) d in
      case fetcher snapshot of
        Inl RazorpayRefundError \<Rightarrow>
          reconcile_each fetcher others clock snapshots (c1\<lparr>errors := errors c1 + 1\<rparr>) d1
      | Inl e \<Rightarrow> (Inl e, d1)
      | Inr provider_refund \<Rightarrow>
          (case apply_reconciled_refund (clock (sn_refund_id snapshot)) (sn_refund_id snapshot)
                  provider_refund d1 of
             (Inl e, d2) \<Rightarrow> (Inl e, d2)
           | (Inr result, d2) \<Rightarrow>
               reconcile_each fetcher others clock snapshots (count_outcome result c1) d2))"

definition zero_counts :: counts where
  "zero_counts = \<lparr>checked = 0, processed = 0, failed = 0, errors = 0\<rparr>"

definition fetch_snapshot :: "provider \<Rightarrow> string \<Rightarrow> string \<Rightarrow> RefundSnapshot \<Rightarrow> exn + RazorpayRefund" where
  "fetch_snapshot http key_id key_secret s =
     fetch_razorpay_refund http key_id key_secret (sn_provider_refund_id s)
       (sn_provider_payment_id s) (sn_amount_subunits s) (sn_currency s)"

definition reconcile_pending_refunds ::
    "provider \<Rightarrow> string \<Rightarrow> string \<Rightarrow> (uuid \<Rightarrow> database \<Rightarrow> database) \<Rightarrow> (uuid \<Rightarrow> instant) \<Rightarrow> int
     \<Rightarrow> database \<Rightarrow> counts outcome" where
  "reconcile_pending_refunds http key_id key_secret others clock batch_size d =
     (case pending_refund_snapshots batch_size d of
        (Inl e, d') \<Rightarrow> (Inl e, d')
      | (Inr snapshots, d') \<Rightarrow>
          reconcile_each (fetch_snapshot http key_id key_secret) others clock snapshots
            zero_counts d')"

subsection \<open>The jobs\<close>

definition expire_stale_booking_holds_job ::
    "config \<Rightarrow> instant \<Rightarrow> (uuid \<Rightarrow> bool) \<Rightarrow> database \<Rightarrow> nat outcome" where
  "expire_stale_booking_holds_job cfg now locked d =
     expire_stale_booking_holds now (MAINTENANCE_BATCH_SIZE cfg) locked d"

definition reconcile_pending_refunds_job ::
    "config \<Rightarrow> provider \<Rightarrow> (uuid \<Rightarrow> database \<Rightarrow> database) \<Rightarrow> (uuid \<Rightarrow> instant) \<Rightarrow> database
     \<Rightarrow> counts outcome" where
  "reconcile_pending_refunds_job cfg http others clock d =
     (case credentials cfg of
        None \<Rightarrow> raising (RuntimeError ''Razorpay credentials are required for reconciliation.'') d
      | Some (key_id, key_secret) \<Rightarrow>
          reconcile_pending_refunds http key_id key_secret others clock
            (MAINTENANCE_BATCH_SIZE cfg) d)"

subsection \<open>Every transaction is a safe step\<close>

lemma safe_commit_same: "safe_step d (snd (commit x d d))"
  by (simp add: snd_commit)

lemma expire_stale_booking_holds_safe:
  "safe_step d (snd (expire_stale_booking_holds now n locked d))"
  unfolding expire_stale_booking_holds_def Let_def
  by (auto simp: safe_commit_same intro!: safe_commit_quiet expire_evolves)

lemma pending_refund_snapshots_same [simp]: "snd (pending_refund_snapshots n d) = d"
  by (simp add: pending_refund_snapshots_def snd_commit)

lemma apply_reconciled_refund_safe: "safe_step d (snd (apply_reconciled_refund now i answer d))"
proof (cases "row_by rf_id (refunds d) i")
  case None
  then show ?thesis by (simp add: apply_reconciled_refund_def safe_commit_same)
next
  case (Some r)
  note r = row_by_Some [OF Some]
  let ?proc = "r\<lparr>rf_status := R_PROCESSED, rf_processed_at := Some now, rf_last_error_code := None\<rparr>"
  let ?fail = "r\<lparr>rf_status := R_FAILED, rf_last_error_code := Some ''provider_refund_failed''\<rparr>"
  have fail: "safe_step d (snd (commit x (store_refund ?fail d) d))"
    if "rf_status r = R_PENDING" for x :: string
    using r that
    by (intro safe_plain_refund [of d ?fail])
       (auto simp: plain_refund_move_def refund_move_def same_refund_def intro!: bexI [of _ r])
  have proc: "safe_step d (snd (commit x (store_payment (p\<lparr>pay_status := REFUNDED\<rparr>) (store_refund ?proc d)) d))"
    if "rf_status r = R_PENDING" "row_by pay_id (payments d) (rf_payment_id r) = Some p" for p and x :: string
    using r that row_by_Some [OF that(2)]
    by (intro safe_process_refund [of d r ?proc p]) (auto simp: refund_move_def same_refund_def)
  from Some fail proc show ?thesis
    by (auto simp: apply_reconciled_refund_def safe_commit_same split: option.split)
qed

lemma reconcile_each_safe:
  assumes "\<And>i x. safe_run x (others i x)"
  shows "safe_run d (snd (reconcile_each fetcher others clock ss c d))"
proof (induction ss arbitrary: c d)
  case (Cons s ss)
  let ?d1 = "others (sn_refund_id s) d"
  have step: "safe_run ?d1 d2" if "apply_reconciled_refund t i answer ?d1 = (r, d2)" for t i answer r d2
    using apply_reconciled_refund_safe [of ?d1 t i answer] that by (auto intro: safe_step_run)
  have "safe_run d ?d1" by (rule assms)
  with step Cons.IH show ?case
    by (auto simp: Let_def split: sum.split exn.split prod.split) (blast intro: safe_run_trans)+
qed simp

lemma reconcile_pending_refunds_safe:
  assumes "\<And>i x. safe_run x (others i x)"
  shows "safe_run d (snd (reconcile_pending_refunds http k s others clock n d))"
  using reconcile_each_safe [OF assms] pending_refund_snapshots_same [of n d]
  by (auto simp: reconcile_pending_refunds_def simp del: pending_refund_snapshots_same
      split: prod.split sum.split)

subsection \<open>What a batch expires\<close>

lemma stale_batch_member:
  assumes "distinct (map bk_id bs)" "b \<in> set bs" "bk_id b \<in> set (stale_batch now n locked bs)"
  shows "hold_is_stale now b \<and> \<not> locked (bk_id b)"
proof -
  from assms(3) obtain b' where b': "b' \<in> set bs" "bk_id b' = bk_id b" "hold_is_stale now b'"
    "\<not> locked (bk_id b')"
    by (auto simp: stale_batch_def dest!: in_set_takeD)
  from distinct_map_unique [OF assms(1) b'(1) assms(2) b'(2)] b'(3,4) show ?thesis by simp
qed

lemma length_stale_batch:
  "length (stale_batch now n locked bs) =
     min (nat n) (length (filter (\<lambda>b. hold_is_stale now b \<and> \<not> locked (bk_id b)) bs))"
  by (simp add: stale_batch_def min.commute)

lemma distinct_stale_batch: "distinct (map bk_id bs) \<Longrightarrow> distinct (stale_batch now n locked bs)"
  unfolding stale_batch_def by (rule distinct_map_filter_perm)

lemma stale_batch_subset: "set (stale_batch now n locked bs) \<subseteq> bk_id ` set bs"
  by (auto simp: stale_batch_def dest!: in_set_takeD)

lemma expire_batch_Inr:
  assumes "expire_stale_booking_holds now n locked d = (Inr count, d')"
    and "distinct (map bk_id (bookings d))"
  shows "count = length (stale_batch now n locked (bookings d))"
    and "d' = d\<lparr>bookings := update_where (\<lambda>b. bk_id b \<in> set (stale_batch now n locked (bookings d)))
                  expired_booking (bookings d)\<rparr>"
    and "0 \<le> n"
proof -
  let ?ids = "stale_batch now n locked (bookings d)"
  let ?w = "\<lambda>b. bk_id b \<in> set ?ids \<and> hold_is_stale now b"
  have w: "?w b \<longleftrightarrow> bk_id b \<in> set ?ids" if "b \<in> set (bookings d)" for b
    using stale_batch_member [OF assms(2) that] by blast
  have "rowcount_where ?w (bookings d) = length ?ids"
    using rowcount_by_ids [OF assms(2) distinct_stale_batch [OF assms(2)] stale_batch_subset]
      filter_cong_rows [of "bookings d" ?w, OF w] by simp
  moreover have "update_where ?w expired_booking (bookings d) =
      update_where (\<lambda>b. bk_id b \<in> set ?ids) expired_booking (bookings d)"
    by (rule update_where_cong) (rule w)
  ultimately show "count = length ?ids"
    "d' = d\<lparr>bookings := update_where (\<lambda>b. bk_id b \<in> set ?ids) expired_booking (bookings d)\<rparr>" "0 \<le> n"
    using assms(1) unfolding expire_stale_booking_holds_def Let_def
    by (auto simp: update_where_False split: if_split_asm)
qed

text \<open>
  One run of the expiry job expires as many holds as it may: the count it reports is the
  smaller of the batch size and the number of stale holds that nobody locks; exactly that
  many bookings become expired with the next version, each of them a stale unlocked hold;
  and no stale unlocked hold that is left expired earlier than one that was taken.
\<close>

theorem expire_batch_exact:
  assumes "db_ok d" "expire_stale_booking_holds now n locked d = (Inr count, d')"
  shows "int count = min n (int (length (filter (\<lambda>b. hold_is_stale now b \<and> \<not> locked (bk_id b)) (bookings d))))
    \<and> (\<exists>ids. distinct ids \<and> length ids = count
         \<and> d' = d\<lparr>bookings := update_where (\<lambda>b. bk_id b \<in> set ids) expired_booking (bookings d)\<rparr>
         \<and> (\<forall>b \<in> set (bookings d). bk_id b \<in> set ids \<longrightarrow> hold_is_stale now b \<and> \<not> locked (bk_id b))
         \<and> (\<forall>b \<in> set (bookings d). \<forall>b' \<in> set (bookings d).
              bk_id b \<in> set ids \<and> bk_id b' \<notin> set ids \<and> hold_is_stale now b' \<and> \<not> locked (bk_id b')
              \<longrightarrow> the (bk_hold_expires_at b) \<le> the (bk_hold_expires_at b')))"
proof -
  let ?ids = "stale_batch now n locked (bookings d)"
  let ?key = "\<lambda>b. (the (bk_hold_expires_at b), bk_id b)"
  let ?st = "filter (\<lambda>b. hold_is_stale now b \<and> \<not> locked (bk_id b)) (bookings d)"
  from assms(1) have ids: "distinct (map bk_id (bookings d))" by (auto dest: db_ok_keys simp: keys_ok_def)
  note run = expire_batch_Inr [OF assms(2) ids]
  have "the (bk_hold_expires_at b) \<le> the (bk_hold_expires_at b')"
    if "b \<in> set (bookings d)" "b' \<in> set (bookings d)" "bk_id b \<in> set ?ids" "bk_id b' \<notin> set ?ids"
      "hold_is_stale now b'" "\<not> locked (bk_id b')" for b b'
  proof -
    from that(3) obtain c where c: "c \<in> set (take (nat n) (sort_key ?key ?st))" "bk_id c = bk_id b"
      by (auto simp: stale_batch_def)
    then have "c \<in> set (bookings d)" by (auto dest!: in_set_takeD)
    with c(2) that(1) ids have "c = b" by (auto dest: distinct_map_unique)
    with c(1) have b: "b \<in> set (take (nat n) (sort_key ?key ?st))" by simp
    from that(2,5,6) have "b' \<in> set (sort_key ?key ?st)" by simp
    moreover from that(4) have "b' \<notin> set (take (nat n) (sort_key ?key ?st))"
      by (auto simp: stale_batch_def)
    ultimately show ?thesis
      using sorted_take_rest [OF sorted_sort_key b, of b'] by (auto simp: less_eq_prod_def)
  qed
  moreover have "hold_is_stale now b \<and> \<not> locked (bk_id b)" if "b \<in> set (bookings d)" "bk_id b \<in> set ?ids" for b
    using stale_batch_member [OF ids that] .
  moreover have "int count = min n (int (length ?st))"
    using run(1,3) length_stale_batch [of now n locked "bookings d"] by simp
  ultimately show ?thesis
    using distinct_stale_batch [OF ids]
    by (intro conjI exI [of _ ?ids] ballI impI run(2)) (simp_all add: run(1))
qed

text \<open>
  Running the job again and again, with nobody locking a hold: \<open>expire_rounds now n k d\<close> is
  the database after \<open>k\<close> runs.
\<close>

fun expire_rounds :: "instant \<Rightarrow> int \<Rightarrow> nat \<Rightarrow> database \<Rightarrow> database" where
  "expire_rounds now n 0 d = d"
| "expire_rounds now n (Suc k) d =
     expire_rounds now n k (snd (expire_stale_booking_holds now n (\<lambda>_. False) d))"

definition stale_holds :: "instant \<Rightarrow> database \<Rightarrow> booking list" where
  "stale_holds now d = filter (hold_is_stale now) (bookings d)"

lemma expired_not_stale [simp]: "\<not> hold_is_stale now (expired_booking b)"
  by (simp add: hold_is_stale_def expired_booking_def)

lemma expire_twice:
  "(\<And>b. b \<in> set bs \<Longrightarrow> p b \<Longrightarrow> hold_is_stale now b) \<Longrightarrow>
   update_where (hold_is_stale now) expired_booking (update_where p expired_booking bs)
     = update_where (hold_is_stale now) expired_booking bs"
  by (auto simp: update_where_def)

lemma stale_after_expiry:
  assumes "\<And>b. b \<in> set bs \<Longrightarrow> p b \<Longrightarrow> hold_is_stale now b"
  shows "length (filter (hold_is_stale now) (update_where p expired_booking bs)) + rowcount_where p bs
     = length (filter (hold_is_stale now) bs)"
  using assms by (induction bs) (auto simp: update_where_def rowcount_where_def)

lemma expire_ids_ok:
  assumes ok: "db_ok d"
    and head: "\<And>b. b \<in> set (stale_holds now d) \<Longrightarrow> bk_version b < 2 ^ 31 - 1"
    and p: "\<And>b. b \<in> set (bookings d) \<Longrightarrow> p b \<Longrightarrow> hold_is_stale now b"
  shows "db_ok (d\<lparr>bookings := update_where p expired_booking (bookings d)\<rparr>)"
proof (rule db_ok_bookings [OF ok])
  show "bk_id ` set (bookings d) \<subseteq> bk_id ` set (update_where p expired_booking (bookings d))"
  proof -
    have "map bk_id (update_where p expired_booking (bookings d)) = map bk_id (bookings d)"
      by (simp add: map_update_where expired_booking_def)
    then show ?thesis by (metis list.set_map order_refl)
  qed
  have "booking_columns (expired_booking b)" if "b \<in> set (bookings d)" "p b" for b
  proof -
    from ok that(1) have "booking_columns b" by (simp add: db_ok_def columns_ok_def list_all_iff)
    moreover from head that p have "bk_version b < 2 ^ 31 - 1" by (auto simp: stale_holds_def)
    ultimately show ?thesis by (simp add: booking_columns_def expired_booking_def int4_def)
  qed
  with ok show "list_all booking_columns (update_where p expired_booking (bookings d))"
    by (auto simp: db_ok_def columns_ok_def list_all_iff set_update_where)
qed (rule expired_constraints [OF ok])

lemma expire_round:
  assumes ok: "db_ok d" and n: "0 \<le> n"
    and head: "\<And>b. b \<in> set (stale_holds now d) \<Longrightarrow> bk_version b < 2 ^ 31 - 1"
  defines "d1 \<equiv> snd (expire_stale_booking_holds now n (\<lambda>_. False) d)"
  shows "db_ok d1" "\<And>b. b \<in> set (stale_holds now d1) \<Longrightarrow> bk_version b < 2 ^ 31 - 1"
    and "d1\<lparr>bookings := update_where (hold_is_stale now) expired_booking (bookings d1)\<rparr>
       = d\<lparr>bookings := update_where (hold_is_stale now) expired_booking (bookings d)\<rparr>"
    and "length (stale_holds now d1) = length (stale_holds now d) - nat n"
proof -
  let ?ids = "stale_batch now n (\<lambda>_. False) (bookings d)"
  let ?p = "\<lambda>b. bk_id b \<in> set ?ids \<and> hold_is_stale now b"
  from ok have ids: "distinct (map bk_id (bookings d))" by (auto dest: db_ok_keys simp: keys_ok_def)
  have ok1: "db_ok (d\<lparr>bookings := update_where ?p expired_booking (bookings d)\<rparr>)"
    by (rule expire_ids_ok [OF ok head]) blast+
  have d1: "d1 = d\<lparr>bookings := update_where ?p expired_booking (bookings d)\<rparr>"
    using n ok1 unfolding d1_def expire_stale_booking_holds_def Let_def
    by (auto simp: commit_simps(1) [OF ok] commit_simps(1) [OF ok1] update_where_False)
  from d1 ok1 show "db_ok d1" by simp
  show "bk_version b < 2 ^ 31 - 1" if "b \<in> set (stale_holds now d1)" for b
    using that head by (auto simp: d1 stale_holds_def set_update_where split: if_splits)
  have "update_where (hold_is_stale now) expired_booking (update_where ?p expired_booking (bookings d))
      = update_where (hold_is_stale now) expired_booking (bookings d)"
    by (rule expire_twice) blast
  then show "d1\<lparr>bookings := update_where (hold_is_stale now) expired_booking (bookings d1)\<rparr>
       = d\<lparr>bookings := update_where (hold_is_stale now) expired_booking (bookings d)\<rparr>"
    by (simp add: d1)
  have "?p b \<longleftrightarrow> bk_id b \<in> set ?ids" if "b \<in> set (bookings d)" for b
    using stale_batch_member [OF ids that] by blast
  from filter_cong_rows [of "bookings d" ?p, OF this]
  have "rowcount_where ?p (bookings d) = length ?ids"
    using rowcount_by_ids [OF ids distinct_stale_batch [OF ids] stale_batch_subset] by simp
  then show "length (stale_holds now d1) = length (stale_holds now d) - nat n"
    using stale_after_expiry [of "bookings d" ?p now] length_stale_batch [of now n "\<lambda>_. False" "bookings d"]
    by (simp add: d1 stale_holds_def)
qed

text \<open>
  Expiring in batches is expiring at once: with a positive batch size, enough runs of
  the job leave exactly the database in which one UPDATE expired every stale hold, however
  the holds are split into batches; the number of stale holds divided by the batch size
  bounds the runs needed.
\<close>

theorem expire_batches_equal_one_update:
  assumes "db_ok d" "version_headroom d" "0 < n" "int (length (stale_holds now d)) \<le> int k * n"
  shows "expire_rounds now n k d
     = d\<lparr>bookings := update_where (hold_is_stale now) expired_booking (bookings d)\<rparr>"
proof -
  have "expire_rounds now n k d
      = d\<lparr>bookings := update_where (hold_is_stale now) expired_booking (bookings d)\<rparr>"
    if "db_ok d" "\<And>b. b \<in> set (stale_holds now d) \<Longrightarrow> bk_version b < 2 ^ 31 - 1"
      "length (stale_holds now d) \<le> k * nat n"
    using that
  proof (induction k arbitrary: d)
    case 0
    then have "\<And>b. b \<in> set (bookings d) \<Longrightarrow> \<not> hold_is_stale now b"
      by (simp add: stale_holds_def filter_empty_conv)
    then have "update_where (hold_is_stale now) expired_booking (bookings d) = bookings d"
      by (simp add: update_where_def map_idI)
    then show ?case by simp
  next
    case (Suc k)
    let ?d1 = "snd (expire_stale_booking_holds now n (\<lambda>_. False) d)"
    from assms(3) have n: "0 \<le> n" by simp
    note round = expire_round [OF Suc.prems(1) n Suc.prems(2)]
    from Suc.prems(3) have "length (stale_holds now ?d1) \<le> k * nat n"
      by (simp add: round(4))
    from Suc.IH [OF round(1,2) this] show ?case by (simp add: round(3))
  qed
  moreover have "\<And>b. b \<in> set (stale_holds now d) \<Longrightarrow> bk_version b < 2 ^ 31 - 1"
    using assms(2) by (auto simp: version_headroom_def stale_holds_def list_all_iff)
  moreover from assms(3,4) have "length (stale_holds now d) \<le> k * nat n"
  proof -
    from assms(3,4) have "int (length (stale_holds now d)) \<le> int (k * nat n)" by simp
    then show ?thesis by linarith
  qed
  ultimately show ?thesis using assms(1) by blast
qed

subsection \<open>What reconciliation may change\<close>

text \<open>
  A refund of the database after a reconciliation of \<open>d\<close>: it is untouched, or it was
  pending and the provider's answer about it says what it became.
\<close>

definition settled_by :: "(RefundSnapshot \<Rightarrow> exn + RazorpayRefund) \<Rightarrow> database \<Rightarrow> refund \<Rightarrow> bool" where
  "settled_by fetcher d r' \<longleftrightarrow> r' \<in> set (refunds d)
     \<or> (\<exists>r \<in> set (refunds d). \<exists>answer. rf_id r' = rf_id r \<and> rf_status r = R_PENDING
          \<and> fetcher (reconcile_snapshot d r) = Inr answer
          \<and> (rr_status answer = ''processed'' \<and> rf_status r' = R_PROCESSED
             \<or> rr_status answer = ''failed'' \<and> rf_status r' = R_FAILED))"

lemma apply_reconciled_refund_Inr:
  assumes "apply_reconciled_refund now i answer d = (Inr s, d')"
  obtains "d' = d" "s = ''unchanged'' \<or> s = rr_status answer"
  | r r' where "row_by rf_id (refunds d) i = Some r" "rf_status r = R_PENDING"
      "refunds d' = store_row rf_id r' (refunds d)" "rf_id r' = i" "s = rr_status answer"
      "rr_status answer = ''processed'' \<and> rf_status r' = R_PROCESSED
       \<or> rr_status answer = ''failed'' \<and> rf_status r' = R_FAILED"
  using assms unfolding apply_reconciled_refund_def
  by (auto split: option.splits if_split_asm dest: row_by_Some)

lemma reconcile_each_settled:
  assumes keys: "distinct (map rf_id (refunds d0))"
    and from0: "\<forall>s \<in> set ss. \<exists>r \<in> set (refunds d0). s = reconcile_snapshot d0 r"
    and inv: "\<forall>r \<in> set (refunds d). settled_by fetcher d0 r"
    and run: "reconcile_each fetcher (\<lambda>_ x. x) clock ss c d = (out, d')"
  shows "\<forall>r \<in> set (refunds d'). settled_by fetcher d0 r"
  using from0 inv run
proof (induction ss arbitrary: c d)
  case (Cons s ss)
  show ?case
  proof (cases "fetcher s")
    case (Inl e)
    with Cons show ?thesis by (cases e) (auto simp: Let_def)
  next
    case (Inr answer)
    obtain res d2 where ap: "apply_reconciled_refund (clock (sn_refund_id s)) (sn_refund_id s) answer d = (res, d2)"
      by (cases "apply_reconciled_refund (clock (sn_refund_id s)) (sn_refund_id s) answer d")
    from Cons.prems(1) obtain r0 where r0: "r0 \<in> set (refunds d0)" "s = reconcile_snapshot d0 r0" by auto
    have d2: "\<forall>r \<in> set (refunds d2). settled_by fetcher d0 r" if res: "res = Inr x" for x
      using ap [unfolded res]
    proof (cases rule: apply_reconciled_refund_Inr)
      case 1
      with Cons.prems(2) show ?thesis by simp
    next
      case (2 r r')
      note r = row_by_Some [OF 2(1)]
      from r Cons.prems(2) 2(2) have "r \<in> set (refunds d0)"
        by (auto simp: settled_by_def)
      with r0 r keys have "r = r0"
        by (auto simp: reconcile_snapshot_def dest: distinct_map_unique)
      with r r0 2 Inr have "settled_by fetcher d0 r'"
        unfolding settled_by_def by (intro disjI2 bexI [of _ r0] exI [of _ answer]) auto
      with Cons.prems(2) show ?thesis
        using set_store_row_subset [of rf_id r' "refunds d"] unfolding 2(3) by blast
    qed
    show ?thesis
    proof (cases res)
      case e: (Inl e)
      have "d2 = d" using ap e
        by (auto simp: apply_reconciled_refund_def commit_def split: option.splits if_split_asm)
      with Cons.prems Inr ap e show ?thesis by (simp add: Let_def)
    next
      case x: (Inr x)
      from Cons.prems(3) Inr ap x
      have "reconcile_each fetcher (\<lambda>_ x. x) clock ss (count_outcome x (c\<lparr>checked := checked c + 1\<rparr>)) d2 = (out, d')"
        by (simp add: Let_def)
      from Cons.IH [OF _ d2 [OF x] this] Cons.prems(1) show ?thesis by simp
    qed
  qed
qed simp

lemma pending_refund_snapshots_Inr:
  assumes "pending_refund_snapshots n d = (Inr ss, d')"
  shows "length ss = min (nat n) (length (filter (reconcilable d) (refunds d)))" "d' = d" "0 \<le> n"
    and "s \<in> set ss \<Longrightarrow> \<exists>r \<in> set (refunds d). reconcilable d r \<and> s = reconcile_snapshot d r"
  using assms by (auto simp: pending_refund_snapshots_def dest!: in_set_takeD split: if_split_asm)


lemma reconcile_each_counts:
  "reconcile_each fetcher others clock ss c d = (Inr c', d') \<Longrightarrow>
   checked c' = checked c + length ss
   \<and> processed c' + failed c' + errors c' + checked c \<le> processed c + failed c + errors c + checked c'"
proof (induction ss arbitrary: c d)
  case (Cons s ss)
  let ?c = "c\<lparr>checked := checked c + 1\<rparr>"
  from Cons.prems consider
    d1 where "reconcile_each fetcher others clock ss (?c\<lparr>errors := errors ?c + 1\<rparr>) d1 = (Inr c', d')"
  | x d1 where "reconcile_each fetcher others clock ss (count_outcome x ?c) d1 = (Inr c', d')"
    by (auto simp: Let_def split: sum.splits exn.splits prod.splits)
  then show ?case
  proof cases
    case 1
    from Cons.IH [OF 1] show ?thesis by simp
  next
    case 2
    have "checked (count_outcome x ?c) = checked c + 1
        \<and> processed (count_outcome x ?c) + failed (count_outcome x ?c) + errors (count_outcome x ?c)
          \<le> processed c + failed c + errors c + 1"
      by (simp add: count_outcome_def)
    with Cons.IH [OF 2] show ?thesis by simp
  qed
qed simp

text \<open>
  A reconciliation that ends reports what it did: it checked as many pending refunds as
  the batch allows, and every refund it checked is counted at most once as processed, failed
  or in error; whatever the other transactions did meanwhile, the books balance afterwards.
\<close>

theorem reconcile_reports:
  assumes "db_ok d" "coherent d" "\<forall>i x. safe_run x (others i x)"
    and "reconcile_pending_refunds http key_id key_secret others clock n d = (Inr c, d')"
  shows "int (checked c) = min n (int (length (filter (reconcilable d) (refunds d))))
    \<and> processed c + failed c + errors c \<le> checked c \<and> db_ok d' \<and> coherent d'"
proof -
  from assms(4) obtain ss where ss: "pending_refund_snapshots n d = (Inr ss, d)"
    and run: "reconcile_each (fetch_snapshot http key_id key_secret) others clock ss zero_counts d = (Inr c, d')"
    by (auto simp: reconcile_pending_refunds_def dest: pending_refund_snapshots_Inr(2)
        split: prod.splits sum.splits)
  have "safe_run d d'"
    using reconcile_pending_refunds_safe [of others d http key_id key_secret clock n] assms(3,4) by simp
  with assms(1,2) have "db_ok d' \<and> coherent d'" by (simp add: safe_run_def)
  moreover have "checked c = length ss" "processed c + failed c + errors c \<le> checked c"
    using reconcile_each_counts [OF run] by (simp_all add: zero_counts_def)
  ultimately show ?thesis
    using pending_refund_snapshots_Inr(1,3) [OF ss] by linarith
qed

text \<open>An answer that settles nothing: the provider cannot be asked, or says pending.\<close>

definition unsettled :: "(RefundSnapshot \<Rightarrow> exn + RazorpayRefund) \<Rightarrow> RefundSnapshot \<Rightarrow> bool" where
  "unsettled fetcher s \<longleftrightarrow> (case fetcher s of
     Inl e \<Rightarrow> e = RazorpayRefundError | Inr answer \<Rightarrow> rr_status answer = ''pending'')"

lemma reconcile_each_unsettled:
  assumes "db_ok d" "\<forall>s \<in> set ss. unsettled fetcher s"
  shows "\<exists>k. reconcile_each fetcher (\<lambda>_ x. x) clock ss c d =
     (Inr (c\<lparr>checked := checked c + length ss, errors := errors c + k\<rparr>), d)"
  using assms(2)
proof (induction ss arbitrary: c)
  case Nil
  then show ?case by (intro exI [of _ 0]) simp
next
  case (Cons s ss)
  show ?case
  proof (cases "fetcher s")
    case (Inl e)
    with Cons.prems have e: "e = RazorpayRefundError" by (simp add: unsettled_def)
    from Cons.IH [of "c\<lparr>checked := checked c + 1, errors := errors c + 1\<rparr>"] Cons.prems obtain k where
      "reconcile_each fetcher (\<lambda>_ x. x) clock ss (c\<lparr>checked := checked c + 1, errors := errors c + 1\<rparr>) d
        = (Inr (c\<lparr>checked := checked c + 1 + length ss, errors := errors c + 1 + k\<rparr>), d)"
      by auto
    with Inl e show ?thesis by (intro exI [of _ "Suc k"]) (simp add: Let_def)
  next
    case (Inr answer)
    with Cons.prems have a: "rr_status answer = ''pending''" by (simp add: unsettled_def)
    then have "\<exists>x \<in> {''unchanged'', ''pending''}.
        apply_reconciled_refund (clock (sn_refund_id s)) (sn_refund_id s) answer d = (Inr x, d)"
      by (simp add: apply_reconciled_refund_def commit_simps(1) [OF assms(1)] split: option.split)
    then obtain x where x: "x \<in> {''unchanged'', ''pending''}"
      "apply_reconciled_refund (clock (sn_refund_id s)) (sn_refund_id s) answer d = (Inr x, d)" by blast
    from Cons.IH [of "c\<lparr>checked := checked c + 1\<rparr>"] Cons.prems obtain k where
      "reconcile_each fetcher (\<lambda>_ x. x) clock ss (c\<lparr>checked := checked c + 1\<rparr>) d
        = (Inr (c\<lparr>checked := checked c + 1 + length ss, errors := errors c + k\<rparr>), d)"
      by auto
    moreover have "count_outcome x (c\<lparr>checked := checked c + 1\<rparr>) = c\<lparr>checked := checked c + 1\<rparr>"
      using x(1) by (auto simp: count_outcome_def)
    ultimately show ?thesis
      using Inr x(2) by (intro exI [of _ k]) (simp add: Let_def)
  qed
qed

text \<open>
  Reconciliation has no rotation: when the provider settles none of the oldest pending
  refunds (it cannot be reached for them, or still says pending), a run changes nothing, so
  every later run asks about the same refunds again, and a pending refund beyond the batch
  is not asked about however often the job runs.
\<close>

theorem reconcile_starves_beyond_batch:
  assumes "db_ok d" "pending_refund_snapshots n d = (Inr snapshots, d)"
    and "\<forall>s \<in> set snapshots. unsettled (fetch_snapshot http key_id key_secret) s"
  shows "((\<lambda>x. snd (reconcile_pending_refunds http key_id key_secret (\<lambda>_ y. y) clock n x)) ^^ runs) d = d"
proof -
  from reconcile_each_unsettled [OF assms(1,3)]
  have "snd (reconcile_pending_refunds http key_id key_secret (\<lambda>_ y. y) clock n d) = d"
    by (metis (mono_tags, lifting) assms(2) case_prod_conv old.sum.simps(6)
        reconcile_pending_refunds_def snd_conv)
  then show ?thesis by (induction runs) simp_all
qed

subsection \<open>Witnesses\<close>

definition sample_refund :: "RefundStatus \<Rightarrow> refund" where
  "sample_refund s = \<lparr>rf_id = 400, rf_payment_id = 200, rf_status = s, rf_amount = 50,
     rf_amount_subunits = 5000, rf_currency = ''INR'', rf_receipt = ''cmr_'' @ uuid_hex 400,
     rf_provider_refund_id = Some ''rfnd_1'', rf_last_error_code = None, rf_processed_at = None,
     rf_created_at = 9\<rparr>"

definition sample_refund_db :: database where
  "sample_refund_db = (sample_paid_db CANCELLED CAPTURED)\<lparr>refunds := [sample_refund R_PENDING]\<rparr>"

lemma sample_refund_ok: "db_ok sample_refund_db" "coherent sample_refund_db"
  by code_simp+

lemma sample_reconciliation:
  obtains c d' where "reconcile_pending_refunds (refunding_provider ''processed'') ''k'' ''s'' (\<lambda>_ x. x)
      (\<lambda>_. 20) 100 sample_refund_db = (Inr c, d')" "processed c = 1"
    "map rf_status (refunds d') = [R_PROCESSED]" "map pay_status (payments d') = [REFUNDED]"
proof -
  let ?r = "reconcile_pending_refunds (refunding_provider ''processed'') ''k'' ''s'' (\<lambda>_ x. x)
      (\<lambda>_. 20) 100 sample_refund_db"
  have "case ?r of (Inr c, d') \<Rightarrow> processed c = 1 \<and> map rf_status (refunds d') = [R_PROCESSED]
      \<and> map pay_status (payments d') = [REFUNDED] | _ \<Rightarrow> False" by code_simp
  then show thesis by (auto split: prod.splits sum.splits intro: that)
qed


theorem reconcile_reports_witness:
  "\<exists>c d'. reconcile_pending_refunds (refunding_provider ''processed'') ''k'' ''s'' (\<lambda>_ x. x)
      (\<lambda>_. 20) 100 sample_refund_db = (Inr c, d') \<and> processed c = 1 \<and> db_ok d'"
proof (rule sample_reconciliation)
  fix c d'
  assume r: "reconcile_pending_refunds (refunding_provider ''processed'') ''k'' ''s'' (\<lambda>_ x. x)
      (\<lambda>_. 20) 100 sample_refund_db = (Inr c, d')" "processed c = 1"
  have "\<forall>i x. safe_run x ((\<lambda>_ x. x) i x)" by simp
  from reconcile_reports [OF sample_refund_ok this r(1)] r show ?thesis by blast
qed

theorem reconcile_starves_beyond_batch_witness:
  "((\<lambda>x. snd (reconcile_pending_refunds (refunding_provider ''pending'') ''k'' ''s'' (\<lambda>_ y. y)
      (\<lambda>_. 20) 100 x)) ^^ 7) sample_refund_db = sample_refund_db"
proof -
  have ss: "pending_refund_snapshots 100 sample_refund_db =
      (Inr [reconcile_snapshot sample_refund_db (sample_refund R_PENDING)], sample_refund_db)"
    unfolding pending_refund_snapshots_def commit_simps(1) [OF sample_refund_ok(1)]
    by (simp add: reconcilable_def sample_refund_db_def sample_refund_def sample_paid_db_def
        sample_payment_def row_by_def select_scalar_def)
  have "unsettled (fetch_snapshot (refunding_provider ''pending'') ''k'' ''s'')
      (reconcile_snapshot sample_refund_db (sample_refund R_PENDING))"
    by code_simp
  then show ?thesis
    by (intro reconcile_starves_beyond_batch [OF sample_refund_ok(1) ss]) simp
qed

lemma sample_stale_db: "db_ok (sample_paid_db HELD FAILED)" "version_headroom (sample_paid_db HELD FAILED)"
  by code_simp+

theorem expire_batch_exact_witness:
  "\<exists>d'. expire_stale_booking_holds (minutes 11) 100 (\<lambda>_. False) (sample_paid_db HELD FAILED) = (Inr 1, d')
     \<and> (\<exists>ids. length ids = (1 :: nat) \<and> d' = (sample_paid_db HELD FAILED)\<lparr>bookings := update_where
          (\<lambda>b. bk_id b \<in> set ids) expired_booking (bookings (sample_paid_db HELD FAILED))\<rparr>)"
proof -
  have "case expire_stale_booking_holds (minutes 11) 100 (\<lambda>_. False) (sample_paid_db HELD FAILED) of
      (Inr count, d') \<Rightarrow> count = 1 | _ \<Rightarrow> False" by code_simp
  then obtain d' where r: "expire_stale_booking_holds (minutes 11) 100 (\<lambda>_. False)
      (sample_paid_db HELD FAILED) = (Inr 1, d')" by (auto split: prod.splits sum.splits)
  from expire_batch_exact [OF sample_stale_db(1) r] r show ?thesis by blast
qed

theorem expire_batches_equal_one_update_witness:
  "map bk_status (bookings (expire_rounds (minutes 11) 100 1 (sample_paid_db HELD FAILED))) = [EXPIRED]"
proof -
  have "int (length (stale_holds (minutes 11) (sample_paid_db HELD FAILED))) \<le> int 1 * 100" by code_simp
  from expire_batches_equal_one_update [OF sample_stale_db _ this]
  show ?thesis
    by (simp add: sample_paid_db_def sample_booking_def update_where_def hold_is_stale_def minutes_def
        expired_booking_def del: expire_rounds.simps)
qed

end
