(* ===== verification/MaintenanceDrain.thy ===== *)
theory MaintenanceDrain
  imports Maintenance "HOL-Library.While_Combinator"
begin

text \<open>
  The recurring expiry job (\<open>maintenance/tasks.py\<close>) as the scheduler runs it: again and again
  while stale holds are left. Each run expires one bounded batch; that the repetition ends,
  and where, is proved here.
\<close>

definition expiry_run :: "config \<Rightarrow> instant \<Rightarrow> database \<Rightarrow> database" where
  "expiry_run cfg now d = snd (expire_stale_booking_holds_job cfg now (\<lambda>_. False) d)"

lemma expiry_run_drains:
  assumes "db_ok d" "\<And>b. b \<in> set (stale_holds now d) \<Longrightarrow> bk_version b < 2 ^ 31 - 1"
    and "0 < MAINTENANCE_BATCH_SIZE cfg"
  shows "while_option (\<lambda>d. stale_holds now d \<noteq> []) (expiry_run cfg now) d
     = Some (d\<lparr>bookings := update_where (hold_is_stale now) expired_booking (bookings d)\<rparr>)"
  using assms
proof (induction "length (stale_holds now d)" arbitrary: d rule: less_induct)
  case less
  show ?case
  proof (cases "stale_holds now d = []")
    case True
    then have "update_where (hold_is_stale now) expired_booking (bookings d) = bookings d"
      by (auto simp: stale_holds_def filter_empty_conv update_where_def intro: map_idI)
    with True show ?thesis by (simp add: while_option_unfold)
  next
    case False
    let ?n = "MAINTENANCE_BATCH_SIZE cfg"
    from less.prems(3) have n: "0 \<le> ?n" by simp
    have run: "expiry_run cfg now d = snd (expire_stale_booking_holds now ?n (\<lambda>_. False) d)"
      by (simp add: expiry_run_def expire_stale_booking_holds_job_def)
    note round = expire_round [where now = now, OF less.prems(1) n less.prems(2), folded run]
    have "length (stale_holds now (expiry_run cfg now d)) < length (stale_holds now d)"
      using False less.prems(3) by (simp add: round(4))
    from less.hyps [OF this round(1,2) less.prems(3)] show ?thesis
      using False by (simp add: while_option_unfold [of _ _ d] round(3))
  qed
qed



end
