(* ===== verification/PyText.thy ===== *)
theory PyText
  imports Config
begin

text \<open>
  Python text operations on UTF-8 strings: code points, \<open>str.strip\<close> and \<open>str.split\<close> with
  Python's whitespace, \<open>str.replace\<close> of a pattern by nothing, and the text form of a UUID
  that \<open>uuid.UUID(text)\<close> reads. \<open>int(text, 16)\<close> is modelled on ASCII digits; the decimal
  digits of other scripts, which Python also reads, are refused here.
\<close>

subsection \<open>Code points and whitespace\<close>

fun code_points :: "string \<Rightarrow> string list" where
  "code_points [] = []"
| "code_points (c # cs) =
     (case code_points cs of
        [] \<Rightarrow> [[c]]
      | x # xs \<Rightarrow> if x \<noteq> [] \<and> continuation_byte (hd x) then (c # x) # xs else [c] # x # xs)"

definition bytes :: "nat list \<Rightarrow> string" where
  "bytes ns = map char_of ns"

text \<open>The characters for which \<open>str.isspace\<close> holds, as UTF-8.\<close>

definition PY_WHITESPACE :: "string list" where
  "PY_WHITESPACE = map (\<lambda>n. bytes [n]) [9, 10, 11, 12, 13, 28, 29, 30, 31, 32]
     @ map bytes [[194, 133], [194, 160], [225, 154, 128]]
     @ map (\<lambda>n. bytes [226, 128, n]) [128..<139]
     @ map bytes [[226, 128, 168], [226, 128, 169], [226, 128, 175], [226, 129, 159], [227, 128, 128]]"

definition is_space :: "string \<Rightarrow> bool" where
  "is_space c \<longleftrightarrow> c \<in> set PY_WHITESPACE"

definition strip_by :: "('a \<Rightarrow> bool) \<Rightarrow> 'a list \<Rightarrow> 'a list" where
  "strip_by p xs = rev (dropWhile p (rev (dropWhile p xs)))"

definition strip :: "string \<Rightarrow> string" where
  "strip s = concat (strip_by is_space (code_points s))"

fun split_words :: "string \<Rightarrow> string list \<Rightarrow> string list" where
  "split_words w [] = (if w = [] then [] else [w])"
| "split_words w (c # cs) =
     (if is_space c then (if w = [] then split_words [] cs else w # split_words [] cs)
      else split_words (w @ c) cs)"

definition py_split :: "string \<Rightarrow> string list" where
  "py_split s = split_words [] (code_points s)"

lemma concat_code_points [simp]: "concat (code_points s) = s"
  by (induction s) (auto split: list.split)

lemma code_points_nonempty: "x \<in> set (code_points s) \<Longrightarrow> x \<noteq> []"
  by (induction s) (auto split: list.splits if_splits)

lemma code_points_ascii: "is_ascii s \<Longrightarrow> code_points s = map (\<lambda>c. [c]) s"
  by (induction s) (auto simp: is_ascii_def continuation_byte_def split: list.splits)

lemma strip_by_id: "xs = [] \<or> (\<not> p (hd xs) \<and> \<not> p (last xs)) \<Longrightarrow> strip_by p xs = xs"
  by (auto simp: strip_by_def dropWhile_eq_self_iff [THEN iffD2] hd_rev)

lemma strip_by_idem: "strip_by p (strip_by p xs) = strip_by p xs"
proof -
  let ?ys = "dropWhile p xs"
  have "rev (dropWhile p (rev ?ys)) = [] \<or> \<not> p (hd (rev (dropWhile p (rev ?ys))))"
  proof (cases "dropWhile p (rev ?ys) = []")
    case False
    then have ne: "?ys \<noteq> []" by (metis dropWhile.simps(1) rev.simps(1))
    obtain us where "rev ?ys = us @ dropWhile p (rev ?ys)" by (metis takeWhile_dropWhile_id)
    then have "?ys = rev (dropWhile p (rev ?ys)) @ rev us" by (metis rev_append rev_rev_ident)
    then have "hd ?ys = hd (rev (dropWhile p (rev ?ys)))" using False by (metis hd_append rev_is_Nil_conv)
    with hd_dropWhile [OF ne] show ?thesis by simp
  qed simp
  moreover have "rev (dropWhile p (rev ?ys)) = [] \<or> \<not> p (last (rev (dropWhile p (rev ?ys))))"
    by (metis hd_dropWhile last_rev rev_rev_ident rev_is_Nil_conv)
  ultimately show ?thesis unfolding strip_by_def [of p xs] by (intro strip_by_id) blast
qed

lemma strip_ascii_id:
  assumes "is_ascii s" "s \<noteq> []" "\<not> is_space [hd s]" "\<not> is_space [last s]"
  shows "strip s = s"
proof -
  have "strip_by is_space (map (\<lambda>c. [c]) s) = map (\<lambda>c. [c]) s"
    using assms(2-4) by (intro strip_by_id) (simp add: hd_map last_map)
  then have "strip s = concat (map (\<lambda>c. [c]) s)"
    unfolding strip_def code_points_ascii [OF assms(1)] by simp
  then show ?thesis by simp
qed

subsection \<open>Reading a UUID\<close>

text \<open>\<open>s.replace(pattern, "")\<close> for a pattern that is not empty.\<close>

function remove_all :: "string \<Rightarrow> string \<Rightarrow> string" where
  "remove_all pattern [] = []"
| "remove_all pattern (c # cs) =
     (if pattern \<noteq> [] \<and> take (length pattern) (c # cs) = pattern
      then remove_all pattern (drop (length pattern) (c # cs))
      else c # remove_all pattern cs)"
  by pat_completeness auto
termination
  by (relation "measure (\<lambda>(p, s). length s)") auto

definition hex_value :: "char \<Rightarrow> nat option" where
  "hex_value c = (let n = of_char c :: nat in
     if 48 \<le> n \<and> n \<le> 57 then Some (n - 48)
     else if 97 \<le> n \<and> n \<le> 102 then Some (n - 87)
     else if 65 \<le> n \<and> n \<le> 70 then Some (n - 55) else None)"

text \<open>Digits with single underscores between them.\<close>

fun hex_number :: "nat \<Rightarrow> string \<Rightarrow> nat option" where
  "hex_number n [] = Some n"
| "hex_number n [c] = map_option (\<lambda>v. n * 16 + v) (hex_value c)"
| "hex_number n (c # c' # cs) =
     (if c = CHR ''_''
      then (case hex_value c' of None \<Rightarrow> None | Some v \<Rightarrow> hex_number (n * 16 + v) cs)
      else (case hex_value c of None \<Rightarrow> None | Some v \<Rightarrow> hex_number (n * 16 + v) (c' # cs)))"

text \<open>
  \<open>int(s, 16)\<close> for a text without a minus sign: surrounding whitespace, an optional plus
  sign, an optional \<open>0x\<close> prefix that an underscore may follow, then the digits.
\<close>

definition int16 :: "string \<Rightarrow> nat option" where
  "int16 s = (let t = strip s;
                  u = (if take 1 t = ''+'' then drop 1 t else t);
                  w = (if take 2 u = ''0x'' \<or> take 2 u = ''0X''
                       then (if take 1 (drop 2 u) = ''_'' then drop 3 u else drop 2 u) else u)
              in if w = [] \<or> take 1 w = ''_'' then None else hex_number 0 w)"

definition parse_uuid_text :: "string \<Rightarrow> exn + uuid" where
  "parse_uuid_text s =
     (let h = filter (\<lambda>c. c \<noteq> CHR ''-'')
                (strip_by (\<lambda>c. c = CHR ''{'' \<or> c = CHR ''}'')
                  (remove_all ''uuid:'' (remove_all ''urn:'' s)))
      in if pylen h \<noteq> 32
         then Inl (ValueError ''badly formed hexadecimal UUID string'')
         else case int16 h of
           None \<Rightarrow> Inl (ValueError ''invalid literal for int() with base 16'')
         | Some n \<Rightarrow> Inr (of_nat n))"

text \<open>\<open>UUID(v)\<close> for a JSON value: None is a TypeError, another type has no \<open>replace\<close>.\<close>

fun parse_uuid :: "json \<Rightarrow> exn + uuid" where
  "parse_uuid (JStr s) = parse_uuid_text s"
| "parse_uuid JNull = Inl TypeError"
| "parse_uuid _ = Inl AttributeError"

lemma remove_all_absent: "pattern \<noteq> [] \<Longrightarrow> hd pattern \<notin> set s \<Longrightarrow> remove_all pattern s = s"
  by (induction s) (auto simp: take_Cons' dest: arg_cong [where f = hd])

lemma hex_value_digit [simp]: "hex_value (hex_digit n) = Some (n mod 16)"
proof -
  have "\<forall>i \<in> set [0..<16]. hex_value (''0123456789abcdef'' ! i) = Some i"
    by (simp add: hex_value_def upt_rec)
  then show ?thesis by (simp add: hex_digit_def)
qed

definition hex_char :: "char \<Rightarrow> bool" where
  "hex_char c \<longleftrightarrow> list_ex (\<lambda>d. d = c) ''0123456789abcdef''"

lemma hex_char_all: "list_all P ''0123456789abcdef'' \<Longrightarrow> hex_char c \<Longrightarrow> P c"
  unfolding hex_char_def list_ex_iff list_all_iff by blast

lemma hex_digit_char [simp]: "hex_char (hex_digit n)"
proof -
  have "\<forall>i < 16. hex_char (''0123456789abcdef'' ! i)" by code_simp
  then show ?thesis by (simp add: hex_digit_def)
qed

lemma hex_digits_char: "list_all hex_char (hex_digits k n)"
  by (induction k arbitrary: n) auto

lemma is_space_byte: "is_space [c] \<Longrightarrow> (of_char c :: nat) \<le> 32"
proof -
  assume "is_space [c]"
  then have "\<exists>n \<in> {9, 10, 11, 12, 13, 28, 29, 30, 31, 32 :: nat}. c = char_of n"
    by (auto simp: is_space_def PY_WHITESPACE_def bytes_def)
  then show ?thesis by auto
qed

lemma hex_char_plain:
  assumes "hex_char c"
  shows "c \<noteq> CHR ''-''" "c \<noteq> CHR ''_''" "c \<noteq> CHR ''+''" "c \<noteq> CHR ''x''" "c \<noteq> CHR ''X''"
    "c \<noteq> CHR ''u''" "c \<noteq> CHR ''{''" "c \<noteq> CHR ''}''" "\<not> is_space [c]"
proof -
  have "list_all (\<lambda>c. hex_value c \<noteq> None \<and> 48 \<le> (of_char c :: nat)) ''0123456789abcdef''" by code_simp
  from hex_char_all [OF this assms] have c: "hex_value c \<noteq> None" "48 \<le> (of_char c :: nat)" by auto
  from c(1) show "c \<noteq> CHR ''-''" "c \<noteq> CHR ''_''" "c \<noteq> CHR ''+''" "c \<noteq> CHR ''x''" "c \<noteq> CHR ''X''"
    "c \<noteq> CHR ''u''" "c \<noteq> CHR ''{''" "c \<noteq> CHR ''}''"
    by (auto simp: hex_value_def)
  from c(2) show "\<not> is_space [c]" by (auto dest: is_space_byte)
qed

lemma hex_number_append:
  assumes "CHR ''_'' \<notin> set xs" "hex_number n xs = Some m"
  shows "hex_number n (xs @ [hex_digit d]) = Some (m * 16 + d mod 16)"
  using assms
proof (induction n xs rule: hex_number.induct)
  case (2 n c)
  then show ?case using hex_char_plain(2) [OF hex_digit_char, of d] by (auto split: option.splits)
qed (auto split: option.splits)

lemma hex_digits_underscore: "CHR ''_'' \<notin> set (hex_digits k n)"
  using hex_digits_char [of k n] hex_char_plain(2) unfolding list_all_iff by blast

lemma hex_number_digits: "hex_number 0 (hex_digits k n) = Some (n mod 16 ^ k)"
proof (induction k arbitrary: n)
  case (Suc k)
  have "n mod 16 ^ Suc k = (n div 16) mod 16 ^ k * 16 + n mod 16"
    by (metis add.commute mod_mult2_eq mult.commute power_Suc)
  with hex_number_append [OF hex_digits_underscore Suc.IH [of "n div 16"]] show ?case by simp
qed simp

lemma uuid_hex_char: "c \<in> set (uuid_hex u) \<Longrightarrow> hex_char c"
  using hex_digits_char [of 32 "unat u"] unfolding uuid_hex_def list_all_iff by blast

lemma uuid_str_char: "c \<in> set (uuid_str u) \<Longrightarrow> hex_char c \<or> c = CHR ''-''"
  by (auto simp: uuid_str_def Let_def intro: uuid_hex_char dest!: in_set_takeD in_set_dropD)

lemma uuid_hex_parts:
  "length h = 32 \<Longrightarrow> take 8 h @ take 4 (drop 8 h) @ take 4 (drop 12 h) @ take 4 (drop 16 h) @ drop 20 h = h"
  by (rule nth_equalityI) (auto simp: nth_append)

lemma filter_hex: "(\<And>c. c \<in> set xs \<Longrightarrow> hex_char c) \<Longrightarrow> filter (\<lambda>c. c \<noteq> CHR ''-'') xs = xs"
  by (intro filter_True ballI hex_char_plain(1))

lemma uuid_str_hex: "filter (\<lambda>c. c \<noteq> CHR ''-'') (uuid_str u) = uuid_hex u"
proof -
  let ?h = "uuid_hex u"
  have "filter (\<lambda>c. c \<noteq> CHR ''-'') (take i (drop j ?h)) = take i (drop j ?h)"
    "filter (\<lambda>c. c \<noteq> CHR ''-'') (take i ?h) = take i ?h"
    "filter (\<lambda>c. c \<noteq> CHR ''-'') (drop j ?h) = drop j ?h" for i j
    by (rule filter_hex, auto intro: uuid_hex_char dest!: in_set_takeD in_set_dropD)+
  then have "filter (\<lambda>c. c \<noteq> CHR ''-'') (uuid_str u) =
      take 8 ?h @ take 4 (drop 8 ?h) @ take 4 (drop 12 ?h) @ take 4 (drop 16 ?h) @ drop 20 ?h"
    unfolding uuid_str_def Let_def filter_append by (simp only: filter.simps) simp
  then show ?thesis by (simp add: uuid_hex_parts)
qed

lemma uuid_hex_nonempty [simp]: "uuid_hex u \<noteq> []"
  using length_uuid_hex [of u] by (metis list.size(3) zero_neq_numeral)

lemma uuid_str_ends: "\<exists>c cs. uuid_str u = c # cs \<and> hex_char c" "hex_char (last (uuid_str u))"
proof -
  have "take 8 (uuid_hex u) \<noteq> []" by (simp add: take_eq_Nil2)
  then obtain c cs where c: "take 8 (uuid_hex u) = c # cs" by (cases "take 8 (uuid_hex u)") auto
  then have "hex_char c" by (metis in_set_takeD list.set_intros(1) uuid_hex_char)
  with c show "\<exists>c cs. uuid_str u = c # cs \<and> hex_char c" by (simp add: uuid_str_def Let_def)
  have "drop 20 (uuid_hex u) \<noteq> []" using length_uuid_hex [of u] by (auto simp del: length_uuid_hex)
  then have "last (uuid_str u) = last (drop 20 (uuid_hex u))" by (simp add: uuid_str_def Let_def)
  also have "\<dots> \<in> set (uuid_hex u)" using last_in_set [OF \<open>drop 20 (uuid_hex u) \<noteq> []\<close>] by (rule in_set_dropD)
  finally show "hex_char (last (uuid_str u))" by (rule uuid_hex_char)
qed

lemma int16_hex: "int16 (uuid_hex u) = Some (unat u)"
proof -
  let ?h = "uuid_hex u"
  have ne: "?h \<noteq> []" by simp
  have hd: "hex_char (hd ?h)" "hex_char (last ?h)"
    by (rule uuid_hex_char [OF hd_in_set [OF ne]], rule uuid_hex_char [OF last_in_set [OF ne]])
  have strip: "strip ?h = ?h"
    by (rule strip_ascii_id) (use ne hd hex_char_plain(9) uuid_hex_ascii in auto)
  obtain c c' cs where h: "?h = c # c' # cs"
    using length_uuid_hex [of u] by (cases ?h; cases "tl ?h") auto
  then have cc: "hex_char c" "hex_char c'" using uuid_hex_char [of _ u] by simp_all
  have "unat u < 16 ^ 32" using unsigned_less [of u, where 'a = nat] by simp
  with hex_number_digits [of 32 "unat u"] have "hex_number 0 ?h = Some (unat u)"
    by (simp add: uuid_hex_def)
  with strip h have "strip (c # c' # cs) = c # c' # cs" "hex_number 0 (c # c' # cs) = Some (unat u)"
    by simp_all
  with hex_char_plain(2,3) [OF cc(1)] hex_char_plain(4,5) [OF cc(2)] show ?thesis
    unfolding int16_def h by (simp add: Let_def del: hex_number.simps)
qed

theorem parse_uuid_str: "parse_uuid_text (uuid_str u) = Inr u"
proof -
  have absent: "CHR ''u'' \<notin> set (uuid_str u)"
    using uuid_str_char [of "CHR ''u''" u] hex_char_plain(6) by auto
  have "remove_all ''uuid:'' (remove_all ''urn:'' (uuid_str u)) = uuid_str u"
    using absent by (simp add: remove_all_absent)
  moreover have "strip_by (\<lambda>c. c = CHR ''{'' \<or> c = CHR ''}'') (uuid_str u) = uuid_str u"
    using uuid_str_ends [of u] hex_char_plain(7,8) by (intro strip_by_id) fastforce
  moreover have "pylen (uuid_hex u) = 32" using uuid_hex_ascii [of u] by (simp add: pylen_ascii)
  ultimately show ?thesis
    by (simp add: parse_uuid_text_def uuid_str_hex int16_hex)
qed

end
