(* ===== verification/Tokens.thy ===== *)
theory Tokens
  imports PyText Razorpay
begin

text \<open>
  Access and refresh tokens (\<open>auth/tokens.py\<close>). The JWT library is a parameter: the two
  functions the code calls, and as named hypotheses what its documentation promises of
  them. Random values (\<open>uuid4\<close>, \<open>secrets.token_urlsafe\<close>) and the clock are arguments.
\<close>

subsection \<open>The JWT library\<close>

text \<open>
  \<open>jwt.encode(payload, key, algorithm)\<close>, where a datetime claim becomes whole seconds, and
  \<open>jwt.decode(token, key, algorithms, audience, issuer, options)\<close> at a time: the payload,
  or None for an \<open>InvalidTokenError\<close>.
\<close>

record jwt_library =
  jwt_encode :: "json \<Rightarrow> string option \<Rightarrow> string \<Rightarrow> string"
  jwt_decode :: "string \<Rightarrow> string option \<Rightarrow> string list \<Rightarrow> string \<Rightarrow> string \<Rightarrow> string list
                 \<Rightarrow> instant \<Rightarrow> json option"

definition REQUIRED_CLAIMS :: "string list" where
  "REQUIRED_CLAIMS = [''sub'', ''role'', ''type'', ''sid'', ''jti'', ''iat'', ''exp'', ''iss'', ''aud'']"

definition whole_seconds :: "instant \<Rightarrow> int" where
  "whole_seconds t = t div 1000000"

text \<open>A payload whose registered claims \<open>jwt.decode\<close> accepts at a time.\<close>

definition claims_valid :: "string \<Rightarrow> string \<Rightarrow> string list \<Rightarrow> instant \<Rightarrow> json \<Rightarrow> bool" where
  "claims_valid audience issuer required now payload \<longleftrightarrow>
     is_dict payload \<and> list_all (\<lambda>k. json_get payload k \<noteq> JNull) required
     \<and> json_get payload ''aud'' = JStr audience \<and> json_get payload ''iss'' = JStr issuer
     \<and> is_str (json_get payload ''sub'') \<and> is_str (json_get payload ''jti'')
     \<and> (case (json_get payload ''iat'', json_get payload ''exp'') of
          (JInt i, JInt e) \<Rightarrow> i * 1000000 \<le> now \<and> now < e * 1000000
        | _ \<Rightarrow> False)"

text \<open>Documented: a token decodes to its payload under its own key while its claims are valid.\<close>

definition jwt_roundtrip :: "jwt_library \<Rightarrow> json \<Rightarrow> bool" where
  "jwt_roundtrip lib payload \<longleftrightarrow> (\<forall>key alg audience issuer required now.
     claims_valid audience issuer required now payload \<longrightarrow>
     jwt_decode lib (jwt_encode lib payload key alg) key [alg] audience issuer required now = Some payload)"

text \<open>Documented: a decoded payload carries the required claims and has not expired.\<close>

definition jwt_checks_expiry :: "jwt_library \<Rightarrow> bool" where
  "jwt_checks_expiry lib \<longleftrightarrow> (\<forall>token key algs audience issuer required now payload.
     jwt_decode lib token key algs audience issuer required now = Some payload \<longrightarrow>
     (\<exists>e. json_get payload ''exp'' = JInt e \<and> now < e * 1000000))"

subsection \<open>Issuing tokens\<close>

record IssuedAccessToken =
  at_value :: string
  at_expires_at :: datetime
  at_token_id :: uuid

record IssuedRefreshToken =
  rt_value :: string
  rt_digest :: string
  rt_expires_at :: datetime

definition aware_utc :: "instant \<Rightarrow> datetime option \<Rightarrow> exn + datetime" where
  "aware_utc clock value =
     (case value of
        None \<Rightarrow> Inr (Aware clock 0)
      | Some v \<Rightarrow>
          if utcoffset v = None
          then Inl (ValueError ''Token timestamps must include timezone information.'')
          else Inr (as_utc v))"

definition plus_duration :: "datetime \<Rightarrow> int \<Rightarrow> datetime" where
  "plus_duration ts delta = (case ts of Naive t \<Rightarrow> Naive (t + delta) | Aware t off \<Rightarrow> Aware (t + delta) off)"

definition access_payload :: "config \<Rightarrow> user \<Rightarrow> uuid \<Rightarrow> uuid \<Rightarrow> datetime \<Rightarrow> datetime \<Rightarrow> json" where
  "access_payload cfg u session_id token_id issued_at expires_at = JObj [
     (''sub'', JStr (uuid_str (usr_id u))),
     (''role'', JStr (UserRole_value (usr_role u))),
     (''type'', JStr ''access''),
     (''sid'', JStr (uuid_str session_id)),
     (''jti'', JStr (uuid_str token_id)),
     (''iat'', JInt (whole_seconds (instant_of issued_at))),
     (''exp'', JInt (whole_seconds (instant_of expires_at))),
     (''iss'', JStr (JWT_ISSUER cfg)),
     (''aud'', JStr (JWT_AUDIENCE cfg))]"

definition issue_access_token ::
    "jwt_library \<Rightarrow> config \<Rightarrow> instant \<Rightarrow> uuid \<Rightarrow> user \<Rightarrow> uuid \<Rightarrow> datetime option
     \<Rightarrow> exn + IssuedAccessToken" where
  "issue_access_token lib cfg clock token_id u session_id now =
     (case aware_utc clock now of
        Inl e \<Rightarrow> Inl e
      | Inr issued_at \<Rightarrow>
          let expires_at = plus_duration issued_at (minutes (JWT_ACCESS_TOKEN_MINUTES cfg));
              payload = access_payload cfg u session_id token_id issued_at expires_at
          in Inr \<lparr>at_value = jwt_encode lib payload (JWT_SECRET_KEY cfg) (JWT_ALGORITHM cfg),
                 at_expires_at = expires_at, at_token_id = token_id\<rparr>)"

definition hash_refresh_token :: "primitives \<Rightarrow> string \<Rightarrow> string" where
  "hash_refresh_token prims token = sha256_hexdigest prims token"

definition issue_refresh_token ::
    "primitives \<Rightarrow> config \<Rightarrow> instant \<Rightarrow> string \<Rightarrow> datetime option \<Rightarrow> exn + IssuedRefreshToken" where
  "issue_refresh_token prims cfg clock random now =
     (case aware_utc clock now of
        Inl e \<Rightarrow> Inl e
      | Inr issued_at \<Rightarrow>
          Inr \<lparr>rt_value = random, rt_digest = hash_refresh_token prims random,
               rt_expires_at = plus_duration issued_at (days (JWT_REFRESH_TOKEN_DAYS cfg))\<rparr>)"

subsection \<open>Decoding access tokens\<close>

text \<open>\<open>payload[k]\<close>, and \<open>UserRole(v)\<close>.\<close>

fun json_item :: "json \<Rightarrow> string \<Rightarrow> exn + json" where
  "json_item (JObj kvs) k = (case map_of kvs k of None \<Rightarrow> Inl KeyError | Some v \<Rightarrow> Inr v)"
| "json_item _ k = Inl TypeError"

definition parse_role :: "json \<Rightarrow> exn + UserRole" where
  "parse_role v =
     (if json_eq_str v ''user'' then Inr USER
      else if json_eq_str v ''station_admin'' then Inr STATION_ADMIN
      else if json_eq_str v ''system_admin'' then Inr SYSTEM_ADMIN
      else Inl (ValueError ''not a valid UserRole''))"

definition invalid_token :: exn where
  "invalid_token = AccessTokenError ''Access token is invalid or expired.''"

fun token_error :: "exn \<Rightarrow> exn" where
  "token_error KeyError = invalid_token"
| "token_error TypeError = invalid_token"
| "token_error (ValueError _) = invalid_token"
| "token_error e = e"

definition check_uuid_claim :: "json \<Rightarrow> string \<Rightarrow> exn option" where
  "check_uuid_claim payload k =
     (case json_item payload k of
        Inl e \<Rightarrow> Some e
      | Inr v \<Rightarrow> (case parse_uuid v of Inl e \<Rightarrow> Some e | Inr _ \<Rightarrow> None))"

text \<open>The body of the \<open>try\<close> after \<open>jwt.decode\<close>: the first exception it raises.\<close>

definition claims_error :: "json \<Rightarrow> exn option" where
  "claims_error payload =
     (case json_item payload ''type'' of
        Inl e \<Rightarrow> Some e
      | Inr type_claim \<Rightarrow>
          if \<not> json_eq_str type_claim ''access'' then Some invalid_token
          else (case check_uuid_claim payload ''sub'' of
             Some e \<Rightarrow> Some e
           | None \<Rightarrow> (case check_uuid_claim payload ''sid'' of
               Some e \<Rightarrow> Some e
             | None \<Rightarrow> (case check_uuid_claim payload ''jti'' of
                 Some e \<Rightarrow> Some e
               | None \<Rightarrow> (case json_item payload ''role'' of
                   Inl e \<Rightarrow> Some e
                 | Inr v \<Rightarrow> (case parse_role v of Inl e \<Rightarrow> Some e | Inr _ \<Rightarrow> None))))))"

definition decode_access_token :: "jwt_library \<Rightarrow> config \<Rightarrow> instant \<Rightarrow> string \<Rightarrow> exn + json" where
  "decode_access_token lib cfg now token =
     (case jwt_decode lib token (JWT_SECRET_KEY cfg) [JWT_ALGORITHM cfg] (JWT_AUDIENCE cfg)
             (JWT_ISSUER cfg) REQUIRED_CLAIMS now of
        None \<Rightarrow> Inl invalid_token
      | Some payload \<Rightarrow>
          (case claims_error payload of Some e \<Rightarrow> Inl (token_error e) | None \<Rightarrow> Inr payload))"

subsection \<open>Properties of tokens\<close>

lemma parse_role_value: "parse_role (JStr (UserRole_value r)) = Inr r"
  by (cases r) (simp_all add: parse_role_def)

lemma check_uuid_claim_str:
  "json_item payload k = Inr (JStr (uuid_str u)) \<Longrightarrow> check_uuid_claim payload k = None"
  by (simp add: check_uuid_claim_def parse_uuid_str)

lemma access_payload_items:
  "json_item (access_payload cfg u s j i e) ''sub'' = Inr (JStr (uuid_str (usr_id u)))"
  "json_item (access_payload cfg u s j i e) ''sid'' = Inr (JStr (uuid_str s))"
  "json_item (access_payload cfg u s j i e) ''jti'' = Inr (JStr (uuid_str j))"
  "json_item (access_payload cfg u s j i e) ''type'' = Inr (JStr ''access'')"
  "json_item (access_payload cfg u s j i e) ''role'' = Inr (JStr (UserRole_value (usr_role u)))"
  by (simp_all add: access_payload_def)

lemma access_payload_claims: "claims_error (access_payload cfg u s j i e) = None"
  unfolding claims_error_def
  by (simp add: access_payload_items parse_role_value
      check_uuid_claim_str [OF access_payload_items(1)] check_uuid_claim_str [OF access_payload_items(2)]
      check_uuid_claim_str [OF access_payload_items(3)])

lemma whole_seconds_bounds: "whole_seconds t * 1000000 \<le> t" "t < whole_seconds t * 1000000 + 1000000"
  using pos_mod_bound [of 1000000 t]
  by (simp_all add: whole_seconds_def minus_mod_eq_div_mult [symmetric])

lemma access_payload_valid:
  assumes "instant_of issued \<le> now" "now < whole_seconds (instant_of expires) * 1000000"
  shows "claims_valid (JWT_AUDIENCE cfg) (JWT_ISSUER cfg) REQUIRED_CLAIMS now
           (access_payload cfg u s j issued expires)"
  using assms whole_seconds_bounds(1) [of "instant_of issued"]
  by (simp add: claims_valid_def access_payload_def REQUIRED_CLAIMS_def)


text \<open>A library for the witnesses: a token is looked up in the table of the tokens it issued.\<close>

definition sample_jwt :: "json \<Rightarrow> jwt_library" where
  "sample_jwt payload = \<lparr>
     jwt_encode = (\<lambda>p key alg. if p = payload then ''token'' else ''other''),
     jwt_decode = (\<lambda>token key algs audience issuer required now.
       if token = ''token'' \<and> claims_valid audience issuer required now payload
       then Some payload else None)\<rparr>"

lemma sample_jwt_roundtrip: "jwt_roundtrip (sample_jwt payload) payload"
  by (simp add: jwt_roundtrip_def sample_jwt_def)

lemma sample_jwt_expiry: "jwt_checks_expiry (sample_jwt payload)"
  by (auto simp: jwt_checks_expiry_def sample_jwt_def claims_valid_def split: json.splits if_splits)

definition sample_expiry :: datetime where
  "sample_expiry = Aware (minutes 20) 0"


end
