(* ===== verification/Auth.thy ===== *)
theory Auth
  imports Tokens Lifecycle
begin

text \<open>
  Accounts and login sessions (\<open>auth/schemas.py\<close>, \<open>auth/service.py\<close>): registration, login
  with lockout, refresh sessions with rotation and reuse detection, revocation and password
  changes. The password hash functions of werkzeug and the e-mail validator of pydantic are
  parameters; what other transactions commit between the reads and the writes of one that
  takes no lock is a parameter of registration and login.
\<close>

subsection \<open>Requests\<close>

definition normalize_identifier :: "string \<Rightarrow> string" where
  "normalize_identifier value = lower (strip value)"

definition normalize_full_name :: "string \<Rightarrow> string" where
  "normalize_full_name value = join '' '' (py_split value)"

definition normalize_phone :: "string option \<Rightarrow> string option" where
  "normalize_phone value =
     (case value of None \<Rightarrow> None | Some v \<Rightarrow> if strip v = [] then None else Some (strip v))"

definition username_char :: "char \<Rightarrow> bool" where
  "username_char c \<longleftrightarrow> (let n = of_char c :: nat in
     97 \<le> n \<and> n \<le> 122 \<or> 48 \<le> n \<and> n \<le> 57 \<or> n = 95)"

text \<open>The pattern of a phone number; its digit class holds of the decimal digits of Unicode.\<close>

definition phone_pattern :: "(string \<Rightarrow> bool) \<Rightarrow> string \<Rightarrow> bool" where
  "phone_pattern is_digit s =
     (case code_points s of
        sign # first # rest \<Rightarrow> sign = ''+''
          \<and> first \<in> set (map (\<lambda>c. [c]) ''123456789'')
          \<and> 7 \<le> length rest \<and> length rest \<le> 14 \<and> list_all is_digit rest
      | _ \<Rightarrow> False)"

record RegisterUserRequest =
  ru_email :: string
  ru_username :: string
  ru_password :: string
  ru_full_name :: string
  ru_phone :: "string option"

text \<open>\<open>email_str\<close> is the \<open>EmailStr\<close> validation: the normalised address, or None.\<close>

definition validate_registration ::
    "(string \<Rightarrow> string option) \<Rightarrow> (string \<Rightarrow> bool) \<Rightarrow> RegisterUserRequest \<Rightarrow> RegisterUserRequest option" where
  "validate_registration email_str is_digit raw =
     (let username = normalize_identifier (ru_username raw);
          full_name = normalize_full_name (ru_full_name raw);
          phone = normalize_phone (ru_phone raw)
      in case email_str (normalize_identifier (ru_email raw)) of
           None \<Rightarrow> None
         | Some email \<Rightarrow>
             if 3 \<le> pylen username \<and> pylen username \<le> 50 \<and> list_all username_char username
                \<and> 12 \<le> pylen (ru_password raw) \<and> pylen (ru_password raw) \<le> 128
                \<and> 2 \<le> pylen full_name \<and> pylen full_name \<le> 100
                \<and> nullable (phone_pattern is_digit) phone
             then Some \<lparr>ru_email = email, ru_username = username, ru_password = ru_password raw,
                        ru_full_name = full_name, ru_phone = phone\<rparr>
             else None)"

record LoginRequest =
  li_identifier :: string
  li_password :: string

definition validate_login :: "LoginRequest \<Rightarrow> LoginRequest option" where
  "validate_login raw =
     (let identifier = normalize_identifier (li_identifier raw) in
      if 3 \<le> pylen identifier \<and> pylen identifier \<le> 255
         \<and> 1 \<le> pylen (li_password raw) \<and> pylen (li_password raw) \<le> 128
      then Some (raw\<lparr>li_identifier := identifier\<rparr>) else None)"

record ChangePasswordRequest =
  cp_current_password :: string
  cp_new_password :: string

definition ChangePasswordRequest_valid :: "ChangePasswordRequest \<Rightarrow> bool" where
  "ChangePasswordRequest_valid r \<longleftrightarrow>
     1 \<le> pylen (cp_current_password r) \<and> pylen (cp_current_password r) \<le> 128
     \<and> 12 \<le> pylen (cp_new_password r) \<and> pylen (cp_new_password r) \<le> 128"

subsection \<open>Registration\<close>

text \<open>
  \<open>generate_password_hash\<close> (with the salt it draws) and \<open>check_password_hash\<close>, and what
  they promise: a hash checks exactly its own password, and fits its column.
\<close>

record hashing =
  generate_password_hash :: "string \<Rightarrow> string \<Rightarrow> string"
  check_password_hash :: "string \<Rightarrow> string \<Rightarrow> bool"

definition hashing_sound :: "hashing \<Rightarrow> bool" where
  "hashing_sound h \<longleftrightarrow> (\<forall>salt p q. check_password_hash h (generate_password_hash h salt p) q \<longleftrightarrow> q = p)"

definition hashes_fit :: "hashing \<Rightarrow> bool" where
  "hashes_fit h \<longleftrightarrow> (\<forall>salt p. varchar 255 (generate_password_hash h salt p))"

definition set_password :: "hashing \<Rightarrow> string \<Rightarrow> string \<Rightarrow> user \<Rightarrow> user" where
  "set_password h salt password u = u\<lparr>usr_password_hash := generate_password_hash h salt password\<rparr>"

definition check_password :: "hashing \<Rightarrow> string \<Rightarrow> user \<Rightarrow> bool" where
  "check_password h password u = check_password_hash h (usr_password_hash u) password"

definition USER_IDENTITY_CONSTRAINTS :: "string list" where
  "USER_IDENTITY_CONSTRAINTS = [''uq_users_email'', ''uq_users_phone'', ''uq_users_username'']"

definition registration_conflict :: exn where
  "registration_conflict = RegistrationConflictError ''Registration details are already in use.''"

definition identified :: "RegisterUserRequest \<Rightarrow> user \<Rightarrow> bool" where
  "identified data u \<longleftrightarrow> usr_email u = ru_email data \<or> usr_username u = ru_username data
     \<or> (ru_phone data \<noteq> None \<and> usr_phone u = ru_phone data)"

definition registered_user ::
    "hashing \<Rightarrow> instant \<Rightarrow> uuid \<Rightarrow> string \<Rightarrow> RegisterUserRequest \<Rightarrow> user" where
  "registered_user h now new_id salt data = set_password h salt (ru_password data) \<lparr>
     usr_id = new_id, usr_email = ru_email data, usr_username = ru_username data,
     usr_password_hash = [], usr_full_name = ru_full_name data, usr_phone = ru_phone data,
     usr_role = USER, usr_is_active = True, usr_email_verified_at = None,
     usr_failed_login_attempts = 0, usr_locked_until = None, usr_created_at = now\<rparr>"

fun registration_error :: "exn \<Rightarrow> exn" where
  "registration_error (IntegrityError constraint_name) =
     (if constraint_name \<in> set USER_IDENTITY_CONSTRAINTS then registration_conflict
      else IntegrityError constraint_name)"
| "registration_error e = e"

definition register_user ::
    "hashing \<Rightarrow> (database \<Rightarrow> database) \<Rightarrow> instant \<Rightarrow> uuid \<Rightarrow> string \<Rightarrow> RegisterUserRequest
     \<Rightarrow> database \<Rightarrow> user outcome" where
  "register_user h others now new_id salt data d =
     (if select_scalar (identified data) (users d) \<noteq> None then raising registration_conflict d
      else let d1 = others d; u = registered_user h now new_id salt data in
        case commit u (d1\<lparr>users := insert_row u (users d1)\<rparr>) d1 of
          (Inl e, d') \<Rightarrow> (Inl (registration_error e), d')
        | (Inr x, d') \<Rightarrow> (Inr x, d'))"

subsection \<open>Login\<close>

definition is_account_locked :: "user \<Rightarrow> instant \<Rightarrow> bool" where
  "is_account_locked u now =
     (case map_option stored (usr_locked_until u) of
        None \<Rightarrow> False | Some locked_until \<Rightarrow> instant_of locked_until > now)"

definition record_failed_login :: "config \<Rightarrow> instant \<Rightarrow> user \<Rightarrow> user" where
  "record_failed_login cfg now u =
     (let u1 = u\<lparr>usr_failed_login_attempts := usr_failed_login_attempts u + 1\<rparr> in
      if usr_failed_login_attempts u1 \<ge> LOGIN_MAX_FAILED_ATTEMPTS cfg
      then u1\<lparr>usr_locked_until := Some (now + minutes (LOGIN_LOCKOUT_MINUTES cfg))\<rparr>
      else u1)"

definition cleared_login :: "user \<Rightarrow> user" where
  "cleared_login u = u\<lparr>usr_failed_login_attempts := 0, usr_locked_until := None\<rparr>"

text \<open>What the login does to the user it read, and whether it authenticates.\<close>

definition login_decision :: "config \<Rightarrow> instant \<Rightarrow> bool \<Rightarrow> user \<Rightarrow> user \<times> bool" where
  "login_decision cfg now password_matches u =
     (if is_account_locked u now \<or> \<not> usr_is_active u then (u, False)
      else let u1 = (if usr_locked_until u \<noteq> None then cleared_login u else u)
        in if \<not> password_matches then (record_failed_login cfg now u1, False)
           else (cleared_login u1, True))"

text \<open>
  Flushing a modified user writes only the columns that changed since it was read, into
  the row as it is now: the login takes no row lock.
\<close>

definition flush_login :: "user \<Rightarrow> user \<Rightarrow> user \<Rightarrow> user" where
  "flush_login before after row = row\<lparr>
     usr_failed_login_attempts :=
       (if usr_failed_login_attempts after = usr_failed_login_attempts before
        then usr_failed_login_attempts row else usr_failed_login_attempts after),
     usr_locked_until :=
       (if usr_locked_until after = usr_locked_until before
        then usr_locked_until row else usr_locked_until after)\<rparr>"

definition login_failed :: exn where
  "login_failed = AuthenticationError ''Invalid identifier or password.''"

definition authenticate_user ::
    "config \<Rightarrow> hashing \<Rightarrow> (database \<Rightarrow> database) \<Rightarrow> instant \<Rightarrow> LoginRequest \<Rightarrow> database
     \<Rightarrow> user outcome" where
  "authenticate_user cfg h others now data d =
     (case select_scalar (\<lambda>u. usr_email u = li_identifier data \<or> usr_username u = li_identifier data)
             (users d) of
        None \<Rightarrow> raising login_failed (others d)
      | Some u \<Rightarrow>
          let (u', authenticated) = login_decision cfg now (check_password h (li_password data) u) u;
              d1 = others d;
              d2 = d1\<lparr>users := update_where (\<lambda>r. usr_id r = usr_id u) (flush_login u u') (users d1)\<rparr>
          in case commit () d2 d1 of
               (Inl e, d') \<Rightarrow> (Inl e, d')
             | (Inr _, d') \<Rightarrow>
                 (if authenticated then (case row_by usr_id (users d') (usr_id u) of
                                           None \<Rightarrow> Inl login_failed | Some r \<Rightarrow> Inr r)
                  else Inl login_failed, d'))"

subsection \<open>Refresh sessions\<close>

record IssuedSessionTokens =
  is_session :: auth_session
  is_access_token :: IssuedAccessToken
  is_refresh_token :: IssuedRefreshToken

text \<open>The random values of one operation: two row identifiers, a family, a token id, a token.\<close>

record fresh_values =
  fv_session_id :: uuid
  fv_family_id :: uuid
  fv_token_id :: uuid
  fv_token :: string

definition new_auth_session ::
    "uuid \<Rightarrow> uuid \<Rightarrow> uuid \<Rightarrow> IssuedRefreshToken \<Rightarrow> instant \<Rightarrow> auth_session" where
  "new_auth_session new_id user_id family_id token now = \<lparr>as_id = new_id, as_user_id = user_id,
     as_token_hash = rt_digest token, as_family_id = family_id,
     as_expires_at = instant_of (rt_expires_at token), as_revoked_at = None,
     as_last_used_at = None, as_replaced_by_id = None, as_created_at = now\<rparr>"

definition create_auth_session ::
    "primitives \<Rightarrow> jwt_library \<Rightarrow> config \<Rightarrow> instant \<Rightarrow> fresh_values \<Rightarrow> user \<Rightarrow> database
     \<Rightarrow> IssuedSessionTokens outcome" where
  "create_auth_session prims lib cfg now fv u d =
     (case issue_refresh_token prims cfg now (fv_token fv) None of
        Inl e \<Rightarrow> raising e d
      | Inr refresh_token \<Rightarrow>
          let s = new_auth_session (fv_session_id fv) (usr_id u) (fv_family_id fv) refresh_token now in
          case issue_access_token lib cfg now (fv_token_id fv) u (as_id s) None of
            Inl e \<Rightarrow> raising e d
          | Inr access_token \<Rightarrow>
              commit \<lparr>is_session = s, is_access_token = access_token, is_refresh_token = refresh_token\<rparr>
                (d\<lparr>auth_sessions := insert_row s (auth_sessions d)\<rparr>) d)"

definition is_expired :: "datetime \<Rightarrow> instant \<Rightarrow> bool" where
  "is_expired expires_at now \<longleftrightarrow> instant_of expires_at \<le> now"

definition revoke_sessions :: "(auth_session \<Rightarrow> bool) \<Rightarrow> instant \<Rightarrow> database \<Rightarrow> database" where
  "revoke_sessions p now d =
     d\<lparr>auth_sessions := update_where (\<lambda>s. p s \<and> as_revoked_at s = None)
         (\<lambda>s. s\<lparr>as_revoked_at := Some now\<rparr>) (auth_sessions d)\<rparr>"

definition revoke_token_family :: "uuid \<Rightarrow> instant \<Rightarrow> database \<Rightarrow> database" where
  "revoke_token_family family_id now d = revoke_sessions (\<lambda>s. as_family_id s = family_id) now d"

definition store_auth_session :: "auth_session \<Rightarrow> database \<Rightarrow> database" where
  "store_auth_session s d = d\<lparr>auth_sessions := store_row as_id s (auth_sessions d)\<rparr>"

definition refresh_failed :: exn where
  "refresh_failed = RefreshTokenError ''Refresh token is invalid or expired.''"

text \<open>The transaction commits its revocations before the failure is raised.\<close>

definition refuse_refresh :: "database \<Rightarrow> database \<Rightarrow> 'a outcome" where
  "refuse_refresh d' d =
     (case commit () d' d of (Inl e, x) \<Rightarrow> (Inl e, x) | (Inr _, x) \<Rightarrow> (Inl refresh_failed, x))"

definition used_session :: "instant \<Rightarrow> uuid \<Rightarrow> auth_session \<Rightarrow> auth_session" where
  "used_session now replacement_id s = s\<lparr>as_revoked_at := Some now, as_last_used_at := Some now,
     as_replaced_by_id := Some replacement_id\<rparr>"

definition rotate_auth_session ::
    "primitives \<Rightarrow> jwt_library \<Rightarrow> config \<Rightarrow> instant \<Rightarrow> fresh_values \<Rightarrow> string \<Rightarrow> database
     \<Rightarrow> IssuedSessionTokens outcome" where
  "rotate_auth_session prims lib cfg now fv raw_refresh_token d =
     (case select_scalar (\<lambda>s. as_token_hash s = hash_refresh_token prims raw_refresh_token)
             (auth_sessions d) of
        None \<Rightarrow> refuse_refresh d d
      | Some s \<Rightarrow>
          if is_revoked s then refuse_refresh (revoke_token_family (as_family_id s) now d) d
          else if is_expired (stored (as_expires_at s)) now
          then refuse_refresh (store_auth_session (s\<lparr>as_revoked_at := Some now\<rparr>) d) d
          else (case row_by usr_id (users d) (as_user_id s) of
             None \<Rightarrow> raising AttributeError d
           | Some u \<Rightarrow>
               if \<not> usr_is_active u
               then refuse_refresh (revoke_token_family (as_family_id s) now d) d
               else (case issue_refresh_token prims cfg now (fv_token fv) (Some (Aware now 0)) of
                  Inl e \<Rightarrow> raising e d
                | Inr replacement_token \<Rightarrow>
                    let r = new_auth_session (fv_session_id fv) (as_user_id s) (as_family_id s)
                              replacement_token now in
                    case issue_access_token lib cfg now (fv_token_id fv) u (as_id r) (Some (Aware now 0)) of
                      Inl e \<Rightarrow> raising e d
                    | Inr access_token \<Rightarrow>
                        commit \<lparr>is_session = r, is_access_token = access_token,
                                is_refresh_token = replacement_token\<rparr>
                          (d\<lparr>auth_sessions := insert_row r
                             (store_row as_id (used_session now (as_id r) s) (auth_sessions d))\<rparr>) d)))"

definition revoke_auth_session :: "instant \<Rightarrow> uuid \<Rightarrow> uuid \<Rightarrow> database \<Rightarrow> bool outcome" where
  "revoke_auth_session now session_id user_id d =
     (case select_scalar (\<lambda>s. as_id s = session_id \<and> as_user_id s = user_id) (auth_sessions d) of
        None \<Rightarrow> commit False d d
      | Some s \<Rightarrow>
          if is_revoked s then commit False d d
          else commit True (store_auth_session (s\<lparr>as_revoked_at := Some now\<rparr>) d) d)"

definition revoke_all_auth_sessions :: "instant \<Rightarrow> uuid \<Rightarrow> database \<Rightarrow> nat outcome" where
  "revoke_all_auth_sessions now user_id d =
     commit (rowcount_where (\<lambda>s. as_user_id s = user_id \<and> as_revoked_at s = None) (auth_sessions d))
       (revoke_sessions (\<lambda>s. as_user_id s = user_id) now d) d"

definition change_user_password ::
    "hashing \<Rightarrow> instant \<Rightarrow> string \<Rightarrow> uuid \<Rightarrow> ChangePasswordRequest \<Rightarrow> database \<Rightarrow> unit outcome" where
  "change_user_password h now salt user_id data d =
     (case row_by usr_id (users d) user_id of
        None \<Rightarrow> raising (PasswordChangeError ''Current password is incorrect.'') d
      | Some u \<Rightarrow>
          if \<not> check_password h (cp_current_password data) u
          then raising (PasswordChangeError ''Current password is incorrect.'') d
          else if check_password h (cp_new_password data) u
          then raising (PasswordChangeError
                 ''New password must be different from the current password.'') d
          else commit () (revoke_sessions (\<lambda>s. as_user_id s = usr_id u) now
                 (d\<lparr>users := store_row usr_id (set_password h salt (cp_new_password data) u) (users d)\<rparr>)) d)"

subsection \<open>The life of a session\<close>

text \<open>
  A session row never changes once it is revoked; before that it may be revoked, by a
  rotation together with the record of its replacement.
\<close>

definition auth_session_move :: "auth_session \<Rightarrow> auth_session \<Rightarrow> bool" where
  "auth_session_move s s' \<longleftrightarrow> s' = s \<or> (\<not> is_revoked s \<and> is_revoked s'
     \<and> as_id s' = as_id s \<and> as_user_id s' = as_user_id s \<and> as_token_hash s' = as_token_hash s
     \<and> as_family_id s' = as_family_id s \<and> as_expires_at s' = as_expires_at s
     \<and> as_created_at s' = as_created_at s)"

definition fresh_auth_session :: "auth_session \<Rightarrow> bool" where
  "fresh_auth_session s \<longleftrightarrow> \<not> is_revoked s \<and> as_replaced_by_id s = None \<and> as_last_used_at s = None"

interpretation auth_life: terminating_lifecycle as_id auth_session_move "\<lambda>_. True" is_revoked
  by unfold_locales (auto simp: auth_session_move_def)

definition auth_evolves :: "database \<Rightarrow> database \<Rightarrow> bool" where
  "auth_evolves d d' \<longleftrightarrow>
     table_evolves auth_session_move (\<lambda>_. True) (auth_sessions d) (auth_sessions d')"

text \<open>A token family is a chain of rotations: at most its last generation is live.\<close>

definition live_families :: "auth_session list \<Rightarrow> uuid list" where
  "live_families ss = map as_family_id (filter (\<lambda>s. \<not> is_revoked s) ss)"

definition families_single :: "database \<Rightarrow> bool" where
  "families_single d \<longleftrightarrow> distinct (live_families (auth_sessions d))"

lemma auth_evolves_refl [simp]: "auth_evolves d d"
  unfolding auth_evolves_def by (rule table_evolves_refl [OF auth_life.move_refl])

lemma auth_session_move_trans:
  "auth_session_move s t \<Longrightarrow> auth_session_move t u \<Longrightarrow> auth_session_move s u"
  by (auto simp: auth_session_move_def)

lemma live_families_insert:
  "live_families (insert_row s ss) = live_families ss @ (if is_revoked s then [] else [as_family_id s])"
  by (simp add: live_families_def)

lemma live_families_revoking:
  assumes "table_evolves auth_session_move (\<lambda>_. False) ss ss'"
  shows "distinct (live_families ss) \<Longrightarrow> distinct (live_families ss')"
    and "set (live_families ss') \<subseteq> set (live_families ss)"
proof -
  have "table_evolves auth_session_move (\<lambda>_. False) ss ss' \<Longrightarrow>
      set (live_families ss') \<subseteq> set (live_families ss)
      \<and> (distinct (live_families ss) \<longrightarrow> distinct (live_families ss'))"
  proof (induction ss arbitrary: ss')
    case Nil
    then show ?case by (cases ss') (auto simp: live_families_def)
  next
    case (Cons s ss)
    then obtain s' zs where z: "ss' = s' # zs" "auth_session_move s s'"
      "table_evolves auth_session_move (\<lambda>_. False) ss zs" by (auto simp: table_evolves_Cons)
    from Cons.IH [OF z(3)] z(1,2) show ?case
      by (auto simp: live_families_def auth_session_move_def)
  qed
  with assms show "distinct (live_families ss) \<Longrightarrow> distinct (live_families ss')"
    "set (live_families ss') \<subseteq> set (live_families ss)" by blast+
qed

lemma revoke_sessions_evolves:
  "table_evolves auth_session_move N (auth_sessions d) (auth_sessions (revoke_sessions p now d))"
  unfolding revoke_sessions_def
  by (auto intro!: table_evolves_update_where simp: auth_session_move_def is_revoked_def)

lemma store_revoked_evolves:
  assumes "distinct (map as_id (auth_sessions d))" "s \<in> set (auth_sessions d)" "auth_session_move s s'"
  shows "table_evolves auth_session_move N (auth_sessions d) (store_row as_id s' (auth_sessions d))"
proof (rule table_evolves_store_row)
  fix x assume "x \<in> set (auth_sessions d)" "as_id x = as_id s'"
  with assms auth_life.move_key [OF assms(3)] show "auth_session_move x s'"
    by (auto dest: distinct_map_unique)
qed (rule auth_life.move_refl)

lemma db_ok_session_ids: "db_ok d \<Longrightarrow> distinct (map as_id (auth_sessions d))"
  by (simp add: db_ok_parts auth_sessions_constraints_def)

text \<open>Each session operation in one form: sessions are revoked, and at most one is added.\<close>

definition session_change :: "database \<Rightarrow> database \<Rightarrow> bool" where
  "session_change d d' \<longleftrightarrow> (\<exists>ss. table_evolves auth_session_move (\<lambda>_. False) (auth_sessions d) ss
     \<and> (auth_sessions d' = ss
        \<or> (\<exists>r. auth_sessions d' = insert_row r ss \<and> fresh_auth_session r
             \<and> as_family_id r \<notin> set (live_families ss))))"

lemma table_evolves_none: "table_evolves R (\<lambda>_. False) xs ys \<Longrightarrow> table_evolves R N xs ys"
  by (erule table_evolves_mono) auto

lemma session_change_evolves: "session_change d d' \<Longrightarrow> auth_evolves d d'"
  unfolding session_change_def auth_evolves_def
  by (auto intro!: table_evolves_insert_row intro: table_evolves_none)

lemma session_change_single: "session_change d d' \<Longrightarrow> families_single d \<Longrightarrow> families_single d'"
  unfolding session_change_def families_single_def
  by (auto simp: live_families_insert dest: live_families_revoking(1))

lemma session_change_refl [simp]: "session_change d d"
  unfolding session_change_def
  by (rule exI [of _ "auth_sessions d"]) (simp add: table_evolves_refl auth_life.move_refl)

lemma session_change_revoke:
  "table_evolves auth_session_move (\<lambda>_. False) (auth_sessions d) (auth_sessions d') \<Longrightarrow> session_change d d'"
  unfolding session_change_def by blast

lemma commit_session_change: "(db_ok d' \<Longrightarrow> session_change d d') \<Longrightarrow> session_change d (snd (commit x d' d))"
  by (simp add: snd_commit)

lemma snd_refuse_refresh: "snd (refuse_refresh d' d) = snd (commit () d' d)"
  by (auto simp: refuse_refresh_def split: prod.split sum.split)

subsection \<open>Every operation is such a change\<close>

lemma revoke_sessions_change: "session_change d (revoke_sessions p now d)"
  by (intro session_change_revoke revoke_sessions_evolves)

lemma store_revoked_change:
  assumes "db_ok d" "s \<in> set (auth_sessions d)" "auth_session_move s s'"
  shows "session_change d (store_auth_session s' d)"
  using store_revoked_evolves [OF db_ok_session_ids [OF assms(1)] assms(2,3)]
  by (intro session_change_revoke) (simp add: store_auth_session_def)

lemma revoked_now_move:
  "\<not> is_revoked s \<Longrightarrow> auth_session_move s (s\<lparr>as_revoked_at := Some now\<rparr>)"
  by (simp add: auth_session_move_def is_revoked_def)

lemma used_session_move: "\<not> is_revoked s \<Longrightarrow> auth_session_move s (used_session now i s)"
  by (simp add: auth_session_move_def is_revoked_def used_session_def)

lemma family_dies_with_session:
  assumes "distinct (map as_id ss)" "distinct (live_families ss)" "s \<in> set ss" "\<not> is_revoked s"
  shows "as_family_id s \<notin> set (live_families (store_row as_id (used_session now i s) ss))"
proof
  let ?s = "used_session now i s"
  have key: "as_id ?s = as_id s" "is_revoked ?s" by (simp_all add: used_session_def is_revoked_def)
  assume "as_family_id s \<in> set (live_families (store_row as_id ?s ss))"
  then obtain x where x: "x \<in> set (store_row as_id ?s ss)" "\<not> is_revoked x" "as_family_id x = as_family_id s"
    by (auto simp: live_families_def)
  with key assms(3) have "x \<in> set ss" "as_id x \<noteq> as_id s"
    by (auto simp: set_store_row split: if_splits)
  moreover from this x assms(2-4) have "x = s"
    using distinct_map_unique [of as_family_id "filter (\<lambda>s. \<not> is_revoked s) ss" x s]
    by (simp add: live_families_def)
  ultimately show False by simp
qed

lemma rotate_auth_session_change:
  assumes "db_ok d" "families_single d"
  shows "session_change d (snd (rotate_auth_session prims lib cfg now fv raw d))"
proof (cases "select_scalar (\<lambda>s. as_token_hash s = hash_refresh_token prims raw) (auth_sessions d)")
  case None
  then show ?thesis by (simp add: rotate_auth_session_def snd_refuse_refresh snd_commit)
next
  case (Some s)
  from select_scalar_Some [OF Some] have s: "s \<in> set (auth_sessions d)" by simp
  have add: "session_change d (snd (commit x (d\<lparr>auth_sessions := insert_row (new_auth_session i u
      (as_family_id s) t now) (store_row as_id (used_session now j s) (auth_sessions d))\<rparr>) d))"
    if "\<not> is_revoked s" for x :: IssuedSessionTokens and i u t j
  proof (rule commit_session_change)
    let ?ss = "store_row as_id (used_session now j s) (auth_sessions d)"
    have "table_evolves auth_session_move (\<lambda>_. False) (auth_sessions d) ?ss"
      by (rule store_revoked_evolves [OF db_ok_session_ids [OF assms(1)] s used_session_move [OF that]])
    moreover have "as_family_id s \<notin> set (live_families ?ss)"
      using that s assms by (intro family_dies_with_session db_ok_session_ids)
        (simp_all add: families_single_def)
    ultimately show "session_change d (d\<lparr>auth_sessions := insert_row (new_auth_session i u
      (as_family_id s) t now) ?ss\<rparr>)"
      unfolding session_change_def
      by (intro exI [of _ ?ss]) (auto simp: fresh_auth_session_def new_auth_session_def is_revoked_def)
  qed
  have fam: "session_change d (snd (refuse_refresh (revoke_token_family (as_family_id s) now d) d))"
    unfolding snd_refuse_refresh revoke_token_family_def
    by (intro commit_session_change revoke_sessions_change)
  have own: "session_change d (snd (refuse_refresh (store_auth_session (s\<lparr>as_revoked_at := Some now\<rparr>) d) d))"
    if "\<not> is_revoked s"
    unfolding snd_refuse_refresh
    by (rule commit_session_change, rule store_revoked_change [OF assms(1) s revoked_now_move [OF that]])
  from Some add fam own show ?thesis
    by (auto simp: rotate_auth_session_def Let_def split: option.split sum.split)
qed

lemma create_auth_session_change:
  assumes "fv_family_id fv \<notin> as_family_id ` set (auth_sessions d)"
  shows "session_change d (snd (create_auth_session prims lib cfg now fv u d))"
proof -
  have "session_change d (d\<lparr>auth_sessions := insert_row (new_auth_session i j (fv_family_id fv) t now)
      (auth_sessions d)\<rparr>)" for i j t
  proof -
    have "fv_family_id fv \<notin> set (live_families (auth_sessions d))"
      using assms by (auto simp: live_families_def)
    then show ?thesis
      unfolding session_change_def
      by (intro exI [of _ "auth_sessions d"])
        (auto simp: table_evolves_refl auth_life.move_refl fresh_auth_session_def new_auth_session_def is_revoked_def)
  qed
  then show ?thesis
    by (auto simp: create_auth_session_def Let_def intro!: commit_session_change split: sum.split)
qed

lemma revoke_auth_session_change:
  "db_ok d \<Longrightarrow> session_change d (snd (revoke_auth_session now i u d))"
  unfolding revoke_auth_session_def
  by (auto intro!: commit_session_change store_revoked_change revoked_now_move
      dest!: select_scalar_Some split: option.split)

lemma revoke_all_change: "session_change d (snd (revoke_all_auth_sessions now u d))"
  unfolding revoke_all_auth_sessions_def by (intro commit_session_change revoke_sessions_change)

lemma change_user_password_change: "session_change d (snd (change_user_password h now salt i data d))"
proof -
  have "session_change d (revoke_sessions p now (d\<lparr>users := us\<rparr>))" for p us
    using revoke_sessions_evolves [of "\<lambda>_. False" "d\<lparr>users := us\<rparr>" p now]
    by (intro session_change_revoke) simp
  then show ?thesis
    by (auto simp: change_user_password_def intro!: commit_session_change split: option.split)
qed

subsection \<open>Runs of the authentication component\<close>

text \<open>
  One transaction of the component, with any arguments, or a transaction of another
  component, which leaves the accounts and sessions alone. A new family identifier is a
  fresh \<open>uuid4()\<close>.
\<close>

inductive auth_step :: "database \<Rightarrow> database \<Rightarrow> bool" where
  register: "auth_step d (snd (register_user h id now i salt request d))"
| login: "auth_step d (snd (authenticate_user cfg h id now credentials_given d))"
| create: "fv_family_id fv \<notin> as_family_id ` set (auth_sessions d) \<Longrightarrow>
     auth_step d (snd (create_auth_session prims lib cfg now fv u d))"
| rotate: "auth_step d (snd (rotate_auth_session prims lib cfg now fv raw d))"
| revoke: "auth_step d (snd (revoke_auth_session now i j d))"
| revoke_all: "auth_step d (snd (revoke_all_auth_sessions now j d))"
| change_password: "auth_step d (snd (change_user_password h now salt j passwords d))"
| elsewhere: "db_ok d' \<Longrightarrow> auth_sessions d' = auth_sessions d \<Longrightarrow> users d' = users d \<Longrightarrow> auth_step d d'"

lemma snd_case_keep [simp]:
  "snd (case out of (Inl e, d') \<Rightarrow> (Inl (f e), d') | (Inr x, d') \<Rightarrow> (g x d', d')) = snd out"
  by (auto split: prod.split sum.split)

lemma auth_db_ok:
  assumes "db_ok d"
  shows "db_ok (snd (register_user h id now i salt request d))"
    "db_ok (snd (authenticate_user cfg h id now credentials_given d))"
    "db_ok (snd (create_auth_session prims lib cfg now fv u d))"
    "db_ok (snd (rotate_auth_session prims lib cfg now fv raw d))"
    "db_ok (snd (revoke_auth_session now i j d))"
    "db_ok (snd (revoke_all_auth_sessions now j d))"
    "db_ok (snd (change_user_password h now salt j passwords d))"
proof -
  show "db_ok (snd (register_user h id now i salt request d))"
    using assms by (simp add: register_user_def Let_def db_ok_commit)
  show "db_ok (snd (authenticate_user cfg h id now credentials_given d))"
    using assms by (simp add: authenticate_user_def Let_def db_ok_commit split: option.split prod.split)
qed (use assms in \<open>auto simp: create_auth_session_def rotate_auth_session_def revoke_auth_session_def
    revoke_all_auth_sessions_def change_user_password_def Let_def snd_refuse_refresh db_ok_commit
    split: option.split sum.split\<close>)

lemma auth_step_change: "auth_step d d' \<Longrightarrow> db_ok d \<Longrightarrow> families_single d \<Longrightarrow> session_change d d'"
proof (induction rule: auth_step.induct)
  case (register d h now i salt request)
  have "auth_sessions (snd (register_user h id now i salt request d)) = auth_sessions d"
    by (auto simp: register_user_def Let_def commit_def split: prod.split sum.split option.split)
  then show ?case by (simp add: session_change_def) (rule exI [of _ "auth_sessions d"],
      simp add: table_evolves_refl auth_life.move_refl)
next
  case (login d cfg h now c)
  have "auth_sessions (snd (authenticate_user cfg h id now c d)) = auth_sessions d"
    by (auto simp: authenticate_user_def Let_def commit_def split: prod.split sum.split option.split)
  then show ?case by (simp add: session_change_def) (rule exI [of _ "auth_sessions d"],
      simp add: table_evolves_refl auth_life.move_refl)
next
  case (elsewhere d' d)
  then show ?case by (simp add: session_change_def) (rule exI [of _ "auth_sessions d"],
      simp add: table_evolves_refl auth_life.move_refl)
qed (simp_all add: create_auth_session_change rotate_auth_session_change revoke_auth_session_change
    revoke_all_change change_user_password_change)

lemma auth_step_ok: "auth_step d d' \<Longrightarrow> db_ok d \<Longrightarrow> db_ok d'"
  by (induction rule: auth_step.induct) (simp_all only: auth_db_ok)

lemma auth_run:
  assumes "auth_step\<^sup>*\<^sup>* d d'" "db_ok d" "families_single d"
  shows "db_ok d' \<and> families_single d' \<and> auth_evolves d d'"
  using assms
proof (induction rule: rtranclp_induct)
  case (step y z)
  then have ok: "db_ok y" "families_single y" "auth_evolves d y" by simp_all
  with step have ch: "session_change y z" by (blast intro: auth_step_change)
  from ok(3) session_change_evolves [OF ch] have "auth_evolves d z"
    unfolding auth_evolves_def by (rule table_evolves_trans) (auto intro: auth_session_move_trans)
  with ok step(2) ch show ?case by (blast intro: auth_step_ok session_change_single)
qed simp

subsection \<open>The schema under account changes\<close>

lemma db_ok_users:
  assumes ok: "db_ok d" and ids: "usr_id ` set (users d) \<subseteq> usr_id ` set us"
    and cols: "list_all user_columns us"
    and cons: "list_all snd (users_constraints (d\<lparr>users := us\<rparr>))"
  shows "db_ok (d\<lparr>users := us\<rparr>)"
proof -
  have "list_all snd (auth_sessions_constraints (d\<lparr>users := us\<rparr>))"
    using ok by (auto simp: db_ok_parts auth_sessions_constraints_def intro: foreign_key_mono [OF _ ids])
  moreover have "list_all snd (stations_constraints (d\<lparr>users := us\<rparr>))"
    using ok by (auto simp: db_ok_parts stations_constraints_def intro: foreign_key_mono [OF _ ids])
  moreover have "list_all snd (bookings_constraints (d\<lparr>users := us\<rparr>))"
    using ok by (auto simp: db_ok_parts bookings_constraints_def intro: foreign_key_mono [OF _ ids])
  moreover have "list_all snd (payments_constraints (d\<lparr>users := us\<rparr>))"
    using ok by (auto simp: db_ok_parts payments_constraints_def intro: foreign_key_mono [OF _ ids])
  moreover have "list_all snd (charging_sessions_constraints (d\<lparr>users := us\<rparr>))"
    using ok by (auto simp: db_ok_parts charging_sessions_constraints_def intro: foreign_key_mono [OF _ ids])
  moreover have "columns_ok (d\<lparr>users := us\<rparr>)"
    using ok cols by (simp add: db_ok_parts columns_ok_def)
  ultimately show ?thesis
    using ok cons by (simp add: db_ok_parts)
qed

lemma db_ok_user_change:
  assumes ok: "db_ok d"
    and same: "\<And>u. p u \<Longrightarrow> usr_id (f u) = usr_id u \<and> usr_email (f u) = usr_email u
      \<and> usr_username (f u) = usr_username u \<and> usr_phone (f u) = usr_phone u"
    and col: "\<And>u. u \<in> set (users d) \<Longrightarrow> p u \<Longrightarrow> user_columns (f u) \<and> usr_failed_login_attempts (f u) \<ge> 0"
  shows "db_ok (d\<lparr>users := update_where p f (users d)\<rparr>)"
proof (rule db_ok_users [OF ok])
  have keep: "map usr_id (update_where p f (users d)) = map usr_id (users d)"
    "map usr_email (update_where p f (users d)) = map usr_email (users d)"
    "map usr_username (update_where p f (users d)) = map usr_username (users d)"
    "map usr_phone (update_where p f (users d)) = map usr_phone (users d)"
    using same by (simp_all add: map_update_where)
  from keep(1) show "usr_id ` set (users d) \<subseteq> usr_id ` set (update_where p f (users d))"
    by (metis list.set_map order_refl)
  show "list_all user_columns (update_where p f (users d))"
    using ok col by (auto simp: db_ok_def columns_ok_def list_all_iff set_update_where)
  show "list_all snd (users_constraints (d\<lparr>users := update_where p f (users d)\<rparr>))"
    using ok col same
    by (auto simp: db_ok_parts users_constraints_def keep list_all_iff set_update_where)
qed

lemma revoke_sessions_ok: "db_ok d \<Longrightarrow> db_ok (revoke_sessions p now d)"
proof -
  assume ok: "db_ok d"
  let ?ss = "auth_sessions (revoke_sessions p now d)"
  have keep: "map g ?ss = map g (auth_sessions d)"
    if "\<And>s. g (s\<lparr>as_revoked_at := Some now\<rparr>) = g s" for g :: "auth_session \<Rightarrow> 'x"
    using that by (simp add: revoke_sessions_def map_update_where)
  have all: "list_all q ?ss" if "list_all q (auth_sessions d)" "\<And>s. q s \<Longrightarrow> q (s\<lparr>as_revoked_at := Some now\<rparr>)" for q
    using that by (auto simp: revoke_sessions_def list_all_iff set_update_where)
  have ids: "set (map as_id ?ss) = set (map as_id (auth_sessions d))" by (simp add: keep)
  have "db_ok (d\<lparr>auth_sessions := ?ss\<rparr>)"
  proof (rule db_ok_auth_sessions [OF ok])
    show "list_all auth_session_columns ?ss"
      using ok by (intro all) (auto simp: db_ok_parts columns_ok_def auth_session_columns_def)
    show "list_all snd (auth_sessions_constraints (d\<lparr>auth_sessions := ?ss\<rparr>))"
      using ok ids by (simp add: db_ok_parts auth_sessions_constraints_def keep all)
  qed
  then show ?thesis by (simp add: revoke_sessions_def)
qed

lemma refuse_refresh_ok: "db_ok d' \<Longrightarrow> refuse_refresh d' d = (Inl refresh_failed, d')"
  by (simp add: refuse_refresh_def commit_simps(1))

subsection \<open>Properties of sessions\<close>


text \<open>
  C23. A token family never has two live sessions: from a database where no family has, every
  run of the component's operations, in any order and with any arguments, leads to one where
  no family has, and no session that was revoked ever changes again.
\<close>

theorem one_live_session_per_family:
  assumes "db_ok d" "families_single d" "auth_step\<^sup>*\<^sup>* d d'"
  shows "distinct (map as_family_id (filter (\<lambda>s. \<not> is_revoked s) (auth_sessions d')))
    \<and> (\<forall>s \<in> set (auth_sessions d). is_revoked s \<longrightarrow> s \<in> set (auth_sessions d'))"
proof -
  from auth_run [OF assms(3,1,2)] have d': "families_single d'" "auth_evolves d d'" by auto
  have "s \<in> set (auth_sessions d')" if "s \<in> set (auth_sessions d)" "is_revoked s" for s
    using table_evolves_forward [OF d'(2) [unfolded auth_evolves_def] that(1)] that(2)
    by (auto dest: auth_life.terminal_move)
  with d'(1) show ?thesis by (simp add: families_single_def live_families_def)
qed

text \<open>
  A password change replaces the password and ends every login: it succeeds only for the
  current password and a different new one; afterwards the user's row accepts exactly the new
  password, every session the user had is revoked, and no other account changed.
\<close>

theorem change_password_effect:
  assumes "db_ok d" "hashing_sound h"
    and "change_user_password h now salt i data d = (Inr (), d')"
  shows "\<exists>u u'. row_by usr_id (users d) i = Some u \<and> row_by usr_id (users d') i = Some u'
    \<and> check_password h (cp_current_password data) u
    \<and> (\<forall>q. check_password h q u' \<longleftrightarrow> q = cp_new_password data)
    \<and> (\<forall>s \<in> set (auth_sessions d'). as_user_id s = i \<longrightarrow> is_revoked s)
    \<and> (\<forall>j. j \<noteq> i \<longrightarrow> row_by usr_id (users d') j = row_by usr_id (users d) j)"
proof -
  from assms(3) obtain u where u: "row_by usr_id (users d) i = Some u"
    "check_password h (cp_current_password data) u"
    "d' = revoke_sessions (\<lambda>s. as_user_id s = usr_id u) now
       (d\<lparr>users := store_row usr_id (set_password h salt (cp_new_password data) u) (users d)\<rparr>)"
    by (auto simp: change_user_password_def split: option.splits if_splits)
  note row = row_by_Some [OF u(1)]
  let ?u' = "set_password h salt (cp_new_password data) u"
  have us: "users d' = store_row usr_id ?u' (users d)"
    unfolding u(3) by (simp add: revoke_sessions_def)
  have id: "usr_id ?u' = i" using row by (simp add: set_password_def)
  have "row_by usr_id (users d') i = Some ?u'"
    unfolding us using keyed_list.get_put_same [of usr_id "users d" ?u' u] u(1) id by simp
  moreover have "\<forall>j. j \<noteq> i \<longrightarrow> row_by usr_id (users d') j = row_by usr_id (users d) j"
    unfolding us using keyed_list.get_put_other [of _ usr_id ?u' "users d"] id by auto
  moreover have "\<forall>q. check_password h q ?u' \<longleftrightarrow> q = cp_new_password data"
    using assms(2) by (simp add: check_password_def set_password_def hashing_sound_def)
  moreover have "\<forall>s \<in> set (auth_sessions d'). as_user_id s = i \<longrightarrow> is_revoked s"
    using row by (auto simp: u(3) revoke_sessions_def set_update_where is_revoked_def split: if_splits)
  ultimately show ?thesis using u by blast
qed

subsection \<open>Properties of registration\<close>

definition registration_fits :: "hashing \<Rightarrow> RegisterUserRequest \<Rightarrow> bool" where
  "registration_fits h data \<longleftrightarrow> hashes_fit h \<and> varchar 255 (ru_email data)
     \<and> lower (ru_email data) = ru_email data \<and> varchar 50 (ru_username data)
     \<and> lower (ru_username data) = ru_username data \<and> varchar 100 (ru_full_name data)
     \<and> nullable (varchar 20) (ru_phone data)"

lemma username_lower: "list_all username_char s \<Longrightarrow> lower s = s"
  by (induction s) (auto simp: lower_def lower_char_def username_char_def Let_def)

lemma phone_pattern_length: "phone_pattern digit s \<Longrightarrow> pylen s \<le> 20"
proof -
  have "pylen s = length (filter (\<lambda>x. \<not> continuation_byte (hd x)) (code_points s))" for s
  proof (induction s)
    case (Cons c s)
    show ?case
    proof (cases "code_points s")
      case Nil
      then have "s = []" by (metis concat.simps(1) concat_code_points)
      with Nil show ?thesis by (simp add: pylen_def)
    next
      case (Cons x xs)
      with code_points_nonempty [of x s] Cons.IH show ?thesis by (simp add: pylen_def)
    qed
  qed (simp add: pylen_def)
  then have len: "pylen s \<le> length (code_points s)" for s by simp
  assume "phone_pattern digit s"
  then have "length (code_points s) \<le> 16"
    by (auto simp: phone_pattern_def split: list.splits)
  with len [of s] show ?thesis by linarith
qed

text \<open>Validation gives rows that fit, as far as the e-mail validator returns lower-case addresses.\<close>

lemma validated_registration_fits:
  assumes "validate_registration email_str digit raw = Some data" "hashes_fit h"
    and "\<And>a. email_str (normalize_identifier (ru_email raw)) = Some a \<Longrightarrow> lower a = a \<and> varchar 255 a"
  shows "registration_fits h data"
  using assms
  by (auto simp: validate_registration_def Let_def registration_fits_def varchar_def nullable_iff
      username_lower phone_pattern_length split: option.splits if_splits)

lemma find_append: "find p (xs @ ys) = (case find p xs of Some x \<Rightarrow> Some x | None \<Rightarrow> find p ys)"
  by (induction xs) auto

lemma registered_insert:
  assumes ok: "db_ok d" and fits: "registration_fits h data" and i: "i \<notin> usr_id ` set (users d)"
    and u_def: "u = registered_user h now i salt data"
  shows "commit u (d\<lparr>users := insert_row u (users d)\<rparr>) d =
     (if \<exists>x \<in> set (users d). identified data x
      then (Inl (IntegrityError (if \<exists>x \<in> set (users d). usr_email x = ru_email data then ''uq_users_email''
              else if \<exists>x \<in> set (users d). ru_phone data \<noteq> None \<and> usr_phone x = ru_phone data
              then ''uq_users_phone'' else ''uq_users_username'')), d)
      else (Inr u, d\<lparr>users := insert_row u (users d)\<rparr>))"
proof -
  let ?d = "d\<lparr>users := insert_row u (users d)\<rparr>"
  have u: "usr_id u = i" "usr_email u = ru_email data" "usr_username u = ru_username data"
    "usr_phone u = ru_phone data" "usr_failed_login_attempts u = 0"
    "user_columns u" "lower (usr_email u) = usr_email u" "lower (usr_username u) = usr_username u"
    using fits by (simp_all add: u_def registered_user_def set_password_def registration_fits_def
        hashes_fit_def user_columns_def int2_def)
  have cols: "columns_ok ?d"
    using ok u(6) by (simp add: db_ok_parts columns_ok_def insert_row_def)
  have uc: "list_all snd (users_constraints d)" using ok by (simp add: db_ok_parts)
  let ?e = "\<exists>x \<in> set (users d). usr_email x = ru_email data"
  let ?p = "\<exists>x \<in> set (users d). ru_phone data \<noteq> None \<and> usr_phone x = ru_phone data"
  let ?n = "\<exists>x \<in> set (users d). usr_username x = ru_username data"
  have find: "find (\<lambda>c. \<not> snd c) (users_constraints ?d) =
      (if ?e then Some (''uq_users_email'', False) else if ?p then Some (''uq_users_phone'', False)
       else if ?n then Some (''uq_users_username'', False) else None)"
  proof -
    have old: "list_all (\<lambda>x. usr_email x = lower (usr_email x)) (users d)"
      "list_all (\<lambda>x. 0 \<le> usr_failed_login_attempts x) (users d)"
      "list_all (\<lambda>x. usr_username x = lower (usr_username x)) (users d)"
      "distinct (map usr_id (users d))" "distinct (map usr_email (users d))"
      "distinct_present (map usr_phone (users d))" "distinct (map usr_username (users d))"
      using uc by (simp_all add: users_constraints_def)
    have "distinct (map usr_id (users d) @ [i])"
      "distinct (map usr_email (users d) @ [ru_email data]) = (\<not> ?e)"
      "distinct_present (map usr_phone (users d) @ [ru_phone data]) = (\<not> ?p)"
      "distinct (map usr_username (users d) @ [ru_username data]) = (\<not> ?n)"
      using i old(4-7) by (force simp: distinct_present_append)+
    then show ?thesis
      using old(1-3) u(5,7,8)
      by (simp add: users_constraints_def insert_row_def u(1-4) del: distinct_append)
  qed
  have iff: "(\<exists>x \<in> set (users d). identified data x) \<longleftrightarrow> ?e \<or> ?p \<or> ?n"
    by (auto simp: identified_def)
  show ?thesis
  proof (cases "?e \<or> ?p \<or> ?n")
    case True
    then show ?thesis unfolding iff
      by (auto simp: commit_def flush_error_def cols all_constraints_def find_append find)
  next
    case False
    with find have "find (\<lambda>c. \<not> snd c) (users_constraints ?d) = None" by simp
    then have "list_all snd (users_constraints ?d)"
      unfolding find_None_iff list_all_iff by blast
    then have "db_ok ?d"
      using ok cols by (intro db_ok_users) (auto simp: columns_ok_def)
    with False show ?thesis unfolding iff by (simp add: commit_simps(1))
  qed
qed

text \<open>
  Registration decides on the identifiers alone, races included: whatever other
  transactions commit between its look-up and its insertion, a valid request with a fresh
  identifier creates the account exactly when nobody holds its e-mail address, user name or
  phone number, before the look-up or at the insertion; otherwise it ends in the conflict
  error and adds nothing, never in a raw integrity error.
\<close>

theorem register_user_decides:
  assumes "db_ok (others d)" "registration_fits h data" "new_id \<notin> usr_id ` set (users (others d))"
  shows "if \<exists>u \<in> set (users d) \<union> set (users (others d)). identified data u
     then \<exists>d'. register_user h others now new_id salt data d = (Inl registration_conflict, d')
        \<and> (d' = d \<or> d' = others d)
     else \<exists>u. register_user h others now new_id salt data d
        = (Inr u, (others d)\<lparr>users := users (others d) @ [u]\<rparr>)
        \<and> usr_email u = ru_email data \<and> usr_username u = ru_username data \<and> usr_phone u = ru_phone data
        \<and> usr_role u = USER"
proof (cases "\<exists>u \<in> set (users d). identified data u")
  case True
  then have "select_scalar (identified data) (users d) \<noteq> None" by (simp add: select_scalar_None)
  with True show ?thesis by (auto simp: register_user_def raising_def)
next
  case False
  then have none: "select_scalar (identified data) (users d) = None" by (simp add: select_scalar_None)
  note insert = registered_insert [OF assms refl]
  show ?thesis
  proof (cases "\<exists>u \<in> set (users (others d)). identified data u")
    case True
    with none have "register_user h others now new_id salt data d = (Inl registration_conflict, others d)"
      unfolding register_user_def Let_def by (simp add: insert USER_IDENTITY_CONSTRAINTS_def)
    with True show ?thesis by auto
  next
    case False
    with none have "register_user h others now new_id salt data d =
        (Inr (registered_user h now new_id salt data),
         (others d)\<lparr>users := insert_row (registered_user h now new_id salt data) (users (others d))\<rparr>)"
      unfolding register_user_def Let_def by (simp add: insert)
    moreover have "\<not> (\<exists>u \<in> set (users d) \<union> set (users (others d)). identified data u)"
      using False \<open>\<not> (\<exists>u \<in> set (users d). identified data u)\<close> by blast
    ultimately show ?thesis
      by (simp add: insert_row_def registered_user_def set_password_def)
  qed
qed

subsection \<open>Properties of logins\<close>

definition login_matches :: "LoginRequest \<Rightarrow> user \<Rightarrow> bool" where
  "login_matches data u \<longleftrightarrow> usr_email u = li_identifier data \<or> usr_username u = li_identifier data"

text \<open>Only the login columns differ.\<close>

definition with_login :: "int \<Rightarrow> instant option \<Rightarrow> user \<Rightarrow> user" where
  "with_login attempts locked u =
     u\<lparr>usr_failed_login_attempts := attempts, usr_locked_until := locked\<rparr>"

lemma with_login_simps [simp]:
  "usr_id (with_login a l u) = usr_id u" "usr_email (with_login a l u) = usr_email u"
  "usr_username (with_login a l u) = usr_username u" "usr_phone (with_login a l u) = usr_phone u"
  "usr_password_hash (with_login a l u) = usr_password_hash u"
  "usr_is_active (with_login a l u) = usr_is_active u"
  "usr_failed_login_attempts (with_login a l u) = a" "usr_locked_until (with_login a l u) = l"
  "with_login a l (with_login a' l' u) = with_login a l u"
  "login_matches data (with_login a l u) = login_matches data u"
  "check_password h pw (with_login a l u) = check_password h pw u"
  by (simp_all add: with_login_def login_matches_def check_password_def)

lemma with_login_same: "with_login (usr_failed_login_attempts u) (usr_locked_until u) u = u"
  by (simp add: with_login_def)

lemma flush_login_same: "flush_login u (with_login a l u) u = with_login a l u"
  by (simp add: flush_login_def with_login_def)

definition store_login :: "user \<Rightarrow> database \<Rightarrow> database" where
  "store_login u d = d\<lparr>users := store_row usr_id u (users d)\<rparr>"

lemma update_by_key:
  assumes "distinct (map key rows)" "r \<in> set rows" "key (f r) = key r"
  shows "update_where (\<lambda>x. key x = key r) f rows = store_row key (f r) rows"
  unfolding update_where_def store_row_def
proof (rule map_cong [OF refl])
  fix x assume "x \<in> set rows"
  with assms(1,2) have "key x = key r \<Longrightarrow> x = r" by (auto dest: distinct_map_unique)
  with assms(3) show "(if key x = key r then f x else x) = (if key x = key (f r) then f r else x)" by auto
qed

lemma store_login_user:
  assumes "db_ok d" "u \<in> set (users d)" "0 \<le> a" "a < 2 ^ 15"
  shows "db_ok (store_login (with_login a l u) d)"
proof -
  have keys: "distinct (map usr_id (users d))"
    using assms(1) by (simp add: db_ok_parts users_constraints_def)
  have "store_row usr_id (with_login a l u) (users d)
      = update_where (\<lambda>r. usr_id r = usr_id u) (with_login a l) (users d)"
    using update_by_key [OF keys assms(2), of "with_login a l"] by simp
  moreover have "db_ok (d\<lparr>users := update_where (\<lambda>r. usr_id r = usr_id u) (with_login a l) (users d)\<rparr>)"
  proof (rule db_ok_user_change [OF assms(1)])
    fix r assume "r \<in> set (users d)"
    then have "user_columns r" using assms(1) by (simp add: db_ok_parts columns_ok_def list_all_iff)
    then show "user_columns (with_login a l r) \<and> 0 \<le> usr_failed_login_attempts (with_login a l r)"
      using assms(3,4) by (simp add: user_columns_def int2_def with_login_def)
  qed simp
  ultimately show ?thesis by (simp add: store_login_def)
qed

lemma select_store_login:
  assumes "select_scalar (login_matches data) us = Some u" "distinct (map usr_id us)"
  shows "select_scalar (login_matches data) (store_row usr_id (with_login a l u) us) = Some (with_login a l u)"
  using assms
proof (induction us)
  case (Cons x xs)
  show ?case
  proof (cases "login_matches data x")
    case True
    with Cons.prems show ?thesis by (simp add: select_scalar_def store_row_def)
  next
    case False
    with Cons.prems(1) have sel: "select_scalar (login_matches data) xs = Some u"
      by (simp add: select_scalar_def)
    from select_scalar_Some [OF this] Cons.prems(2) have "usr_id x \<noteq> usr_id u"
      by (metis distinct.simps(2) image_eqI list.set_map list.simps(9))
    with Cons.IH [OF sel] Cons.prems(2) False show ?thesis
      by (simp add: select_scalar_def store_row_def)
  qed
qed (simp add: select_scalar_def)

text \<open>A login without interference in terms of the row it finds.\<close>

lemma authenticate_user_alone:
  assumes ok: "db_ok d" and u: "select_scalar (login_matches data) (users d) = Some u"
    and dec: "login_decision cfg now (check_password h (li_password data) u) u = (with_login a l u, False)"
    and a: "0 \<le> a" "a < 2 ^ 15"
  shows "authenticate_user cfg h id now data d = (Inl login_failed, store_login (with_login a l u) d)"
proof -
  from select_scalar_Some [OF u] have mem: "u \<in> set (users d)" by simp
  have keys: "distinct (map usr_id (users d))" using ok by (simp add: db_ok_parts users_constraints_def)
  have "update_where (\<lambda>r. usr_id r = usr_id u) (flush_login u (with_login a l u)) (users d)
      = store_row usr_id (with_login a l u) (users d)"
    using update_by_key [OF keys mem, of "flush_login u (with_login a l u)"] by (simp add: flush_login_same)
  then have flush: "d\<lparr>users := update_where (\<lambda>r. usr_id r = usr_id u) (flush_login u (with_login a l u)) (users d)\<rparr>
      = store_login (with_login a l u) d"
    by (simp add: store_login_def)
  from u have "select_scalar (\<lambda>u. usr_email u = li_identifier data \<or> usr_username u = li_identifier data)
      (users d) = Some u"
    unfolding login_matches_def .
  then show ?thesis
    unfolding authenticate_user_def Let_def
    by (simp only: option.case dec prod.case id_apply flush
        commit_simps(1) [OF store_login_user [OF ok mem a]] sum.case if_False)
qed

text \<open>\<open>login_attempts\<close>: one login after another, at the given times, with the same request.\<close>

fun login_attempts :: "config \<Rightarrow> hashing \<Rightarrow> LoginRequest \<Rightarrow> instant list \<Rightarrow> database \<Rightarrow> database" where
  "login_attempts cfg h data [] d = d"
| "login_attempts cfg h data (now # nows) d =
     login_attempts cfg h data nows (snd (authenticate_user cfg h id now data d))"

lemma store_login_twice:
  "store_login (with_login a l u) (store_login (with_login a' l' u) d) = store_login (with_login a l u) d"
  by (auto simp: store_login_def store_row_def)

lemma failed_decision:
  assumes "usr_is_active u" "usr_locked_until u = None" "\<not> matches"
  shows "login_decision cfg now matches u =
    (with_login (usr_failed_login_attempts u + 1)
       (if usr_failed_login_attempts u + 1 \<ge> LOGIN_MAX_FAILED_ATTEMPTS cfg
        then Some (now + minutes (LOGIN_LOCKOUT_MINUTES cfg)) else None) u, False)"
  using assms by (simp add: login_decision_def is_account_locked_def record_failed_login_def with_login_def Let_def)

lemma wrong_attempts:
  assumes "db_ok d" "select_scalar (login_matches data) (users d) = Some u"
    and "usr_is_active u" "usr_locked_until u = None" "\<not> check_password h (li_password data) u"
    and "0 \<le> usr_failed_login_attempts u" "nows \<noteq> []"
    and "usr_failed_login_attempts u + int (length nows) = LOGIN_MAX_FAILED_ATTEMPTS cfg"
    and "LOGIN_MAX_FAILED_ATTEMPTS cfg < 2 ^ 15"
  shows "login_attempts cfg h data nows d = store_login (with_login (LOGIN_MAX_FAILED_ATTEMPTS cfg)
     (Some (last nows + minutes (LOGIN_LOCKOUT_MINUTES cfg))) u) d"
  using assms
proof (induction nows arbitrary: d u)
  case (Cons now nows)
  let ?a = "usr_failed_login_attempts u + 1"
  let ?l = "if ?a \<ge> LOGIN_MAX_FAILED_ATTEMPTS cfg
     then Some (now + minutes (LOGIN_LOCKOUT_MINUTES cfg)) else None"
  let ?u = "with_login ?a ?l u"
  from select_scalar_Some [OF Cons.prems(2)] have mem: "u \<in> set (users d)" by simp
  have keys: "distinct (map usr_id (users d))"
    using Cons.prems(1) by (simp add: db_ok_parts users_constraints_def)
  have a: "0 \<le> ?a" "?a < 2 ^ 15" using Cons.prems(6,8,9) by simp_all
  note one = authenticate_user_alone [OF Cons.prems(1,2) failed_decision [OF Cons.prems(3-5)] a]
  show ?case
  proof (cases "nows = []")
    case True
    with Cons.prems(8) one show ?thesis by simp
  next
    case False
    with Cons.prems(8) have l: "?l = None" by (cases nows) auto
    have "login_attempts cfg h data nows (store_login ?u d) = store_login (with_login (LOGIN_MAX_FAILED_ATTEMPTS cfg)
       (Some (last nows + minutes (LOGIN_LOCKOUT_MINUTES cfg))) ?u) (store_login ?u d)"
    proof (rule Cons.IH)
      show "db_ok (store_login ?u d)" using Cons.prems(1) mem a by (rule store_login_user)
      show "select_scalar (login_matches data) (users (store_login ?u d)) = Some ?u"
        using select_store_login [OF Cons.prems(2) keys] by (simp add: store_login_def)
    qed (use Cons.prems False l in \<open>simp_all\<close>)
    with one False show ?thesis by (simp add: store_login_twice)
  qed
qed simp

lemma store_row_self: "distinct (map key rows) \<Longrightarrow> r \<in> set rows \<Longrightarrow> store_row key r rows = rows"
  unfolding store_row_def by (rule map_idI) (auto dest: distinct_map_unique)


text \<open>
  Logins that run at the same time: each reads the user before any of them writes, because
  the login takes no row lock.
\<close>

fun concurrent_logins :: "config \<Rightarrow> hashing \<Rightarrow> LoginRequest \<Rightarrow> instant list \<Rightarrow> database \<Rightarrow> database" where
  "concurrent_logins cfg h data [] d = d"
| "concurrent_logins cfg h data (now # nows) d =
     snd (authenticate_user cfg h (concurrent_logins cfg h data nows) now data d)"

text \<open>
  Concurrent failed logins are counted once: any number of wrong passwords tried at the
  same time leave the counter of failed attempts one higher than it was, so that the lockout
  does not bound how many passwords can be tried in parallel.
\<close>

theorem concurrent_failures_counted_once:
  assumes "db_ok d" "select_scalar (login_matches data) (users d) = Some u"
    and "usr_is_active u" "usr_locked_until u = None" "\<not> check_password h (li_password data) u"
    and "0 \<le> usr_failed_login_attempts u" "nows \<noteq> []"
    and "usr_failed_login_attempts u + 1 < LOGIN_MAX_FAILED_ATTEMPTS cfg"
    and "LOGIN_MAX_FAILED_ATTEMPTS cfg < 2 ^ 15"
  shows "\<exists>u'. row_by usr_id (users (concurrent_logins cfg h data nows d)) (usr_id u) = Some u'
    \<and> usr_failed_login_attempts u' = usr_failed_login_attempts u + 1 \<and> usr_locked_until u' = None"
proof -
  let ?u = "with_login (usr_failed_login_attempts u + 1) None u"
  from select_scalar_Some [OF assms(2)] have mem: "u \<in> set (users d)" by simp
  have keys: "distinct (map usr_id (users d))" using assms(1) by (simp add: db_ok_parts users_constraints_def)
  have ok: "db_ok (store_login ?u d)"
    using assms(6,8,9) by (intro store_login_user [OF assms(1) mem]) simp_all
  have flush: "flush_login u ?u u = ?u" "flush_login u ?u ?u = ?u"
    by (simp_all add: flush_login_def with_login_def)
  have sel: "select_scalar (\<lambda>u. usr_email u = li_identifier data \<or> usr_username u = li_identifier data)
      (users d) = Some u"
    using assms(2) unfolding login_matches_def .
  have dec: "login_decision cfg now (check_password h (li_password data) u) u = (?u, False)" for now
    using failed_decision [OF assms(3-5)] assms(8) by simp
  have one: "snd (authenticate_user cfg h others now data d) = store_login ?u d"
    if "others d = d \<or> others d = store_login ?u d" for others now
  proof -
    have "update_where (\<lambda>r. usr_id r = usr_id u) (flush_login u ?u) (users d) = store_row usr_id ?u (users d)"
      using update_by_key [OF keys mem, of "flush_login u ?u"] by (simp add: flush)
    moreover have "update_where (\<lambda>r. usr_id r = usr_id u) (flush_login u ?u) (store_row usr_id ?u (users d))
        = store_row usr_id ?u (users d)"
      by (auto simp: store_row_def update_where_def flush)
    ultimately have "(others d)\<lparr>users := update_where (\<lambda>r. usr_id r = usr_id u) (flush_login u ?u)
        (users (others d))\<rparr> = store_login ?u d"
      using that by (auto simp: store_login_def)
    then show ?thesis
      unfolding authenticate_user_def Let_def
      by (simp only: sel option.case dec prod.case commit_simps(1) [OF ok] sum.case snd_conv)
  qed
  have "concurrent_logins cfg h data ns d = (if ns = [] then d else store_login ?u d)" for ns
    by (induction ns) (simp_all add: one)
  moreover have "row_by usr_id (users (store_login ?u d)) (usr_id u) = Some ?u"
    using keyed_list.get_put_same [of usr_id "users d" ?u u] row_by_in [OF keys mem]
    by (simp add: store_login_def)
  ultimately show ?thesis using assms(7) by simp
qed

subsection \<open>Witnesses\<close>

definition plain_primitives :: primitives where
  "plain_primitives = \<lparr>hmac_sha256_hexdigest = (\<lambda>k m. k @ m), sha256_hexdigest = (\<lambda>m. ''h'' @ m),
     json_loads = (\<lambda>_. None)\<rparr>"

definition plain_hashing :: hashing where
  "plain_hashing = \<lparr>generate_password_hash = (\<lambda>salt p. p), check_password_hash = (\<lambda>h p. h = p)\<rparr>"

definition fixed_hashing :: hashing where
  "fixed_hashing = \<lparr>generate_password_hash = (\<lambda>salt p. take 255 p), check_password_hash = (\<lambda>h p. h = p)\<rparr>"

definition sample_session :: auth_session where
  "sample_session = \<lparr>as_id = 70, as_user_id = 1, as_token_hash = ''hraw'', as_family_id = 77,
     as_expires_at = days 30, as_revoked_at = None, as_last_used_at = None,
     as_replaced_by_id = None, as_created_at = 0\<rparr>"

definition sample_login_db :: database where
  "sample_login_db = sample_db\<lparr>auth_sessions := [sample_session]\<rparr>"

definition sample_fresh :: "nat \<Rightarrow> fresh_values" where
  "sample_fresh n = \<lparr>fv_session_id = of_nat (500 + n), fv_family_id = of_nat (600 + n),
     fv_token_id = of_nat (700 + n), fv_token = replicate n CHR ''x''\<rparr>"

lemma sample_login_ok: "db_ok sample_login_db" "families_single sample_login_db"
  by code_simp+

lemma sample_rotation:
  obtains issued d1 where "rotate_auth_session plain_primitives (sample_jwt JNull) sample_config 5
      (sample_fresh 1) ''raw'' sample_login_db = (Inr issued, d1)" "as_family_id (is_session issued) = 77"
proof -
  let ?r = "rotate_auth_session plain_primitives (sample_jwt JNull) sample_config 5
      (sample_fresh 1) ''raw'' sample_login_db"
  have "case ?r of (Inr issued, d1) \<Rightarrow> as_family_id (is_session issued) = 77 | _ \<Rightarrow> False" by code_simp
  then show thesis by (auto split: prod.splits sum.splits intro: that)
qed


theorem one_live_session_per_family_witness:
  "distinct (map as_family_id (filter (\<lambda>s. \<not> is_revoked s) (auth_sessions
     (snd (rotate_auth_session plain_primitives (sample_jwt JNull) sample_config 5 (sample_fresh 1) ''raw''
       sample_login_db)))))"
  using one_live_session_per_family [OF sample_login_ok r_into_rtranclp [of auth_step, OF auth_step.rotate]]
  by blast

theorem change_password_effect_witness:
  "\<exists>u' d'. change_user_password plain_hashing 5 [] 1 \<lparr>cp_current_password = ''h1'', cp_new_password = ''h2''\<rparr>
       sample_login_db = (Inr (), d')
     \<and> row_by usr_id (users d') 1 = Some u' \<and> check_password plain_hashing ''h2'' u'
     \<and> (\<forall>s \<in> set (auth_sessions d'). as_user_id s = 1 \<longrightarrow> is_revoked s)"
proof -
  have sound: "hashing_sound plain_hashing" by (auto simp: hashing_sound_def plain_hashing_def)
  let ?r = "change_user_password plain_hashing 5 [] 1 \<lparr>cp_current_password = ''h1'', cp_new_password = ''h2''\<rparr>
      sample_login_db"
  have "case fst ?r of Inr u \<Rightarrow> True | _ \<Rightarrow> False" by code_simp
  then obtain d' where r: "?r = (Inr (), d')" by (cases ?r) (auto split: sum.splits)
  from change_password_effect [OF sample_login_ok(1) sound r] r show ?thesis by auto
qed

definition sample_registration :: RegisterUserRequest where
  "sample_registration = \<lparr>ru_email = ''new@b.in'', ru_username = ''newuser'', ru_password = ''long enough pw'',
     ru_full_name = ''New User'', ru_phone = None\<rparr>"

theorem register_user_decides_witness:
  "\<exists>u. register_user fixed_hashing id 5 3 [] sample_registration sample_db =
     (Inr u, sample_db\<lparr>users := users sample_db @ [u]\<rparr>) \<and> usr_email u = ''new@b.in''"
proof -
  have "hashes_fit fixed_hashing"
    unfolding hashes_fit_def fixed_hashing_def varchar_def
    by (auto intro: order_trans [OF pylen_le_length])
  moreover have "varchar 255 (ru_email sample_registration) \<and> lower (ru_email sample_registration) = ru_email sample_registration
      \<and> varchar 50 (ru_username sample_registration) \<and> lower (ru_username sample_registration) = ru_username sample_registration
      \<and> varchar 100 (ru_full_name sample_registration) \<and> nullable (varchar 20) (ru_phone sample_registration)"
    by code_simp
  ultimately have fits: "registration_fits fixed_hashing sample_registration" by (simp add: registration_fits_def)
  have i: "3 \<notin> usr_id ` set (users (id sample_db))" by code_simp
  have free: "\<not> (\<exists>u \<in> set (users sample_db) \<union> set (users (id sample_db)). identified sample_registration u)"
    by code_simp
  have ok: "db_ok (id sample_db)" using sample_db_ok by simp
  from register_user_decides [of id sample_db, OF ok fits i, of 5 "[]"] free show ?thesis
    by (auto simp: sample_registration_def)
qed

lemma sample_login:
  "select_scalar (login_matches \<lparr>li_identifier = ''asha'', li_password = ''no''\<rparr>) (users sample_db) = Some sample_driver"
  "usr_is_active sample_driver" "usr_locked_until sample_driver = None"
  "\<not> check_password plain_hashing (li_password \<lparr>li_identifier = ''asha'', li_password = ''no''\<rparr>) sample_driver"
  "0 \<le> usr_failed_login_attempts sample_driver" "LOGIN_MAX_FAILED_ATTEMPTS sample_config = 5"
  "usr_failed_login_attempts sample_driver = 0" "LOGIN_LOCKOUT_MINUTES sample_config = 15"
  by (simp_all add: sample_db_def empty_database_def sample_driver_def login_matches_def select_scalar_def
      check_password_def plain_hashing_def sample_config_def BaseConfig_def)


theorem concurrent_failures_counted_once_witness:
  "\<exists>u'. row_by usr_id (users (concurrent_logins sample_config plain_hashing
       \<lparr>li_identifier = ''asha'', li_password = ''no''\<rparr> (replicate 1000 1) sample_db)) 1 = Some u'
     \<and> usr_failed_login_attempts u' = 1"
proof -
  have "usr_id sample_driver = 1" by (simp add: sample_driver_def)
  with concurrent_failures_counted_once [OF sample_db_ok sample_login(1-5), of "replicate 1000 1" sample_config]
    sample_login(6,7)
  show ?thesis by auto
qed

end
