(* ===== verification/Access.thy ===== *)
theory Access
  imports Auth
begin

text \<open>
  The guards of the protected routes (\<open>auth/decorators.py\<close>): reading the bearer token,
  checking the session and the user it names against the database, and the role check.
\<close>

datatype access = Unauthorized | Forbidden | Granted user json

text \<open>\<open>except (KeyError, TypeError, ValueError)\<close> of the two \<open>UUID(claims[..])\<close>.\<close>

fun claim_refused :: "exn \<Rightarrow> bool" where
  "claim_refused KeyError = True"
| "claim_refused TypeError = True"
| "claim_refused (ValueError _) = True"
| "claim_refused _ = False"

definition claim_uuid :: "json \<Rightarrow> string \<Rightarrow> exn + uuid" where
  "claim_uuid claims k = (case json_item claims k of Inl e \<Rightarrow> Inl e | Inr v \<Rightarrow> parse_uuid v)"

definition active_session :: "instant \<Rightarrow> uuid \<Rightarrow> uuid \<Rightarrow> auth_session \<Rightarrow> bool" where
  "active_session now session_id user_id s \<longleftrightarrow> as_id s = session_id \<and> as_user_id s = user_id
     \<and> as_revoked_at s = None \<and> as_expires_at s > now"

definition check_claims :: "instant \<Rightarrow> json \<Rightarrow> database \<Rightarrow> exn + access" where
  "check_claims now claims d =
     (case claim_uuid claims ''sub'' of
        Inl e \<Rightarrow> if claim_refused e then Inr Unauthorized else Inl e
      | Inr user_id \<Rightarrow>
          (case claim_uuid claims ''sid'' of
             Inl e \<Rightarrow> if claim_refused e then Inr Unauthorized else Inl e
           | Inr session_id \<Rightarrow>
               (case row_by usr_id (users d) user_id of
                  None \<Rightarrow> Inr Unauthorized
                | Some u \<Rightarrow>
                    if \<not> usr_is_active u
                       \<or> select_scalar (active_session now session_id user_id) (auth_sessions d) = None
                    then Inr Unauthorized else Inr (Granted u claims))))"

definition access_token_required ::
    "jwt_library \<Rightarrow> config \<Rightarrow> instant \<Rightarrow> string \<Rightarrow> database \<Rightarrow> exn + access" where
  "access_token_required lib cfg now authorization d =
     (let parts = py_split authorization in
      if length parts \<noteq> 2 \<or> lower (parts ! 0) \<noteq> ''bearer'' then Inr Unauthorized
      else (case decode_access_token lib cfg now (parts ! 1) of
         Inl (AccessTokenError _) \<Rightarrow> Inr Unauthorized
       | Inl e \<Rightarrow> Inl e
       | Inr claims \<Rightarrow> check_claims now claims d))"

definition roles_required ::
    "UserRole list \<Rightarrow> jwt_library \<Rightarrow> config \<Rightarrow> instant \<Rightarrow> string \<Rightarrow> database \<Rightarrow> exn + access" where
  "roles_required allowed_roles lib cfg now authorization d =
     (case access_token_required lib cfg now authorization d of
        Inr (Granted current_user claims) \<Rightarrow>
          if usr_role current_user \<notin> set allowed_roles then Inr Forbidden
          else Inr (Granted current_user claims)
      | r \<Rightarrow> r)"

subsection \<open>Properties of the guards\<close>

lemma check_claims_granted:
  assumes "check_claims now claims d = Inr (Granted u c)"
  obtains i s where "claim_uuid claims ''sid'' = Inr i" "c = claims" "u \<in> set (users d)" "usr_is_active u"
    "s \<in> set (auth_sessions d)" "active_session now i (usr_id u) s"
proof -
  from assms obtain j i where j: "claim_uuid claims ''sub'' = Inr j" "claim_uuid claims ''sid'' = Inr i"
    "row_by usr_id (users d) j = Some u" "usr_is_active u" "c = claims"
    "select_scalar (active_session now i j) (auth_sessions d) \<noteq> None"
    by (auto simp: check_claims_def split: sum.splits option.splits if_splits)
  then obtain s where s: "select_scalar (active_session now i j) (auth_sessions d) = Some s" by blast
  from row_by_Some [OF j(3)] select_scalar_Some [OF s] j show thesis by (intro that) auto
qed

lemma access_granted_claims:
  assumes "access_token_required lib cfg now authorization d = Inr (Granted u claims)"
  shows "check_claims now claims d = Inr (Granted u claims)"
    and "\<exists>token. decode_access_token lib cfg now token = Inr claims"
proof -
  from assms obtain c where c: "decode_access_token lib cfg now (py_split authorization ! 1) = Inr c"
    "check_claims now c d = Inr (Granted u claims)"
    by (auto simp: access_token_required_def Let_def split: if_splits sum.splits exn.splits)
  from c(2) have "claims = c" by (rule check_claims_granted)
  with c show "check_claims now claims d = Inr (Granted u claims)"
    "\<exists>token. decode_access_token lib cfg now token = Inr claims" by auto
qed

text \<open>
  C24. Access needs a live session: a request that passes a role guard acts as a stored,
  active user with an allowed role as stored now, and its unexpired token names a stored
  session of that user that is neither revoked nor expired.
\<close>

theorem access_needs_live_session:
  assumes "jwt_checks_expiry lib"
    and "roles_required allowed lib cfg now authorization d = Inr (Granted u claims)"
  shows "u \<in> set (users d) \<and> usr_is_active u \<and> usr_role u \<in> set allowed
    \<and> (\<exists>s \<in> set (auth_sessions d). as_user_id s = usr_id u \<and> \<not> is_revoked s \<and> now < as_expires_at s
         \<and> claim_uuid claims ''sid'' = Inr (as_id s))
    \<and> (\<exists>e. json_get claims ''exp'' = JInt e \<and> now < e * 1000000)"
proof -
  from assms(2) have r: "access_token_required lib cfg now authorization d = Inr (Granted u claims)"
    "usr_role u \<in> set allowed"
    by (auto simp: roles_required_def split: sum.splits access.splits if_splits)
  from access_granted_claims(1) [OF r(1)]
  have "u \<in> set (users d) \<and> usr_is_active u
    \<and> (\<exists>s \<in> set (auth_sessions d). as_user_id s = usr_id u \<and> \<not> is_revoked s \<and> now < as_expires_at s
         \<and> claim_uuid claims ''sid'' = Inr (as_id s))"
    by (rule check_claims_granted) (auto simp: active_session_def is_revoked_def)
  moreover from access_granted_claims(2) [OF r(1)] obtain token where
    "decode_access_token lib cfg now token = Inr claims" by blast
  with assms(1) have "\<exists>e. json_get claims ''exp'' = JInt e \<and> now < e * 1000000"
    by (auto simp: decode_access_token_def jwt_checks_expiry_def split: option.splits)
  ultimately show ?thesis using r(2) by blast
qed

text \<open>
  Revocation is final: after a session was revoked (by logout, rotation, reuse or a
  password change), no later request with a token of that session is let through, whatever
  operations run in between and however long the token itself would still be valid.
\<close>

theorem revoked_session_never_granted:
  assumes "db_ok d" "families_single d" "s \<in> set (auth_sessions d)" "is_revoked s"
    and "auth_step\<^sup>*\<^sup>* d d'" "claim_uuid claims ''sid'' = Inr (as_id s)"
  shows "access_token_required lib cfg now authorization d' \<noteq> Inr (Granted u claims)"
proof
  assume "access_token_required lib cfg now authorization d' = Inr (Granted u claims)"
  from access_granted_claims(1) [OF this] obtain s' where s': "s' \<in> set (auth_sessions d')"
    "active_session now (as_id s) (usr_id u) s'"
    by (rule check_claims_granted) (use assms(6) in auto)
  from auth_run [OF assms(5,1,2)] have d': "db_ok d'" "auth_evolves d d'" by auto
  from table_evolves_forward [OF d'(2) [unfolded auth_evolves_def] assms(3)] assms(4)
  have "s \<in> set (auth_sessions d')" by (auto dest: auth_life.terminal_move)
  with s' db_ok_session_ids [OF d'(1)] have "s' = s"
    by (auto simp: active_session_def dest: distinct_map_unique)
  with s'(2) assms(4) show False by (simp add: active_session_def is_revoked_def)
qed

text \<open>Splitting an authorization header with one space.\<close>

lemma split_words_plain:
  "\<forall>c \<in> set cs. \<not> is_space c \<Longrightarrow> w @ concat cs \<noteq> [] \<Longrightarrow> split_words w cs = [w @ concat cs]"
  by (induction cs arbitrary: w) auto

lemma split_words_space:
  assumes "\<forall>c \<in> set cs. \<not> is_space c" "w @ concat cs \<noteq> []" "is_space sp"
  shows "split_words w (cs @ sp # ds) = (w @ concat cs) # split_words [] ds"
  using assms by (induction cs arbitrary: w) auto

definition header_token :: "string \<Rightarrow> bool" where
  "header_token t \<longleftrightarrow> t \<noteq> [] \<and> is_ascii t \<and> list_all (\<lambda>c. \<not> is_space [c]) t"

lemma bearer_split:
  assumes "header_token t"
  shows "py_split (''Bearer '' @ t) = [''Bearer'', t]"
proof -
  have a: "is_ascii ''Bearer''" "is_ascii '' ''" by (simp_all add: is_ascii_def)
  have b: "list_all (\<lambda>c. \<not> is_space [c]) ''Bearer'' \<and> is_space '' ''" by code_simp
  have "is_ascii (''Bearer'' @ '' '' @ t)"
    using assms a unfolding header_token_def is_ascii_def list_all_append by blast
  then have "code_points (''Bearer'' @ '' '' @ t) =
      map (\<lambda>c. [c]) ''Bearer'' @ '' '' # map (\<lambda>c. [c]) t"
    by (simp only: code_points_ascii map_append list.map append.simps)
  moreover have "split_words [] (map (\<lambda>c. [c]) ''Bearer'' @ '' '' # map (\<lambda>c. [c]) t) =
      concat (map (\<lambda>c. [c]) ''Bearer'') # split_words [] (map (\<lambda>c. [c]) t)"
    using b by (subst split_words_space) (auto simp: list_all_iff)
  moreover have "split_words [] (map (\<lambda>c. [c]) t) = [t]"
    using assms by (subst split_words_plain) (auto simp: header_token_def list_all_iff)
  ultimately show ?thesis by (simp add: py_split_def)
qed

lemma issued_token_granted:
  assumes "db_ok d" "u \<in> set (users d)" "usr_is_active u"
    and "create_auth_session prims lib cfg now fv u d = (Inr issued, d')"
    and "jwt_roundtrip lib (access_payload cfg u (fv_session_id fv) (fv_token_id fv) (Aware now 0)
           (at_expires_at (is_access_token issued)))"
    and "header_token (at_value (is_access_token issued))"
    and "now \<le> t" "t < whole_seconds (instant_of (at_expires_at (is_access_token issued))) * 1000000"
    and "t < as_expires_at (is_session issued)"
  shows "\<exists>claims. access_token_required lib cfg t (''Bearer '' @ at_value (is_access_token issued)) d'
     = Inr (Granted u claims)"
proof -
  let ?tok = "is_access_token issued" and ?s = "is_session issued"
  let ?e = "plus_duration (Aware now 0) (minutes (JWT_ACCESS_TOKEN_MINUTES cfg))"
  let ?p = "access_payload cfg u (fv_session_id fv) (fv_token_id fv) (Aware now 0) ?e"
  from assms(4) have i: "at_value ?tok = jwt_encode lib ?p (JWT_SECRET_KEY cfg) (JWT_ALGORITHM cfg)"
    "at_expires_at ?tok = ?e" "db_ok d'" "users d' = users d" "?s \<in> set (auth_sessions d')"
    "as_id ?s = fv_session_id fv" "as_user_id ?s = usr_id u" "as_revoked_at ?s = None"
    by (auto simp: create_auth_session_def issue_refresh_token_def issue_access_token_def aware_utc_def
        Let_def new_auth_session_def)
  have "claims_valid (JWT_AUDIENCE cfg) (JWT_ISSUER cfg) REQUIRED_CLAIMS t ?p"
    using assms(7,8) i(2) by (intro access_payload_valid) simp_all
  then have "jwt_decode lib (at_value ?tok) (JWT_SECRET_KEY cfg) [JWT_ALGORITHM cfg] (JWT_AUDIENCE cfg)
      (JWT_ISSUER cfg) REQUIRED_CLAIMS t = Some ?p"
    using assms(5) unfolding i(1,2) jwt_roundtrip_def by blast
  then have dec: "decode_access_token lib cfg t (at_value ?tok) = Inr ?p"
    by (simp add: decode_access_token_def access_payload_claims)
  have row: "row_by usr_id (users d') (usr_id u) = Some u"
    using i(3,4) assms(2) by (intro row_by_in) (simp_all add: db_ok_parts users_constraints_def)
  have "active_session t (fv_session_id fv) (usr_id u) ?s"
    using assms(9) i(6-8) by (simp add: active_session_def)
  with i(5) have "select_scalar (active_session t (fv_session_id fv) (usr_id u)) (auth_sessions d') \<noteq> None"
    by (auto simp: select_scalar_None)
  with row assms(3) have "check_claims t ?p d' = Inr (Granted u ?p)"
    by (simp add: check_claims_def claim_uuid_def access_payload_items parse_uuid_str)
  moreover have "py_split (''Bearer '' @ at_value ?tok) = [''Bearer'', at_value ?tok]"
    using assms(6) by (rule bearer_split)
  moreover have "lower ''Bearer'' = ''bearer''" by code_simp
  ultimately show ?thesis by (simp add: access_token_required_def dec)
qed

text \<open>
  A login works: the access token issued together with a new session for an active user
  is let through as that user, at any time before the token's and the session's expiry, as
  long as nothing else happened to the session or the user.
\<close>

theorem session_token_granted:
  assumes "db_ok d" "u \<in> set (users d)" "usr_is_active u"
    and "create_auth_session prims lib cfg now fv u d = (Inr issued, d')"
    and "jwt_roundtrip lib (access_payload cfg u (fv_session_id fv) (fv_token_id fv) (Aware now 0)
           (at_expires_at (is_access_token issued)))"
    and "header_token (at_value (is_access_token issued))"
    and "now \<le> t" "t < whole_seconds (instant_of (at_expires_at (is_access_token issued))) * 1000000"
    and "t < as_expires_at (is_session issued)"
  shows "\<exists>claims. access_token_required lib cfg t (''Bearer '' @ at_value (is_access_token issued)) d'
     = Inr (Granted u claims)"
  by (rule issued_token_granted [OF assms])

subsection \<open>Witnesses\<close>

text \<open>The claims of the token that \<open>sample_driver\<close> gets at time 5 with the first fresh values.\<close>

definition sample_claims :: json where
  "sample_claims = access_payload sample_config sample_driver 501 701 (Aware 5 0)
     (plus_duration (Aware 5 0) (minutes (JWT_ACCESS_TOKEN_MINUTES sample_config)))"

lemma sample_created:
  obtains issued d' where "create_auth_session plain_primitives (sample_jwt sample_claims) sample_config 5
      (sample_fresh 1) sample_driver sample_db = (Inr issued, d')"
    "at_value (is_access_token issued) = ''token''" "at_expires_at (is_access_token issued) = Aware (minutes 15 + 5) 0"
    "as_expires_at (is_session issued) = days 30 + 5" "as_id (is_session issued) = 501"
    "is_session issued \<in> set (auth_sessions d')" "\<not> is_revoked (is_session issued)" "db_ok d'"
    "families_single d'"
proof -
  let ?r = "create_auth_session plain_primitives (sample_jwt sample_claims) sample_config 5
      (sample_fresh 1) sample_driver sample_db"
  have "case ?r of (Inr issued, d') \<Rightarrow> at_value (is_access_token issued) = ''token''
      \<and> at_expires_at (is_access_token issued) = Aware (minutes 15 + 5) 0
      \<and> as_expires_at (is_session issued) = days 30 + 5 \<and> as_id (is_session issued) = 501
      \<and> is_session issued \<in> set (auth_sessions d') \<and> \<not> is_revoked (is_session issued)
      \<and> db_ok d' \<and> families_single d' | _ \<Rightarrow> False"
    by code_simp
  then show thesis by (auto split: prod.splits sum.splits intro: that)
qed

lemma sample_claims_payload:
  "access_payload sample_config sample_driver (fv_session_id (sample_fresh 1)) (fv_token_id (sample_fresh 1))
     (Aware 5 0) (Aware (minutes 15 + 5) 0) = sample_claims"
  by code_simp

lemma sample_times:
  "header_token ''token''" "(5 :: int) \<le> minutes 10"
  "minutes 10 < whole_seconds (instant_of (Aware (minutes 15 + 5) 0)) * 1000000" "minutes 10 < days 30 + 5"
  by code_simp+

lemma sample_driver_active: "sample_driver \<in> set (users sample_db)" "usr_is_active sample_driver"
  by (simp_all add: sample_db_def sample_driver_def)

theorem session_token_granted_witness:
  "\<exists>d' claims. access_token_required (sample_jwt sample_claims) sample_config (minutes 10) (''Bearer '' @ ''token'') d'
     = Inr (Granted sample_driver claims)"
proof (rule sample_created)
  fix issued d'
  assume r: "create_auth_session plain_primitives (sample_jwt sample_claims) sample_config 5
      (sample_fresh 1) sample_driver sample_db = (Inr issued, d')"
    "at_value (is_access_token issued) = ''token''" "at_expires_at (is_access_token issued) = Aware (minutes 15 + 5) 0"
    "as_expires_at (is_session issued) = days 30 + 5"
  have j: "jwt_roundtrip (sample_jwt sample_claims) (access_payload sample_config sample_driver
      (fv_session_id (sample_fresh 1)) (fv_token_id (sample_fresh 1)) (Aware 5 0)
      (at_expires_at (is_access_token issued)))"
    unfolding r(3) sample_claims_payload by (rule sample_jwt_roundtrip)
  from session_token_granted [OF sample_db_ok sample_driver_active r(1) j, of "minutes 10"] sample_times
  show ?thesis unfolding r by blast
qed

theorem access_needs_live_session_witness:
  "\<exists>d' claims. roles_required [USER] (sample_jwt sample_claims) sample_config (minutes 10) (''Bearer '' @ ''token'') d'
       = Inr (Granted sample_driver claims)
     \<and> (\<exists>s \<in> set (auth_sessions d'). as_user_id s = usr_id sample_driver \<and> \<not> is_revoked s)"
proof (rule sample_created)
  fix issued d'
  assume r: "create_auth_session plain_primitives (sample_jwt sample_claims) sample_config 5
      (sample_fresh 1) sample_driver sample_db = (Inr issued, d')"
    "at_value (is_access_token issued) = ''token''" "at_expires_at (is_access_token issued) = Aware (minutes 15 + 5) 0"
    "as_expires_at (is_session issued) = days 30 + 5"
  have j: "jwt_roundtrip (sample_jwt sample_claims) (access_payload sample_config sample_driver
      (fv_session_id (sample_fresh 1)) (fv_token_id (sample_fresh 1)) (Aware 5 0)
      (at_expires_at (is_access_token issued)))"
    unfolding r(3) sample_claims_payload by (rule sample_jwt_roundtrip)
  have "\<exists>claims. access_token_required (sample_jwt sample_claims) sample_config (minutes 10)
      (''Bearer '' @ ''token'') d' = Inr (Granted sample_driver claims)"
    using issued_token_granted [OF sample_db_ok sample_driver_active r(1) j, of "minutes 10"] sample_times
    unfolding r by blast
  then obtain claims where c: "access_token_required (sample_jwt sample_claims) sample_config (minutes 10)
      (''Bearer '' @ ''token'') d' = Inr (Granted sample_driver claims)" by blast
  have "usr_role sample_driver = USER" by code_simp
  with c have g: "roles_required [USER] (sample_jwt sample_claims) sample_config (minutes 10)
      (''Bearer '' @ ''token'') d' = Inr (Granted sample_driver claims)"
    unfolding roles_required_def by simp
  from access_needs_live_session [OF sample_jwt_expiry g] g show ?thesis by blast
qed

theorem revoked_session_never_granted_witness:
  "\<exists>d'. access_token_required (sample_jwt sample_claims) sample_config (minutes 10) ''Bearer token'' d'
       \<noteq> Inr (Granted sample_driver sample_claims)
     \<and> map is_revoked (auth_sessions d') = [True]"
proof -
  let ?d = "snd (revoke_all_auth_sessions 6 1 (snd (create_auth_session plain_primitives
      (sample_jwt sample_claims) sample_config 5 (sample_fresh 1) sample_driver sample_db)))"
  let ?s = "(hd (auth_sessions ?d))"
  have "case revoke_all_auth_sessions 6 1 (snd (create_auth_session plain_primitives
      (sample_jwt sample_claims) sample_config 5 (sample_fresh 1) sample_driver sample_db)) of (_, d) \<Rightarrow>
        db_ok d \<and> families_single d \<and> auth_sessions d \<noteq> [] \<and> map is_revoked (auth_sessions d) = [True]
        \<and> map as_id (auth_sessions d) = [501]"
    by code_simp
  then have d: "db_ok ?d" "families_single ?d" "?s \<in> set (auth_sessions ?d)" "is_revoked ?s"
    "map is_revoked (auth_sessions ?d) = [True]" "as_id ?s = 501"
    by (auto simp: case_prod_beta)
  have c: "claim_uuid sample_claims ''sid'' = Inr (as_id ?s)"
    unfolding d(6) by (simp add: claim_uuid_def sample_claims_def access_payload_items parse_uuid_str)
  show ?thesis
    by (intro exI [of _ ?d] conjI d(5) revoked_session_never_granted [OF d(1-4) rtranclp.rtrancl_refl c])
qed

end
