(* ===== verification/System.thy ===== *)
theory System
  imports Maintenance ChargingSessions
begin

text \<open>
  The running platform: any number of requests, provider deliveries, jobs and crashes,
  interleaved transaction by transaction. The state is the database with the provider calls
  that are under way, which survive in no row lock; a step is one committed transaction of
  one service. Invariants of every reachable state follow by rule induction from the safety
  of each transaction, and the platform refines the lifecycle graphs.
\<close>

subsection \<open>The platform as a step relation\<close>

text \<open>
  Between its two transactions a checkout holds a \<open>PaymentAttemptSnapshot\<close> and a
  cancellation a \<open>RefundRequestSnapshot\<close>; both are lost when the process dies.
\<close>

record system =
  sys_db :: database
  sys_checkouts :: "PaymentAttemptSnapshot list"
  sys_cancellations :: "RefundRequestSnapshot list"

abbreviation core_tables ::
    "database \<Rightarrow> booking list \<times> payment list \<times> refund list \<times> charging_session list" where
  "core_tables d \<equiv> (bookings d, payments d, refunds d, charging_sessions d)"

text \<open>
  Nothing is assumed of the requests or of the provider: the clock, the identifiers, the
  bodies, the other deliveries and the provider's answers (\<open>http\<close>) are chosen anew in every
  step. Accounts, stations and charge points change by \<open>elsewhere\<close>.
\<close>

inductive transaction :: "config \<Rightarrow> primitives \<Rightarrow> string \<Rightarrow> system \<Rightarrow> system \<Rightarrow> bool"
  for cfg :: config and prims :: primitives and secret :: string where
  hold: "transaction cfg prims secret s
     (s\<lparr>sys_db := snd (create_booking_hold cfg now i u request (sys_db s))\<rparr>)"
| list_bookings: "transaction cfg prims secret s
     (s\<lparr>sys_db := snd (find_user_bookings now u query (sys_db s))\<rparr>)"
| read_booking: "transaction cfg prims secret s
     (s\<lparr>sys_db := snd (get_user_booking now u j (sys_db s))\<rparr>)"
| begin_checkout: "begin_payment_attempt now i usr order (sys_db s) = (Inr attempt, d') \<Longrightarrow>
     transaction cfg prims secret s
       (s\<lparr>sys_db := d', sys_checkouts := attempt # sys_checkouts s\<rparr>)"
| conclude_checkout: "attempt \<in> set (sys_checkouts s) \<Longrightarrow> credentials cfg = Some creds \<Longrightarrow>
     transaction cfg prims secret s
       (s\<lparr>sys_db := snd (conclude_order now (fst creds) attempt (order_call http creds attempt)
            (sys_db s)),
          sys_checkouts := remove1 attempt (sys_checkouts s)\<rparr>)"
| verify_checkout: "transaction cfg prims secret s
     (s\<lparr>sys_db := snd (verify_checkout_payment prims cfg usr proof_of_payment (sys_db s))\<rparr>)"
| webhook: "transaction cfg prims secret s
     (s\<lparr>sys_db := snd (process_razorpay_webhook prims now i body sig ev secret seen (sys_db s))\<rparr>)"
| cancel: "prepare_cancellation now i u j v (sys_db s) = (Inr (Inl outcome), d') \<Longrightarrow>
     transaction cfg prims secret s (s\<lparr>sys_db := d'\<rparr>)"
| begin_refund: "prepare_cancellation now i u j v (sys_db s) = (Inr (Inr snapshot), d') \<Longrightarrow>
     transaction cfg prims secret s
       (s\<lparr>sys_db := d', sys_cancellations := snapshot # sys_cancellations s\<rparr>)"
| conclude_refund: "snapshot \<in> set (sys_cancellations s) \<Longrightarrow>
     transaction cfg prims secret s
       (s\<lparr>sys_db := snd (conclude_cancellation cfg http now snapshot (sys_db s)),
          sys_cancellations := remove1 snapshot (sys_cancellations s)\<rparr>)"
| start_session: "transaction cfg prims secret s
     (s\<lparr>sys_db := snd (start_charging_session now i operator reading (sys_db s))\<rparr>)"
| complete_session: "transaction cfg prims secret s
     (s\<lparr>sys_db := snd (complete_charging_session now operator i final_reading (sys_db s))\<rparr>)"
| expire: "transaction cfg prims secret s
     (s\<lparr>sys_db := snd (expire_stale_booking_holds now n locked (sys_db s))\<rparr>)"
| reconcile: "transaction cfg prims secret s
     (s\<lparr>sys_db := snd (apply_reconciled_refund now i answer (sys_db s))\<rparr>)"
| elsewhere: "db_ok d' \<Longrightarrow> core_tables d' = core_tables (sys_db s) \<Longrightarrow>
     transaction cfg prims secret s (s\<lparr>sys_db := d'\<rparr>)"
| crash: "transaction cfg prims secret s
     (s\<lparr>sys_checkouts := filter keep (sys_checkouts s),
        sys_cancellations := filter kept (sys_cancellations s)\<rparr>)"

text \<open>The platform starts with accounts and stations, and nothing booked.\<close>

definition initial_system :: "system \<Rightarrow> bool" where
  "initial_system s \<longleftrightarrow> db_ok (sys_db s) \<and> core_tables (sys_db s) = ([], [], [], [])
     \<and> sys_checkouts s = [] \<and> sys_cancellations s = []"

definition reachable :: "config \<Rightarrow> primitives \<Rightarrow> string \<Rightarrow> system \<Rightarrow> bool" where
  "reachable cfg prims secret s \<longleftrightarrow>
     (\<exists>s0. initial_system s0 \<and> (transaction cfg prims secret)\<^sup>*\<^sup>* s0 s)"

subsection \<open>Transactions leave the attempts under way alone\<close>

text \<open>No payment leaves its initial status.\<close>

definition attempts_kept :: "database \<Rightarrow> database \<Rightarrow> bool" where
  "attempts_kept d d' \<longleftrightarrow> (\<forall>i. attempt_unfinished i d \<longrightarrow> attempt_unfinished i d')"

lemma attempts_kept_same [simp]: "payments d' = payments d \<Longrightarrow> attempts_kept d d'"
  by (simp add: attempts_kept_def attempt_unfinished_def)

lemma attempts_kept_commit [intro]: "attempts_kept d d' \<Longrightarrow> attempts_kept d (snd (commit x d' d))"
  by (simp add: snd_commit)

lemma attempts_kept_store:
  assumes "payments d' = store_row pay_id p' (payments d)" "p \<in> set (payments d)"
    "pay_id p' = pay_id p" "pay_status p \<noteq> INITIATED"
  shows "attempts_kept d d'"
  using assms by (auto simp: attempts_kept_def attempt_unfinished_def set_store_row)

lemma hold_payments [simp]: "payments (snd (create_booking_hold cfg now i u request d)) = payments d"
  by (auto simp: create_booking_hold_def Let_def expire_stale_holds_def snd_commit)

lemma list_payments [simp]: "payments (snd (find_user_bookings now u query d)) = payments d"
  by (auto simp: find_user_bookings_def expire_user_stale_holds_def Let_def commit_def
      split: option.split)

lemma get_payments [simp]: "payments (snd (get_user_booking now u j d)) = payments d"
  by (auto simp: get_user_booking_def expire_user_stale_holds_def Let_def commit_def
      split: option.split)

lemma start_payments [simp]: "payments (snd (start_charging_session now i op reading d)) = payments d"
  by (auto simp: start_charging_session_def Let_def snd_commit split: option.split)

lemma complete_payments [simp]:
  "payments (snd (complete_charging_session now op i reading d)) = payments d"
  by (auto simp: complete_charging_session_def Let_def snd_commit split: option.split)

lemma expire_payments [simp]: "payments (snd (expire_stale_booking_holds now n locked d)) = payments d"
  by (auto simp: expire_stale_booking_holds_def Let_def snd_commit)

lemma prepare_payments [simp]: "payments (snd (prepare_cancellation now i u j v d)) = payments d"
  by (auto simp: prepare_cancellation_def Let_def snd_commit split: option.split)

lemma verify_kept: "attempts_kept d (snd (verify_checkout_payment prims cfg usr paid d))"
  by (auto simp: verify_checkout_payment_def Let_def split: option.split dest!: select_scalar_Some
      intro!: attempts_kept_commit attempts_kept_store [OF store_frame(8)])

lemma begin_kept: "attempts_kept d (snd (begin_payment_attempt now i usr order d))"
proof (cases rule: begin_payment_attempt_cases [of now i usr order d])
  case (2 b t a n)
  show ?thesis
    unfolding 2(11) snd_on_integrity_error
    by (rule attempts_kept_commit)
      (auto simp: attempts_kept_def attempt_unfinished_def initiated_payment_def)
qed simp

lemma refunded_kept:
  assumes "coherent d" "keys_ok d" "r \<in> set (refunds d)" "p \<in> set (payments d)"
    "pay_id p = rf_payment_id r" "payments d' = store_row pay_id (p\<lparr>pay_status := REFUNDED\<rparr>) (payments d)"
  shows "attempts_kept d d'"
  using refund_payment_status [OF assms(1-5)] assms(4,6)
  by (intro attempts_kept_store [of d' "p\<lparr>pay_status := REFUNDED\<rparr>" d p]) auto

text \<open>The transactions that change payments they look up by the provider's identifiers.\<close>

definition stores_payment :: "uuid \<Rightarrow> database \<Rightarrow> database \<Rightarrow> bool" where
  "stores_payment i d d' \<longleftrightarrow>
     (\<exists>p'. pay_id p' = i \<and> payments d' = store_row pay_id p' (payments d))"

lemma stores_payment_store [simp]:
  "stores_payment (pay_id p') d (store_payment p' d)"
  "stores_payment i d (store_booking b d') \<longleftrightarrow> stores_payment i d d'"
  by (auto simp: stores_payment_def)

lemma stores_payment_update:
  "pay_id p' = i \<Longrightarrow> stores_payment i d (store_payment p' d)"
  by (auto simp: stores_payment_def)

lemma captured_event_stores: "apply_captured_payment p1 d = Inr d1 \<Longrightarrow> stores_payment (pay_id p1) d d1"
  by (auto simp: apply_captured_payment_def Let_def split: if_splits option.splits
      intro!: stores_payment_update)

lemma failed_event_stores: "apply_failed_payment now p1 d = Inr d1 \<Longrightarrow> stores_payment (pay_id p1) d d1"
  by (auto simp: apply_failed_payment_def Let_def split: if_splits option.splits
      intro!: stores_payment_update)

lemma payment_event_kept:
  assumes r: "apply_payment_event now t entity d = Inr (s, d1)" and co: "coherent d"
  shows "attempts_kept d d1"
proof (cases "select_scalar (\<lambda>p. pay_provider_order_id p = Some (str_of (json_get entity ''order_id'')))
    (payments d)")
  case None
  with r show ?thesis by (auto simp: apply_payment_event_def Let_def split: if_splits)
next
  case (Some p)
  from select_scalar_Some [OF Some] co have p: "p \<in> set (payments d)" "pay_status p \<noteq> INITIATED"
    by (auto dest!: coherent_payment_ids simp: payment_ids_ok_def)
  have "stores_payment (pay_id p) d d1"
    using r Some
    by (auto simp: apply_payment_event_def Let_def split: if_splits
        intro!: stores_payment_update dest!: captured_event_stores failed_event_stores)
  then show ?thesis
    using p by (auto simp: stores_payment_def intro: attempts_kept_store)
qed

lemma webhook_kept:
  assumes co: "coherent d" and ok: "db_ok d"
  shows "attempts_kept d (snd (process_razorpay_webhook prims now i body sig ev secret seen d))"
proof (cases "process_razorpay_webhook prims now i body sig ev secret seen d")
  case (Pair r d')
  show ?thesis
  proof (cases r)
    case (Inl e)
    with Pair have "d' = d"
      by (auto simp: process_razorpay_webhook_def Let_def dest: commit_Inl_same
          split: if_splits option.splits sum.splits prod.splits)
    with Pair show ?thesis by simp
  next
    case (Inr st)
    from process_razorpay_webhook_Inr [OF Pair [unfolded Inr]] consider "d' = d"
      | payload e s d1 where "apply_event now payload (insert_event e d) = Inr (s, d1)"
          "d' = finish_event now e s d1" by blast
    then have "attempts_kept d d'"
    proof cases
      case (2 payload e s d1)
      let ?d = "insert_event e d"
      have co': "coherent ?d" "keys_ok ?d"
        using co db_ok_keys [OF ok] by (simp_all add: coherent_def keys_ok_def)
      from 2(1) consider "d1 = ?d"
        | t entity where "apply_payment_event now t entity ?d = Inr (s, d1)"
        | t entity where "apply_refund_event now t entity ?d = Inr (s, d1)"
        by (auto simp: apply_event_def Let_def split: if_splits sum.splits)
      then have "attempts_kept ?d d1"
      proof cases
        case 3
        then show ?thesis
          by (cases rule: apply_refund_event_cases) (auto intro: refunded_kept [OF co'])
      qed (auto intro: payment_event_kept [OF _ co'(1)])
      with 2(2) show ?thesis by (simp add: attempts_kept_def attempt_unfinished_def)
    qed simp
    with Pair show ?thesis by simp
  qed
qed

text \<open>The second transaction of an attempt changes the payment of that attempt only.\<close>

lemma stores_other_kept:
  "payments d' = payments d \<or> stores_payment i d d' \<Longrightarrow> j \<noteq> i \<Longrightarrow>
   attempt_unfinished j d \<Longrightarrow> attempt_unfinished j d'"
  by (auto simp: stores_payment_def attempt_unfinished_def set_store_row split: if_splits)

lemma finalize_stores:
  "payments (snd (finalize_provider_order i j order d)) = payments d
   \<or> stores_payment i d (snd (finalize_provider_order i j order d))"
  by (auto simp: finalize_provider_order_def snd_commit failed_attempt_def ordered_attempt_def
      split: option.split dest!: row_by_Some intro!: stores_payment_update)

lemma compensate_stores:
  "payments (snd (compensate_provider_failure now i j d)) = payments d
   \<or> stores_payment i d (snd (compensate_provider_failure now i j d))"
  by (auto simp: compensate_provider_failure_def snd_commit split: option.split dest!: row_by_Some
      intro!: stores_payment_update)

lemma conclude_stores:
  "payments (snd (conclude_order now key a answer d)) = payments d
   \<or> stores_payment (pa_payment_id a) d (snd (conclude_order now key a answer d))"
  using finalize_stores [of "pa_payment_id a" "pa_booking_id a" "projr answer" d]
    compensate_stores [of now "pa_payment_id a" "pa_booking_id a" d]
  unfolding conclude_order_def by (auto split: sum.splits prod.splits exn.splits)

lemma finalize_refund_kept:
  assumes "coherent d" "keys_ok d" "snapshot_stored s d"
  shows "attempts_kept d (snd (finalize_refund now s answer d))"
proof -
  have "attempts_kept d (store_payment (p\<lparr>pay_status := REFUNDED\<rparr>) (store_refund r' d))"
    if "row_by pay_id (payments d) (rs_payment_id s) = Some p" for p r'
    using that assms(3) row_by_Some [OF that]
    by (auto simp: snapshot_stored_def intro!: refunded_kept [OF assms(1,2)])
  then show ?thesis
    by (auto simp: finalize_refund_def Let_def split: option.split)
qed

lemma record_refund_failure_payments [simp]:
  "payments (snd (record_refund_failure s c d)) = payments d"
  by (auto simp: record_refund_failure_def Let_def snd_commit split: option.split)

lemma conclude_cancellation_kept:
  assumes "coherent d" "keys_ok d" "snapshot_stored s d"
  shows "attempts_kept d (snd (conclude_cancellation cfg http now s d))"
  using finalize_refund_kept [OF assms]
  unfolding conclude_cancellation_def by (auto split: option.split sum.split exn.split)

lemma reconciled_kept:
  assumes "coherent d" "keys_ok d"
  shows "attempts_kept d (snd (apply_reconciled_refund now i answer d))"
proof -
  have "attempts_kept d (store_payment (p\<lparr>pay_status := REFUNDED\<rparr>) (store_refund r' d))"
    if "row_by rf_id (refunds d) i = Some r" "row_by pay_id (payments d) (rf_payment_id r) = Some p"
    for r p r'
    using row_by_Some [OF that(1)] row_by_Some [OF that(2)]
    by (auto intro!: refunded_kept [OF assms])
  then show ?thesis
    by (auto simp: apply_reconciled_refund_def split: option.split)
qed

subsection \<open>The invariant of the platform\<close>

definition attempts_sound :: "PaymentAttemptSnapshot list \<Rightarrow> database \<Rightarrow> bool" where
  "attempts_sound as d \<longleftrightarrow> distinct (map pa_payment_id as)
     \<and> (\<forall>a \<in> set as. attempt_unfinished (pa_payment_id a) d
          \<and> pa_payment_id a \<in> pay_id ` set (payments d))"

definition system_ok :: "system \<Rightarrow> bool" where
  "system_ok s \<longleftrightarrow> db_ok (sys_db s) \<and> coherent (sys_db s)
     \<and> attempts_sound (sys_checkouts s) (sys_db s)
     \<and> (\<forall>r \<in> set (sys_cancellations s). snapshot_stored r (sys_db s))"

lemma initial_ok: "initial_system s \<Longrightarrow> system_ok s"
  by (simp add: initial_system_def system_ok_def attempts_sound_def coherent_def active_points_def)

text \<open>A transaction that moves the database only.\<close>

lemma core_payment_ids:
  "core_evolves d d' \<Longrightarrow> pay_id ` set (payments d) \<subseteq> pay_id ` set (payments d')"
  unfolding core_evolves_def by (blast dest: payment_life.evolves_keys_subset)

lemma attempts_sound_step:
  "core_evolves d d' \<Longrightarrow> attempts_kept d d' \<Longrightarrow> attempts_sound as d \<Longrightarrow> attempts_sound as d'"
  using core_payment_ids unfolding attempts_sound_def attempts_kept_def by blast

lemma system_ok_db:
  assumes "system_ok s" "safe_step (sys_db s) d'"
    and "\<lbrakk>coherent (sys_db s); keys_ok (sys_db s); db_ok (sys_db s)\<rbrakk> \<Longrightarrow> attempts_kept (sys_db s) d'"
  shows "system_ok (s\<lparr>sys_db := d'\<rparr>)" "core_evolves (sys_db s) d'"
proof -
  from assms(1,2) have d': "db_ok d'" "coherent d'" "core_evolves (sys_db s) d'"
    by (auto simp: system_ok_def safe_step_def)
  with assms show "system_ok (s\<lparr>sys_db := d'\<rparr>)"
    by (auto simp: system_ok_def db_ok_keys intro: attempts_sound_step snapshot_stored_step)
  show "core_evolves (sys_db s) d'" by (rule d'(3))
qed

lemma attempts_sound_begin:
  assumes "begin_payment_attempt now i usr order d = (Inr attempt, d')" "attempts_sound as d"
    "core_evolves d d'"
  shows "attempts_sound (attempt # as) d'"
proof -
  from begin_payment_attempt_unfinished [OF assms(1)] have i: "pa_payment_id attempt = i"
    "attempt_unfinished i d'" "db_ok d'" by auto
  obtain b n where ps: "payments d' = insert_row
      (initiated_payment now i usr (cr_idempotency_key order) b n) (payments d)"
  proof (cases rule: begin_payment_attempt_cases [of now i usr order d])
    case 1
    with assms(1) show ?thesis by simp
  next
    case (2 b t a n)
    from assms(1) [unfolded 2(11)] show ?thesis by (intro that [of b n]) auto
  qed
  from i(3) have "distinct (map pay_id (payments d'))" by (auto dest: db_ok_keys simp: keys_ok_def)
  then have new: "i \<notin> pay_id ` set (payments d)" unfolding ps by (simp add: initiated_payment_def)
  have stored_i: "i \<in> pay_id ` set (payments d')" unfolding ps by (simp add: initiated_payment_def)
  have "attempts_kept d d'" using begin_kept [of d now i usr order] assms(1) by simp
  from attempts_sound_step [OF assms(3) this assms(2)] have "attempts_sound as d'" .
  moreover have "i \<notin> pa_payment_id ` set as"
    using new assms(2) by (auto simp: attempts_sound_def)
  ultimately show ?thesis
    using i(1,2) stored_i by (simp add: attempts_sound_def)
qed

lemma in_set_remove1D: "x \<in> set (remove1 y xs) \<Longrightarrow> x \<in> set xs"
  by (meson notin_set_remove1)

lemma attempts_sound_conclude:
  assumes "attempts_sound as d" "core_evolves d d'" "a \<in> set as"
    and "payments d' = payments d \<or> stores_payment (pa_payment_id a) d d'"
  shows "attempts_sound (remove1 a as) d'"
proof -
  have "attempt_unfinished (pa_payment_id x) d'" if x: "x \<in> set (remove1 a as)" for x
  proof -
    from assms(1) have "distinct (map pa_payment_id as)" by (simp add: attempts_sound_def)
    with x assms(3) have "pa_payment_id x \<noteq> pa_payment_id a"
      by (auto simp: distinct_map set_remove1_eq dest: inj_onD)
    moreover from x assms(1) have "attempt_unfinished (pa_payment_id x) d"
      by (auto simp: attempts_sound_def dest: in_set_remove1D)
    ultimately show ?thesis by (rule stores_other_kept [OF assms(4)])
  qed
  moreover have "pa_payment_id x \<in> pay_id ` set (payments d')" if "x \<in> set (remove1 a as)" for x
  proof -
    from that have "x \<in> set as" by (rule in_set_remove1D)
    with assms(1) have "pa_payment_id x \<in> pay_id ` set (payments d)" by (simp add: attempts_sound_def)
    with core_payment_ids [OF assms(2)] show ?thesis by blast
  qed
  moreover have "distinct (map pa_payment_id (remove1 a as))"
    using assms(1) by (auto simp: attempts_sound_def distinct_map inj_on_diff)
  ultimately show ?thesis by (simp add: attempts_sound_def)
qed

lemma attempts_sound_filter: "attempts_sound as d \<Longrightarrow> attempts_sound (filter keep as) d"
  by (auto simp: attempts_sound_def distinct_map inj_on_def)

lemma transaction_ok:
  assumes "transaction cfg prims secret s s'" "system_ok s"
  shows "system_ok s' \<and> core_evolves (sys_db s) (sys_db s')"
  using assms
proof (induction rule: transaction.induct)
  case (hold s now i u request)
  then show ?case using system_ok_db [OF _ create_booking_hold_safe] by simp
next
  case (list_bookings s now u query)
  then show ?case using system_ok_db [OF _ find_user_bookings_safe] by simp
next
  case (read_booking s now u j)
  then show ?case using system_ok_db [OF _ get_user_booking_safe] by simp
next
  case (begin_checkout now i usr order s attempt d')
  from begin_checkout(1) begin_payment_attempt_safe [of "sys_db s" now i usr order]
  have "safe_step (sys_db s) d'" by simp
  with begin_checkout(2) have d': "db_ok d'" "coherent d'" "core_evolves (sys_db s) d'"
    by (auto simp: system_ok_def safe_step_def)
  with begin_checkout show ?case
    by (auto simp: system_ok_def intro: attempts_sound_begin snapshot_stored_step)
next
  case (conclude_checkout attempt s creds now http)
  let ?d = "snd (conclude_order now (fst creds) attempt (order_call http creds attempt) (sys_db s))"
  from conclude_checkout have "attempt_unfinished (pa_payment_id attempt) (sys_db s)"
    by (auto simp: system_ok_def attempts_sound_def)
  from conclude_order_safe [OF this] conclude_checkout(3)
  have d': "db_ok ?d" "coherent ?d" "core_evolves (sys_db s) ?d"
    by (auto simp: system_ok_def safe_step_def)
  from attempts_sound_conclude [OF _ d'(3) conclude_checkout(1) conclude_stores] conclude_checkout(3)
  have "attempts_sound (remove1 attempt (sys_checkouts s)) ?d" by (simp add: system_ok_def)
  with d' conclude_checkout(3) show ?case
    by (auto simp: system_ok_def intro: snapshot_stored_step)
next
  case (verify_checkout s usr proof_of_payment)
  then show ?case using system_ok_db [OF _ verify_checkout_payment_safe verify_kept] by simp
next
  case (webhook s now i body sig ev seen)
  then show ?case using system_ok_db [OF _ process_razorpay_webhook_safe webhook_kept] by simp
next
  case (cancel now i u j v s outcome d')
  with prepare_cancellation_safe [of "sys_db s" now i u j v] prepare_payments [of now i u j v "sys_db s"]
  show ?case by (simp add: system_ok_db)
next
  case (begin_refund now i u j v s snapshot d')
  with prepare_cancellation_safe [of "sys_db s" now i u j v] prepare_payments [of now i u j v "sys_db s"]
  have "system_ok (s\<lparr>sys_db := d'\<rparr>)" "core_evolves (sys_db s) d'"
    by (simp_all add: system_ok_db)
  with prepared_snapshot_stored [OF begin_refund(1)] show ?case by (simp add: system_ok_def)
next
  case (conclude_refund snapshot s http now)
  then have st: "snapshot_stored snapshot (sys_db s)" by (simp add: system_ok_def)
  let ?d = "snd (conclude_cancellation cfg http now snapshot (sys_db s))"
  have "system_ok (s\<lparr>sys_db := ?d\<rparr>)" "core_evolves (sys_db s) ?d"
    using system_ok_db [OF conclude_refund(2) conclude_cancellation_safe [OF st]
        conclude_cancellation_kept [OF _ _ st]] by simp_all
  then show ?case
    by (auto simp: system_ok_def dest: in_set_remove1D)
next
  case (start_session s now i operator reading)
  then show ?case using system_ok_db [OF _ start_charging_session_safe] by simp
next
  case (complete_session s now operator i final_reading)
  then show ?case using system_ok_db [OF _ complete_charging_session_safe] by simp
next
  case (expire s now n locked)
  then show ?case using system_ok_db [OF _ expire_stale_booking_holds_safe] by simp
next
  case (reconcile s now i answer)
  then show ?case using system_ok_db [OF _ apply_reconciled_refund_safe reconciled_kept] by simp
next
  case (elsewhere d' s)
  then show ?case
    by (auto simp: system_ok_def coherent_def core_evolves_def core_refl attempts_sound_def
        attempt_unfinished_def snapshot_stored_def)
next
  case (crash s keep kept)
  then show ?case by (simp add: system_ok_def attempts_sound_filter)
qed

interpretation platform: invariant_machine "transaction cfg prims secret" system_ok
  for cfg prims secret
  by unfold_locales (simp add: transaction_ok)

lemma reachable_ok: "reachable cfg prims secret s \<Longrightarrow> system_ok s"
  unfolding reachable_def by (blast intro: platform.run_preserves initial_ok)

subsection \<open>The lifecycle ledger that the platform refines\<close>

text \<open>
  The abstract platform knows the status of every booking, payment, refund and session, and
  which bookings have a captured payment. Each row is created in its first status and moves
  along its graph, and a booking is confirmed or used only while it is paid for.
\<close>

record ledger =
  lg_booking :: "uuid \<Rightarrow> BookingStatus option"
  lg_payment :: "uuid \<Rightarrow> PaymentStatus option"
  lg_refund :: "uuid \<Rightarrow> RefundStatus option"
  lg_session :: "uuid \<Rightarrow> ChargingSessionStatus option"
  lg_captured :: "uuid \<Rightarrow> bool"

fun session_edge :: "ChargingSessionStatus \<Rightarrow> ChargingSessionStatus \<Rightarrow> bool" where
  "session_edge CS_ACTIVE t = (t = CS_COMPLETED)"
| "session_edge _ t = False"

definition status_step :: "('s \<Rightarrow> 's \<Rightarrow> bool) \<Rightarrow> 's \<Rightarrow> (uuid \<Rightarrow> 's option) \<Rightarrow> (uuid \<Rightarrow> 's option) \<Rightarrow> bool" where
  "status_step edge first m m' \<longleftrightarrow>
     (\<forall>k. case m k of None \<Rightarrow> m' k \<in> {None, Some first}
           | Some s \<Rightarrow> (\<exists>t. m' k = Some t \<and> (t = s \<or> edge s t)))"

definition ledger_step :: "ledger \<Rightarrow> ledger \<Rightarrow> bool" where
  "ledger_step l l' \<longleftrightarrow> status_step booking_edge HELD (lg_booking l) (lg_booking l')
     \<and> status_step payment_edge INITIATED (lg_payment l) (lg_payment l')
     \<and> status_step refund_edge REQUESTED (lg_refund l) (lg_refund l')
     \<and> status_step session_edge CS_ACTIVE (lg_session l) (lg_session l')
     \<and> (\<forall>k s. lg_booking l' k = Some s \<longrightarrow> paid_status s \<longrightarrow> lg_captured l' k)"

definition empty_ledger :: ledger where
  "empty_ledger = \<lparr>lg_booking = Map.empty, lg_payment = Map.empty, lg_refund = Map.empty,
     lg_session = Map.empty, lg_captured = (\<lambda>_. False)\<rparr>"

definition statuses :: "('r \<Rightarrow> uuid) \<Rightarrow> ('r \<Rightarrow> 's) \<Rightarrow> 'r list \<Rightarrow> uuid \<Rightarrow> 's option" where
  "statuses key status rows k = map_option status (row_by key rows k)"

definition ledger_of :: "database \<Rightarrow> ledger" where
  "ledger_of d = \<lparr>lg_booking = statuses bk_id bk_status (bookings d),
     lg_payment = statuses pay_id pay_status (payments d),
     lg_refund = statuses rf_id rf_status (refunds d),
     lg_session = statuses cs_id cs_status (charging_sessions d),
     lg_captured = (\<lambda>k. list_ex (\<lambda>p. pay_booking_id p = k \<and> pay_status p = CAPTURED) (payments d))\<rparr>"

context row_lifecycle
begin

lemma evolves_new_row:
  "table_evolves move fresh xs ys \<Longrightarrow> row_by key xs k = None \<Longrightarrow> row_by key ys k = Some r \<Longrightarrow> fresh r"
proof (induction xs arbitrary: ys)
  case Nil
  then show ?case by (auto simp: list_all_iff dest: row_by_Some)
next
  case (Cons x xs)
  from Cons.prems(1) obtain y zs where ys: "ys = y # zs" "move x y" "table_evolves move fresh xs zs"
    by (auto simp: table_evolves_Cons)
  from ys(2) have "key y = key x" by (rule move_key)
  with Cons.IH [OF ys(3)] Cons.prems(2,3) ys(1) show ?case
    by (auto simp: row_by_def select_scalar_def split: if_splits)
qed

lemma evolves_statuses:
  assumes ev: "table_evolves move fresh xs ys"
    and edge: "\<And>r r'. move r r' \<Longrightarrow> status r' = status r \<or> edge (status r) (status r')"
    and new: "\<And>r. fresh r \<Longrightarrow> status r = first"
  shows "\<forall>k. case map_option status (row_by key xs k) of
      None \<Rightarrow> map_option status (row_by key ys k) \<in> {None, Some first}
    | Some s \<Rightarrow> (\<exists>t. map_option status (row_by key ys k) = Some t \<and> (t = s \<or> edge s t))"
proof
  fix k
  show "case map_option status (row_by key xs k) of
      None \<Rightarrow> map_option status (row_by key ys k) \<in> {None, Some first}
    | Some s \<Rightarrow> (\<exists>t. map_option status (row_by key ys k) = Some t \<and> (t = s \<or> edge s t))"
  proof (cases "row_by key xs k")
    case None
    then show ?thesis
      using evolves_new_row [OF ev None] new by (cases "row_by key ys k") auto
  next
    case (Some r)
    with evolves_row_by [OF ev Some] edge show ?thesis by fastforce
  qed
qed

end

lemma ledger_simulates:
  assumes "core_evolves d d'" "coherent d'"
  shows "ledger_step (ledger_of d) (ledger_of d')"
proof -
  note ev = assms(1) [unfolded core_evolves_def]
  have "\<forall>k s. lg_booking (ledger_of d') k = Some s \<longrightarrow> paid_status s \<longrightarrow> lg_captured (ledger_of d') k"
    using assms(2)
    by (auto simp: ledger_of_def statuses_def coherent_def booking_paid_def list_ex_iff
        dest!: row_by_Some)
  moreover have "status_step booking_edge HELD (lg_booking (ledger_of d)) (lg_booking (ledger_of d'))"
    unfolding status_step_def ledger_of_def ledger.select_convs statuses_def
    by (rule booking_life.evolves_statuses) (use ev in \<open>auto dest: booking_move_edge simp: new_booking_def\<close>)
  moreover have "status_step payment_edge INITIATED (lg_payment (ledger_of d)) (lg_payment (ledger_of d'))"
    unfolding status_step_def ledger_of_def ledger.select_convs statuses_def
    by (rule payment_life.evolves_statuses) (use ev in \<open>auto simp: payment_move_def new_payment_def\<close>)
  moreover have "status_step refund_edge REQUESTED (lg_refund (ledger_of d)) (lg_refund (ledger_of d'))"
    unfolding status_step_def ledger_of_def ledger.select_convs statuses_def
    by (rule refund_life.evolves_statuses) (use ev in \<open>auto simp: refund_move_def new_refund_def\<close>)
  moreover have "status_step session_edge CS_ACTIVE (lg_session (ledger_of d)) (lg_session (ledger_of d'))"
    unfolding status_step_def ledger_of_def ledger.select_convs statuses_def
    by (rule session_life.evolves_statuses) (use ev in \<open>auto simp: session_move_def new_session_def\<close>)
  ultimately show ?thesis by (simp add: ledger_step_def)
qed

interpretation refined: refining_machine "transaction cfg prims secret" system_ok
    "\<lambda>s. ledger_of (sys_db s)" ledger_step
  for cfg prims secret
proof unfold_locales
  fix s s' assume "transaction cfg prims secret s s'" "system_ok s"
  from transaction_ok [OF this] show "ledger_step (ledger_of (sys_db s)) (ledger_of (sys_db s'))"
    by (intro ledger_simulates) (auto simp: system_ok_def)
qed

end
