(* ===== verification/SampleRun.thy ===== *)
theory SampleRun
  imports System
begin

text \<open>
  A concrete run of the platform from an empty database, evaluated step by step: it shows
  that the states the platform properties speak about are reached, and it ends in a state
  in which one booking has two captured payments.
\<close>

subsection \<open>A run that captures two payments\<close>

text \<open>
  A driver holds a slot and opens a checkout; its payment fails, the driver opens a second
  checkout, and then the provider captures both orders: the late capture of the failed
  payment is accepted, because a failed payment may still be captured.
\<close>

definition sample_attempt :: "uuid \<Rightarrow> PaymentAttemptSnapshot" where
  "sample_attempt i = \<lparr>pa_payment_id = i, pa_booking_id = 100, pa_amount_subunits = 5000,
     pa_currency = ''INR''\<rparr>"

definition ordering_provider :: "string \<Rightarrow> provider" where
  "ordering_provider order rq = Some (JObj [(''id'', JStr order), (''amount'', JInt 5000),
     (''currency'', JStr ''INR''), (''status'', JStr ''created'')])"

definition sample_events :: primitives where
  "sample_events = sample_primitives
     [(''f1'', event_body ''payment.failed'' ''order_1'' ''pay_1'' 5000),
      (''c1'', event_body ''payment.captured'' ''order_1'' ''pay_1'' 5000),
      (''c2'', event_body ''payment.captured'' ''order_2'' ''pay_2'' 5000)]"

definition sample_hold :: "uuid \<Rightarrow> int \<Rightarrow> int \<Rightarrow> database \<Rightarrow> booking outcome" where
  "sample_hold i m n = create_booking_hold sample_config 0 i sample_driver
     \<lparr>hr_charge_point_id = 20, hr_starts_at = stored (minutes m), hr_ends_at = stored (minutes n)\<rparr>"

definition sample_begin :: "uuid \<Rightarrow> int \<Rightarrow> uuid \<Rightarrow> database \<Rightarrow> PaymentAttemptSnapshot outcome" where
  "sample_begin i v k = begin_payment_attempt 1 i sample_driver
     \<lparr>cr_booking_id = 100, cr_booking_version = v, cr_idempotency_key = k\<rparr>"

definition sample_conclude :: "uuid \<Rightarrow> string \<Rightarrow> database \<Rightarrow> CheckoutOrder outcome" where
  "sample_conclude i order = conclude_order 1 ''rzp_test_key'' (sample_attempt i)
     (order_call (ordering_provider order) (''rzp_test_key'', ''rzp_secret'') (sample_attempt i))"

definition sample_deliver :: "uuid \<Rightarrow> string \<Rightarrow> database \<Rightarrow> string outcome" where
  "sample_deliver i body d = process_razorpay_webhook sample_events 2 i body
     (Some (''whsec/'' @ body)) (Some body) ''whsec'' d d"

text \<open>The states the run passes through.\<close>

definition order_payment :: "uuid \<Rightarrow> uuid \<Rightarrow> PaymentStatus \<Rightarrow> string option \<Rightarrow> string option \<Rightarrow> payment" where
  "order_payment i k st order pid = (sample_payment st)\<lparr>pay_id := i, pay_idempotency_key := k,
     pay_provider_order_id := order, pay_provider_payment_id := pid, pay_created_at := 1\<rparr>"

definition run_event :: "uuid \<Rightarrow> string \<Rightarrow> string \<Rightarrow> webhook_event" where
  "run_event i body t = (received_event i body t (''h'' @ body))
     \<lparr>ev_status := PROCESSED, ev_processed_at := Some 2\<rparr>"

definition run_db :: "BookingStatus \<Rightarrow> int \<Rightarrow> payment list \<Rightarrow> webhook_event list \<Rightarrow> database" where
  "run_db st v ps es = sample_db\<lparr>bookings := [(sample_booking st)\<lparr>bk_version := v\<rparr>],
     payments := ps, payment_webhook_events := es\<rparr>"

abbreviation (input) "first_payment \<equiv> order_payment 200 300"
abbreviation (input) "second_payment \<equiv> order_payment 201 301"
abbreviation (input) "failed_event \<equiv> run_event 900 ''f1'' ''payment.failed''"
abbreviation (input) "second_event \<equiv> run_event 901 ''c2'' ''payment.captured''"
abbreviation (input) "late_event \<equiv> run_event 902 ''c1'' ''payment.captured''"
abbreviation (input) "failed_payment \<equiv> first_payment FAILED (Some ''order_1'') (Some ''pay_1'')"

definition double_captured :: database where
  "double_captured = run_db CONFIRMED 5
     [first_payment CAPTURED (Some ''order_1'') (Some ''pay_1''),
      second_payment CAPTURED (Some ''order_2'') (Some ''pay_2'')]
     [failed_event, second_event, late_event]"

lemma run_hold: "snd (sample_hold 100 60 120 sample_db) = run_db HELD 1 [] []"
  by code_simp

definition two_holds :: database where
  "two_holds = sample_db\<lparr>bookings := [sample_booking HELD, (sample_booking HELD)
     \<lparr>bk_id := 101, bk_starts_at := minutes 120, bk_ends_at := minutes 180\<rparr>]\<rparr>"

lemma run_hold_next: "snd (sample_hold 101 120 180 (run_db HELD 1 [] [])) = two_holds"
  by code_simp

lemma run_begin_first:
  "sample_begin 200 1 300 (run_db HELD 1 [] []) = (Inr (sample_attempt 200),
     run_db PAYMENT_PENDING 2 [first_payment INITIATED None None] [])"
  by code_simp

lemma run_conclude_first:
  "snd (sample_conclude 200 ''order_1'' (run_db PAYMENT_PENDING 2 [first_payment INITIATED None None] []))
     = run_db PAYMENT_PENDING 2 [first_payment ORDER_CREATED (Some ''order_1'') None] []"
  by code_simp

lemma run_failed:
  "snd (sample_deliver 900 ''f1''
     (run_db PAYMENT_PENDING 2 [first_payment ORDER_CREATED (Some ''order_1'') None] []))
     = run_db HELD 3 [failed_payment] [failed_event]"
  by code_simp

lemma run_begin_second:
  "sample_begin 201 3 301 (run_db HELD 3 [failed_payment] [failed_event]) = (Inr (sample_attempt 201),
     run_db PAYMENT_PENDING 4 [failed_payment, second_payment INITIATED None None] [failed_event])"
  by code_simp

lemma run_conclude_second:
  "snd (sample_conclude 201 ''order_2''
     (run_db PAYMENT_PENDING 4 [failed_payment, second_payment INITIATED None None] [failed_event]))
     = run_db PAYMENT_PENDING 4 [failed_payment, second_payment ORDER_CREATED (Some ''order_2'') None]
         [failed_event]"
  by code_simp

lemma run_captured:
  "snd (sample_deliver 901 ''c2'' (run_db PAYMENT_PENDING 4
      [failed_payment, second_payment ORDER_CREATED (Some ''order_2'') None] [failed_event]))
     = run_db CONFIRMED 5 [failed_payment, second_payment CAPTURED (Some ''order_2'') (Some ''pay_2'')]
         [failed_event, second_event]"
  by code_simp

lemma run_captured_late:
  "snd (sample_deliver 902 ''c1'' (run_db CONFIRMED 5
      [failed_payment, second_payment CAPTURED (Some ''order_2'') (Some ''pay_2'')]
      [failed_event, second_event])) = double_captured"
  by code_simp

definition running :: "database \<Rightarrow> PaymentAttemptSnapshot list \<Rightarrow> system" where
  "running d as = \<lparr>sys_db = d, sys_checkouts = as, sys_cancellations = []\<rparr>"

abbreviation sample_reachable :: "database \<Rightarrow> PaymentAttemptSnapshot list \<Rightarrow> bool" where
  "sample_reachable d as \<equiv> reachable sample_config sample_events ''whsec'' (running d as)"

lemma reachable_step: "reachable cfg prims secret s \<Longrightarrow> transaction cfg prims secret s s' \<Longrightarrow>
    reachable cfg prims secret s'"
  unfolding reachable_def by (meson rtranclp.rtrancl_into_rtrancl)

lemma running_update:
  "running d as\<lparr>sys_db := d'\<rparr> = running d' as" "sys_db (running d as) = d"
  "running d as\<lparr>sys_db := d', sys_checkouts := as'\<rparr> = running d' as'"
  "sys_checkouts (running d as) = as"
  by (simp_all add: running_def)

lemma sample_reach_hold: "sample_reachable d as \<Longrightarrow> sample_reachable (snd (sample_hold i m n d)) as"
  unfolding sample_hold_def
  by (rule reachable_step [OF _ transaction.hold [of _ _ _ "running d as", unfolded running_update]])

lemma sample_reach_begin:
  assumes "sample_reachable d as" "sample_begin i v k d = (Inr a, d')"
  shows "sample_reachable d' (a # as)"
  using transaction.begin_checkout [of _ _ _ _ "running d as", unfolded running_update,
      OF assms(2) [unfolded sample_begin_def], of sample_config sample_events "''whsec''"]
  by (intro reachable_step [OF assms(1)]) (simp add: running_def)

lemma sample_credentials: "credentials sample_config = Some (''rzp_test_key'', ''rzp_secret'')"
  by code_simp

lemma sample_reach_conclude:
  assumes "sample_reachable d [sample_attempt i]"
  shows "sample_reachable (snd (sample_conclude i order d)) []"
  using transaction.conclude_checkout [of "sample_attempt i" "running d [sample_attempt i]",
      OF _ sample_credentials, unfolded running_update, where now = 1 and http = "ordering_provider order"
        and prims = sample_events and secret = "''whsec''"]
  unfolding sample_conclude_def
  by (intro reachable_step [OF assms]) (simp add: running_def)

lemma sample_reach_deliver: "sample_reachable d as \<Longrightarrow> sample_reachable (snd (sample_deliver i body d)) as"
  unfolding sample_deliver_def
  by (rule reachable_step [OF _ transaction.webhook [of _ _ _ "running d as", unfolded running_update]])

lemma sample_reach_start: "sample_reachable sample_db []"
proof -
  have "initial_system (running sample_db [])"
    using sample_db_ok by (simp add: initial_system_def running_def sample_db_def empty_database_def)
  then show ?thesis unfolding reachable_def by blast
qed

lemma two_holds_reachable: "sample_reachable two_holds []"
  using sample_reach_hold [OF sample_reach_hold [OF sample_reach_start, of 100 60 120, unfolded run_hold],
      of 101 120 180, unfolded run_hold_next] .

lemma sample_reach_first:
  "sample_reachable (run_db PAYMENT_PENDING 2 [first_payment INITIATED None None] []) [sample_attempt 200]"
  using sample_reach_begin [OF sample_reach_hold [OF sample_reach_start, of 100 60 120, unfolded run_hold]
      run_begin_first] .

lemma sample_reach_second:
  "sample_reachable (run_db PAYMENT_PENDING 4 [failed_payment, second_payment INITIATED None None]
     [failed_event]) [sample_attempt 201]"
  using sample_reach_begin [OF sample_reach_deliver [OF
      sample_reach_conclude [OF sample_reach_first, of "''order_1''", unfolded run_conclude_first],
      of 900 "''f1''", unfolded run_failed] run_begin_second] .

lemma double_captured_reachable: "sample_reachable double_captured []"
  using sample_reach_deliver [OF sample_reach_deliver [OF
      sample_reach_conclude [OF sample_reach_second, of "''order_2''", unfolded run_conclude_second],
      of 901 "''c2''", unfolded run_captured], of 902 "''c1''", unfolded run_captured_late] .

text \<open>Cancelling the double-charged booking, or using it.\<close>

definition sample_cancel :: "database \<Rightarrow> (CancellationOutcome + RefundRequestSnapshot) outcome" where
  "sample_cancel = prepare_cancellation 3 400 1 100 5"

definition sample_request :: RefundRequestSnapshot where
  "sample_request = \<lparr>rs_refund_id = 400, rs_booking_id = 100, rs_payment_id = 200,
     rs_provider_payment_id = ''pay_1'', rs_amount_subunits = 5000, rs_currency = ''INR'',
     rs_receipt = ''cmr_'' @ uuid_hex 400\<rparr>"

definition refund_requested :: database where
  "refund_requested = double_captured
     \<lparr>bookings := [(sample_booking CANCELLED)\<lparr>bk_version := 6, bk_cancelled_at := Some 3\<rparr>],
      refunds := [requested_refund 3 400 (first_payment CAPTURED (Some ''order_1'') (Some ''pay_1''))]\<rparr>"

definition sample_session :: charging_session where
  "sample_session = started_session (minutes 70) 500 (sample_booking CONFIRMED)
     \<lparr>sr_booking_id = 100, sr_booking_version = 5, sr_meter_start_kwh = 10\<rparr>"

definition in_use :: database where
  "in_use = double_captured\<lparr>bookings := [(sample_booking ACTIVE)\<lparr>bk_version := 6\<rparr>],
     charging_sessions := [sample_session]\<rparr>"

lemma run_cancel: "sample_cancel double_captured = (Inr (Inr sample_request), refund_requested)"
  by code_simp

lemma run_start: "snd (start_charging_session (minutes 70) 500 sample_admin
    \<lparr>sr_booking_id = 100, sr_booking_version = 5, sr_meter_start_kwh = 10\<rparr> double_captured) = in_use"
  by code_simp

lemma run_cancel_transaction:
  "transaction cfg prims secret (running double_captured [])
     ((running refund_requested [])\<lparr>sys_cancellations := [sample_request]\<rparr>)"
  using transaction.begin_refund [of _ _ _ _ _ "running double_captured []", unfolded running_update,
      OF run_cancel [unfolded sample_cancel_def], of cfg prims secret]
  by (simp add: running_def)

lemma refund_requested_reachable:
  "reachable sample_config sample_events ''whsec''
     ((running refund_requested [])\<lparr>sys_cancellations := [sample_request]\<rparr>)"
  by (rule reachable_step [OF double_captured_reachable run_cancel_transaction])

lemma in_use_reachable: "sample_reachable in_use []"
  using reachable_step [OF double_captured_reachable transaction.start_session
      [of _ _ _ "running double_captured []", unfolded running_update]]
  unfolding run_start [symmetric] .

end
