(* ===== verification/Platform.thy ===== *)
theory Platform
  imports SampleRun
begin

text \<open>
  The properties of the running platform: what holds in every state that any interleaving of
  the services' transactions reaches, how the platform refines its lifecycle ledger, and a
  reachable state in which one booking was charged twice.
\<close>

subsection \<open>Properties of every reachable state\<close>

lemma reachable_db:
  assumes "reachable cfg prims secret s"
  shows "db_ok (sys_db s)" "coherent (sys_db s)" "keys_ok (sys_db s)"
  using reachable_ok [OF assms] by (simp_all add: system_ok_def db_ok_keys)

text \<open>
  C1. No interleaving of requests, deliveries, jobs and crashes double-books a charge point:
  in every reachable state, two bookings of one charge point that both block it lie apart.
\<close>

theorem no_double_booking:
  assumes "reachable cfg prims secret s" "a \<in> set (bookings (sys_db s))" "b \<in> set (bookings (sys_db s))"
    and "bk_id a \<noteq> bk_id b" "bk_charge_point_id a = bk_charge_point_id b"
    and "bk_status a \<in> {HELD, PAYMENT_PENDING, CONFIRMED, ACTIVE}"
    and "bk_status b \<in> {HELD, PAYMENT_PENDING, CONFIRMED, ACTIVE}"
  shows "bk_ends_at a \<le> bk_starts_at b \<or> bk_ends_at b \<le> bk_starts_at a"
proof -
  from reachable_db(1) [OF assms(1)] have "prevent_overlapping_bookings (bookings (sys_db s))"
    by (simp add: db_ok_parts bookings_constraints_def)
  moreover from assms(4) have "a \<noteq> b" by auto
  ultimately have "\<not> overlapping a b" using prevent_overlapping_pair assms(2,3) by blast
  moreover from assms(6,7) have "blocking_status (bk_status a)" "blocking_status (bk_status b)" by auto
  ultimately show ?thesis using assms(5) by (auto simp: overlapping_def)
qed

text \<open>
  C2. Nobody charges for free, whatever the order of events: in every reachable state a
  booking that is confirmed, in use or completed has a captured payment by the same user, of
  exactly the booking's fee and of that fee in hundredths at the provider.
\<close>

theorem used_booking_is_paid:
  assumes "reachable cfg prims secret s" "b \<in> set (bookings (sys_db s))"
    and "bk_status b \<in> {CONFIRMED, ACTIVE, COMPLETED}"
  shows "\<exists>p \<in> set (payments (sys_db s)). pay_booking_id p = bk_id b \<and> pay_status p = CAPTURED
    \<and> pay_user_id p = bk_user_id b \<and> bk_total_amount b = Some (pay_amount p)
    \<and> of_int (pay_amount_subunits p) = pay_amount p * 100 \<and> pay_currency p = bk_currency b
    \<and> pay_provider_order_id p \<noteq> None \<and> pay_provider_payment_id p \<noteq> None"
proof -
  note ok = reachable_db [OF assms(1)]
  from ok(2) assms(2,3) obtain p where p: "p \<in> set (payments (sys_db s))"
    "pay_booking_id p = bk_id b" "pay_status p = CAPTURED"
    by (auto simp: coherent_def booking_paid_def paid_status_def)
  from ok(2) p(1) have co: "payment_coherent (set (bookings (sys_db s))) p" by (simp add: coherent_def)
  then obtain b0 where b0: "b0 \<in> set (bookings (sys_db s))" "bk_id b0 = pay_booking_id p"
    "bk_user_id b0 = pay_user_id p" "bk_total_amount b0 = Some (pay_amount p)"
    "bk_currency b0 = pay_currency p" by (auto simp: payment_coherent_def)
  from ok(3) have "distinct (map bk_id (bookings (sys_db s)))" by (simp add: keys_ok_def)
  from distinct_map_unique [OF this b0(1) assms(2)] b0(2) p(2) have "b0 = b" by simp
  with b0 p co show ?thesis
    by (intro bexI [of _ p]) (auto simp: payment_coherent_def payment_ids_ok_def)
qed

lemma distinct_map_filter_single:
  "distinct (map f xs) \<Longrightarrow> x \<in> set xs \<Longrightarrow> filter (\<lambda>y. f y = f x) xs = [x]"
proof (induction xs)
  case (Cons a xs)
  show ?case
  proof (cases "a = x")
    case True
    with Cons.prems(1) have "filter (\<lambda>y. f y = f x) xs = []"
      by (auto simp: filter_empty_conv dest: rev_image_eqI [of _ _ "f x" f])
    with True show ?thesis by simp
  next
    case False
    with Cons show ?thesis by auto
  qed
qed simp

text \<open>
  C3. A refund never returns more than was captured and never while the slot is still the
  driver's: in every reachable state each refund is for the whole of one payment of a
  cancelled booking, no other refund is for that payment, and the payment is marked
  refunded exactly when the provider processed the refund.
\<close>

theorem refund_backed:
  assumes "reachable cfg prims secret s" "r \<in> set (refunds (sys_db s))"
  shows "\<exists>p \<in> set (payments (sys_db s)). \<exists>b \<in> set (bookings (sys_db s)).
     pay_id p = rf_payment_id r \<and> rf_amount r = pay_amount p
     \<and> rf_amount_subunits r = pay_amount_subunits p \<and> rf_currency r = pay_currency p
     \<and> pay_status p = (if rf_status r = R_PROCESSED then REFUNDED else CAPTURED)
     \<and> bk_id b = pay_booking_id p \<and> bk_status b = CANCELLED
     \<and> filter (\<lambda>r'. rf_payment_id r' = pay_id p) (refunds (sys_db s)) = [r]"
proof -
  note ok = reachable_db [OF assms(1)]
  from ok(2) assms(2) have "refund_coherent (set (bookings (sys_db s))) (set (payments (sys_db s))) r"
    by (simp add: coherent_def)
  then obtain p b where p: "p \<in> set (payments (sys_db s))" "pay_id p = rf_payment_id r"
    "pay_amount p = rf_amount r" "pay_amount_subunits p = rf_amount_subunits r"
    "pay_currency p = rf_currency r"
    "pay_status p = (if rf_status r = R_PROCESSED then REFUNDED else CAPTURED)"
    and b: "b \<in> set (bookings (sys_db s))" "bk_id b = pay_booking_id p" "bk_status b = CANCELLED"
    unfolding refund_coherent_def by blast
  from ok(3) have "distinct (map rf_payment_id (refunds (sys_db s)))" by (simp add: keys_ok_def)
  from distinct_map_filter_single [OF this assms(2)] p(2)
  have "filter (\<lambda>r'. rf_payment_id r' = pay_id p) (refunds (sys_db s)) = [r]" by simp
  with p b show ?thesis by (intro bexI [of _ p] bexI [of _ b]) simp_all
qed

text \<open>
  C4. A charge point serves one vehicle at a time: in every reachable state no two charging
  sessions are active on one charge point, and an active session belongs to the driver of an
  active, paid booking of that very charge point.
\<close>

theorem one_vehicle_per_charge_point:
  assumes "reachable cfg prims secret s" "c \<in> set (charging_sessions (sys_db s))"
    and "cs_status c = CS_ACTIVE"
  shows "filter (\<lambda>c'. cs_status c' = CS_ACTIVE \<and> cs_charge_point_id c' = cs_charge_point_id c)
      (charging_sessions (sys_db s)) = [c]
    \<and> (\<exists>b \<in> set (bookings (sys_db s)). bk_id b = cs_booking_id c \<and> bk_status b = ACTIVE
         \<and> bk_user_id b = cs_user_id c \<and> bk_charge_point_id b = cs_charge_point_id c
         \<and> (\<exists>p \<in> set (payments (sys_db s)). pay_booking_id p = bk_id b \<and> pay_status p = CAPTURED))"
proof
  note ok = reachable_db [OF assms(1)]
  from ok(2) have "distinct (map cs_charge_point_id
      (filter (\<lambda>c. cs_status c = CS_ACTIVE) (charging_sessions (sys_db s))))"
    by (simp add: coherent_def active_points_def)
  from distinct_map_filter_single [OF this, of c] assms(2,3)
  show "filter (\<lambda>c'. cs_status c' = CS_ACTIVE \<and> cs_charge_point_id c' = cs_charge_point_id c)
      (charging_sessions (sys_db s)) = [c]"
    by (simp add: conj_commute)
  from ok(2) assms(2) have "session_coherent (set (bookings (sys_db s))) c" by (simp add: coherent_def)
  with assms(3) obtain b where b: "b \<in> set (bookings (sys_db s))" "bk_id b = cs_booking_id c"
    "bk_status b = ACTIVE" "bk_user_id b = cs_user_id c" "bk_charge_point_id b = cs_charge_point_id c"
    by (auto simp: session_coherent_def)
  moreover from ok(2) b(1) have "booking_paid (set (payments (sys_db s))) b" by (simp add: coherent_def)
  ultimately show "\<exists>b \<in> set (bookings (sys_db s)). bk_id b = cs_booking_id c \<and> bk_status b = ACTIVE
         \<and> bk_user_id b = cs_user_id c \<and> bk_charge_point_id b = cs_charge_point_id c
         \<and> (\<exists>p \<in> set (payments (sys_db s)). pay_booking_id p = bk_id b \<and> pay_status p = CAPTURED)"
    by (intro bexI [of _ b]) (auto simp: booking_paid_def paid_status_def)
qed

text \<open>
  C5. The platform refines the lifecycle ledger: read through \<open>ledger_of\<close>, every run from a
  reachable state is a run of the abstract machine, in which each booking, payment, refund
  and charging session is created in its first status, moves only along the edges of its
  graph, and no booking is confirmed or used without a captured payment.
\<close>

theorem platform_refines_ledger:
  assumes "reachable cfg prims secret s" "(transaction cfg prims secret)\<^sup>*\<^sup>* s s'"
  shows "ledger_step\<^sup>*\<^sup>* empty_ledger (ledger_of (sys_db s))
    \<and> ledger_step\<^sup>*\<^sup>* (ledger_of (sys_db s)) (ledger_of (sys_db s'))"
proof
  from assms(1) obtain s0 where s0: "initial_system s0" "(transaction cfg prims secret)\<^sup>*\<^sup>* s0 s"
    by (auto simp: reachable_def)
  from s0(1) have "ledger_of (sys_db s0) = empty_ledger"
    by (auto simp: initial_system_def ledger_of_def empty_ledger_def statuses_def row_by_def
        select_scalar_def)
  with refined.run_simulates [OF s0(2) initial_ok [OF s0(1)]]
  show "ledger_step\<^sup>*\<^sup>* empty_ledger (ledger_of (sys_db s))" by simp
  show "ledger_step\<^sup>*\<^sup>* (ledger_of (sys_db s)) (ledger_of (sys_db s'))"
    using refined.run_simulates [OF assms(2) reachable_ok [OF assms(1)]] .
qed

lemma run_core_evolves:
  "(transaction cfg prims secret)\<^sup>*\<^sup>* s s' \<Longrightarrow> system_ok s \<Longrightarrow> core_evolves\<^sup>*\<^sup>* (sys_db s) (sys_db s')"
proof (induction rule: rtranclp_induct)
  case (step y z)
  from platform.run_preserves [OF step(1,4)] transaction_ok [OF step(2)] step(3,4) show ?case
    by (meson rtranclp.rtrancl_into_rtrancl)
qed simp

text \<open>
  C6. A finished booking is final: once a booking of a reachable state is completed,
  cancelled or expired, no later transaction of any service changes a field of it.
\<close>

theorem finished_booking_final:
  assumes "reachable cfg prims secret s" "(transaction cfg prims secret)\<^sup>*\<^sup>* s s'"
    and "b \<in> set (bookings (sys_db s))" "bk_status b \<in> {COMPLETED, CANCELLED, EXPIRED}"
  shows "filter (\<lambda>b'. bk_id b' = bk_id b) (bookings (sys_db s')) = [b]"
proof -
  note ok = reachable_db [OF assms(1)]
  from run_core_evolves [OF assms(2) reachable_ok [OF assms(1)]]
  have "row_by bk_id (bookings (sys_db s')) (bk_id b) = Some b"
  proof (induction rule: rtranclp_induct)
    case base
    from ok(3) have "distinct (map bk_id (bookings (sys_db s)))" by (simp add: keys_ok_def)
    from row_by_in [OF this assms(3)] show ?case .
  next
    case (step y z)
    from step.hyps(2) have "table_evolves booking_move new_booking (bookings y) (bookings z)"
      by (simp add: core_evolves_def)
    from booking_life.evolves_terminal [OF this step.IH assms(4)] show ?case .
  qed
  then have b: "b \<in> set (bookings (sys_db s'))" by (auto dest: row_by_Some)
  have "system_ok s'" by (rule platform.run_preserves [OF assms(2) reachable_ok [OF assms(1)]])
  then have "distinct (map bk_id (bookings (sys_db s')))"
    by (auto simp: system_ok_def keys_ok_def dest!: db_ok_keys)
  from distinct_map_filter_single [OF this b] show ?thesis .
qed

text \<open>
  One booking can be charged twice: the state in which a confirmed booking has two
  captured payments is reachable (a checkout fails, a second one is paid, and the provider
  then captures the first order after all). Neither payment carries the error code that
  marks a capture for an operator to look at, and when the driver cancels, only one of the
  two is refunded: the other stays captured with no refund, for a booking that is final.
\<close>

theorem double_capture_reachable:
  "\<exists>s s' b p q. reachable sample_config sample_events ''whsec'' s
    \<and> bookings (sys_db s) = [b] \<and> payments (sys_db s) = [p, q] \<and> pay_id p \<noteq> pay_id q
    \<and> bk_status b = CONFIRMED \<and> pay_booking_id p = bk_id b \<and> pay_booking_id q = bk_id b
    \<and> pay_status p = CAPTURED \<and> pay_status q = CAPTURED
    \<and> pay_last_error_code p = None \<and> pay_last_error_code q = None
    \<and> transaction sample_config sample_events ''whsec'' s s'
    \<and> map bk_status (bookings (sys_db s')) = [CANCELLED]
    \<and> payments (sys_db s') = [p, q] \<and> map rf_payment_id (refunds (sys_db s')) = [pay_id p]"
proof (intro exI conjI)
  show "reachable sample_config sample_events ''whsec'' (running double_captured [])"
    by (rule double_captured_reachable)
  show "transaction sample_config sample_events ''whsec'' (running double_captured [])
     ((running refund_requested [])\<lparr>sys_cancellations := [sample_request]\<rparr>)"
    by (rule run_cancel_transaction)
  show "bookings (sys_db (running double_captured [])) = [(sample_booking CONFIRMED)\<lparr>bk_version := 5\<rparr>]"
    "payments (sys_db (running double_captured [])) =
      [order_payment 200 300 CAPTURED (Some ''order_1'') (Some ''pay_1''),
       order_payment 201 301 CAPTURED (Some ''order_2'') (Some ''pay_2'')]"
    by (simp_all add: running_def double_captured_def run_db_def)
qed (simp_all add: order_payment_def sample_booking_def sample_payment_def running_def
    refund_requested_def double_captured_def run_db_def requested_refund_def)

subsection \<open>Witnesses\<close>

lemma double_captured_row:
  "(sample_booking CONFIRMED)\<lparr>bk_version := 5\<rparr> \<in> set (bookings double_captured)"
  by (simp add: double_captured_def run_db_def)

theorem no_double_booking_witness:
  "\<exists>a b. set (bookings two_holds) = {a, b} \<and> bk_id a \<noteq> bk_id b \<and> bk_ends_at a \<le> bk_starts_at b"
proof -
  obtain a b where rows: "bookings two_holds = [a, b]" and ab: "bk_id a = 100" "bk_id b = 101"
    "bk_charge_point_id a = 20" "bk_charge_point_id b = 20" "bk_status a = HELD" "bk_status b = HELD"
    "bk_starts_at a = minutes 60" "bk_ends_at b = minutes 180"
    by (simp add: two_holds_def sample_booking_def)
  from no_double_booking [OF two_holds_reachable, unfolded running_update, of a b] rows ab
  have "bk_ends_at a \<le> bk_starts_at b" by (simp add: minutes_def)
  with rows ab show ?thesis by (intro exI [of _ a] exI [of _ b]) simp
qed

theorem used_booking_is_paid_witness:
  "\<exists>p \<in> set (payments double_captured). pay_booking_id p = 100 \<and> pay_status p = CAPTURED"
  using used_booking_is_paid [OF double_captured_reachable, unfolded running_update,
      OF double_captured_row] by (auto simp: sample_booking_def)

theorem refund_backed_witness:
  "\<exists>p \<in> set (payments refund_requested). pay_id p = 200 \<and> pay_status p = CAPTURED
     \<and> length (refunds refund_requested) = 1"
  using refund_backed [OF refund_requested_reachable, unfolded running_def system.simps,
      of "hd (refunds refund_requested)"]
  by (auto simp: refund_requested_def requested_refund_def order_payment_def)

theorem one_vehicle_per_charge_point_witness:
  "\<exists>b \<in> set (bookings in_use). bk_id b = 100 \<and> bk_status b = ACTIVE \<and> bk_user_id b = 1"
  using one_vehicle_per_charge_point [OF in_use_reachable, unfolded running_update, of sample_session]
  by (auto simp: in_use_def sample_session_def started_session_def sample_booking_def)

theorem platform_refines_ledger_witness:
  "ledger_step\<^sup>*\<^sup>* empty_ledger (ledger_of double_captured)
   \<and> ledger_step\<^sup>*\<^sup>* (ledger_of double_captured) (ledger_of refund_requested)"
  using platform_refines_ledger [OF double_captured_reachable r_into_rtranclp [of "transaction sample_config sample_events ''whsec''", OF run_cancel_transaction]]
  by (simp add: running_def)

theorem finished_booking_final_witness:
  "filter (\<lambda>b. bk_id b = 100) (bookings refund_requested)
     = [(sample_booking CANCELLED)\<lparr>bk_version := 6, bk_cancelled_at := Some 3\<rparr>]"
  using finished_booking_final [OF refund_requested_reachable rtranclp.rtrancl_refl,
      of "(sample_booking CANCELLED)\<lparr>bk_version := 6, bk_cancelled_at := Some 3\<rparr>"]
  by (simp add: running_def refund_requested_def sample_booking_def)

end
