(* ===== verification/Redis.thy ===== *)
theory Redis
  imports Config
begin

text \<open>
  The Redis keyspace as the services use it: string values with an optional expiry time, and
  the commands GET, SETEX, INCR, EXPIRE and TTL as Redis documents them. A command on a
  server that cannot be reached raises \<open>RedisError\<close>; so do SETEX with a lifetime that is not
  positive and INCR on a value that is not a 64-bit decimal.
\<close>

subsection \<open>Decimal texts\<close>

definition digit :: "nat \<Rightarrow> char" where
  "digit n = char_of (48 + n)"

fun nat_str :: "nat \<Rightarrow> string" where
  "nat_str n = (if n < 10 then [digit n] else nat_str (n div 10) @ [digit (n mod 10)])"

declare nat_str.simps [simp del]

definition int_str :: "int \<Rightarrow> string" where
  "int_str n = (if n < 0 then ''-'' @ nat_str (nat (- n)) else nat_str (nat n))"

definition is_digit :: "char \<Rightarrow> bool" where
  "is_digit c \<longleftrightarrow> 48 \<le> (of_char c :: nat) \<and> (of_char c :: nat) \<le> 57"

definition nat_of_digits :: "string \<Rightarrow> nat" where
  "nat_of_digits s = foldl (\<lambda>n c. 10 * n + (of_char c - 48)) 0 s"

text \<open>Redis reads the canonical decimals only: no leading zeros, no plus sign, no blanks.\<close>

definition parse_int :: "string \<Rightarrow> int option" where
  "parse_int s =
     (let n = (if take 1 s = ''-'' then - int (nat_of_digits (drop 1 s)) else int (nat_of_digits s))
      in if int_str n = s then Some n else None)"

lemma of_char_digit: "n < 10 \<Longrightarrow> of_char (digit n) = 48 + n"
  by (simp add: digit_def)

lemma nat_of_digits_append: "nat_of_digits (s @ [c]) = 10 * nat_of_digits s + (of_char c - 48)"
  by (simp add: nat_of_digits_def)

lemma nat_of_digits_nat_str [simp]: "nat_of_digits (nat_str n) = n"
proof (induction n rule: nat_str.induct)
  case (1 n)
  show ?case
  proof (cases "n < 10")
    case True
    then show ?thesis by (subst nat_str.simps) (simp add: nat_of_digits_def of_char_digit)
  next
    case False
    with 1 show ?thesis
      by (subst nat_str.simps) (simp add: nat_of_digits_append of_char_digit)
  qed
qed

lemma nat_str_digits: "list_all is_digit (nat_str n)"
proof (induction n rule: nat_str.induct)
  case (1 n)
  have "n mod 10 < 10" by simp
  then have "is_digit (digit (n mod 10))" "n < 10 \<Longrightarrow> is_digit (digit n)"
    unfolding is_digit_def by (simp_all add: of_char_digit)
  with 1 show ?case
    by (subst nat_str.simps) simp
qed

lemma nat_str_nonempty: "nat_str n \<noteq> []"
  by (subst nat_str.simps) simp

lemma nat_str_no_sign: "take 1 (nat_str n) \<noteq> ''-''"
  using nat_str_digits [of n] by (cases "nat_str n") (auto simp: is_digit_def)

lemma parse_int_str [simp]: "parse_int (int_str n) = Some n"
  using nat_str_no_sign [of "nat n"] by (simp add: parse_int_def int_str_def)

lemma int_str_inject: "int_str m = int_str n \<longleftrightarrow> m = n"
  using parse_int_str by (metis option.inject)

subsection \<open>The keyspace\<close>

type_synonym redis = "string \<Rightarrow> (string \<times> instant option) option"

definition seconds :: "int \<Rightarrow> int" where
  "seconds n = n * 1000000"

definition live :: "instant \<Rightarrow> redis \<Rightarrow> string \<Rightarrow> (string \<times> instant option) option" where
  "live now r k = (case r k of
     Some (v, Some e) \<Rightarrow> if now < e then Some (v, Some e) else None
   | x \<Rightarrow> x)"

definition redis_get :: "bool \<Rightarrow> instant \<Rightarrow> string \<Rightarrow> redis \<Rightarrow> exn + string option" where
  "redis_get up now k r = (if up then Inr (map_option fst (live now r k)) else Inl RedisError)"

definition redis_setex ::
    "bool \<Rightarrow> instant \<Rightarrow> string \<Rightarrow> int \<Rightarrow> string \<Rightarrow> redis \<Rightarrow> (exn + unit) \<times> redis" where
  "redis_setex up now k ttl v r =
     (if up \<and> 0 < ttl then (Inr (), r(k \<mapsto> (v, Some (now + seconds ttl)))) else (Inl RedisError, r))"

definition redis_incr :: "bool \<Rightarrow> instant \<Rightarrow> string \<Rightarrow> redis \<Rightarrow> (exn + int) \<times> redis" where
  "redis_incr up now k r =
     (if \<not> up then (Inl RedisError, r)
      else case live now r k of
        None \<Rightarrow> (Inr 1, r(k \<mapsto> (int_str 1, None)))
      | Some (v, e) \<Rightarrow> (case parse_int v of
          Some n \<Rightarrow> if - (2 ^ 63) \<le> n \<and> n + 1 < 2 ^ 63
            then (Inr (n + 1), r(k \<mapsto> (int_str (n + 1), e))) else (Inl RedisError, r)
        | None \<Rightarrow> (Inl RedisError, r)))"

text \<open>EXPIRE with a lifetime that is not positive deletes the key; TTL rounds to seconds.\<close>

definition redis_expire :: "instant \<Rightarrow> string \<Rightarrow> int \<Rightarrow> redis \<Rightarrow> redis" where
  "redis_expire now k ttl r =
     (case live now r k of
        None \<Rightarrow> r
      | Some (v, _) \<Rightarrow> if ttl \<le> 0 then r(k := None) else r(k \<mapsto> (v, Some (now + seconds ttl))))"

definition redis_ttl :: "instant \<Rightarrow> string \<Rightarrow> redis \<Rightarrow> int" where
  "redis_ttl now k r =
     (case live now r k of
        None \<Rightarrow> -2
      | Some (_, None) \<Rightarrow> -1
      | Some (_, Some e) \<Rightarrow> (e - now + 500000) div 1000000)"

end
