(* ===== verification/Requests.thy ===== *)
theory Requests
  imports Razorpay PyText Redis
begin

text \<open>
  What surrounds every request: the fixed-window rate limiter (\<open>security/rate_limit.py\<close>),
  the request identity and the security headers (\<open>security/middleware.py\<close>) and the health
  routes (\<open>health.py\<close>).
\<close>

subsection \<open>Rate limiting\<close>

text \<open>The Lua script, which Redis runs as one command at one instant.\<close>

definition RATE_LIMIT_SCRIPT :: "bool \<Rightarrow> instant \<Rightarrow> string \<Rightarrow> int \<Rightarrow> redis \<Rightarrow> (exn + int \<times> int) \<times> redis" where
  "RATE_LIMIT_SCRIPT up now key window r =
     (case redis_incr up now key r of
        (Inl e, r') \<Rightarrow> (Inl e, r')
      | (Inr current, r') \<Rightarrow>
          let r'' = (if current = 1 then redis_expire now key window r' else r')
          in (Inr (current, redis_ttl now key r''), r''))"

record request =
  rq_forwarded_for :: "string option"
  rq_remote_addr :: "string option"
  rq_request_id :: "string option"

definition client_address :: "config \<Rightarrow> request \<Rightarrow> string" where
  "client_address cfg rq =
     (let first_address = strip (takeWhile (\<lambda>c. c \<noteq> CHR '','') (case rq_forwarded_for rq of
            None \<Rightarrow> '''' | Some value \<Rightarrow> value))
      in if TRUST_PROXY_HEADERS cfg \<and> first_address \<noteq> [] then first_address
         else case rq_remote_addr rq of
           Some address \<Rightarrow> if address \<noteq> [] then address else ''unknown''
         | None \<Rightarrow> ''unknown'')"

definition rate_limit_key :: "primitives \<Rightarrow> string \<Rightarrow> string \<Rightarrow> string" where
  "rate_limit_key prims scope address =
     ''chargemate:rate-limit:'' @ scope @ '':'' @ sha256_hexdigest prims address"

record rate_info =
  ri_limit :: int
  ri_remaining :: int
  ri_retry_after :: int

text \<open>
  The view runs, with the rate information the headers report or without, or the request is
  refused with status 429 and a Retry-After header.
\<close>

datatype rate_decision = Passed "rate_info option" | Refused rate_info

fun passed :: "rate_decision \<Rightarrow> bool" where
  "passed (Passed _) = True"
| "passed (Refused _) = False"

definition rate_limit ::
    "config \<Rightarrow> primitives \<Rightarrow> string \<Rightarrow> (config \<Rightarrow> int) \<Rightarrow> bool \<Rightarrow> instant \<Rightarrow> request \<Rightarrow> redis
     \<Rightarrow> rate_decision \<times> redis" where
  "rate_limit cfg prims scope requests_config up now rq r =
     (if \<not> RATE_LIMITING_ENABLED cfg then (Passed None, r)
      else let limit = requests_config cfg;
               key = rate_limit_key prims scope (client_address cfg rq)
        in case RATE_LIMIT_SCRIPT up now key (RATE_LIMIT_WINDOW_SECONDS cfg) r of
             (Inl _, r') \<Rightarrow> (Passed None, r')
           | (Inr (count, ttl), r') \<Rightarrow>
               let info = \<lparr>ri_limit = limit, ri_remaining = max (limit - count) 0,
                           ri_retry_after = max ttl 0\<rparr>
               in (if count \<le> limit then Passed (Some info) else Refused info, r'))"

subsection \<open>Request identity and response headers\<close>

definition request_id :: "string option \<Rightarrow> uuid \<Rightarrow> string" where
  "request_id candidate fresh =
     (case candidate of
        Some text \<Rightarrow> if text = [] then uuid_str fresh
          else (case parse_uuid_text text of Inr i \<Rightarrow> uuid_str i | Inl _ \<Rightarrow> uuid_str fresh)
      | None \<Rightarrow> uuid_str fresh)"

definition quoted_none :: string where
  "quoted_none = [CHR 0x27] @ ''none'' @ [CHR 0x27]"

definition secure_headers :: "config \<Rightarrow> string \<Rightarrow> rate_info option \<Rightarrow> (string \<times> string) list" where
  "secure_headers cfg rid info =
     [(''X-Request-ID'', rid),
      (''X-Content-Type-Options'', ''nosniff''),
      (''X-Frame-Options'', ''DENY''),
      (''Referrer-Policy'', ''no-referrer''),
      (''Content-Security-Policy'', ''default-src '' @ quoted_none @ ''; frame-ancestors '' @ quoted_none)]
     @ (case info of None \<Rightarrow> [] | Some i \<Rightarrow>
          [(''X-RateLimit-Limit'', int_str (ri_limit i)),
           (''X-RateLimit-Remaining'', int_str (ri_remaining i))])
     @ (if ENABLE_HSTS cfg
        then [(''Strict-Transport-Security'', ''max-age=31536000; includeSubDomains'')] else [])"

subsection \<open>Health\<close>

definition health_of :: "bool \<Rightarrow> string" where
  "health_of healthy = (if healthy then ''healthy'' else ''unhealthy'')"

definition liveness :: "json \<times> int" where
  "liveness = (JObj [(''status'', JStr ''healthy'')], 200)"

definition readiness :: "bool \<Rightarrow> bool \<Rightarrow> json \<times> int" where
  "readiness postgres_up redis_up =
     (let services = [(''postgres'', health_of postgres_up), (''redis'', health_of redis_up)];
          is_ready = list_all (\<lambda>(_, status). status = ''healthy'') services
      in (JObj [(''status'', JStr (if is_ready then ''ready'' else ''not_ready'')),
                (''services'', JObj (map (\<lambda>(k, v). (k, JStr v)) services))],
          if is_ready then 200 else 503))"

subsection \<open>What the rate limiter lets through\<close>

text \<open>
  The counter of a window: it was created at \<open>t0\<close>, has counted \<open>n\<close> requests and expires
  \<open>w\<close> seconds later.
\<close>

definition counted :: "string \<Rightarrow> instant \<Rightarrow> int \<Rightarrow> nat \<Rightarrow> redis \<Rightarrow> bool" where
  "counted k t0 w n r \<longleftrightarrow>
     (if n = 0 then live t0 r k = None else r k = Some (int_str (int n), Some (t0 + seconds w)))"

lemma script_other_key:
  "RATE_LIMIT_SCRIPT up now k w r = (x, r') \<Longrightarrow> k' \<noteq> k \<Longrightarrow> r' k' = r k'"
  by (auto simp: RATE_LIMIT_SCRIPT_def redis_incr_def redis_expire_def Let_def live_def
      split: if_splits option.splits prod.splits)

lemma script_first:
  assumes "live t0 r k = None" "0 < w"
  shows "RATE_LIMIT_SCRIPT True t0 k w r =
     (Inr (1, w), r(k \<mapsto> (int_str 1, Some (t0 + seconds w))))"
  using assms
  by (simp add: RATE_LIMIT_SCRIPT_def redis_incr_def redis_expire_def redis_ttl_def live_def Let_def
      seconds_def)

lemma script_next:
  assumes "r k = Some (int_str (int n), Some (t0 + seconds w))" "0 < n" "int n + 1 < 2 ^ 63"
    and "t0 \<le> t" "t < t0 + seconds w"
  shows "\<exists>ttl. RATE_LIMIT_SCRIPT True t k w r =
      (Inr (int n + 1, ttl), r(k \<mapsto> (int_str (int (Suc n)), Some (t0 + seconds w))))
    \<and> 0 \<le> ttl \<and> ttl \<le> w"
proof -
  have "live t r k = Some (int_str (int n), Some (t0 + seconds w))"
    using assms(1,5) by (simp add: live_def)
  then have run: "RATE_LIMIT_SCRIPT True t k w r =
      (Inr (int n + 1, (t0 + seconds w - t + 500000) div 1000000),
       r(k \<mapsto> (int_str (int (Suc n)), Some (t0 + seconds w))))"
    using assms(2,3,5)
    by (simp add: RATE_LIMIT_SCRIPT_def redis_incr_def redis_ttl_def live_def add.commute)
  have "(t0 + seconds w - t + 500000) div 1000000 \<le> (seconds w + 500000) div 1000000"
    using assms(4) by (intro zdiv_mono1) simp_all
  also have "\<dots> = w" by (simp add: seconds_def)
  finally show ?thesis
    using run assms(5) by (intro exI conjI) (auto intro: pos_imp_zdiv_nonneg_iff [THEN iffD2])
qed

text \<open>The requests of any clients to one route, in the order Redis sees them.\<close>

fun rate_run ::
    "config \<Rightarrow> primitives \<Rightarrow> string \<Rightarrow> (config \<Rightarrow> int) \<Rightarrow> (instant \<times> request) list \<Rightarrow> redis
     \<Rightarrow> rate_decision list" where
  "rate_run cfg prims scope quota [] r = []"
| "rate_run cfg prims scope quota ((now, rq) # rqs) r =
     (let (d, r') = rate_limit cfg prims scope quota True now rq r
      in d # rate_run cfg prims scope quota rqs r')"

definition from_client :: "config \<Rightarrow> primitives \<Rightarrow> string \<Rightarrow> string \<Rightarrow> instant \<times> request \<Rightarrow> bool" where
  "from_client cfg prims scope k = (\<lambda>(_, rq). rate_limit_key prims scope (client_address cfg rq) = k)"

definition let_through ::
    "config \<Rightarrow> primitives \<Rightarrow> string \<Rightarrow> (config \<Rightarrow> int) \<Rightarrow> string \<Rightarrow> (instant \<times> request) list \<Rightarrow> redis \<Rightarrow> nat" where
  "let_through cfg prims scope quota k rqs r = length (filter (\<lambda>(x, d). from_client cfg prims scope k x \<and> passed d)
     (zip rqs (rate_run cfg prims scope quota rqs r)))"

lemma rate_limit_other:
  assumes "rate_limit cfg prims scope quota up now rq r = (d, r')" "\<not> from_client cfg prims scope k (now, rq)"
  shows "r' k = r k"
  using assms script_other_key
  by (fastforce simp: rate_limit_def from_client_def Let_def split: if_splits prod.splits sum.splits)

lemma rate_limit_counted:
  assumes on: "RATE_LIMITING_ENABLED cfg" "0 < RATE_LIMIT_WINDOW_SECONDS cfg"
    and own: "from_client cfg prims scope k (now, rq)"
    and cnt: "counted k t0 (RATE_LIMIT_WINDOW_SECONDS cfg) n r" "int n + 1 < 2 ^ 63"
    and t: "t0 \<le> now" "now < t0 + seconds (RATE_LIMIT_WINDOW_SECONDS cfg)" "n = 0 \<Longrightarrow> now = t0"
  obtains d r' where "rate_limit cfg prims scope quota True now rq r = (d, r')"
    "counted k t0 (RATE_LIMIT_WINDOW_SECONDS cfg) (Suc n) r'" "passed d \<longleftrightarrow> int n + 1 \<le> quota cfg"
proof -
  let ?w = "RATE_LIMIT_WINDOW_SECONDS cfg"
  have "\<exists>ttl. RATE_LIMIT_SCRIPT True now k ?w r =
      (Inr (int n + 1, ttl), r(k \<mapsto> (int_str (int (Suc n)), Some (t0 + seconds ?w))))"
  proof (cases "n = 0")
    case True
    with cnt(1) t(3) script_first [OF _ on(2)] show ?thesis by (auto simp: counted_def)
  next
    case False
    with cnt(1) script_next [OF _ _ cnt(2) t(1,2)] show ?thesis by (auto simp: counted_def)
  qed
  then obtain ttl where "RATE_LIMIT_SCRIPT True now k ?w r =
      (Inr (int n + 1, ttl), r(k \<mapsto> (int_str (int (Suc n)), Some (t0 + seconds ?w))))" by blast
  with on(1) own show thesis
    by (intro that [of "fst (rate_limit cfg prims scope quota True now rq r)"
          "snd (rate_limit cfg prims scope quota True now rq r)"])
       (auto simp: rate_limit_def from_client_def counted_def Let_def)
qed

lemma let_through_from:
  assumes on: "RATE_LIMITING_ENABLED cfg" "0 < RATE_LIMIT_WINDOW_SECONDS cfg"
    and "counted k t0 (RATE_LIMIT_WINDOW_SECONDS cfg) n r" "0 < n" "n + length rqs < 2 ^ 63"
    and "\<forall>(t, rq) \<in> set rqs. t0 \<le> t \<and> t < t0 + seconds (RATE_LIMIT_WINDOW_SECONDS cfg)"
  shows "let_through cfg prims scope quota k rqs r + min (nat (quota cfg)) n
    = min (nat (quota cfg)) (n + length (filter (from_client cfg prims scope k) rqs))"
  using assms(3-)
proof (induction rqs arbitrary: n r)
  case Nil
  then show ?case by (simp add: let_through_def)
next
  case (Cons x rqs)
  obtain t rq where x: "x = (t, rq)" by fastforce
  from Cons.prems(4) x have t: "t0 \<le> t" "t < t0 + seconds (RATE_LIMIT_WINDOW_SECONDS cfg)"
    and rest: "\<forall>(t, rq) \<in> set rqs. t0 \<le> t \<and> t < t0 + seconds (RATE_LIMIT_WINDOW_SECONDS cfg)" by auto
  show ?case
  proof (cases "from_client cfg prims scope k x")
    case True
    have "int n + 1 < 2 ^ 63" using Cons.prems(3) by simp
    from rate_limit_counted [OF on True [unfolded x] Cons.prems(1) this t, of quota] Cons.prems(2)
    obtain d r' where d: "rate_limit cfg prims scope quota True t rq r = (d, r')"
      "counted k t0 (RATE_LIMIT_WINDOW_SECONDS cfg) (Suc n) r'" "passed d \<longleftrightarrow> int n + 1 \<le> quota cfg" by auto
    have "let_through cfg prims scope quota k rqs r' + min (nat (quota cfg)) (Suc n)
      = min (nat (quota cfg)) (Suc n + length (filter (from_client cfg prims scope k) rqs))"
      by (rule Cons.IH [OF d(2) _ _ rest]) (use Cons.prems(3) in simp_all)
    moreover have "let_through cfg prims scope quota k (x # rqs) r
        = (if passed d then 1 else 0) + let_through cfg prims scope quota k rqs r'"
      using d(1) True x by (simp add: let_through_def)
    moreover have "passed d \<longleftrightarrow> Suc n \<le> nat (quota cfg)" using d(3) by linarith
    ultimately show ?thesis
      using True by (cases "passed d") (simp_all add: min_def split: if_splits)
  next
    case False
    obtain d r' where d: "rate_limit cfg prims scope quota True t rq r = (d, r')" by fastforce
    from rate_limit_other [OF d] False x have "r' k = r k" by simp
    with Cons.prems(1,2) have "counted k t0 (RATE_LIMIT_WINDOW_SECONDS cfg) n r'"
      by (simp add: counted_def)
    from Cons.IH [OF this Cons.prems(2) _ rest] Cons.prems(3) d False x show ?thesis
      by (simp add: let_through_def)
  qed
qed


text \<open>A server that cannot be reached lets every request through and counts none.\<close>

lemma rate_limit_fails_open: "rate_limit cfg prims scope quota False now rq r = (Passed None, r)"
  by (simp add: rate_limit_def RATE_LIMIT_SCRIPT_def redis_incr_def Let_def)

definition sample_limiter :: primitives where
  "sample_limiter = \<lparr>hmac_sha256_hexdigest = (\<lambda>k m. m), sha256_hexdigest = (\<lambda>m. m),
     json_loads = (\<lambda>_. None)\<rparr>"

definition sample_request_from :: "string \<Rightarrow> request" where
  "sample_request_from address = \<lparr>rq_forwarded_for = None, rq_remote_addr = Some address,
     rq_request_id = None\<rparr>"


subsection \<open>Request identifiers\<close>

text \<open>
  Every response carries a canonical UUID as its request identifier, the client's own
  when it sent a readable one in any of the forms \<open>UUID\<close> reads, and sending the identifier
  of a response back keeps it.
\<close>

theorem request_id_stable:
  "\<exists>i. request_id candidate fresh = uuid_str i
     \<and> (case candidate of Some given \<Rightarrow> (case parse_uuid_text given of Inr j \<Rightarrow> i = j | Inl _ \<Rightarrow> i = fresh)
        | None \<Rightarrow> i = fresh)
     \<and> request_id (Some (request_id candidate fresh)) fresh' = request_id candidate fresh"
proof -
  have empty: "parse_uuid_text [] = Inl (ValueError ''badly formed hexadecimal UUID string'')"
    by code_simp
  have again: "request_id (Some (uuid_str i)) fresh' = uuid_str i" for i
    using parse_uuid_str [of i] by (cases "uuid_str i = []") (auto simp: request_id_def empty)
  have "\<exists>i. request_id candidate fresh = uuid_str i
     \<and> (case candidate of Some given \<Rightarrow> (case parse_uuid_text given of Inr j \<Rightarrow> i = j | Inl _ \<Rightarrow> i = fresh)
        | None \<Rightarrow> i = fresh)"
    by (auto simp: request_id_def empty split: option.split sum.split)
  with again show ?thesis by auto
qed

end
