(* ===== verification/StationCache.thy ===== *)
theory StationCache
  imports Requests Models
begin

text \<open>
  The public station search's request (\<open>StationSearchQuery\<close> of \<open>stations/schemas.py\<close>) and
  the versioned Redis cache of its responses (\<open>stations/cache.py\<close>). Invalidation advances a
  version that is part of every cache key; a Redis failure is logged and never reaches the
  caller. \<open>json.dumps\<close> with the canonical query text of pydantic is a parameter.
\<close>

subsection \<open>The search request\<close>

text \<open>\<open>Field(max_digits=p, decimal_places=s)\<close> on a \<open>Decimal\<close>.\<close>

definition decimal_digits :: "nat \<Rightarrow> nat \<Rightarrow> decimal \<Rightarrow> bool" where
  "decimal_digits p s x \<longleftrightarrow> has_scale s x \<and> fits_numeric p s x"

definition latitude_field :: "decimal \<Rightarrow> bool" where
  "latitude_field x \<longleftrightarrow> -90 \<le> x \<and> x \<le> 90 \<and> decimal_digits 9 6 x"

definition longitude_field :: "decimal \<Rightarrow> bool" where
  "longitude_field x \<longleftrightarrow> -180 \<le> x \<and> x \<le> 180 \<and> decimal_digits 9 6 x"

definition text_field :: "nat \<Rightarrow> nat \<Rightarrow> string \<Rightarrow> bool" where
  "text_field m n s \<longleftrightarrow> m \<le> pylen s \<and> pylen s \<le> n"

record StationSearchQuery =
  ss_city :: "string option"
  ss_connector_type :: "ConnectorType option"
  ss_min_power_kw :: "decimal option"
  ss_latitude :: "decimal option"
  ss_longitude :: "decimal option"
  ss_radius_km :: "decimal option"
  ss_page :: int
  ss_per_page :: int

definition spatial_filters_are_complete :: "StationSearchQuery \<Rightarrow> bool" where
  "spatial_filters_are_complete q \<longleftrightarrow>
     (let given = [ss_latitude q \<noteq> None, ss_longitude q \<noteq> None, ss_radius_km q \<noteq> None]
      in list_ex (\<lambda>b. b) given \<longrightarrow> list_all (\<lambda>b. b) given)"

definition has_spatial_filter :: "StationSearchQuery \<Rightarrow> bool" where
  "has_spatial_filter q \<longleftrightarrow> ss_latitude q \<noteq> None"

text \<open>Validation strips the city and checks every bound.\<close>

definition validate_search :: "StationSearchQuery \<Rightarrow> StationSearchQuery option" where
  "validate_search raw =
     (let q = raw\<lparr>ss_city := map_option strip (ss_city raw)\<rparr>
      in if nullable (text_field 2 100) (ss_city q)
            \<and> nullable (\<lambda>x. 0 < x \<and> decimal_digits 7 2 x) (ss_min_power_kw q)
            \<and> nullable latitude_field (ss_latitude q) \<and> nullable longitude_field (ss_longitude q)
            \<and> nullable (\<lambda>x. 0 < x \<and> x \<le> 200 \<and> decimal_digits 6 2 x) (ss_radius_km q)
            \<and> 1 \<le> ss_page q \<and> 1 \<le> ss_per_page q \<and> ss_per_page q \<le> 100
            \<and> spatial_filters_are_complete q
         then Some q else None)"

subsection \<open>The cache\<close>

definition CACHE_VERSION_KEY :: string where
  "CACHE_VERSION_KEY = ''chargemate:stations:search:version''"

definition CACHE_KEY_PREFIX :: string where
  "CACHE_KEY_PREFIX = ''chargemate:stations:search''"

definition DEFAULT_CACHE_TTL_SECONDS :: int where
  "DEFAULT_CACHE_TTL_SECONDS = 60"

text \<open>
  The JSON writer: the canonical text of a query and the text of a response. The texts of
  different queries differ, and what was written reads back.
\<close>

record json_writer =
  canonical_query :: "StationSearchQuery \<Rightarrow> string"
  dumps :: "json \<Rightarrow> string"

definition cache_is_enabled :: "config \<Rightarrow> bool" where
  "cache_is_enabled cfg =
     (case STATION_SEARCH_CACHE_ENABLED cfg of Some enabled \<Rightarrow> enabled | None \<Rightarrow> \<not> TESTING cfg)"

definition build_cache_key ::
    "primitives \<Rightarrow> json_writer \<Rightarrow> StationSearchQuery \<Rightarrow> string \<Rightarrow> string" where
  "build_cache_key prims w query version =
     CACHE_KEY_PREFIX @ '':v'' @ version @ '':'' @ sha256_hexdigest prims (canonical_query w query)"

text \<open>The two flags say whether the server answers the two reads.\<close>

definition get_cached_station_search ::
    "config \<Rightarrow> primitives \<Rightarrow> json_writer \<Rightarrow> bool \<Rightarrow> bool \<Rightarrow> instant \<Rightarrow> StationSearchQuery \<Rightarrow> redis
     \<Rightarrow> string option \<times> json option" where
  "get_cached_station_search cfg prims w up up' now query r =
     (if \<not> cache_is_enabled cfg then (None, None)
      else case redis_get up now CACHE_VERSION_KEY r of
        Inl _ \<Rightarrow> (None, None)
      | Inr stored_version \<Rightarrow>
          let version = (case stored_version of
                Some v \<Rightarrow> if v = [] then ''0'' else v | None \<Rightarrow> ''0'');
              cache_key = build_cache_key prims w query version
          in case redis_get up' now cache_key r of
               Inl _ \<Rightarrow> (None, None)
             | Inr None \<Rightarrow> (Some cache_key, None)
             | Inr (Some cached_value) \<Rightarrow> (case json_loads prims cached_value of
                   Some payload \<Rightarrow> (Some cache_key, if payload = JNull then None else Some payload)
                 | None \<Rightarrow> (None, None)))"

definition store_station_search ::
    "config \<Rightarrow> json_writer \<Rightarrow> bool \<Rightarrow> instant \<Rightarrow> string option \<Rightarrow> json \<Rightarrow> redis \<Rightarrow> redis" where
  "store_station_search cfg w up now cache_key payload r =
     (case cache_key of
        None \<Rightarrow> r
      | Some key \<Rightarrow>
          if \<not> cache_is_enabled cfg then r
          else snd (redis_setex up now key
                 (case STATION_SEARCH_CACHE_TTL_SECONDS cfg of
                    Some ttl \<Rightarrow> ttl | None \<Rightarrow> DEFAULT_CACHE_TTL_SECONDS)
                 (dumps w payload) r))"

definition invalidate_station_searches :: "config \<Rightarrow> bool \<Rightarrow> instant \<Rightarrow> redis \<Rightarrow> redis" where
  "invalidate_station_searches cfg up now r =
     (if cache_is_enabled cfg then snd (redis_incr up now CACHE_VERSION_KEY r) else r)"

end
