(* ===== verification/Stations.thy ===== *)
theory Stations
  imports StationCache Lifecycle
begin

text \<open>
  Stations and charge points (\<open>stations/schemas.py\<close>, \<open>stations/service.py\<close>,
  \<open>stations/spatial.py\<close>): creation with the initial charge points, updates guarded by the
  version the dashboard saw, and the public search. PostGIS, the database collation and the
  identifiers drawn by \<open>uuid4\<close> are parameters; the case mappings are those of ASCII.
\<close>

subsection \<open>Requests\<close>

definition upper_char :: "char \<Rightarrow> char" where
  "upper_char c =
     (if 97 \<le> (of_char c :: nat) \<and> (of_char c :: nat) \<le> 122 then char_of ((of_char c :: nat) - 32) else c)"

definition upper :: "string \<Rightarrow> string" where
  "upper s = map upper_char s"

record ChargePointCreateRequest =
  cc_code :: string
  cc_connector_type :: ConnectorType
  cc_power_type :: PowerType
  cc_max_power_kw :: decimal
  cc_booking_fee :: decimal
  cc_is_bookable :: bool

definition power_field :: "decimal \<Rightarrow> bool" where
  "power_field x \<longleftrightarrow> 0 < x \<and> decimal_digits 7 2 x"

definition fee_field :: "decimal \<Rightarrow> bool" where
  "fee_field x \<longleftrightarrow> 0 \<le> x \<and> decimal_digits 10 2 x"

definition validate_charge_point :: "ChargePointCreateRequest \<Rightarrow> ChargePointCreateRequest option" where
  "validate_charge_point raw =
     (let code = strip (cc_code raw)
      in if text_field 1 50 code \<and> power_field (cc_max_power_kw raw) \<and> fee_field (cc_booking_fee raw)
         then Some (raw\<lparr>cc_code := upper code\<rparr>) else None)"

record StationCreateRequest =
  sc_name :: string
  sc_description :: "string option"
  sc_address_line_1 :: string
  sc_address_line_2 :: "string option"
  sc_city :: string
  sc_state :: string
  sc_postal_code :: string
  sc_country_code :: string
  sc_latitude :: decimal
  sc_longitude :: decimal
  sc_timezone :: string
  sc_phone :: "string option"
  sc_is_24_hours :: bool
  sc_charge_points :: "ChargePointCreateRequest list"

fun all_valid :: "'a option list \<Rightarrow> 'a list option" where
  "all_valid [] = Some []"
| "all_valid (x # xs) = (case (x, all_valid xs) of (Some y, Some ys) \<Rightarrow> Some (y # ys) | _ \<Rightarrow> None)"

definition stripped_station :: "StationCreateRequest \<Rightarrow> StationCreateRequest" where
  "stripped_station raw = raw\<lparr>
     sc_name := strip (sc_name raw), sc_description := map_option strip (sc_description raw),
     sc_address_line_1 := strip (sc_address_line_1 raw),
     sc_address_line_2 := map_option strip (sc_address_line_2 raw),
     sc_city := strip (sc_city raw), sc_state := strip (sc_state raw),
     sc_postal_code := strip (sc_postal_code raw), sc_country_code := strip (sc_country_code raw),
     sc_timezone := strip (sc_timezone raw), sc_phone := map_option strip (sc_phone raw)\<rparr>"

definition station_fields_valid :: "StationCreateRequest \<Rightarrow> bool" where
  "station_fields_valid s \<longleftrightarrow> text_field 2 120 (sc_name s)
     \<and> nullable (text_field 0 2000) (sc_description s) \<and> text_field 3 255 (sc_address_line_1 s)
     \<and> nullable (text_field 0 255) (sc_address_line_2 s) \<and> text_field 2 100 (sc_city s)
     \<and> text_field 2 100 (sc_state s) \<and> text_field 3 20 (sc_postal_code s)
     \<and> text_field 2 2 (sc_country_code s) \<and> latitude_field (sc_latitude s)
     \<and> longitude_field (sc_longitude s) \<and> text_field 1 64 (sc_timezone s)
     \<and> nullable (text_field 7 20) (sc_phone s)"

definition validate_station :: "StationCreateRequest \<Rightarrow> StationCreateRequest option" where
  "validate_station raw =
     (let s = stripped_station raw
      in case all_valid (map validate_charge_point (sc_charge_points raw)) of
           None \<Rightarrow> None
         | Some points \<Rightarrow>
             if station_fields_valid s \<and> 1 \<le> length points \<and> length points \<le> 100
                \<and> distinct (map cc_code points)
             then Some (s\<lparr>sc_country_code := upper (sc_country_code s), sc_charge_points := points\<rparr>)
             else None)"

text \<open>
  An update names the fields it sets (\<open>model_fields_set\<close>): a field is absent, set to null or
  set to a value.
\<close>

type_synonym 'a field = "'a option option"

record StationUpdateRequest =
  su_version :: int
  su_name :: "string field"
  su_description :: "string field"
  su_address_line_1 :: "string field"
  su_address_line_2 :: "string field"
  su_city :: "string field"
  su_state :: "string field"
  su_postal_code :: "string field"
  su_country_code :: "string field"
  su_latitude :: "decimal field"
  su_longitude :: "decimal field"
  su_timezone :: "string field"
  su_phone :: "string field"
  su_is_24_hours :: "bool field"
  su_status :: "StationStatus field"

definition field_valid :: "('a \<Rightarrow> bool) \<Rightarrow> 'a field \<Rightarrow> bool" where
  "field_valid p f \<longleftrightarrow> nullable (nullable p) f"

definition strip_field :: "string field \<Rightarrow> string field" where
  "strip_field f = map_option (map_option strip) f"

definition stripped_update :: "StationUpdateRequest \<Rightarrow> StationUpdateRequest" where
  "stripped_update raw = raw\<lparr>
     su_name := strip_field (su_name raw), su_description := strip_field (su_description raw),
     su_address_line_1 := strip_field (su_address_line_1 raw),
     su_address_line_2 := strip_field (su_address_line_2 raw),
     su_city := strip_field (su_city raw), su_state := strip_field (su_state raw),
     su_postal_code := strip_field (su_postal_code raw),
     su_country_code := strip_field (su_country_code raw),
     su_timezone := strip_field (su_timezone raw), su_phone := strip_field (su_phone raw)\<rparr>"

definition update_fields_valid :: "StationUpdateRequest \<Rightarrow> bool" where
  "update_fields_valid u \<longleftrightarrow> 1 \<le> su_version u \<and> field_valid (text_field 2 120) (su_name u)
     \<and> field_valid (text_field 0 2000) (su_description u)
     \<and> field_valid (text_field 3 255) (su_address_line_1 u)
     \<and> field_valid (text_field 0 255) (su_address_line_2 u) \<and> field_valid (text_field 2 100) (su_city u)
     \<and> field_valid (text_field 2 100) (su_state u) \<and> field_valid (text_field 3 20) (su_postal_code u)
     \<and> field_valid (text_field 2 2) (su_country_code u) \<and> field_valid latitude_field (su_latitude u)
     \<and> field_valid longitude_field (su_longitude u) \<and> field_valid (text_field 1 64) (su_timezone u)
     \<and> field_valid (text_field 7 20) (su_phone u)"

definition contains_an_update :: "StationUpdateRequest \<Rightarrow> bool" where
  "contains_an_update u \<longleftrightarrow>
     u \<noteq> \<lparr>su_version = su_version u, su_name = None, su_description = None,
          su_address_line_1 = None, su_address_line_2 = None, su_city = None, su_state = None,
          su_postal_code = None, su_country_code = None, su_latitude = None, su_longitude = None,
          su_timezone = None, su_phone = None, su_is_24_hours = None, su_status = None\<rparr>
     \<and> su_name u \<noteq> Some None \<and> su_address_line_1 u \<noteq> Some None \<and> su_city u \<noteq> Some None
     \<and> su_state u \<noteq> Some None \<and> su_postal_code u \<noteq> Some None \<and> su_country_code u \<noteq> Some None
     \<and> su_latitude u \<noteq> Some None \<and> su_longitude u \<noteq> Some None \<and> su_timezone u \<noteq> Some None
     \<and> su_is_24_hours u \<noteq> Some None \<and> su_status u \<noteq> Some None"

definition validate_station_update :: "StationUpdateRequest \<Rightarrow> StationUpdateRequest option" where
  "validate_station_update raw =
     (let u = stripped_update raw
      in if update_fields_valid u \<and> contains_an_update u
         then Some (u\<lparr>su_country_code := map_option (map_option upper) (su_country_code u)\<rparr>) else None)"

record ChargePointUpdateRequest =
  cu_version :: int
  cu_max_power_kw :: "decimal field"
  cu_booking_fee :: "decimal field"
  cu_is_bookable :: "bool field"
  cu_status :: "ChargePointStatus field"

definition validate_charge_point_update ::
    "ChargePointUpdateRequest \<Rightarrow> ChargePointUpdateRequest option" where
  "validate_charge_point_update u =
     (if 1 \<le> cu_version u \<and> field_valid power_field (cu_max_power_kw u)
         \<and> field_valid fee_field (cu_booking_fee u)
         \<and> u \<noteq> \<lparr>cu_version = cu_version u, cu_max_power_kw = None, cu_booking_fee = None,
                cu_is_bookable = None, cu_status = None\<rparr>
         \<and> cu_max_power_kw u \<noteq> Some None \<and> cu_booking_fee u \<noteq> Some None
         \<and> cu_is_bookable u \<noteq> Some None \<and> cu_status u \<noteq> Some None
      then Some u else None)"

record OwnedStationListQuery =
  ow_page :: int
  ow_per_page :: int

definition OwnedStationListQuery_valid :: "OwnedStationListQuery \<Rightarrow> bool" where
  "OwnedStationListQuery_valid q \<longleftrightarrow> 1 \<le> ow_page q \<and> 1 \<le> ow_per_page q \<and> ow_per_page q \<le> 100"

subsection \<open>Operations of the dashboard\<close>

text \<open>Every change of a station, once committed, invalidates the cached searches.\<close>

definition then_invalidate ::
    "config \<Rightarrow> bool \<Rightarrow> instant \<Rightarrow> redis \<Rightarrow> 'a outcome \<Rightarrow> (exn + 'a) \<times> database \<times> redis" where
  "then_invalidate cfg up now r out =
     (case out of
        (Inl e, d) \<Rightarrow> (Inl e, d, r)
      | (Inr x, d) \<Rightarrow> (Inr x, d, invalidate_station_searches cfg up now r))"

definition charge_points_of :: "uuid \<Rightarrow> database \<Rightarrow> charge_point list" where
  "charge_points_of station_id d = filter (\<lambda>c. cp_station_id c = station_id) (charge_points d)"

definition new_station :: "instant \<Rightarrow> uuid \<Rightarrow> user \<Rightarrow> StationCreateRequest \<Rightarrow> charging_station" where
  "new_station now new_id owner payload = \<lparr>
     st_id = new_id, st_owner_id = usr_id owner, st_name = sc_name payload,
     st_description = sc_description payload, st_address_line_1 = sc_address_line_1 payload,
     st_address_line_2 = sc_address_line_2 payload, st_city = sc_city payload,
     st_state = sc_state payload, st_postal_code = sc_postal_code payload,
     st_country_code = sc_country_code payload, st_latitude = sc_latitude payload,
     st_longitude = sc_longitude payload, st_timezone = sc_timezone payload,
     st_phone = sc_phone payload, st_is_24_hours = sc_is_24_hours payload,
     st_status = S_DRAFT, st_version = 1, st_created_at = now\<rparr>"

definition new_charge_point ::
    "instant \<Rightarrow> uuid \<Rightarrow> uuid \<Rightarrow> ChargePointCreateRequest \<Rightarrow> charge_point" where
  "new_charge_point now new_id station_id c = \<lparr>
     cp_id = new_id, cp_station_id = station_id, cp_code = cc_code c,
     cp_connector_type = cc_connector_type c, cp_power_type = cc_power_type c,
     cp_max_power_kw = cc_max_power_kw c, cp_booking_fee = cc_booking_fee c,
     cp_is_bookable = cc_is_bookable c, cp_status = AVAILABLE, cp_version = 1,
     cp_created_at = now\<rparr>"

text \<open>\<open>point_ids\<close> are the identifiers of the charge points, in order.\<close>

fun new_charge_points ::
    "instant \<Rightarrow> (nat \<Rightarrow> uuid) \<Rightarrow> nat \<Rightarrow> uuid \<Rightarrow> ChargePointCreateRequest list \<Rightarrow> charge_point list" where
  "new_charge_points now point_ids k station_id [] = []"
| "new_charge_points now point_ids k station_id (c # cs) =
     new_charge_point now (point_ids k) station_id c
     # new_charge_points now point_ids (Suc k) station_id cs"

definition create_station ::
    "config \<Rightarrow> bool \<Rightarrow> instant \<Rightarrow> uuid \<Rightarrow> (nat \<Rightarrow> uuid) \<Rightarrow> user \<Rightarrow> StationCreateRequest
     \<Rightarrow> database \<Rightarrow> redis \<Rightarrow> (exn + charging_station) \<times> database \<times> redis" where
  "create_station cfg up now new_id point_ids owner payload d r =
     (let station = new_station now new_id owner payload
      in then_invalidate cfg up now r (on_integrity_error StationConflictError
           (commit station (d\<lparr>
              charging_stations := insert_row station (charging_stations d),
              charge_points := charge_points d
                @ new_charge_points now point_ids 0 new_id (sc_charge_points payload)\<rparr>) d)))"

text \<open>\<open>order_by(created_at.desc(), id)\<close>.\<close>

definition owned_stations_order :: "charging_station list \<Rightarrow> charging_station list" where
  "owned_stations_order ss = sort_key (\<lambda>s. (- st_created_at s, st_id s)) ss"

definition find_owned_stations ::
    "uuid \<Rightarrow> OwnedStationListQuery \<Rightarrow> database \<Rightarrow> charging_station page" where
  "find_owned_stations owner_id q d =
     (let matching = filter (\<lambda>s. st_owner_id s = owner_id) (charging_stations d)
      in \<lparr>pg_items = page_of (ow_page q) (ow_per_page q) (owned_stations_order matching),
          pg_total = int (length matching), pg_page = ow_page q, pg_per_page = ow_per_page q\<rparr>)"

fun operator_controls_station :: "user \<Rightarrow> charging_station option \<Rightarrow> bool" where
  "operator_controls_station operator None = False"
| "operator_controls_station operator (Some s) =
     (usr_role operator = SYSTEM_ADMIN \<or> st_owner_id s = usr_id operator)"

text \<open>\<open>setattr\<close> of a field that was set; a required one is never null after validation.\<close>

fun set_field :: "'a field \<Rightarrow> 'a \<Rightarrow> 'a" where
  "set_field (Some (Some x)) old = x"
| "set_field _ old = old"

fun set_nullable :: "'a field \<Rightarrow> 'a option \<Rightarrow> 'a option" where
  "set_nullable (Some x) old = x"
| "set_nullable None old = old"

definition updated_station :: "StationUpdateRequest \<Rightarrow> charging_station \<Rightarrow> charging_station" where
  "updated_station u s = s\<lparr>
     st_name := set_field (su_name u) (st_name s),
     st_description := set_nullable (su_description u) (st_description s),
     st_address_line_1 := set_field (su_address_line_1 u) (st_address_line_1 s),
     st_address_line_2 := set_nullable (su_address_line_2 u) (st_address_line_2 s),
     st_city := set_field (su_city u) (st_city s),
     st_state := set_field (su_state u) (st_state s),
     st_postal_code := set_field (su_postal_code u) (st_postal_code s),
     st_country_code := set_field (su_country_code u) (st_country_code s),
     st_latitude := set_field (su_latitude u) (st_latitude s),
     st_longitude := set_field (su_longitude u) (st_longitude s),
     st_timezone := set_field (su_timezone u) (st_timezone s),
     st_phone := set_nullable (su_phone u) (st_phone s),
     st_is_24_hours := set_field (su_is_24_hours u) (st_is_24_hours s),
     st_status := set_field (su_status u) (st_status s),
     st_version := st_version s + 1\<rparr>"

definition update_station ::
    "config \<Rightarrow> bool \<Rightarrow> instant \<Rightarrow> user \<Rightarrow> uuid \<Rightarrow> StationUpdateRequest \<Rightarrow> database \<Rightarrow> redis
     \<Rightarrow> (exn + charging_station) \<times> database \<times> redis" where
  "update_station cfg up now operator station_id payload d r =
     then_invalidate cfg up now r
       (case row_by st_id (charging_stations d) station_id of
          None \<Rightarrow> raising StationNotFoundError d
        | Some s \<Rightarrow>
            if \<not> operator_controls_station operator (Some s) then raising StationNotFoundError d
            else if st_version s \<noteq> su_version payload then raising StationStateConflictError d
            else if su_status payload = Some (Some S_ACTIVE)
                    \<and> \<not> list_ex (\<lambda>c. cp_is_bookable c \<and> cp_status c = AVAILABLE)
                        (charge_points_of station_id d)
            then raising StationStateConflictError d
            else let s' = updated_station payload s
              in on_integrity_error StationConflictError
                   (commit s' (d\<lparr>charging_stations := store_row st_id s' (charging_stations d)\<rparr>) d))"

definition has_active_charging_session :: "uuid \<Rightarrow> database \<Rightarrow> bool" where
  "has_active_charging_session charge_point_id d =
     list_ex (\<lambda>s. cs_charge_point_id s = charge_point_id \<and> cs_status s = CS_ACTIVE)
       (charging_sessions d)"

definition updated_charge_point :: "ChargePointUpdateRequest \<Rightarrow> charge_point \<Rightarrow> charge_point" where
  "updated_charge_point u c = c\<lparr>
     cp_max_power_kw := set_field (cu_max_power_kw u) (cp_max_power_kw c),
     cp_booking_fee := set_field (cu_booking_fee u) (cp_booking_fee c),
     cp_is_bookable := set_field (cu_is_bookable u) (cp_is_bookable c),
     cp_status := set_field (cu_status u) (cp_status c),
     cp_version := cp_version c + 1\<rparr>"

definition disables_charger :: "ChargePointUpdateRequest \<Rightarrow> bool" where
  "disables_charger u \<longleftrightarrow> cu_is_bookable u = Some (Some False)
     \<or> cu_status u \<noteq> None \<and> cu_status u \<noteq> Some (Some AVAILABLE)"

definition update_charge_point ::
    "config \<Rightarrow> bool \<Rightarrow> instant \<Rightarrow> user \<Rightarrow> uuid \<Rightarrow> uuid \<Rightarrow> ChargePointUpdateRequest
     \<Rightarrow> database \<Rightarrow> redis \<Rightarrow> (exn + charge_point) \<times> database \<times> redis" where
  "update_charge_point cfg up now operator station_id charge_point_id payload d r =
     then_invalidate cfg up now r
       (if \<not> operator_controls_station operator (row_by st_id (charging_stations d) station_id)
        then raising StationNotFoundError d
        else case select_scalar (\<lambda>c. cp_id c = charge_point_id \<and> cp_station_id c = station_id)
               (charge_points d) of
          None \<Rightarrow> raising StationNotFoundError d
        | Some c \<Rightarrow>
            if cp_version c \<noteq> cu_version payload then raising StationStateConflictError d
            else if disables_charger payload \<and> has_active_charging_session (cp_id c) d
            then raising StationStateConflictError d
            else let c' = updated_charge_point payload c
              in on_integrity_error StationConflictError
                   (commit c' (d\<lparr>charge_points := store_row cp_id c' (charge_points d)\<rparr>) d))"

subsection \<open>Public search\<close>

text \<open>
  PostGIS on geography points given as longitude and latitude, distances in metres, and the
  collation of the database as a sort key.
\<close>

record database_functions =
  ST_Distance :: "decimal \<times> decimal \<Rightarrow> decimal \<times> decimal \<Rightarrow> rat"
  ST_DWithin :: "decimal \<times> decimal \<Rightarrow> decimal \<times> decimal \<Rightarrow> rat \<Rightarrow> bool"
  collation_key :: "string \<Rightarrow> rat"

definition METRES_PER_KILOMETRE :: rat where
  "METRES_PER_KILOMETRE = 1000"

definition station_geography :: "charging_station \<Rightarrow> decimal \<times> decimal" where
  "station_geography s = (st_longitude s, st_latitude s)"

definition search_geography :: "StationSearchQuery \<Rightarrow> decimal \<times> decimal" where
  "search_geography q = (the (ss_longitude q), the (ss_latitude q))"

record StationSearchResult =
  sr_station :: charging_station
  sr_distance_km :: "rat option"

definition charge_point_matches :: "StationSearchQuery \<Rightarrow> charge_point \<Rightarrow> bool" where
  "charge_point_matches q c \<longleftrightarrow> nullable (\<lambda>t. cp_connector_type c = t) (ss_connector_type q)
     \<and> nullable (\<lambda>p. p \<le> cp_max_power_kw c) (ss_min_power_kw q)
     \<and> cp_status c = AVAILABLE \<and> cp_is_bookable c"

definition station_matches ::
    "database_functions \<Rightarrow> StationSearchQuery \<Rightarrow> database \<Rightarrow> charging_station \<Rightarrow> bool" where
  "station_matches fns q d s \<longleftrightarrow> st_status s = S_ACTIVE
     \<and> nullable (\<lambda>city. lower (st_city s) = lower city) (ss_city q)
     \<and> (ss_connector_type q \<noteq> None \<or> ss_min_power_kw q \<noteq> None \<longrightarrow>
          list_ex (charge_point_matches q) (charge_points_of (st_id s) d))
     \<and> (has_spatial_filter q \<longrightarrow> ST_DWithin fns (station_geography s) (search_geography q)
          (the (ss_radius_km q) * METRES_PER_KILOMETRE))"

definition search_order ::
    "database_functions \<Rightarrow> StationSearchQuery \<Rightarrow> charging_station list \<Rightarrow> charging_station list" where
  "search_order fns q ss =
     sort_key (\<lambda>s. (if has_spatial_filter q
                    then ST_Distance fns (station_geography s) (search_geography q)
                    else collation_key fns (st_name s), st_id s)) ss"

definition search_result ::
    "database_functions \<Rightarrow> StationSearchQuery \<Rightarrow> charging_station \<Rightarrow> StationSearchResult" where
  "search_result fns q s = \<lparr>sr_station = s, sr_distance_km =
     (if has_spatial_filter q
      then Some (ST_Distance fns (station_geography s) (search_geography q) / METRES_PER_KILOMETRE)
      else None)\<rparr>"

definition find_public_stations ::
    "database_functions \<Rightarrow> StationSearchQuery \<Rightarrow> database \<Rightarrow> StationSearchResult page" where
  "find_public_stations fns q d =
     (let matching = filter (station_matches fns q d) (charging_stations d)
      in \<lparr>pg_items = map (search_result fns q)
            (page_of (ss_page q) (ss_per_page q) (search_order fns q matching)),
          pg_total = int (length matching), pg_page = ss_page q, pg_per_page = ss_per_page q\<rparr>)"

definition get_public_station :: "uuid \<Rightarrow> database \<Rightarrow> charging_station option" where
  "get_public_station station_id d =
     select_scalar (\<lambda>s. st_id s = station_id \<and> st_status s = S_ACTIVE) (charging_stations d)"

subsection \<open>The schema under station changes\<close>

lemma db_ok_stations:
  assumes ok: "db_ok d"
    and ids: "st_id ` set (charging_stations d) \<subseteq> st_id ` set ss"
      "cp_id ` set (charge_points d) \<subseteq> cp_id ` set cs"
    and cols: "list_all station_columns ss" "list_all charge_point_columns cs"
    and cons: "list_all snd (stations_constraints (d\<lparr>charging_stations := ss\<rparr>))"
      "list_all snd (charge_points_constraints (d\<lparr>charging_stations := ss, charge_points := cs\<rparr>))"
  shows "db_ok (d\<lparr>charging_stations := ss, charge_points := cs\<rparr>)"
proof -
  have "list_all snd (bookings_constraints (d\<lparr>charging_stations := ss, charge_points := cs\<rparr>))"
    using ok by (auto simp: db_ok_parts bookings_constraints_def intro: foreign_key_mono [OF _ ids(2)])
  moreover have "list_all snd (charging_sessions_constraints (d\<lparr>charging_stations := ss, charge_points := cs\<rparr>))"
    using ok by (auto simp: db_ok_parts charging_sessions_constraints_def intro: foreign_key_mono [OF _ ids(2)])
  moreover have "columns_ok (d\<lparr>charging_stations := ss, charge_points := cs\<rparr>)"
    using ok cols by (simp add: db_ok_parts columns_ok_def)
  moreover have "stations_constraints (d\<lparr>charging_stations := ss, charge_points := cs\<rparr>)
      = stations_constraints (d\<lparr>charging_stations := ss\<rparr>)"
    by (simp add: stations_constraints_def)
  ultimately show ?thesis
    using ok cons by (simp add: db_ok_parts)
qed

subsection \<open>Case mappings and validated requests\<close>

lemma of_char_upper: "(of_char (upper_char c) :: nat) =
    (if 97 \<le> (of_char c :: nat) \<and> (of_char c :: nat) \<le> 122 then of_char c - 32 else of_char c)"
  by (auto simp: upper_char_def)

lemma upper_char_continuation [simp]: "continuation_byte (upper_char c) = continuation_byte c"
  by (auto simp: continuation_byte_def of_char_upper)

lemma pylen_upper [simp]: "pylen (upper s) = pylen s"
  by (induction s) (simp_all add: pylen_def upper_def)

lemma upper_is_upper:
  "list_all (\<lambda>c. \<not> (97 \<le> (of_char c :: nat) \<and> (of_char c :: nat) \<le> 122)) (upper s)"
  by (induction s) (auto simp: upper_def of_char_upper)

lemma all_valid_Some: "all_valid xs = Some ys \<Longrightarrow> xs = map Some ys"
  by (induction xs arbitrary: ys) (auto split: option.splits)

lemma map_Some_list_all:
  "map f xs = map Some ys \<Longrightarrow> (\<And>x y. f x = Some y \<Longrightarrow> P y) \<Longrightarrow> list_all P ys"
  by (induction xs arbitrary: ys) (auto simp: map_eq_Cons_conv)

lemma validate_charge_point_Some:
  assumes "validate_charge_point raw = Some c"
  shows "varchar 50 (cc_code c) \<and> power_field (cc_max_power_kw c) \<and> fee_field (cc_booking_fee c)"
  using assms by (auto simp: validate_charge_point_def Let_def varchar_def text_field_def split: if_splits)

lemma validate_station_Some:
  assumes "validate_station raw = Some s"
  shows "station_fields_valid s \<and> 1 \<le> length (sc_charge_points s) \<and> length (sc_charge_points s) \<le> 100
    \<and> distinct (map cc_code (sc_charge_points s))
    \<and> list_all (\<lambda>c. varchar 50 (cc_code c) \<and> power_field (cc_max_power_kw c)
         \<and> fee_field (cc_booking_fee c)) (sc_charge_points s)
    \<and> list_all (\<lambda>c. \<not> (97 \<le> (of_char c :: nat) \<and> (of_char c :: nat) \<le> 122)) (sc_country_code s)"
proof -
  from assms obtain points where p: "all_valid (map validate_charge_point (sc_charge_points raw)) = Some points"
    "station_fields_valid (stripped_station raw)" "1 \<le> length points" "length points \<le> 100"
    "distinct (map cc_code points)" "s = (stripped_station raw)\<lparr>
       sc_country_code := upper (sc_country_code (stripped_station raw)), sc_charge_points := points\<rparr>"
    by (auto simp: validate_station_def Let_def split: option.splits if_splits)
  from all_valid_Some [OF p(1)] have "list_all (\<lambda>c. varchar 50 (cc_code c)
      \<and> power_field (cc_max_power_kw c) \<and> fee_field (cc_booking_fee c)) points"
    by (rule map_Some_list_all) (rule validate_charge_point_Some)
  with p upper_is_upper show ?thesis
    by (simp add: station_fields_valid_def text_field_def)
qed

subsection \<open>Creating a station\<close>

lemma new_charge_points_fields [simp]:
  "map cp_id (new_charge_points now ids k i cs) = map ids [k..<k + length cs]"
  "map cp_code (new_charge_points now ids k i cs) = map cc_code cs"
  by (induction cs arbitrary: k) (simp_all add: new_charge_point_def upt_conv_Cons del: upt_Suc)

lemma new_charge_points_all:
  assumes "list_all P cs" "\<And>k c. P c \<Longrightarrow> Q (new_charge_point now k i c)"
  shows "list_all Q (new_charge_points now ids k i cs)"
  using assms(1) by (induction cs arbitrary: k) (simp_all add: assms(2))

lemma distinct_map_pair: "distinct (map g xs) \<Longrightarrow> distinct (map (\<lambda>x. (f x, g x)) xs)"
  by (induction xs) auto

lemma int4_1: "int4 1"
  by (simp add: int4_def)

lemma created_station_ok:
  assumes payload: "validate_station raw = Some payload" and ok: "db_ok d"
    and owner: "owner \<in> set (users d)" and fresh: "new_id \<notin> st_id ` set (charging_stations d)"
    and ids: "distinct (map point_ids [0..<length (sc_charge_points payload)])"
      "point_ids ` {..<length (sc_charge_points payload)} \<inter> cp_id ` set (charge_points d) = {}"
  shows "db_ok (d\<lparr>charging_stations := insert_row (new_station now new_id owner payload) (charging_stations d),
       charge_points := charge_points d @ new_charge_points now point_ids 0 new_id (sc_charge_points payload)\<rparr>)"
    (is "db_ok (d\<lparr>charging_stations := ?ss, charge_points := ?cs\<rparr>)")
proof (rule db_ok_stations [OF ok])
  let ?new = "new_charge_points now point_ids 0 new_id (sc_charge_points payload)"
  note v = validate_station_Some [OF payload]
  show "st_id ` set (charging_stations d) \<subseteq> st_id ` set ?ss" "cp_id ` set (charge_points d) \<subseteq> cp_id ` set ?cs"
    by auto
  have "station_columns (new_station now new_id owner payload)"
    using v by (auto simp: station_columns_def new_station_def station_fields_valid_def text_field_def
        varchar_def latitude_field_def longitude_field_def decimal_digits_def int4_1 nullable_iff)
  with ok show "list_all station_columns ?ss"
    by (simp add: db_ok_parts columns_ok_def insert_row_def)
  have "list_all charge_point_columns ?new"
    by (rule new_charge_points_all [of "\<lambda>c. varchar 50 (cc_code c) \<and> power_field (cc_max_power_kw c)
         \<and> fee_field (cc_booking_fee c)"])
       (use v in \<open>auto simp: charge_point_columns_def new_charge_point_def power_field_def
          fee_field_def decimal_digits_def int4_1\<close>)
  with ok show "list_all charge_point_columns ?cs" by (simp add: db_ok_parts columns_ok_def)
  show "list_all snd (stations_constraints (d\<lparr>charging_stations := ?ss\<rparr>))"
    using ok v owner fresh
    by (auto simp: db_ok_parts stations_constraints_def insert_row_def new_station_def
        station_fields_valid_def latitude_field_def longitude_field_def)
  have pos: "list_all (\<lambda>c. 0 < cp_max_power_kw c \<and> 0 \<le> cp_booking_fee c \<and> 0 < cp_version c
      \<and> cp_station_id c = new_id) ?new"
    by (rule new_charge_points_all [of "\<lambda>c. varchar 50 (cc_code c) \<and> power_field (cc_max_power_kw c)
         \<and> fee_field (cc_booking_fee c)"])
       (use v in \<open>auto simp: new_charge_point_def power_field_def fee_field_def\<close>)
  have old: "cp_station_id c \<noteq> new_id" if "c \<in> set (charge_points d)" for c
    using ok that fresh by (auto simp: db_ok_parts charge_points_constraints_def list_all_iff)
  have "set (map cp_id (charge_points d)) \<inter> set (map point_ids [0..<length (sc_charge_points payload)]) = {}"
    using ids(2) by (simp add: atLeast0LessThan Int_commute)
  then have keys: "distinct (map cp_id ?cs)"
    using ok ids(1) by (simp add: db_ok_parts charge_points_constraints_def)
  have "distinct (map (\<lambda>c. (cp_station_id c, cp_code c)) ?new)"
    using v by (intro distinct_map_pair) simp
  moreover have "set (map (\<lambda>c. (cp_station_id c, cp_code c)) (charge_points d))
      \<inter> set (map (\<lambda>c. (cp_station_id c, cp_code c)) ?new) = {}"
    using old pos by (auto simp: list_all_iff)
  ultimately have codes: "distinct (map (\<lambda>c. (cp_station_id c, cp_code c)) ?cs)"
    using ok by (simp add: db_ok_parts charge_points_constraints_def)
  show "list_all snd (charge_points_constraints (d\<lparr>charging_stations := ?ss, charge_points := ?cs\<rparr>))"
    using ok pos keys codes
    by (auto simp: db_ok_parts charge_points_constraints_def list_all_iff new_station_def)
qed


subsection \<open>Guarded updates\<close>

lemma filter_store_row_other:
  "key r = k \<Longrightarrow> filter (\<lambda>x. key x \<noteq> k) (store_row key r xs) = filter (\<lambda>x. key x \<noteq> k) xs"
  by (induction xs) (auto simp: store_row_def)

lemma then_invalidate_Inr:
  "then_invalidate cfg up now r out = (Inr x, d', r') \<longleftrightarrow>
     out = (Inr x, d') \<and> r' = invalidate_station_searches cfg up now r"
  by (cases out) (auto simp: then_invalidate_def split: sum.split)

lemma stored_member: "x \<in> set xs \<Longrightarrow> key r = key x \<Longrightarrow> r \<in> set (store_row key r xs)"
  by (auto simp: set_store_row)


text \<open>
  C31. A charge point in use cannot be taken out of service: a successful update of a charge
  point is one of its station's owner or a system administrator, at the version the caller
  saw, and it makes the charge point unbookable or not available only while no charging
  session is active on it; a second update with the same version fails.
\<close>

theorem update_charge_point_guarded:
  assumes "update_charge_point cfg up now operator i j payload d r = (Inr c', d', r')"
  shows "(\<exists>c \<in> set (charge_points d). cp_id c = j \<and> cp_station_id c = i
      \<and> cp_version c = cu_version payload \<and> c' = updated_charge_point payload c)
    \<and> (\<exists>s \<in> set (charging_stations d). st_id s = i
         \<and> (usr_role operator = SYSTEM_ADMIN \<or> st_owner_id s = usr_id operator))
    \<and> (disables_charger payload \<longrightarrow>
         (\<forall>s \<in> set (charging_sessions d). cs_charge_point_id s = j \<longrightarrow> cs_status s \<noteq> CS_ACTIVE))
    \<and> row_by cp_id (charge_points d') j = Some c' \<and> d' = d\<lparr>charge_points := charge_points d'\<rparr>
    \<and> filter (\<lambda>c. cp_id c \<noteq> j) (charge_points d') = filter (\<lambda>c. cp_id c \<noteq> j) (charge_points d)
    \<and> (cu_version payload2 = cu_version payload \<longrightarrow>
         (\<exists>e \<in> {StationNotFoundError, StationStateConflictError}.
            update_charge_point cfg up2 now2 operator2 i j payload2 d' r2 = (Inl e, d', r2)))"
proof -
  from assms obtain c where c: "operator_controls_station operator (row_by st_id (charging_stations d) i)"
    "select_scalar (\<lambda>c. cp_id c = j \<and> cp_station_id c = i) (charge_points d) = Some c"
    "cp_version c = cu_version payload"
    "disables_charger payload \<Longrightarrow> \<not> has_active_charging_session (cp_id c) d"
    "c' = updated_charge_point payload c" "db_ok d'"
    "d' = d\<lparr>charge_points := store_row cp_id c' (charge_points d)\<rparr>"
    unfolding update_charge_point_def then_invalidate_Inr
    by (auto simp: Let_def split: option.splits if_splits)
  note found = select_scalar_Some [OF c(2)]
  have id: "cp_id c' = j" "cp_station_id c' = i" "cp_version c' = cu_version payload + 1"
    using found c(3,5) by (simp_all add: updated_charge_point_def)
  have keys: "distinct (map cp_id (charge_points d'))"
    using c(6) by (simp add: db_ok_parts charge_points_constraints_def)
  have mem: "c' \<in> set (charge_points d')"
    unfolding c(7) using found id by (auto intro!: stored_member)
  from row_by_in [OF keys this] id have row: "row_by cp_id (charge_points d') j = Some c'" by simp
  have sel: "select_scalar (\<lambda>c. cp_id c = j \<and> cp_station_id c = i) (charge_points d') = Some c'"
    using distinct_map_unique [OF keys _ mem] id
    by (intro select_scalar_unique [OF mem]) auto
  have others: "filter (\<lambda>c. cp_id c \<noteq> j) (charge_points d') = filter (\<lambda>c. cp_id c \<noteq> j) (charge_points d)"
    using id(1) by (simp add: c(7) filter_store_row_other)
  have again: "\<exists>e \<in> {StationNotFoundError, StationStateConflictError}.
      update_charge_point cfg up2 now2 operator2 i j payload2 d' r2 = (Inl e, d', r2)"
    if "cu_version payload2 = cu_version payload"
    using sel id(3) that by (simp add: update_charge_point_def then_invalidate_def raising_def)
  from c(1) obtain s where s: "row_by st_id (charging_stations d) i = Some s"
    "usr_role operator = SYSTEM_ADMIN \<or> st_owner_id s = usr_id operator"
    by (cases "row_by st_id (charging_stations d) i") auto
  have idle: "cs_status s \<noteq> CS_ACTIVE" if "disables_charger payload" "s \<in> set (charging_sessions d)"
    "cs_charge_point_id s = j" for s
    using c(4) [OF that(1)] that(2,3) found
    by (auto simp: has_active_charging_session_def list_ex_iff)
  show ?thesis
    using found c(3,5) row_by_Some [OF s(1)] s(2) idle row others again
    by (intro conjI bexI [of _ c] bexI [of _ s]) (auto simp: c(7))
qed

subsection \<open>What the public search returns\<close>

definition all_pages ::
    "database_functions \<Rightarrow> StationSearchQuery \<Rightarrow> database \<Rightarrow> StationSearchResult list" where
  "all_pages fns q d = concat (map (\<lambda>k. pg_items (find_public_stations fns (q\<lparr>ss_page := int k + 1\<rparr>) d))
     [0..<nat (pages_of (pg_total (find_public_stations fns q d)) (ss_per_page q))])"

lemma page_number_irrelevant [simp]:
  "has_spatial_filter (q\<lparr>ss_page := k\<rparr>) = has_spatial_filter q"
  "search_geography (q\<lparr>ss_page := k\<rparr>) = search_geography q"
  "charge_point_matches (q\<lparr>ss_page := k\<rparr>) = charge_point_matches q"
  by (simp_all add: fun_eq_iff has_spatial_filter_def search_geography_def charge_point_matches_def)

lemma page_number_irrelevant_search [simp]:
  "station_matches fns (q\<lparr>ss_page := k\<rparr>) = station_matches fns q"
  "search_order fns (q\<lparr>ss_page := k\<rparr>) = search_order fns q"
  "search_result fns (q\<lparr>ss_page := k\<rparr>) = search_result fns q"
  unfolding fun_eq_iff station_matches_def search_order_def search_result_def
    page_number_irrelevant by simp_all

lemma all_pages_eq:
  assumes "0 < ss_per_page q"
  shows "all_pages fns q d
    = map (search_result fns q) (search_order fns q (filter (station_matches fns q d) (charging_stations d)))"
proof -
  let ?l = "search_order fns q (filter (station_matches fns q d) (charging_stations d))"
  have "int (length (filter (station_matches fns q d) (charging_stations d))) = int (length ?l)"
    by (simp add: search_order_def)
  then have "all_pages fns q d = map (search_result fns q)
      (concat (map (\<lambda>k. page_of (int k + 1) (ss_per_page q) ?l)
        [0..<nat (pages_of (int (length ?l)) (ss_per_page q))]))"
    by (simp add: all_pages_def find_public_stations_def Let_def map_concat comp_def)
  with pages_cover [OF assms, of ?l] show ?thesis by simp
qed

lemma spatial_cases:
  assumes "spatial_filters_are_complete q"
  obtains "ss_latitude q = None" "ss_longitude q = None" "ss_radius_km q = None"
  | x y km where "ss_latitude q = Some y" "ss_longitude q = Some x" "ss_radius_km q = Some km"
  using assms by (cases "ss_latitude q"; cases "ss_longitude q"; cases "ss_radius_km q")
    (simp_all add: spatial_filters_are_complete_def)

lemma spatial_filter_iff:
  assumes "spatial_filters_are_complete q"
  shows "(has_spatial_filter q \<longrightarrow> ST_DWithin fns (station_geography s) (search_geography q)
      (the (ss_radius_km q) * METRES_PER_KILOMETRE))
    \<longleftrightarrow> (\<forall>x y km. ss_longitude q = Some x \<and> ss_latitude q = Some y \<and> ss_radius_km q = Some km \<longrightarrow>
          ST_DWithin fns (st_longitude s, st_latitude s) (x, y) (km * 1000))"
  by (rule spatial_cases [OF assms])
    (simp_all add: has_spatial_filter_def station_geography_def search_geography_def METRES_PER_KILOMETRE_def)

lemma charger_filter_iff:
  "(ss_connector_type q \<noteq> None \<or> ss_min_power_kw q \<noteq> None \<longrightarrow>
      list_ex (charge_point_matches q) (charge_points_of i d))
   \<longleftrightarrow> (ss_connector_type q = None \<and> ss_min_power_kw q = None
      \<or> (\<exists>c \<in> set (charge_points d). cp_station_id c = i \<and> cp_status c = AVAILABLE
           \<and> cp_is_bookable c \<and> (\<forall>t. ss_connector_type q = Some t \<longrightarrow> cp_connector_type c = t)
           \<and> (\<forall>p. ss_min_power_kw q = Some p \<longrightarrow> p \<le> cp_max_power_kw c)))"
proof -
  have "list_ex (charge_point_matches q) (charge_points_of i d)
    \<longleftrightarrow> (\<exists>c \<in> set (charge_points d). cp_station_id c = i \<and> cp_status c = AVAILABLE
           \<and> cp_is_bookable c \<and> (\<forall>t. ss_connector_type q = Some t \<longrightarrow> cp_connector_type c = t)
           \<and> (\<forall>p. ss_min_power_kw q = Some p \<longrightarrow> p \<le> cp_max_power_kw c))"
    by (auto simp: list_ex_iff charge_points_of_def charge_point_matches_def nullable_iff)
  then show ?thesis by (simp only: imp_conv_disj de_Morgan_disj not_not)
qed

lemma sorted_map_fst: "sorted (map (\<lambda>s. (f s, g s)) xs) \<Longrightarrow> sorted (map f xs)"
  by (induction xs) (auto simp: less_eq_prod_def)

lemma sorted_by_distance:
  assumes "has_spatial_filter q"
  shows "sorted (map (\<lambda>x. the (sr_distance_km x)) (map (search_result fns q) (search_order fns q ss)))"
proof -
  let ?dist = "\<lambda>s. ST_Distance fns (station_geography s) (search_geography q)"
  have "sorted (map (\<lambda>s. (?dist s, st_id s)) (search_order fns q ss))"
    using assms by (simp add: search_order_def)
  then have "sorted (map ?dist (search_order fns q ss))" by (rule sorted_map_fst)
  then have "sorted (map (\<lambda>s. ?dist s / METRES_PER_KILOMETRE) (search_order fns q ss))"
    by (simp add: sorted_iff_nth_mono METRES_PER_KILOMETRE_def divide_right_mono)
  then show ?thesis using assms by (simp add: search_result_def comp_def)
qed


subsection \<open>Witnesses\<close>

definition plain_text :: "string \<Rightarrow> bool" where
  "plain_text s \<longleftrightarrow> is_ascii s \<and> s \<noteq> [] \<and> 32 < (of_char (hd s) :: nat) \<and> 32 < (of_char (last s) :: nat)"

lemma strip_plain: "plain_text s \<Longrightarrow> strip s = s"
  unfolding plain_text_def by (intro strip_ascii_id) (auto dest: is_space_byte)

definition sample_point_request :: "string \<Rightarrow> ChargePointCreateRequest" where
  "sample_point_request code = \<lparr>cc_code = code, cc_connector_type = CCS_2, cc_power_type = DC,
     cc_max_power_kw = 60, cc_booking_fee = 50, cc_is_bookable = True\<rparr>"

definition sample_station_request :: StationCreateRequest where
  "sample_station_request = \<lparr>sc_name = ''Depot'', sc_description = None,
     sc_address_line_1 = ''Ring Road'', sc_address_line_2 = None, sc_city = ''Pune'', sc_state = ''MH'',
     sc_postal_code = ''411002'', sc_country_code = ''in'', sc_latitude = 18, sc_longitude = 74,
     sc_timezone = ''Asia/Kolkata'', sc_phone = None, sc_is_24_hours = True,
     sc_charge_points = [sample_point_request ''d1'', sample_point_request ''d2'']\<rparr>"

definition sample_station_payload :: StationCreateRequest where
  "sample_station_payload = sample_station_request\<lparr>sc_country_code := ''IN'',
     sc_charge_points := [sample_point_request ''D1'', sample_point_request ''D2'']\<rparr>"

lemma sample_points_valid:
  "validate_charge_point (sample_point_request ''d1'') = Some (sample_point_request ''D1'')"
  "validate_charge_point (sample_point_request ''d2'') = Some (sample_point_request ''D2'')"
proof -
  have "plain_text ''d1''" "plain_text ''d2''" by code_simp+
  note strip_plain [OF this(1)] strip_plain [OF this(2)]
  moreover have "text_field 1 50 ''d1''" "text_field 1 50 ''d2''" "power_field 60" "fee_field 50"
    "upper ''d1'' = ''D1''" "upper ''d2'' = ''D2''"
    by code_simp+
  ultimately show "validate_charge_point (sample_point_request ''d1'') = Some (sample_point_request ''D1'')"
    "validate_charge_point (sample_point_request ''d2'') = Some (sample_point_request ''D2'')"
    by (simp_all add: validate_charge_point_def sample_point_request_def)
qed

lemma sample_station_stripped: "stripped_station sample_station_request = sample_station_request"
proof -
  have "plain_text ''Depot''" "plain_text ''Ring Road''" "plain_text ''Pune''" "plain_text ''MH''"
    "plain_text ''411002''" "plain_text ''in''" "plain_text ''Asia/Kolkata''"
    by code_simp+
  then show ?thesis
    by (simp add: stripped_station_def sample_station_request_def strip_plain)
qed

lemma sample_station_valid: "validate_station sample_station_request = Some sample_station_payload"
proof -
  have "station_fields_valid sample_station_request" by code_simp
  moreover have "all_valid (map validate_charge_point (sc_charge_points sample_station_request))
      = Some [sample_point_request ''D1'', sample_point_request ''D2'']"
    by (simp add: sample_station_request_def sample_points_valid)
  moreover have "upper (sc_country_code sample_station_request) = ''IN''" by code_simp
  moreover have "distinct (map cc_code [sample_point_request ''D1'', sample_point_request ''D2''])"
    by (simp add: sample_point_request_def)
  ultimately show ?thesis
    by (simp add: validate_station_def Let_def sample_station_stripped sample_station_payload_def)
qed

definition sample_point_ids :: "nat \<Rightarrow> uuid" where
  "sample_point_ids k = of_nat (30 + k)"


definition sample_status_update :: StationUpdateRequest where
  "sample_status_update = \<lparr>su_version = 1, su_name = None, su_description = None,
     su_address_line_1 = None, su_address_line_2 = None, su_city = None, su_state = None,
     su_postal_code = None, su_country_code = None, su_latitude = None, su_longitude = None,
     su_timezone = None, su_phone = None, su_is_24_hours = None, su_status = Some (Some S_ACTIVE)\<rparr>"


definition sample_point_update :: ChargePointUpdateRequest where
  "sample_point_update = \<lparr>cu_version = 1, cu_max_power_kw = None, cu_booking_fee = Some (Some 75),
     cu_is_bookable = None, cu_status = Some (Some CP_MAINTENANCE)\<rparr>"

theorem update_charge_point_guarded_witness:
  "\<exists>c' d' r'. update_charge_point sample_config True 5 sample_admin 10 20 sample_point_update sample_db (\<lambda>_. None)
      = (Inr c', d', r') \<and> row_by cp_id (charge_points d') 20 = Some c'"
proof -
  let ?u = "update_charge_point sample_config True 5 sample_admin 10 20 sample_point_update sample_db (\<lambda>_. None)"
  have "\<not> isl (fst ?u)" by code_simp
  then obtain c' d' r' where r: "?u = (Inr c', d', r')"
    by (cases ?u) (auto simp: isl_def split: sum.splits intro: sum.exhaust)
  from update_charge_point_guarded [OF r] r show ?thesis by blast
qed

definition sample_search :: StationSearchQuery where
  "sample_search = \<lparr>ss_city = None, ss_connector_type = Some CCS_2, ss_min_power_kw = Some 50,
     ss_latitude = None, ss_longitude = None, ss_radius_km = None, ss_page = 1, ss_per_page = 20\<rparr>"

definition flat_earth :: database_functions where
  "flat_earth = \<lparr>ST_Distance = (\<lambda>(x, y) (x', y'). \<bar>x - x'\<bar> + \<bar>y - y'\<bar>),
     ST_DWithin = (\<lambda>(x, y) (x', y') m. \<bar>x - x'\<bar> + \<bar>y - y'\<bar> \<le> m), collation_key = (\<lambda>_. 0)\<rparr>"


end
