(* ===== verification/PyFloat.thy ===== *)
theory PyFloat
  imports PyText Redis
begin

text \<open>
  Python's \<open>float(value)\<close> on the values a JSON document holds: rounding to an IEEE double,
  the text forms that \<open>float(text)\<close> reads, and the three exceptions. The sign of a zero is
  not kept. \<open>float(text)\<close> is modelled on ASCII digits.
\<close>

subsection \<open>Rounding to a double\<close>

text \<open>The number of binary digits: \<open>n.bit_length()\<close> for a natural number.\<close>

function bit_length :: "int \<Rightarrow> nat" where
  "bit_length n = (if n \<le> 0 then 0 else Suc (bit_length (n div 2)))"
  by pat_completeness auto
termination by (relation "measure nat") auto

declare bit_length.simps [simp del]

definition power_two :: "int \<Rightarrow> rat" where
  "power_two e = (if 0 \<le> e then 2 ^ nat e else 1 / 2 ^ nat (- e))"

definition binary_exponent :: "rat \<Rightarrow> int" where
  "binary_exponent a =
     (if 1 \<le> a then int (bit_length \<lfloor>a\<rfloor>) - 1
      else - int (bit_length (\<lceil>1 / a\<rceil> - 1)))"

definition double_of :: "rat \<Rightarrow> pyfloat" where
  "double_of x =
     (if x = 0 then Finite 0
      else let e = max (binary_exponent \<bar>x\<bar> - 52) (- 1074);
               v = to_integral_value (\<bar>x\<bar> / power_two e) * power_two e
           in if 2 ^ 1024 \<le> v then (if 0 < x then Infinite else NegInfinite)
              else Finite (if 0 < x then v else - v))"

subsection \<open>Reading a float\<close>

definition int_of_digits :: "string \<Rightarrow> int" where
  "int_of_digits s = foldl (\<lambda>n c. 10 * n + (of_char c - 48)) 0 s"

text \<open>Digits with single underscores between them; the value has no fraction.\<close>

fun digit_part :: "string \<Rightarrow> string option" where
  "digit_part [] = Some []"
| "digit_part [c] = (if is_digit c then Some [c] else None)"
| "digit_part (c # c' # cs) =
     (if \<not> is_digit c then None
      else if c' = CHR ''_'' then (if cs = [] then None else map_option (Cons c) (digit_part cs))
      else map_option (Cons c) (digit_part (c' # cs)))"

definition split_at :: "(char \<Rightarrow> bool) \<Rightarrow> string \<Rightarrow> string \<times> string option" where
  "split_at p s = (takeWhile (\<lambda>c. \<not> p c) s,
     case dropWhile (\<lambda>c. \<not> p c) s of [] \<Rightarrow> None | _ # rest \<Rightarrow> Some rest)"

definition signed_text :: "string \<Rightarrow> bool \<times> string" where
  "signed_text s = (if take 1 s = ''-'' then (True, drop 1 s)
     else if take 1 s = ''+'' then (False, drop 1 s) else (False, s))"

definition exponent_part :: "string \<Rightarrow> int option" where
  "exponent_part s = (case signed_text s of (negative, t) \<Rightarrow>
     (if t = [] then None else map_option (\<lambda>ds. (if negative then - 1 else 1) * int_of_digits ds)
        (digit_part t)))"

definition decimal_text :: "string \<Rightarrow> rat option" where
  "decimal_text s =
     (case split_at (\<lambda>c. c = CHR ''e'' \<or> c = CHR ''E'') s of (mantissa, exponent) \<Rightarrow>
      case split_at (\<lambda>c. c = CHR ''.'') mantissa of (whole, fraction) \<Rightarrow>
      case (digit_part whole, digit_part (case fraction of None \<Rightarrow> [] | Some f \<Rightarrow> f),
            case exponent of None \<Rightarrow> Some 0 | Some e \<Rightarrow> exponent_part e) of
        (Some ds, Some fs, Some e) \<Rightarrow>
          if ds = [] \<and> fs = [] then None
          else let n = of_int (int_of_digits (ds @ fs)) / 10 ^ length fs
               in Some (if 0 \<le> e then n * 10 ^ nat e else n / 10 ^ nat (- e))
      | _ \<Rightarrow> None)"

definition float_text :: "string \<Rightarrow> pyfloat option" where
  "float_text s =
     (case signed_text (strip s) of (negative, t) \<Rightarrow>
      if lower t = ''inf'' \<or> lower t = ''infinity''
      then Some (if negative then NegInfinite else Infinite)
      else if lower t = ''nan'' then Some NaN
      else map_option (\<lambda>x. double_of (if negative then - x else x)) (decimal_text t))"

fun py_float :: "json \<Rightarrow> exn + pyfloat" where
  "py_float (JBool b) = Inr (Finite (if b then 1 else 0))"
| "py_float (JInt n) = (case double_of (of_int n) of Finite x \<Rightarrow> Inr (Finite x) | _ \<Rightarrow> Inl OverflowError)"
| "py_float (JFloat x) = Inr x"
| "py_float (JStr s) = (case float_text s of
     None \<Rightarrow> Inl (ValueError ''could not convert string to float'') | Some x \<Rightarrow> Inr x)"
| "py_float _ = Inl TypeError"

text \<open>\<open>low <= x <= high\<close>; every comparison with NaN is false.\<close>

fun float_between :: "int \<Rightarrow> int \<Rightarrow> pyfloat \<Rightarrow> bool" where
  "float_between low high (Finite x) = (of_int low \<le> x \<and> x \<le> of_int high)"
| "float_between low high _ = False"

subsection \<open>Facts about rounding\<close>

lemma bit_length_bounds: "0 < n \<Longrightarrow> 0 < bit_length n \<and> 2 ^ (bit_length n - 1) \<le> n \<and> n < 2 ^ bit_length n"
proof (induction n rule: bit_length.induct)
  case (1 n)
  show ?case
  proof (cases "n div 2 \<le> 0")
    case True
    with 1(2) have "n = 1" by linarith
    then show ?thesis by (simp add: bit_length.simps)
  next
    case False
    with 1 have ih: "2 ^ (bit_length (n div 2) - 1) \<le> n div 2" "n div 2 < 2 ^ bit_length (n div 2)"
      "0 < bit_length (n div 2)" by auto
    from ih(3) obtain k where k: "bit_length (n div 2) = Suc k" by (auto simp: gr0_conv_Suc)
    have n: "bit_length n = Suc (Suc k)" using 1(2) k by (simp add: bit_length.simps [of n])
    from ih(1,2) k have "2 ^ k \<le> n div 2" "n div 2 < 2 ^ Suc k" by simp_all
    then have "2 * 2 ^ k \<le> n" "n < 2 * 2 ^ Suc k" by linarith+
    with n show ?thesis by simp
  qed
qed

lemma power_two_pos [simp]: "0 < power_two e"
  by (simp add: power_two_def)

lemma to_integral_value_nonneg: "0 \<le> x \<Longrightarrow> 0 \<le> to_integral_value x"
  by (auto simp: to_integral_value_def Let_def)

lemma to_integral_value_le_int:
  assumes "x \<le> of_int n"
  shows "to_integral_value x \<le> of_int n"
proof -
  have "\<lfloor>x\<rfloor> \<le> n" using assms by linarith
  moreover have "x = of_int n" if "\<lfloor>x\<rfloor> = n" using assms that by linarith
  ultimately show ?thesis
    by (cases "\<lfloor>x\<rfloor> = n") (auto simp: to_integral_value_def Let_def)
qed

lemma to_integral_value_ge_int:
  assumes "of_int n \<le> x"
  shows "of_int n \<le> to_integral_value x"
proof -
  have "n \<le> \<lfloor>x\<rfloor>" using assms by linarith
  then show ?thesis by (auto simp: to_integral_value_def Let_def)
qed

text \<open>An integer that no double reaches: \<open>int too large to convert to float\<close>.\<close>

lemma double_of_huge:
  assumes "2 ^ 1024 \<le> n"
  shows "double_of (of_int n) = Infinite"
proof -
  have n: "0 < n" using assms by (meson less_le_trans zero_less_numeral zero_less_power)
  let ?b = "bit_length n" and ?e = "int (bit_length n) - 53"
  note b = bit_length_bounds [OF n]
  have "(2::int) ^ 1024 < 2 ^ ?b" using assms b by linarith
  then have b1: "1024 < ?b" by (rule power_less_imp_less_exp [rotated]) simp
  have e: "max (binary_exponent \<bar>of_int n :: rat\<bar> - 52) (- 1074) = ?e"
    using n b1 by (simp add: binary_exponent_def)
  have p: "power_two ?e = 2 ^ (?b - 53)" using b1 by (simp add: power_two_def nat_diff_distrib)
  have "?b - 1 = 52 + (?b - 53)" using b1 by simp
  then have split: "(2::int) ^ (?b - 1) = 2 ^ 52 * 2 ^ (?b - 53)"
      "(2::rat) ^ (?b - 1) = 2 ^ 52 * 2 ^ (?b - 53)"
    by (simp_all only: power_add)
  have "(2::int) ^ 52 * 2 ^ (?b - 53) = 2 ^ (?b - 1)"
    by (simp only: split(1))
  then have "(2::int) ^ 52 * 2 ^ (?b - 53) \<le> n" using b by simp
  then have "of_int (2 ^ 52 * 2 ^ (?b - 53)) \<le> (of_int n :: rat)" by (simp only: of_int_le_iff)
  then have "of_int (2 ^ 52) \<le> (of_int n :: rat) / power_two ?e"
    unfolding p by (simp add: le_divide_eq)
  from to_integral_value_ge_int [OF this]
  have "2 ^ 52 * power_two ?e \<le> to_integral_value (of_int n / power_two ?e) * power_two ?e"
    by (simp add: mult_right_mono less_imp_le)
  moreover have "(2::rat) ^ 1024 \<le> 2 ^ 52 * power_two ?e"
  proof -
    have "(2::rat) ^ 1024 \<le> 2 ^ (?b - 1)" using b1 by (intro power_increasing) auto
    also have "\<dots> = 2 ^ 52 * 2 ^ (?b - 53)" by (simp only: split(2))
    finally show ?thesis unfolding p .
  qed
  ultimately have "(2::rat) ^ 1024 \<le> to_integral_value (of_int n / power_two ?e) * power_two ?e"
    by (rule order_trans [rotated])
  with n e show ?thesis by (simp add: double_of_def Let_def)
qed

lemma py_float_huge: "2 ^ 1024 \<le> n \<Longrightarrow> py_float (JInt n) = Inl OverflowError"
  by (simp add: double_of_huge)

text \<open>Nothing but the three exceptions is raised, and a short integer is read exactly.\<close>

lemma py_float_raises:
  "py_float v = Inl e \<Longrightarrow> e \<in> {TypeError, OverflowError} \<or> (\<exists>m. e = ValueError m)"
  by (cases v rule: py_float.cases) (auto split: pyfloat.splits option.splits)

end
