(* ===== verification/PyDatetime.thy ===== *)
theory PyDatetime
  imports Redis
begin

text \<open>
  The calendar of Python's \<open>datetime\<close> in UTC: the date and time of an instant, the text of
  \<open>isoformat()\<close>, which the responses carry, and the text of \<open>strftime("%Y%m%dT%H%M")\<close>, which
  names the jobs of a minute. A \<open>datetime\<close> covers the years 1 to 9999. Both texts are shown
  to identify what they stand for.
\<close>

subsection \<open>Dates\<close>

text \<open>Days are counted from 0001-01-01, which is day 0, in the proleptic Gregorian calendar.\<close>

definition is_leap :: "int \<Rightarrow> bool" where
  "is_leap y \<longleftrightarrow> y mod 4 = 0 \<and> (y mod 100 \<noteq> 0 \<or> y mod 400 = 0)"

definition days_before_year :: "int \<Rightarrow> int" where
  "days_before_year y = (y - 1) * 365 + (y - 1) div 4 - (y - 1) div 100 + (y - 1) div 400"

definition month_lengths :: "int \<Rightarrow> int list" where
  "month_lengths y = [31, if is_leap y then 29 else 28, 31, 30, 31, 30, 31, 31, 30, 31, 30, 31]"

text \<open>Month and day of the day \<open>n\<close> of a year, given the lengths of the months left.\<close>

fun month_day :: "int \<Rightarrow> int list \<Rightarrow> int \<Rightarrow> int \<times> int" where
  "month_day m [] n = (m, n + 1)"
| "month_day m (l # ls) n = (if n < l then (m, n + 1) else month_day (m + 1) ls (n - l))"

text \<open>The year of a day and the day within it, by cycles of 400, 100, 4 and 1 years.\<close>

definition year_day :: "int \<Rightarrow> int \<times> int" where
  "year_day n =
     (let a = n div 146097; r = n mod 146097;
          b = min 3 (r div 36524); s = r - b * 36524;
          c = s div 1461; t = s mod 1461;
          e = min 3 (t div 365)
      in (400 * a + 100 * b + 4 * c + e + 1, t - e * 365))"

definition date_of :: "int \<Rightarrow> int \<times> int \<times> int" where
  "date_of n = (case year_day n of (y, k) \<Rightarrow> (y, month_day 1 (month_lengths y) k))"

lemma year_cycles:
  fixes n :: int
  assumes "0 \<le> n"
  obtains a b c e k where "year_day n = (400 * a + 100 * b + 4 * c + e + 1, k)"
    "n = 146097 * a + 36524 * b + 1461 * c + 365 * e + k"
    "0 \<le> a" "0 \<le> b" "b \<le> 3" "0 \<le> c" "c \<le> 24" "0 \<le> e" "e \<le> 3" "0 \<le> k"
    "k < 365 \<or> k = 365 \<and> e = 3 \<and> (c < 24 \<or> b = 3)"
proof -
  define a where "a = n div 146097"
  define r where "r = n mod 146097"
  define b where "b = min 3 (r div 36524)"
  define s where "s = r - b * 36524"
  define c where "c = s div 1461"
  define t where "t = s mod 1461"
  define e where "e = min 3 (t div 365)"
  have n: "n = 146097 * a + r" "0 \<le> r" "r < 146097" by (simp_all add: a_def r_def)
  have b: "0 \<le> b" "b \<le> 3" "b * 36524 \<le> r" using n(2) unfolding b_def by linarith+
  have s: "0 \<le> s" "s \<le> 36524" using n(3) b(3) unfolding s_def b_def by linarith+
  have c: "0 \<le> c" "c \<le> 24" "s = 1461 * c + t" "0 \<le> t"
    using s unfolding c_def t_def by (simp_all add: pos_imp_zdiv_nonneg_iff)
  have t: "t < 1461" by (simp add: t_def)
  have e: "0 \<le> e" "e \<le> 3" "e * 365 \<le> t" using c(4) unfolding e_def by linarith+
  have last: "t - e * 365 < 365 \<or> t = 1460 \<and> e = 3" using c(4) t unfolding e_def by linarith
  have "c < 24 \<or> b = 3" if "t = 1460"
    using that c(2,3) s(2) n(3) s_def b_def by linarith
  with last have k: "t - e * 365 < 365 \<or> t - e * 365 = 365 \<and> e = 3 \<and> (c < 24 \<or> b = 3)" by auto
  show thesis
  proof (rule that [of a b c e "t - e * 365"])
    show "year_day n = (400 * a + 100 * b + 4 * c + e + 1, t - e * 365)"
      by (simp add: year_day_def Let_def a_def r_def b_def s_def c_def t_def e_def)
    show "n = 146097 * a + 36524 * b + 1461 * c + 365 * e + (t - e * 365)"
      using n(1) c(3) s_def by linarith
    show "0 \<le> a" using assms unfolding a_def by (simp add: pos_imp_zdiv_nonneg_iff)
  qed (use b c e k in simp_all)
qed

text \<open>The year and the day within it give the day back.\<close>

lemma year_day_inverse:
  assumes "0 \<le> n" "year_day n = (y, k)"
  shows "n = days_before_year y + k" "0 \<le> k" "1 \<le> y" "k < sum_list (month_lengths y)"
proof -
  from assms(1) obtain a b c e k' where d: "year_day n = (400 * a + 100 * b + 4 * c + e + 1, k')"
    "n = 146097 * a + 36524 * b + 1461 * c + 365 * e + k'"
    "0 \<le> a" "0 \<le> b" "b \<le> 3" "0 \<le> c" "c \<le> 24" "0 \<le> e" "e \<le> 3" "0 \<le> k'"
    "k' < 365 \<or> k' = 365 \<and> e = 3 \<and> (c < 24 \<or> b = 3)"
    by (rule year_cycles)
  then have y: "y - 1 = 400 * a + 100 * b + 4 * c + e" "k = k'" using assms(2) by simp_all
  have q: "(y - 1) div 4 = 100 * a + 25 * b + c" "(y - 1) div 100 = 4 * a + b" "(y - 1) div 400 = a"
    unfolding y(1) using d(3-9) by linarith+
  with y d(2) show "n = days_before_year y + k" by (simp add: days_before_year_def)
  from y d show "0 \<le> k" "1 \<le> y" by linarith+
  have "is_leap y" if "e = 3" "c < 24 \<or> b = 3"
  proof -
    have "y = 4 * (100 * a + 25 * b + c + 1)" using y(1) that(1) by simp
    then have four: "y mod 4 = 0" by simp
    have "y mod 100 \<noteq> 0 \<or> y mod 400 = 0"
    proof (cases "c < 24")
      case True
      have "y = 4 * c + 4 + (4 * a + b) * 100" using y(1) that(1) by simp
      then have "y mod 100 = (4 * c + 4) mod 100" by (simp only: mod_mult_self1)
      with True d(6) show ?thesis by simp
    next
      case False
      with that d(7) have "y = 400 * (a + 1)" using y(1) by simp
      then show ?thesis by simp
    qed
    with four show ?thesis by (simp add: is_leap_def)
  qed
  with d(11) y(2) show "k < sum_list (month_lengths y)" by (auto simp: month_lengths_def)
qed

lemma year_bound:
  assumes "0 \<le> n" "n < 3652059" "year_day n = (y, k)"
  shows "y \<le> 9999"
proof -
  from assms(1) obtain a b c e k' where d: "year_day n = (400 * a + 100 * b + 4 * c + e + 1, k')"
    "n = 146097 * a + 36524 * b + 1461 * c + 365 * e + k'"
    "0 \<le> a" "0 \<le> b" "b \<le> 3" "0 \<le> c" "c \<le> 24" "0 \<le> e" "e \<le> 3" "0 \<le> k'"
    by (rule year_cycles)
  moreover from this(2-10) assms(2) have "a \<le> 24" by linarith
  ultimately show ?thesis using assms(2,3) by simp
qed

lemma month_day_inverse:
  "month_day m ls n = (m', d) \<Longrightarrow> m \<le> m' \<and> n = sum_list (take (nat (m' - m)) ls) + d - 1"
proof (induction m ls n rule: month_day.induct)
  case (2 m l ls n)
  show ?case
  proof (cases "n < l")
    case False
    with 2 have "m + 1 \<le> m'" "n - l = sum_list (take (nat (m' - (m + 1))) ls) + d - 1" by simp_all
    moreover from this(1) have "nat (m' - m) = Suc (nat (m' - (m + 1)))" by simp
    ultimately show ?thesis by simp
  qed (use 2 in auto)
qed auto

lemma month_day_bounds:
  "month_day m ls n = (m', d) \<Longrightarrow> 0 \<le> n \<Longrightarrow> list_all (\<lambda>l. l \<le> 31) ls \<Longrightarrow> n < sum_list ls
     \<Longrightarrow> m' < m + int (length ls) \<and> 1 \<le> d \<and> d \<le> 31"
proof (induction m ls n rule: month_day.induct)
  case (2 m l ls n)
  then show ?case by (cases "n < l") auto
qed auto

text \<open>A date of the calendar stands for one day, and lies within the years of a \<open>datetime\<close>.\<close>

lemma date_of_valid:
  assumes "0 \<le> n" "n < 3652059" "date_of n = (y, m, d)"
  shows "1 \<le> y" "y \<le> 9999" "1 \<le> m" "m \<le> 12" "1 \<le> d" "d \<le> 31"
proof -
  from assms(3) obtain k where k: "year_day n = (y, k)" "month_day 1 (month_lengths y) k = (m, d)"
    by (auto simp: date_of_def split: prod.splits)
  note yd = year_day_inverse [OF assms(1) k(1)]
  have "list_all (\<lambda>l. l \<le> 31) (month_lengths y)" "length (month_lengths y) = 12"
    by (simp_all add: month_lengths_def)
  with month_day_bounds [OF k(2) yd(2) _ yd(4)] show "m \<le> 12" "1 \<le> d" "d \<le> 31" by simp_all
  from yd(3) year_bound [OF assms(1,2) k(1)] month_day_inverse [OF k(2)]
  show "1 \<le> y" "y \<le> 9999" "1 \<le> m" by simp_all
qed

lemma date_of_inject:
  assumes "0 \<le> m" "0 \<le> n" "date_of m = date_of n"
  shows "m = n"
proof -
  obtain y k l where yk: "year_day m = (y, k)" "year_day n = (y, l)"
    "month_day 1 (month_lengths y) k = month_day 1 (month_lengths y) l"
    using assms(3) by (auto simp: date_of_def split: prod.splits)
  have "k = l"
    using yk(3) month_day_inverse by (metis prod.exhaust)
  with year_day_inverse(1) [OF assms(1) yk(1)] year_day_inverse(1) [OF assms(2) yk(2)]
  show ?thesis by simp
qed

subsection \<open>Texts\<close>

text \<open>A number as exactly \<open>k\<close> decimal digits, padded with zeros.\<close>

fun digits :: "nat \<Rightarrow> nat \<Rightarrow> string" where
  "digits 0 n = []"
| "digits (Suc k) n = digits k (n div 10) @ [digit (n mod 10)]"

lemma length_digits [simp]: "length (digits k n) = k"
  by (induction k arbitrary: n) auto

lemma nat_of_digits_digits: "n < 10 ^ k \<Longrightarrow> nat_of_digits (digits k n) = n"
proof (induction k arbitrary: n)
  case 0
  then show ?case by (simp add: nat_of_digits_def)
next
  case (Suc k)
  then have "n div 10 < 10 ^ k" by (simp add: less_mult_imp_div_less mult.commute)
  with Suc.IH show ?case by (simp add: nat_of_digits_append of_char_digit)
qed

lemma digits_inject: "m < 10 ^ k \<Longrightarrow> n < 10 ^ k \<Longrightarrow> digits k m = digits k n \<longleftrightarrow> m = n"
  using nat_of_digits_digits by metis

text \<open>Instants that a \<open>datetime\<close> in UTC can represent; 1970-01-01 is day 719162.\<close>

abbreviation DAY :: int where
  "DAY \<equiv> 86400000000"

definition calendar_day :: "instant \<Rightarrow> int" where
  "calendar_day t = t div DAY + 719162"

definition representable :: "instant \<Rightarrow> bool" where
  "representable t \<longleftrightarrow> 0 \<le> calendar_day t \<and> calendar_day t < 3652059"

definition date_text :: "string \<Rightarrow> int \<Rightarrow> string" where
  "date_text sep n = (case date_of n of (y, m, d) \<Rightarrow>
     digits 4 (nat y) @ sep @ digits 2 (nat m) @ sep @ digits 2 (nat d))"

text \<open>Hour, minute, second and microsecond of an instant.\<close>

definition hour :: "instant \<Rightarrow> nat" where
  "hour t = nat (t mod DAY div 3600000000)"

definition minute :: "instant \<Rightarrow> nat" where
  "minute t = nat (t mod DAY div 60000000 mod 60)"

definition second :: "instant \<Rightarrow> nat" where
  "second t = nat (t mod DAY div 1000000 mod 60)"

definition microsecond :: "instant \<Rightarrow> nat" where
  "microsecond t = nat (t mod 1000000)"

text \<open>\<open>value.isoformat()\<close> of an aware datetime in UTC, as the driver returns it.\<close>

definition isoformat :: "instant \<Rightarrow> string" where
  "isoformat t = date_text ''-'' (calendar_day t) @ ''T'' @ digits 2 (hour t) @ '':'' @ digits 2 (minute t)
     @ '':'' @ digits 2 (second t)
     @ (if microsecond t = 0 then [] else ''.'' @ digits 6 (microsecond t)) @ ''+00:00''"

text \<open>\<open>strftime("%Y%m%dT%H%M")\<close>\<close>

definition minute_bucket :: "instant \<Rightarrow> string" where
  "minute_bucket t = date_text [] (calendar_day t) @ ''T'' @ digits 2 (hour t) @ digits 2 (minute t)"

subsection \<open>What the texts identify\<close>

lemma length_date_text [simp]: "length (date_text sep n) = 8 + 2 * length sep"
  by (simp add: date_text_def split: prod.splits)

lemma date_text_inject:
  assumes "0 \<le> m" "m < 3652059" "0 \<le> n" "n < 3652059" "date_text sep m = date_text sep n"
  shows "m = n"
proof -
  obtain y mo d y' mo' d' where dates: "date_of m = (y, mo, d)" "date_of n = (y', mo', d')"
    by (metis prod_cases3)
  note v = date_of_valid [OF assms(1,2) dates(1)] date_of_valid [OF assms(3,4) dates(2)]
  from assms(5) have "digits 4 (nat y) = digits 4 (nat y')" "digits 2 (nat mo) = digits 2 (nat mo')"
    "digits 2 (nat d) = digits 2 (nat d')"
    by (simp_all add: date_text_def dates)
  with v have "nat y = nat y'" "nat mo = nat mo'" "nat d = nat d'"
    by (simp_all add: digits_inject)
  with v have "y = y'" "mo = mo'" "d = d'" by linarith+
  with dates have "date_of m = date_of n" by simp
  with date_of_inject [OF assms(1,3)] show ?thesis by simp
qed

lemma clock_bounds [simp]: "hour t < 100" "minute t < 100" "second t < 100" "microsecond t < 1000000"
proof -
  have "t mod DAY < DAY" "0 \<le> t mod DAY" by simp_all
  then show "hour t < 100" by (simp add: hour_def nat_less_iff pos_imp_zdiv_nonneg_iff)
  show "minute t < 100" "second t < 100" "microsecond t < 1000000"
    by (simp_all add: minute_def second_def microsecond_def nat_less_iff order.strict_trans [OF pos_mod_bound])
qed

lemma clock_digits [simp]:
  "digits 2 (hour s) = digits 2 (hour t) \<longleftrightarrow> hour s = hour t"
  "digits 2 (minute s) = digits 2 (minute t) \<longleftrightarrow> minute s = minute t"
  "digits 2 (second s) = digits 2 (second t) \<longleftrightarrow> second s = second t"
  "digits 6 (microsecond s) = digits 6 (microsecond t) \<longleftrightarrow> microsecond s = microsecond t"
  using clock_bounds [of s] clock_bounds [of t] by (simp_all add: digits_inject)

lemma calendar_text_inject:
  assumes "representable s" "representable t"
    and "date_text sep (calendar_day s) = date_text sep (calendar_day t)"
  shows "calendar_day s = calendar_day t"
  using assms date_text_inject by (simp add: representable_def)

text \<open>Two instants of one minute have the same day, hour and minute, and conversely.\<close>

lemma minute_fields:
  "t div 60000000 = t div DAY * 1440 + int (hour t) * 60 + int (minute t)"
proof -
  define r where "r = t mod DAY"
  have t: "t = t div DAY * DAY + r" by (simp add: r_def)
  have r: "0 \<le> r" by (simp add: r_def)
  have "t div 60000000 = t div DAY * 1440 + r div 60000000"
    by (subst t) simp
  moreover have "r div 60000000 = (r div 3600000000) * 60 + r div 60000000 mod 60"
    using zdiv_zmult2_eq [of 60 r 60000000] div_mult_mod_eq [of "r div 60000000" 60] by simp
  ultimately show ?thesis
    using r by (simp add: hour_def minute_def r_def [symmetric] pos_imp_zdiv_nonneg_iff)
qed

lemma instant_fields:
  "t = t div 60000000 * 60000000 + int (second t) * 1000000 + int (microsecond t)"
proof -
  have "t mod DAY div 1000000 mod 60 = t div 1000000 mod 60"
    using zmod_zmult2_eq [of 86400 t 1000000] by (simp add: mod_mod_cancel)
  then have "int (second t) = t div 1000000 mod 60" by (simp add: second_def)
  moreover have "t div 60000000 = t div 1000000 div 60" using zdiv_zmult2_eq [of 60 t 1000000] by simp
  moreover have "int (microsecond t) = t mod 1000000" by (simp add: microsecond_def)
  ultimately show ?thesis
    using div_mult_mod_eq [of "t div 1000000" 60] div_mult_mod_eq [of t 1000000] by linarith
qed

lemma minute_bucket_iff:
  assumes "representable s" "representable t"
  shows "minute_bucket s = minute_bucket t \<longleftrightarrow> s div 60000000 = t div 60000000"
proof
  assume "minute_bucket s = minute_bucket t"
  then have "date_text [] (calendar_day s) = date_text [] (calendar_day t)"
    and fields: "hour s = hour t" "minute s = minute t"
    by (simp_all add: minute_bucket_def)
  from calendar_text_inject [OF assms this(1)] fields show "s div 60000000 = t div 60000000" by (simp add: minute_fields calendar_day_def)
next
  assume same: "s div 60000000 = t div 60000000"
  then have "s div 60000000 div 1440 = t div 60000000 div 1440" by simp
  then have day: "s div DAY = t div DAY"
    using zdiv_zmult2_eq [of 1440 s 60000000] zdiv_zmult2_eq [of 1440 t 60000000] by simp
  with same have eq: "int (hour s) * 60 + int (minute s) = int (hour t) * 60 + int (minute t)"
    by (simp add: minute_fields)
  have "(int (hour x) * 60 + int (minute x)) div 60 = int (hour x)" for x
    by (simp add: minute_def div_pos_pos_trivial)
  with arg_cong [OF eq, of "\<lambda>n. n div 60"] have "hour s = hour t" by simp
  with eq have "hour s = hour t" "minute s = minute t" by simp_all
  with day show "minute_bucket s = minute_bucket t" by (simp add: minute_bucket_def calendar_day_def)
qed

text \<open>A response's time identifies the instant.\<close>

lemma isoformat_inject:
  assumes "representable s" "representable t"
  shows "isoformat s = isoformat t \<longleftrightarrow> s = t"
proof
  assume eq: "isoformat s = isoformat t"
  then have "date_text ''-'' (calendar_day s) = date_text ''-'' (calendar_day t)"
    and fields: "hour s = hour t" "minute s = minute t" "second s = second t"
    and frac: "(if microsecond s = 0 then [] else ''.'' @ digits 6 (microsecond s)) @ ''+00:00''
      = (if microsecond t = 0 then [] else ''.'' @ digits 6 (microsecond t)) @ ''+00:00''"
    by (simp_all add: isoformat_def)
  note day = calendar_text_inject [OF assms this(1)]
  from frac have "microsecond s = microsecond t" by (auto split: if_splits)
  moreover from day fields have "s div 60000000 = t div 60000000"
    by (simp add: minute_fields calendar_day_def)
  ultimately show "s = t" using fields(3) instant_fields [of s] instant_fields [of t] by simp
qed simp

end
