(* ===== verification/StationSearch.thy ===== *)
theory StationSearch
  imports Stations PyFloat PyDatetime "HOL-Library.Countable"
begin

text \<open>
  The public station routes (\<open>stations/routes.py\<close>) with their JSON, and what the versioned
  cache guarantees while changes, invalidations, searches and expiry interleave.
\<close>

subsection \<open>The JSON of stations\<close>

text \<open>
  \<open>float(value)\<close> of a decimal is the nearest double. A distance is a double in metres that is
  divided by 1000; \<open>round(km, 2)\<close> is the double nearest to the correctly rounded hundredths.
\<close>

definition round_2 :: "pyfloat \<Rightarrow> pyfloat" where
  "round_2 x = (case x of Finite r \<Rightarrow> double_of (to_integral_value (r * 100) / 100) | _ \<Rightarrow> x)"

fun ConnectorType_value :: "ConnectorType \<Rightarrow> string" where
  "ConnectorType_value CCS_2 = ''ccs_2''"
| "ConnectorType_value TYPE_2 = ''type_2''"
| "ConnectorType_value CHADEMO = ''chademo''"
| "ConnectorType_value GB_T = ''gb_t''"
| "ConnectorType_value BHARAT_DC_001 = ''bharat_dc_001''"

fun PowerType_value :: "PowerType \<Rightarrow> string" where
  "PowerType_value AC = ''ac''"
| "PowerType_value DC = ''dc''"

fun ChargePointStatus_value :: "ChargePointStatus \<Rightarrow> string" where
  "ChargePointStatus_value AVAILABLE = ''available''"
| "ChargePointStatus_value OUT_OF_SERVICE = ''out_of_service''"
| "ChargePointStatus_value CP_MAINTENANCE = ''maintenance''"
| "ChargePointStatus_value RETIRED = ''retired''"

fun StationStatus_value :: "StationStatus \<Rightarrow> string" where
  "StationStatus_value S_DRAFT = ''draft''"
| "StationStatus_value S_ACTIVE = ''active''"
| "StationStatus_value S_INACTIVE = ''inactive''"
| "StationStatus_value S_MAINTENANCE = ''maintenance''"

fun json_opt :: "string option \<Rightarrow> json" where
  "json_opt None = JNull"
| "json_opt (Some s) = JStr s"

definition serialize_charge_point :: "charge_point \<Rightarrow> json" where
  "serialize_charge_point c = JObj
     [(''id'', JStr (uuid_str (cp_id c))),
      (''code'', JStr (cp_code c)),
      (''connector_type'', JStr (ConnectorType_value (cp_connector_type c))),
      (''power_type'', JStr (PowerType_value (cp_power_type c))),
      (''max_power_kw'', JFloat (double_of (cp_max_power_kw c))),
      (''booking_fee'', JFloat (double_of (cp_booking_fee c))),
      (''is_bookable'', JBool (cp_is_bookable c)),
      (''status'', JStr (ChargePointStatus_value (cp_status c))),
      (''version'', JInt (cp_version c))]"

definition serialize_station ::
    "charge_point list \<Rightarrow> rat option \<Rightarrow> charging_station \<Rightarrow> json" where
  "serialize_station points distance_km s = JObj (
     [(''id'', JStr (uuid_str (st_id s))),
      (''owner_id'', JStr (uuid_str (st_owner_id s))),
      (''name'', JStr (st_name s)),
      (''description'', json_opt (st_description s)),
      (''address_line_1'', JStr (st_address_line_1 s)),
      (''address_line_2'', json_opt (st_address_line_2 s)),
      (''city'', JStr (st_city s)),
      (''state'', JStr (st_state s)),
      (''postal_code'', JStr (st_postal_code s)),
      (''country_code'', JStr (st_country_code s)),
      (''latitude'', JFloat (double_of (st_latitude s))),
      (''longitude'', JFloat (double_of (st_longitude s))),
      (''timezone'', JStr (st_timezone s)),
      (''phone'', json_opt (st_phone s)),
      (''is_24_hours'', JBool (st_is_24_hours s)),
      (''status'', JStr (StationStatus_value (st_status s))),
      (''version'', JInt (st_version s)),
      (''charge_points'', JList (map (serialize_charge_point) points)),
      (''created_at'', JStr (isoformat (st_created_at s)))]
     @ (case distance_km of None \<Rightarrow> [] | Some km \<Rightarrow> [(''distance_km'', JFloat (round_2 (double_of km)))]))"

definition search_response ::
    "database_functions \<Rightarrow> StationSearchQuery \<Rightarrow> database \<Rightarrow> json" where
  "search_response fns query d =
     (let page = find_public_stations fns query d
      in JObj [(''stations'', JList (map (\<lambda>res. serialize_station
                   (charge_points_of (st_id (sr_station res)) d) (sr_distance_km res) (sr_station res))
                 (pg_items page))),
               (''pagination'', JObj [(''page'', JInt (pg_page page)),
                  (''per_page'', JInt (pg_per_page page)), (''total'', JInt (pg_total page)),
                  (''pages'', JInt (pages_of (pg_total page) (pg_per_page page)))])])"

text \<open>
  The route: the cache is read, then the database, then the cache is written; \<open>others\<close> is
  what the other requests do to the database and the cache after the first read.
\<close>

definition list_charging_stations ::
    "config \<Rightarrow> primitives \<Rightarrow> json_writer \<Rightarrow> database_functions \<Rightarrow> (nat \<Rightarrow> bool) \<Rightarrow> instant
     \<Rightarrow> (database \<times> redis \<Rightarrow> database \<times> redis) \<Rightarrow> StationSearchQuery \<Rightarrow> database \<times> redis
     \<Rightarrow> (json \<times> int) \<times> (database \<times> redis)" where
  "list_charging_stations cfg prims w fns up now others query s =
     (case get_cached_station_search cfg prims w (up 0) (up 1) now query (snd s) of
        (_, Some cached_response) \<Rightarrow> ((cached_response, 200), s)
      | (cache_key, None) \<Rightarrow>
          let (d, r) = others s;
              response_body = search_response fns query d
          in ((response_body, 200),
              (d, store_station_search cfg w (up 2) now cache_key response_body r)))"

definition station_not_found_response :: "json \<times> int" where
  "station_not_found_response = (JObj [(''error'', JObj
     [(''code'', JStr ''station_not_found''),
      (''message'', JStr ''The charging station was not found.'')])], 404)"

definition get_charging_station :: "uuid \<Rightarrow> database \<Rightarrow> json \<times> int" where
  "get_charging_station station_id d =
     (case get_public_station station_id d of
        None \<Rightarrow> station_not_found_response
      | Some s \<Rightarrow> (JObj [(''station'', serialize_station (charge_points_of (st_id s) d) None s)], 200))"

subsection \<open>Cache keys\<close>

text \<open>What the cache relies on: texts read back, and the digests of different queries differ.\<close>

definition json_roundtrip :: "primitives \<Rightarrow> json_writer \<Rightarrow> bool" where
  "json_roundtrip prims w \<longleftrightarrow> (\<forall>j. json_loads prims (dumps w j) = Some j)"

definition digests_differ :: "primitives \<Rightarrow> json_writer \<Rightarrow> bool" where
  "digests_differ prims w \<longleftrightarrow> (\<forall>q q'. sha256_hexdigest prims (canonical_query w q)
     = sha256_hexdigest prims (canonical_query w q') \<longrightarrow> q = q')"

lemma digits_prefix_unique:
  assumes "list_all is_digit xs" "list_all is_digit ys" "xs @ '':'' @ us = ys @ '':'' @ vs"
  shows "xs = ys \<and> us = vs"
proof -
  have colon: "\<not> is_digit (CHR '':'')" by (simp add: is_digit_def)
  have tw: "takeWhile is_digit (zs @ '':'' @ ws) = zs" if "list_all is_digit zs" for zs ws
    using that colon by (simp add: takeWhile_append list_all_iff)
  from arg_cong [OF assms(3), of "takeWhile is_digit"] have "xs = ys" by (simp only: tw [OF assms(1)] tw [OF assms(2)])
  with assms(3) show ?thesis by simp
qed

lemma int_str_digits: "0 \<le> n \<Longrightarrow> list_all is_digit (int_str n)"
  by (simp add: int_str_def nat_str_digits)

lemma cache_key_inject:
  assumes "digests_differ prims w" "0 \<le> m" "0 \<le> n"
    and "build_cache_key prims w q (int_str m) = build_cache_key prims w q' (int_str n)"
  shows "q = q' \<and> m = n"
proof -
  from assms(4) have "int_str m @ '':'' @ sha256_hexdigest prims (canonical_query w q)
      = int_str n @ '':'' @ sha256_hexdigest prims (canonical_query w q')"
    by (simp add: build_cache_key_def)
  from digits_prefix_unique [OF int_str_digits [OF assms(2)] int_str_digits [OF assms(3)] this]
  show ?thesis using assms(1) int_str_inject unfolding digests_differ_def by blast
qed

lemma int_str_nonempty: "int_str n \<noteq> []"
  by (simp add: int_str_def nat_str_nonempty)

lemma cache_key_not_version:
  assumes "0 \<le> n"
  shows "build_cache_key prims w q (int_str n) \<noteq> CACHE_VERSION_KEY"
proof
  assume "build_cache_key prims w q (int_str n) = CACHE_VERSION_KEY"
  then have "hd (int_str n) = CHR ''e''"
    using int_str_nonempty [of n]
    by (cases "int_str n") (simp_all add: build_cache_key_def CACHE_VERSION_KEY_def CACHE_KEY_PREFIX_def)
  with int_str_digits [OF assms] int_str_nonempty [of n] show False
    by (cases "int_str n") (auto simp: is_digit_def)
qed

subsection \<open>The cache under concurrent changes\<close>

text \<open>
  The site between requests: changes of stations that are committed and not yet followed by
  their invalidation, searches that found nothing in the cache, and responses computed from
  the database and not yet stored.
\<close>

record site =
  site_db :: database
  site_redis :: redis
  site_pending :: nat
  site_searches :: "(string \<times> StationSearchQuery) list"
  site_responses :: "(string \<times> json) list"

definition same_catalogue :: "database \<Rightarrow> database \<Rightarrow> bool" where
  "same_catalogue d d' \<longleftrightarrow> charging_stations d' = charging_stations d \<and> charge_points d' = charge_points d"

inductive site_step ::
    "config \<Rightarrow> primitives \<Rightarrow> json_writer \<Rightarrow> database_functions \<Rightarrow> site \<Rightarrow> site \<Rightarrow> bool"
  for cfg :: config and prims :: primitives and w :: json_writer
    and fns :: database_functions where
  change: "site_step cfg prims w fns s (s\<lparr>site_db := d', site_pending := site_pending s + 1\<rparr>)"
| elsewhere: "same_catalogue (site_db s) d' \<Longrightarrow> site_step cfg prims w fns s (s\<lparr>site_db := d'\<rparr>)"
| invalidate: "0 < site_pending s \<Longrightarrow>
     redis_incr True now CACHE_VERSION_KEY (site_redis s) = (Inr n, r') \<Longrightarrow>
     r' = invalidate_station_searches cfg True now (site_redis s) \<Longrightarrow>
     site_step cfg prims w fns s (s\<lparr>site_redis := r', site_pending := site_pending s - 1\<rparr>)"
| miss: "get_cached_station_search cfg prims w up up' now q (site_redis s) = (Some key, None) \<Longrightarrow>
     site_step cfg prims w fns s (s\<lparr>site_searches := (key, q) # site_searches s\<rparr>)"
| compute: "(key, q) \<in> set (site_searches s) \<Longrightarrow>
     site_step cfg prims w fns s
       (s\<lparr>site_responses := (key, search_response fns q (site_db s)) # site_responses s\<rparr>)"
| store: "(key, body) \<in> set (site_responses s) \<Longrightarrow>
     site_step cfg prims w fns s
       (s\<lparr>site_redis := store_station_search cfg w up now (Some key) body (site_redis s)\<rparr>)"
| expire: "r' CACHE_VERSION_KEY = site_redis s CACHE_VERSION_KEY \<Longrightarrow>
     (\<And>k. r' k = None \<or> r' k = site_redis s k) \<Longrightarrow>
     site_step cfg prims w fns s (s\<lparr>site_redis := r'\<rparr>)"

text \<open>The version that is current: absent means the first one.\<close>

definition version_is :: "redis \<Rightarrow> int \<Rightarrow> bool" where
  "version_is r n \<longleftrightarrow> 0 \<le> n \<and> (r CACHE_VERSION_KEY = Some (int_str n, None)
     \<or> r CACHE_VERSION_KEY = None \<and> n = 0)"

text \<open>
  What a key may hold: a key of an older version anything, a key of the current one the
  response to its query on the present catalogue unless an invalidation is still to come,
  and there are no keys of later versions.
\<close>

definition current_for ::
    "primitives \<Rightarrow> json_writer \<Rightarrow> database_functions \<Rightarrow> site \<Rightarrow> int \<Rightarrow> string \<Rightarrow> json \<Rightarrow> bool" where
  "current_for prims w fns s n key body \<longleftrightarrow>
     (\<exists>q m. key = build_cache_key prims w q (int_str m) \<and> 0 \<le> m \<and> m \<le> n
        \<and> (m = n \<longrightarrow> site_pending s = 0 \<longrightarrow> body = search_response fns q (site_db s)))"

definition searches_ok :: "primitives \<Rightarrow> json_writer \<Rightarrow> int \<Rightarrow> (string \<times> StationSearchQuery) list \<Rightarrow> bool" where
  "searches_ok prims w n xs \<longleftrightarrow> (\<forall>(key, q) \<in> set xs. \<exists>m. 0 \<le> m \<and> m \<le> n
     \<and> key = build_cache_key prims w q (int_str m))"

definition bodies_ok ::
    "primitives \<Rightarrow> json_writer \<Rightarrow> database_functions \<Rightarrow> site \<Rightarrow> int \<Rightarrow> bool" where
  "bodies_ok prims w fns s n \<longleftrightarrow>
     (\<forall>(key, body) \<in> set (site_responses s). current_for prims w fns s n key body)
     \<and> (\<forall>key v e. key \<noteq> CACHE_VERSION_KEY \<longrightarrow> site_redis s key = Some (v, e) \<longrightarrow>
          (\<exists>body. v = dumps w body \<and> current_for prims w fns s n key body))"

definition site_ok ::
    "primitives \<Rightarrow> json_writer \<Rightarrow> database_functions \<Rightarrow> site \<Rightarrow> bool" where
  "site_ok prims w fns s \<longleftrightarrow> (\<exists>n. version_is (site_redis s) n
     \<and> searches_ok prims w n (site_searches s) \<and> bodies_ok prims w fns s n)"

lemma same_catalogue_response:
  assumes "same_catalogue d d'"
  shows "search_response fns q d' = search_response fns q d"
proof -
  have points: "charge_points_of i d' = charge_points_of i d" for i
    using assms by (simp add: same_catalogue_def charge_points_of_def)
  then have "station_matches fns q d' = station_matches fns q d"
    by (simp add: station_matches_def fun_eq_iff)
  with assms have "find_public_stations fns q d' = find_public_stations fns q d"
    by (simp add: find_public_stations_def same_catalogue_def)
  with points show ?thesis by (simp add: search_response_def)
qed

lemma version_text:
  assumes "version_is r n"
  shows "redis_get True now CACHE_VERSION_KEY r = Inr (if r CACHE_VERSION_KEY = None then None else Some (int_str n))"
  using assms by (auto simp: version_is_def redis_get_def live_def)

lemma get_cached_key:
  assumes "version_is r n" "get_cached_station_search cfg prims w up up' now q r = (Some key, hit)"
  shows "key = build_cache_key prims w q (int_str n)
    \<and> (case hit of None \<Rightarrow> True | Some body \<Rightarrow>
         \<exists>v e. r key = Some (v, e) \<and> json_loads prims v = Some body)"
proof -
  have up: "up" "cache_is_enabled cfg"
    using assms(2) by (auto simp: get_cached_station_search_def redis_get_def split: if_splits)
  have zero: "int_str 0 = ''0''" by code_simp
  have "redis_get up now CACHE_VERSION_KEY r = Inr (if r CACHE_VERSION_KEY = None then None else Some (int_str n))"
    using version_text [OF assms(1)] up by simp
  moreover have "(case (if r CACHE_VERSION_KEY = None then None else Some (int_str n)) of
      Some v \<Rightarrow> if v = [] then ''0'' else v | None \<Rightarrow> ''0'') = int_str n"
    using assms(1) zero int_str_nonempty [of n] by (auto simp: version_is_def)
  ultimately have "get_cached_station_search cfg prims w up up' now q r =
      (let cache_key = build_cache_key prims w q (int_str n)
       in case redis_get up' now cache_key r of
            Inl _ \<Rightarrow> (None, None)
          | Inr None \<Rightarrow> (Some cache_key, None)
          | Inr (Some cached_value) \<Rightarrow> (case json_loads prims cached_value of
                Some payload \<Rightarrow> (Some cache_key, if payload = JNull then None else Some payload)
              | None \<Rightarrow> (None, None)))"
    using up by (simp add: get_cached_station_search_def Let_def)
  with assms(2) show ?thesis
    by (auto simp: Let_def redis_get_def live_def split: sum.splits option.splits if_splits)
qed

lemma current_for_pending: "0 < site_pending s' \<Longrightarrow> current_for prims w fns s n key body \<Longrightarrow>
    current_for prims w fns s' n key body"
  unfolding current_for_def by auto

lemma current_for_later:
  "current_for prims w fns s n key body \<Longrightarrow> current_for prims w fns s' (n + 1) key body"
  unfolding current_for_def by (metis add.commute zle_add1_eq_le less_add_one order_less_irrefl order_less_imp_le order_le_less_trans)

lemma current_for_same:
  "site_pending s' = site_pending s \<Longrightarrow>
   (\<And>q. search_response fns q (site_db s') = search_response fns q (site_db s)) \<Longrightarrow>
   current_for prims w fns s' = current_for prims w fns s"
  by (simp add: current_for_def fun_eq_iff)

lemma incr_version:
  assumes "redis_incr True now CACHE_VERSION_KEY r = (Inr n, r')" "version_is r m"
  shows "n = m + 1 \<and> version_is r' (m + 1) \<and> (\<forall>key. key \<noteq> CACHE_VERSION_KEY \<longrightarrow> r' key = r key)"
  using assms by (auto simp: redis_incr_def version_is_def live_def split: if_splits)

lemma bodies_ok_transfer:
  assumes "bodies_ok prims w fns s n"
    and "\<And>key body. current_for prims w fns s n key body \<Longrightarrow> current_for prims w fns s' n' key body"
    and "site_responses s' = site_responses s"
    and "\<And>key. key \<noteq> CACHE_VERSION_KEY \<Longrightarrow> site_redis s' key = None \<or> site_redis s' key = site_redis s key"
  shows "bodies_ok prims w fns s' n'"
  unfolding bodies_ok_def
proof (intro conjI allI impI)
  show "\<forall>(key, body) \<in> set (site_responses s'). current_for prims w fns s' n' key body"
    using assms(1-3) unfolding bodies_ok_def by auto
  fix key v e assume "key \<noteq> CACHE_VERSION_KEY" "site_redis s' key = Some (v, e)"
  with assms(4) [of key] have "site_redis s key = Some (v, e)" by auto
  with assms(1) \<open>key \<noteq> CACHE_VERSION_KEY\<close> obtain body where
    "v = dumps w body" "current_for prims w fns s n key body"
    unfolding bodies_ok_def by blast
  with assms(2) show "\<exists>body. v = dumps w body \<and> current_for prims w fns s' n' key body" by blast
qed

lemma store_result:
  "store_station_search cfg w up now (Some key) body r = r
   \<or> (\<exists>e. store_station_search cfg w up now (Some key) body r = r(key \<mapsto> (dumps w body, e)))"
  by (auto simp: store_station_search_def redis_setex_def)

lemma stored_entry_ok:
  assumes "bodies_ok prims w fns s n" "version_is (site_redis s) n" "(key, body) \<in> set (site_responses s)"
    and s': "s' = s\<lparr>site_redis := store_station_search cfg w up now (Some key) body (site_redis s)\<rparr>"
  shows "bodies_ok prims w fns s' n" "version_is (site_redis s') n"
proof -
  have same: "current_for prims w fns s' = current_for prims w fns s"
    by (intro current_for_same) (simp_all add: s')
  have cur: "current_for prims w fns s n key body"
    using assms(1,3) unfolding bodies_ok_def by auto
  then obtain q m where "key = build_cache_key prims w q (int_str m)" "0 \<le> m"
    unfolding current_for_def by blast
  then have key: "key \<noteq> CACHE_VERSION_KEY" by (simp add: cache_key_not_version)
  from store_result [of cfg w up now key body "site_redis s"]
  have entries: "site_redis s' k = site_redis s k \<or> k = key \<and> (\<exists>e. site_redis s' k = Some (dumps w body, e))" for k
    unfolding s' by (cases "k = key") auto
  show "bodies_ok prims w fns s' n"
    unfolding bodies_ok_def
  proof (intro conjI allI impI)
    show "\<forall>(key, body) \<in> set (site_responses s'). current_for prims w fns s' n key body"
      using assms(1) unfolding same by (simp add: bodies_ok_def s')
    fix k v e assume k: "k \<noteq> CACHE_VERSION_KEY" "site_redis s' k = Some (v, e)"
    from entries [of k] k(2) consider "site_redis s k = Some (v, e)" | "k = key" "v = dumps w body" by auto
    then show "\<exists>body. v = dumps w body \<and> current_for prims w fns s' n k body"
      unfolding same using assms(1) k(1) cur by cases (auto simp: bodies_ok_def)
  qed
  show "version_is (site_redis s') n"
    using assms(2) entries [of CACHE_VERSION_KEY] key by (simp add: version_is_def)
qed

lemma site_step_ok:
  assumes "site_step cfg prims w fns s s'" "site_ok prims w fns s"
  shows "site_ok prims w fns s'"
proof -
  from assms(2) obtain n where n: "version_is (site_redis s) n"
    "searches_ok prims w n (site_searches s)" "bodies_ok prims w fns s n"
    by (auto simp: site_ok_def)
  from assms(1) show ?thesis
  proof cases
    case (change d')
    have "bodies_ok prims w fns s' n"
      by (rule bodies_ok_transfer [OF n(3)]) (auto simp: change intro: current_for_pending [rotated])
    with n(1,2) show ?thesis unfolding site_ok_def by (intro exI [of _ n]) (simp add: change)
  next
    case (elsewhere d')
    have "current_for prims w fns s' = current_for prims w fns s"
      using elsewhere(2) by (intro current_for_same) (simp_all add: elsewhere(1) same_catalogue_response)
    with n(3) have "bodies_ok prims w fns s' n"
      by (intro bodies_ok_transfer [OF n(3)]) (simp_all add: elsewhere(1))
    with n(1,2) show ?thesis unfolding site_ok_def by (intro exI [of _ n]) (simp add: elsewhere(1))
  next
    case (invalidate now m r')
    note inc = incr_version [OF invalidate(3) n(1)]
    have "bodies_ok prims w fns s' (n + 1)"
      by (rule bodies_ok_transfer [OF n(3)])
        (use inc in \<open>auto simp: invalidate(1) intro: current_for_later\<close>)
    moreover have "searches_ok prims w (n + 1) (site_searches s)"
      using n(2) unfolding searches_ok_def by fastforce
    moreover have "version_is r' (n + 1)" using inc by blast
    ultimately show ?thesis unfolding site_ok_def by (intro exI [of _ "n + 1"]) (simp add: invalidate(1))
  next
    case (miss up up' now q key)
    from get_cached_key [OF n(1) miss(2)] have "key = build_cache_key prims w q (int_str n)" by simp
    moreover from n(1) have "0 \<le> n" by (simp add: version_is_def)
    ultimately have "searches_ok prims w n ((key, q) # site_searches s)"
      using n(2) unfolding searches_ok_def by auto
    moreover have "current_for prims w fns s' = current_for prims w fns s"
      by (intro current_for_same) (simp_all add: miss(1))
    then have "bodies_ok prims w fns s' n"
      by (intro bodies_ok_transfer [OF n(3)]) (simp_all add: miss(1))
    ultimately show ?thesis using n(1) unfolding site_ok_def by (intro exI [of _ n]) (simp add: miss(1))
  next
    case (compute key q)
    have same: "current_for prims w fns s' = current_for prims w fns s"
      by (intro current_for_same) (simp_all add: compute(1))
    from n(2) compute(2) have "current_for prims w fns s n key (search_response fns q (site_db s))"
      unfolding searches_ok_def current_for_def by blast
    with n(3) have "bodies_ok prims w fns s' n"
      unfolding bodies_ok_def same by (simp add: compute(1))
    with n(1,2) show ?thesis unfolding site_ok_def by (intro exI [of _ n]) (simp add: compute(1))
  next
    case (store key body up now)
    from stored_entry_ok [OF n(3,1) store(2,1)] n(2) show ?thesis
      unfolding site_ok_def by (intro exI [of _ n]) (simp add: store(1))
  next
    case (expire r')
    have "current_for prims w fns s' = current_for prims w fns s"
      by (intro current_for_same) (simp_all add: expire(1))
    then have "bodies_ok prims w fns s' n"
      using expire(3) by (intro bodies_ok_transfer [OF n(3)]) (simp_all add: expire(1))
    with n(1,2) show ?thesis
      unfolding site_ok_def by (intro exI [of _ n]) (simp add: expire(1,2) version_is_def)
  qed
qed

interpretation site: invariant_machine "site_step cfg prims w fns" "site_ok prims w fns"
  for cfg prims w fns
  by unfold_locales (rule site_step_ok)

text \<open>A site that has just been started has an empty cache and nothing under way.\<close>

definition fresh_site :: "database \<Rightarrow> site" where
  "fresh_site d = \<lparr>site_db = d, site_redis = (\<lambda>_. None), site_pending = 0, site_searches = [],
     site_responses = []\<rparr>"

lemma fresh_site_ok: "site_ok prims w fns (fresh_site d)"
  by (auto simp: site_ok_def fresh_site_def version_is_def searches_ok_def bodies_ok_def)

text \<open>
  C27. Caching is invisible: however changes, invalidations, searches, stores and expiry
  interleave, once every committed change has been followed by its invalidation, a search
  answers exactly what the database holds now, whether or not it is served from the cache.
\<close>

theorem cached_search_is_current:
  assumes "json_roundtrip prims w" "digests_differ prims w"
    and "(site_step cfg prims w fns)\<^sup>*\<^sup>* (fresh_site d0) s" "site_pending s = 0"
  shows "fst (list_charging_stations cfg prims w fns up now id q (site_db s, site_redis s))
    = (search_response fns q (site_db s), 200)"
proof -
  from site.run_preserves [OF assms(3) fresh_site_ok] obtain n where n: "version_is (site_redis s) n"
    "bodies_ok prims w fns s n"
    by (auto simp: site_ok_def)
  from n(1) have "0 \<le> n" by (simp add: version_is_def)
  have hit: "body = search_response fns q (site_db s)"
    if get: "get_cached_station_search cfg prims w (up 0) (up 1) now q (site_redis s) = (k, Some body)" for k body
  proof -
    from get obtain key where k: "k = Some key"
      by (auto simp: get_cached_station_search_def Let_def split: if_splits sum.splits option.splits)
    from get_cached_key [OF n(1) get [unfolded k]] obtain v e where
      key: "key = build_cache_key prims w q (int_str n)" and v: "site_redis s key = Some (v, e)"
        "json_loads prims v = Some body" by auto
    have "key \<noteq> CACHE_VERSION_KEY" unfolding key by (rule cache_key_not_version [OF \<open>0 \<le> n\<close>])
    with n(2) v(1) obtain body' where b: "v = dumps w body'" "current_for prims w fns s n key body'"
      unfolding bodies_ok_def by blast
    from b(1) v(2) assms(1) have "body' = body" by (simp add: json_roundtrip_def)
    from b(2) obtain q' m where m: "key = build_cache_key prims w q' (int_str m)" "0 \<le> m"
      "m = n \<longrightarrow> body' = search_response fns q' (site_db s)"
      unfolding current_for_def using assms(4) by blast
    from key m(1) have "build_cache_key prims w q (int_str n) = build_cache_key prims w q' (int_str m)"
      by simp
    from cache_key_inject [OF assms(2) \<open>0 \<le> n\<close> m(2) this] have "q = q' \<and> n = m" .
    with m(3) \<open>body' = body\<close> show ?thesis by simp
  qed
  show ?thesis
    by (cases "get_cached_station_search cfg prims w (up 0) (up 1) now q (site_redis s)")
      (auto simp: list_charging_stations_def Let_def hit split: option.split prod.split)
qed

subsection \<open>Witness\<close>

text \<open>A writer whose texts are the numbers of the values in an enumeration.\<close>

instance pyfloat :: countable
  by countable_datatype

instance json :: countable
  by countable_datatype

instance ConnectorType :: countable
  by countable_datatype

definition counting_writer :: json_writer where
  "counting_writer = \<lparr>canonical_query = (\<lambda>q. nat_str (to_nat ((ss_city q, ss_connector_type q,
       ss_min_power_kw q, ss_latitude q), ss_longitude q, ss_radius_km q, ss_page q, ss_per_page q))),
     dumps = (\<lambda>j. nat_str (to_nat j))\<rparr>"

definition counting_primitives :: primitives where
  "counting_primitives = \<lparr>hmac_sha256_hexdigest = (\<lambda>k m. m), sha256_hexdigest = (\<lambda>m. m),
     json_loads = (\<lambda>t. Some (from_nat (nat_of_digits t)))\<rparr>"

lemma counting_sound:
  "json_roundtrip counting_primitives counting_writer" "digests_differ counting_primitives counting_writer"
proof -
  show "json_roundtrip counting_primitives counting_writer"
    by (simp add: json_roundtrip_def counting_primitives_def counting_writer_def)
  have inj: "nat_str m = nat_str n \<Longrightarrow> m = n" for m n
    by (metis nat_of_digits_nat_str)
  show "digests_differ counting_primitives counting_writer"
    unfolding digests_differ_def counting_primitives_def counting_writer_def
    by (auto dest!: inj intro!: StationSearchQuery.equality)
qed

definition caching_config :: config where
  "caching_config = sample_config\<lparr>STATION_SEARCH_CACHE_ENABLED := Some True\<rparr>"

definition sample_key :: string where
  "sample_key = build_cache_key counting_primitives counting_writer sample_search ''0''"

definition warm_site :: site where
  "warm_site = (fresh_site sample_db)\<lparr>
     site_redis := [sample_key \<mapsto> (dumps counting_writer
        (search_response flat_earth sample_search sample_db), Some (seconds 60))],
     site_searches := [(sample_key, sample_search)],
     site_responses := [(sample_key, search_response flat_earth sample_search sample_db)]\<rparr>"

lemma caching_enabled: "cache_is_enabled caching_config" "STATION_SEARCH_CACHE_TTL_SECONDS caching_config = None"
  by code_simp+

lemma warm_site_reached:
  "(site_step caching_config counting_primitives counting_writer flat_earth)\<^sup>*\<^sup>*
     (fresh_site sample_db) warm_site"
proof -
  let ?step = "site_step caching_config counting_primitives counting_writer flat_earth"
  let ?s0 = "fresh_site sample_db"
  let ?s1 = "?s0\<lparr>site_searches := [(sample_key, sample_search)]\<rparr>"
  let ?body = "search_response flat_earth sample_search sample_db"
  let ?s2 = "?s1\<lparr>site_responses := [(sample_key, ?body)]\<rparr>"
  have "get_cached_station_search caching_config counting_primitives counting_writer True True 0
      sample_search (site_redis ?s0) = (Some sample_key, None)"
    by (simp add: get_cached_station_search_def caching_enabled redis_get_def live_def fresh_site_def sample_key_def)
  from site_step.miss [OF this, of flat_earth] have 1: "?step ?s0 ?s1"
    by (simp add: fresh_site_def)
  have "(sample_key, sample_search) \<in> set (site_searches ?s1)" by simp
  from site_step.compute [OF this, of caching_config counting_primitives counting_writer flat_earth]
  have 2: "?step ?s1 ?s2" by (simp add: fresh_site_def)
  have "(sample_key, ?body) \<in> set (site_responses ?s2)" by simp
  from site_step.store [OF this, of caching_config counting_primitives counting_writer flat_earth True 0]
  have 3: "?step ?s2 warm_site"
    by (simp add: warm_site_def fresh_site_def store_station_search_def caching_enabled redis_setex_def
        DEFAULT_CACHE_TTL_SECONDS_def)
  from 1 2 3 show ?thesis by (meson r_into_rtranclp rtranclp_trans)
qed

theorem cached_search_is_current_witness:
  "fst (get_cached_station_search caching_config counting_primitives counting_writer True True 1
      sample_search (site_redis warm_site)) = Some sample_key
   \<and> fst (list_charging_stations caching_config counting_primitives counting_writer flat_earth (\<lambda>_. True) 1 id sample_search (sample_db, site_redis warm_site))
     = (search_response flat_earth sample_search sample_db, 200)"
proof
  have "int_str 0 = ''0''" by code_simp
  with cache_key_not_version [of 0 counting_primitives counting_writer sample_search]
  have "CACHE_VERSION_KEY \<noteq> sample_key" by (simp add: sample_key_def)
  then have "site_redis warm_site CACHE_VERSION_KEY = None"
    by (simp add: warm_site_def fresh_site_def)
  moreover have "live 1 (site_redis warm_site) sample_key = site_redis warm_site sample_key"
    "site_redis warm_site sample_key \<noteq> None"
    by (simp_all add: warm_site_def live_def seconds_def)
  moreover have "json_loads counting_primitives v = Some (from_nat (nat_of_digits v))" for v
    by (simp add: counting_primitives_def)
  ultimately show "fst (get_cached_station_search caching_config counting_primitives counting_writer True True 1
      sample_search (site_redis warm_site)) = Some sample_key"
    by (auto simp: get_cached_station_search_def caching_enabled redis_get_def live_def Let_def
        sample_key_def [symmetric])
  have "site_db warm_site = sample_db" "site_pending warm_site = 0"
    by (simp_all add: warm_site_def fresh_site_def)
  with cached_search_is_current [OF counting_sound warm_site_reached, of "\<lambda>_. True" 1 sample_search]
  show "fst (list_charging_stations caching_config counting_primitives counting_writer flat_earth (\<lambda>_. True) 1 id sample_search (sample_db, site_redis warm_site))
     = (search_response flat_earth sample_search sample_db, 200)"
    by simp
qed

end
