(* ===== verification/Http.thy ===== *)
theory Http
  imports StationSearch Access
begin

text \<open>
  What the route modules share: requests and responses, the request models of pydantic, the
  guards as the routes apply them, and the mapping of a service's exceptions to responses.
  A view runs against the database and ends in a response or in an exception that Flask
  turns into status 500.
\<close>

subsection \<open>Requests and responses\<close>

record http_request =
  hq_client :: request
  hq_authorization :: string
  hq_is_json :: bool
  hq_json :: json
  hq_args :: json
  hq_body :: string
  hq_cookie :: "string \<Rightarrow> string option"
  hq_header :: "string \<Rightarrow> string option"

text \<open>
  \<open>hq_json\<close> is \<open>request.get_json(silent=True)\<close>, null when the body is not JSON;
  \<open>hq_args\<close> is \<open>request.args\<close> as the dictionary that pydantic reads. A response carries
  a JSON body or none, and the changes it makes to the browser's cookies.
\<close>

record cookie_attributes =
  ck_key :: string
  ck_path :: string
  ck_httponly :: bool
  ck_secure :: bool
  ck_samesite :: string

datatype cookie_change =
    SetCookie cookie_attributes string datetime
  | DeleteCookie cookie_attributes

record response =
  rsp_status :: int
  rsp_body :: "json option"
  rsp_cookies :: "cookie_change list"
  rsp_headers :: "(string \<times> string) list"

definition answer :: "json \<times> int \<Rightarrow> response" where
  "answer r = \<lparr>rsp_status = snd r, rsp_body = Some (fst r), rsp_cookies = [], rsp_headers = []\<rparr>"

definition no_content :: response where
  "no_content = \<lparr>rsp_status = 204, rsp_body = None, rsp_cookies = [], rsp_headers = []\<rparr>"

definition error_response :: "string \<Rightarrow> string \<Rightarrow> int \<Rightarrow> response" where
  "error_response code message status =
     answer (JObj [(''error'', JObj [(''code'', JStr code), (''message'', JStr message)])], status)"

subsection \<open>Request models\<close>

text \<open>
  pydantic coerces the document field by field (\<open>coerce\<close>, the library's part), then the
  constraints the model declares are checked (the \<open>check\<close> of each model, from the source);
  a failure is a list of issues, whose wording is the library's.
\<close>

datatype location = Key string | Position int

record issue =
  iss_loc :: "location list"
  iss_msg :: string
  iss_type :: string

record 'a model =
  coerce :: "json \<Rightarrow> issue list + 'a"
  issues :: "'a \<Rightarrow> issue list"

definition model_validate :: "'a model \<Rightarrow> ('a \<Rightarrow> 'a option) \<Rightarrow> json \<Rightarrow> issue list + 'a" where
  "model_validate m check v =
     (case coerce m v of
        Inl e \<Rightarrow> Inl e
      | Inr raw \<Rightarrow> (case check raw of None \<Rightarrow> Inl (issues m raw) | Some x \<Rightarrow> Inr x))"

definition checked :: "('a \<Rightarrow> bool) \<Rightarrow> 'a \<Rightarrow> 'a option" where
  "checked p x = (if p x then Some x else None)"

fun location_json :: "location \<Rightarrow> json" where
  "location_json (Key k) = JStr k"
| "location_json (Position n) = JInt n"

definition issue_json :: "issue \<Rightarrow> json" where
  "issue_json i = JObj [(''location'', JList (map location_json (iss_loc i))),
     (''message'', JStr (iss_msg i)), (''type'', JStr (iss_type i))]"

definition validation_response :: "string \<Rightarrow> (issue \<Rightarrow> json) \<Rightarrow> issue list \<Rightarrow> response" where
  "validation_response message detail found = answer
     (JObj [(''error'', JObj [(''code'', JStr ''validation_error''),
        (''message'', JStr message), (''details'', JList (map detail found))])], 422)"

definition validated ::
    "'a model \<Rightarrow> ('a \<Rightarrow> 'a option) \<Rightarrow> json \<Rightarrow> (issue list \<Rightarrow> response) \<Rightarrow> ('a \<Rightarrow> response outcome)
     \<Rightarrow> database \<Rightarrow> response outcome" where
  "validated m check v refuse view d =
     (case model_validate m check v of Inl found \<Rightarrow> (Inr (refuse found), d) | Inr x \<Rightarrow> view x)"

subsection \<open>Guards\<close>

definition unauthorized_response :: response where
  "unauthorized_response = error_response ''unauthorized'' ''A valid access token is required.'' 401"

definition permission_response :: response where
  "permission_response = error_response ''forbidden''
     ''You do not have permission to perform this action.'' 403"

definition with_access ::
    "exn + access \<Rightarrow> (user \<Rightarrow> json \<Rightarrow> response outcome) \<Rightarrow> database \<Rightarrow> response outcome" where
  "with_access acc view d =
     (case acc of
        Inl e \<Rightarrow> (Inl e, d)
      | Inr Unauthorized \<Rightarrow> (Inr unauthorized_response, d)
      | Inr Forbidden \<Rightarrow> (Inr permission_response, d)
      | Inr (Granted current_user access_claims) \<Rightarrow> view current_user access_claims)"

text \<open>
  The libraries and services behind a view, and what one request draws from the world while
  it runs: the clock at its first and second transaction, fresh values, and what the other
  requests do to the database between the two transactions.
\<close>

record environment =
  en_config :: config
  en_prims :: primitives
  en_jwt :: jwt_library
  en_hashing :: hashing
  en_provider :: provider
  en_functions :: database_functions
  en_writer :: json_writer
  en_email_str :: "string \<Rightarrow> string option"
  en_is_digit :: "string \<Rightarrow> bool"

record moment =
  mo_now :: instant
  mo_later :: instant
  mo_new_id :: uuid
  mo_ids :: "nat \<Rightarrow> uuid"
  mo_fresh :: fresh_values
  mo_salt :: string
  mo_up :: "nat \<Rightarrow> bool"
  mo_others :: "database \<Rightarrow> database"

definition access_token_view ::
    "environment \<Rightarrow> moment \<Rightarrow> http_request \<Rightarrow> (user \<Rightarrow> json \<Rightarrow> response outcome) \<Rightarrow> database
     \<Rightarrow> response outcome" where
  "access_token_view env mo rq view d = with_access
     (access_token_required (en_jwt env) (en_config env) (mo_now mo) (hq_authorization rq) d) view d"

definition roles_view ::
    "UserRole list \<Rightarrow> environment \<Rightarrow> moment \<Rightarrow> http_request \<Rightarrow> (user \<Rightarrow> json \<Rightarrow> response outcome)
     \<Rightarrow> database \<Rightarrow> response outcome" where
  "roles_view allowed env mo rq view d = with_access
     (roles_required allowed (en_jwt env) (en_config env) (mo_now mo) (hq_authorization rq) d) view d"

text \<open>
  A rate-limited view: a refusal answers 429 with Retry-After, and what the limiter counted
  (\<open>g.rate_limit\<close>) goes with the response to the middleware.
\<close>

definition too_many_requests :: "rate_info \<Rightarrow> response" where
  "too_many_requests info =
     (error_response ''rate_limit_exceeded'' ''Too many requests. Please try again later.'' 429)
       \<lparr>rsp_headers := [(''Retry-After'', int_str (ri_retry_after info))]\<rparr>"

type_synonym served = "(exn + response) \<times> (database \<times> redis) \<times> rate_info option"

definition limited ::
    "string \<Rightarrow> (config \<Rightarrow> int) \<Rightarrow> environment \<Rightarrow> moment \<Rightarrow> http_request
     \<Rightarrow> (database \<times> redis \<Rightarrow> (exn + response) \<times> (database \<times> redis)) \<Rightarrow> database \<times> redis \<Rightarrow> served" where
  "limited scope requests_config env mo rq view s =
     (case rate_limit (en_config env) (en_prims env) scope requests_config (mo_up mo 0) (mo_now mo)
             (hq_client rq) (snd s) of
        (Passed info, r) \<Rightarrow> (case view (fst s, r) of (res, s') \<Rightarrow> (res, s', info))
      | (Refused info, r) \<Rightarrow> (Inr (too_many_requests info), (fst s, r), Some info))"

text \<open>A view that only works on the database.\<close>

definition on_database ::
    "(database \<Rightarrow> response outcome) \<Rightarrow> database \<times> redis \<Rightarrow> (exn + response) \<times> (database \<times> redis)" where
  "on_database view s = (case view (fst s) of (res, d) \<Rightarrow> (res, (d, snd s)))"

subsection \<open>Exceptions of a service\<close>

text \<open>The \<open>except\<close> clauses of a view, and the rendering of the service's result.\<close>

definition concluded ::
    "(exn \<Rightarrow> response option) \<Rightarrow> ('a \<Rightarrow> database \<Rightarrow> exn + response) \<Rightarrow> 'a outcome \<Rightarrow> response outcome" where
  "concluded handlers render out =
     (case out of
        (Inl e, d) \<Rightarrow> ((case handlers e of Some r \<Rightarrow> Inr r | None \<Rightarrow> Inl e), d)
      | (Inr x, d) \<Rightarrow> (render x d, d))"

text \<open>Rendering a related row that does not exist reads an attribute of None.\<close>

definition related :: "'a option \<Rightarrow> ('a \<Rightarrow> exn + 'b) \<Rightarrow> exn + 'b" where
  "related row f = (case row of None \<Rightarrow> Inl AttributeError | Some x \<Rightarrow> f x)"

text \<open>
  The driver reads a booking's row back into datetimes and raises \<open>DataError\<close> for a time that
  no datetime represents. Only the slot of a booking comes from a client, in any time zone,
  so in UTC it can lie beyond the year 9999; every other time is a reading of the clock.
\<close>

definition slot_readable :: "booking \<Rightarrow> bool" where
  "slot_readable b \<longleftrightarrow> representable (bk_starts_at b) \<and> representable (bk_ends_at b)"

definition slots_readable :: "database \<Rightarrow> bool" where
  "slots_readable d \<longleftrightarrow> list_all slot_readable (bookings d)"

definition read_slot :: "booking \<Rightarrow> exn + 'a \<Rightarrow> exn + 'a" where
  "read_slot b result = (if slot_readable b then result else Inl DataError)"

lemma read_slot_simps [simp]:
  "slot_readable b \<Longrightarrow> read_slot b result = result"
  "\<not> slot_readable b \<Longrightarrow> read_slot b result = Inl DataError"
  by (simp_all add: read_slot_def)

lemma slots_readableD: "slots_readable d \<Longrightarrow> b \<in> set (bookings d) \<Longrightarrow> slot_readable b"
  by (simp add: slots_readable_def list_all_iff)

fun all_rendered :: "(exn + 'a) list \<Rightarrow> exn + 'a list" where
  "all_rendered [] = Inr []"
| "all_rendered (Inl e # xs) = Inl e"
| "all_rendered (Inr x # xs) = (case all_rendered xs of Inl e \<Rightarrow> Inl e | Inr ys \<Rightarrow> Inr (x # ys))"

definition rendered :: "('a \<Rightarrow> json) \<Rightarrow> int \<Rightarrow> exn + 'a \<Rightarrow> exn + response" where
  "rendered body status r = (case r of Inl e \<Rightarrow> Inl e | Inr x \<Rightarrow> Inr (answer (body x, status)))"

definition pagination :: "'a page \<Rightarrow> json" where
  "pagination p = JObj [(''page'', JInt (pg_page p)), (''per_page'', JInt (pg_per_page p)),
     (''total'', JInt (pg_total p)), (''pages'', JInt (pages_of (pg_total p) (pg_per_page p)))]"

definition json_time :: "instant option \<Rightarrow> json" where
  "json_time t = json_opt (map_option (isoformat) t)"

definition json_decimal :: "decimal option \<Rightarrow> json" where
  "json_decimal x = (case x of None \<Rightarrow> JNull | Some v \<Rightarrow> JFloat (double_of v))"

subsection \<open>Facts about the combinators\<close>

lemma answer_simps [simp]:
  "rsp_status (answer r) = snd r" "rsp_body (answer r) = Some (fst r)" "rsp_cookies (answer r) = []"
  "rsp_headers (answer r) = []"
  by (simp_all add: answer_def)

lemma error_response_status [simp]:
  "rsp_status (error_response code message status) = status"
  "rsp_cookies (error_response code message status) = []"
  by (simp_all add: error_response_def)

lemma validation_response_status [simp]:
  "rsp_status (validation_response message detail found) = 422"
  "rsp_cookies (validation_response message detail found) = []"
  by (simp_all add: validation_response_def)

lemma guard_status [simp]:
  "rsp_status unauthorized_response = 401" "rsp_status permission_response = 403"
  by (simp_all add: unauthorized_response_def permission_response_def)

lemma all_rendered_Inr: "list_all (\<lambda>x. \<exists>j. f x = Inr j) xs \<Longrightarrow> \<exists>js. all_rendered (map f xs) = Inr js"
  by (induction xs) auto

lemma all_rendered_length: "all_rendered xs = Inr ys \<Longrightarrow> length ys = length xs"
  by (induction xs arbitrary: ys rule: all_rendered.induct) (auto split: sum.splits)

lemma all_rendered_map: "all_rendered (map f xs) = Inr ys \<Longrightarrow> map f xs = map Inr ys"
proof (induction xs arbitrary: ys)
  case (Cons x xs)
  then show ?case by (cases "f x") (auto split: sum.splits)
qed simp

lemma validated_cases:
  assumes "validated m check v refuse view d = out"
  obtains (refused) found where "model_validate m check v = Inl found" "out = (Inr (refuse found), d)"
  | (accepted) x where "model_validate m check v = Inr x" "out = view x"
  using assms by (cases "model_validate m check v") (auto simp: validated_def)

lemma with_access_cases:
  assumes "with_access acc view d = out"
  obtains (failed) e where "acc = Inl e" "out = (Inl e, d)"
  | (refused) r where "out = (Inr r, d)" "rsp_status r \<in> {401, 403}"
  | (granted) u c where "acc = Inr (Granted u c)" "out = view u c"
proof (cases acc)
  case (Inr a)
  with assms show thesis
    by (cases a) (auto simp: with_access_def intro: refused granted)
qed (use assms in \<open>auto simp: with_access_def intro: failed\<close>)

lemma concluded_cases:
  assumes "concluded handlers render out = (r, d)"
  obtains (raised) e where "out = (Inl e, d)" "r = (case handlers e of Some x \<Rightarrow> Inr x | None \<Rightarrow> Inl e)"
  | (finished) x where "out = (Inr x, d)" "r = render x d"
  using assms by (cases out; cases "fst out") (auto simp: concluded_def)

end
