(* ===== verification/ExternalStations.thy ===== *)
theory ExternalStations
  imports Http PyFloat
begin

text \<open>
  Open-data stations: the provider client that normalises Open Charge Map records
  (\<open>stations/providers/open_charge_map.py\<close>), its cache (\<open>stations/external_service.py\<close>) and
  the rate-limited route. The HTTP client, the text of a decimal, the canonical JSON of a
  query and Python's \<open>repr\<close> of floats, lists and dictionaries are parameters.
\<close>

subsection \<open>The query\<close>

record ExternalStationSearchQuery =
  ex_latitude :: decimal
  ex_longitude :: decimal
  ex_radius_km :: decimal
  ex_max_results :: int

definition ExternalStationSearchQuery_valid :: "ExternalStationSearchQuery \<Rightarrow> bool" where
  "ExternalStationSearchQuery_valid q \<longleftrightarrow> latitude_field (ex_latitude q)
     \<and> longitude_field (ex_longitude q) \<and> 0 < ex_radius_km q \<and> ex_radius_km q \<le> 100
     \<and> decimal_digits 5 2 (ex_radius_km q) \<and> 1 \<le> ex_max_results q \<and> ex_max_results q \<le> 100"

text \<open>
  \<open>poi_get\<close> is the request with the status check and the JSON reader; None stands for the
  three exceptions the client catches.
\<close>

record external_library =
  poi_get :: "string \<Rightarrow> (string \<times> json) list \<Rightarrow> json option"
  decimal_str :: "decimal \<Rightarrow> string"
  canonical_external :: "ExternalStationSearchQuery \<Rightarrow> string"
  py_repr :: "json \<Rightarrow> string"

subsection \<open>Normalising a record\<close>

definition OPEN_CHARGE_MAP_POI_URL :: string where
  "OPEN_CHARGE_MAP_POI_URL = ''https://api.openchargemap.io/v3/poi/''"

definition OPEN_CHARGE_MAP_DETAILS_URL :: string where
  "OPEN_CHARGE_MAP_DETAILS_URL = ''https://openchargemap.org/site/poi/details''"

definition mapping :: "json \<Rightarrow> json" where
  "mapping v = (if is_dict v then v else JObj [])"

fun json_truthy :: "json \<Rightarrow> bool" where
  "json_truthy JNull = False"
| "json_truthy (JBool b) = b"
| "json_truthy (JInt n) = (n \<noteq> 0)"
| "json_truthy (JFloat x) = (x \<noteq> Finite 0)"
| "json_truthy (JStr s) = (s \<noteq> [])"
| "json_truthy (JList xs) = (xs \<noteq> [])"
| "json_truthy (JObj kvs) = (kvs \<noteq> [])"

fun py_str :: "external_library \<Rightarrow> json \<Rightarrow> string" where
  "py_str lib (JStr s) = s"
| "py_str lib (JInt n) = int_str n"
| "py_str lib (JBool b) = (if b then ''True'' else ''False'')"
| "py_str lib JNull = ''None''"
| "py_str lib v = py_repr lib v"

fun float_refused :: "exn \<Rightarrow> bool" where
  "float_refused TypeError = True"
| "float_refused (ValueError _) = True"
| "float_refused _ = False"

definition optional_float :: "json \<Rightarrow> exn + json" where
  "optional_float v =
     (if v = JNull then Inr JNull
      else case py_float v of
        Inr x \<Rightarrow> Inr (JFloat x) | Inl e \<Rightarrow> if float_refused e then Inr JNull else Inl e)"

definition valid_coordinates :: "json \<Rightarrow> json \<Rightarrow> exn + bool" where
  "valid_coordinates latitude longitude =
     (case py_float latitude of
        Inl e \<Rightarrow> if float_refused e then Inr False else Inl e
      | Inr x \<Rightarrow> (case py_float longitude of
          Inl e \<Rightarrow> if float_refused e then Inr False else Inl e
        | Inr y \<Rightarrow> Inr (float_between (- 90) 90 x \<and> float_between (- 180) 180 y)))"

definition normalize_connection :: "json \<Rightarrow> exn + json" where
  "normalize_connection connection =
     (let connection_type = mapping (json_get connection ''ConnectionType'');
          current_type = mapping (json_get connection ''CurrentType'')
      in case optional_float (json_get connection ''PowerKW'') of
           Inl e \<Rightarrow> Inl e
         | Inr power_kw \<Rightarrow> Inr (JObj
             [(''type'', json_get connection_type ''Title''),
              (''power_kw'', power_kw),
              (''current_type'', json_get current_type ''Title''),
              (''quantity'', json_get connection ''Quantity'')]))"

fun normalize_connections :: "json \<Rightarrow> exn + json list" where
  "normalize_connections (JList connections) =
     all_rendered (map normalize_connection (filter is_dict connections))"
| "normalize_connections _ = Inr []"

definition station_json ::
    "external_library \<Rightarrow> json \<Rightarrow> pyfloat \<Rightarrow> pyfloat \<Rightarrow> json \<Rightarrow> json list \<Rightarrow> json" where
  "station_json lib poi x y distance connections =
     (let address = mapping (json_get poi ''AddressInfo'');
          external_id = json_get poi ''ID'';
          title = json_get address ''Title'' in JObj
      [(''source'', JStr ''open_charge_map''),
       (''external_id'', JStr (py_str lib external_id)),
       (''name'', if json_truthy title then title
                  else JStr (''Charging station '' @ py_str lib external_id)),
       (''address'', JObj
          [(''line_1'', json_get address ''AddressLine1''), (''town'', json_get address ''Town''),
           (''state'', json_get address ''StateOrProvince''),
           (''postal_code'', json_get address ''Postcode''),
           (''country_code'', json_get (mapping (json_get address ''Country'')) ''ISOCode'')]),
       (''latitude'', JFloat x),
       (''longitude'', JFloat y),
       (''distance_km'', distance),
       (''operator'', json_get (mapping (json_get poi ''OperatorInfo'')) ''Title''),
       (''usage_cost'', json_get poi ''UsageCost''),
       (''is_operational'', json_get (mapping (json_get poi ''StatusType'')) ''IsOperational''),
       (''status'', json_get (mapping (json_get poi ''StatusType'')) ''Title''),
       (''connections'', JList connections),
       (''data_provider'', json_get (mapping (json_get poi ''DataProvider'')) ''Title''),
       (''details_url'', JStr (OPEN_CHARGE_MAP_DETAILS_URL @ ''/'' @ py_str lib external_id)),
       (''bookable'', JBool False)])"

definition normalize_station :: "external_library \<Rightarrow> json \<Rightarrow> exn + json option" where
  "normalize_station lib poi =
     (if \<not> is_dict poi then Inr None
      else let address = mapping (json_get poi ''AddressInfo'');
               latitude = json_get address ''Latitude'';
               longitude = json_get address ''Longitude''
        in if json_get poi ''ID'' = JNull then Inr None
           else case valid_coordinates latitude longitude of
             Inl e \<Rightarrow> Inl e
           | Inr False \<Rightarrow> Inr None
           | Inr True \<Rightarrow>
               (case (py_float latitude, py_float longitude, optional_float (json_get address ''Distance''),
                      normalize_connections (json_get poi ''Connections'')) of
                  (Inr x, Inr y, Inr distance, Inr connections) \<Rightarrow>
                    Inr (Some (station_json lib poi x y distance connections))
                | (Inr x, Inr y, Inr distance, Inl e) \<Rightarrow> Inl e
                | (Inr x, Inr y, Inl e, _) \<Rightarrow> Inl e
                | (Inr x, Inl e, _) \<Rightarrow> Inl e
                | (Inl e, _) \<Rightarrow> Inl e))"

fun present :: "'a option list \<Rightarrow> 'a list" where
  "present [] = []"
| "present (None # xs) = present xs"
| "present (Some x # xs) = x # present xs"

definition fetch_open_charge_map_stations ::
    "external_library \<Rightarrow> ExternalStationSearchQuery \<Rightarrow> string \<Rightarrow> exn + json list" where
  "fetch_open_charge_map_stations lib query api_key =
     (case poi_get lib OPEN_CHARGE_MAP_POI_URL
             [(''key'', JStr api_key), (''output'', JStr ''json''),
              (''latitude'', JStr (decimal_str lib (ex_latitude query))),
              (''longitude'', JStr (decimal_str lib (ex_longitude query))),
              (''distance'', JStr (decimal_str lib (ex_radius_km query))),
              (''distanceunit'', JStr ''KM''), (''maxresults'', JInt (ex_max_results query)),
              (''compact'', JStr ''false''), (''verbose'', JStr ''false''),
              (''opendata'', JStr ''true'')] of
        Some (JList payload) \<Rightarrow>
          (case all_rendered (map (normalize_station lib) payload) of
             Inl e \<Rightarrow> Inl e | Inr stations \<Rightarrow> Inr (present stations))
      | _ \<Rightarrow> Inl ExternalStationProviderError)"

subsection \<open>The cached search\<close>

definition EXTERNAL_CACHE_PREFIX :: string where
  "EXTERNAL_CACHE_PREFIX = ''chargemate:stations:external''"

definition EXTERNAL_CACHE_TTL_SECONDS :: int where
  "EXTERNAL_CACHE_TTL_SECONDS = 300"

definition external_cache_key ::
    "primitives \<Rightarrow> external_library \<Rightarrow> ExternalStationSearchQuery \<Rightarrow> string" where
  "external_cache_key prims lib query =
     EXTERNAL_CACHE_PREFIX @ '':'' @ sha256_hexdigest prims (canonical_external lib query)"

definition read_cache :: "config \<Rightarrow> primitives \<Rightarrow> bool \<Rightarrow> instant \<Rightarrow> string \<Rightarrow> redis \<Rightarrow> json list option" where
  "read_cache cfg prims up now cache_key r =
     (if TESTING cfg then None
      else case redis_get up now cache_key r of
        Inr (Some cached) \<Rightarrow> (case json_loads prims cached of Some (JList payload) \<Rightarrow> Some payload | _ \<Rightarrow> None)
      | _ \<Rightarrow> None)"

definition write_cache ::
    "config \<Rightarrow> json_writer \<Rightarrow> bool \<Rightarrow> instant \<Rightarrow> string \<Rightarrow> json list \<Rightarrow> redis \<Rightarrow> redis" where
  "write_cache cfg w up now cache_key stations r =
     (if TESTING cfg then r
      else snd (redis_setex up now cache_key EXTERNAL_CACHE_TTL_SECONDS (dumps w (JList stations)) r))"

definition find_external_stations ::
    "config \<Rightarrow> primitives \<Rightarrow> json_writer \<Rightarrow> external_library \<Rightarrow> (nat \<Rightarrow> bool) \<Rightarrow> instant
     \<Rightarrow> ExternalStationSearchQuery \<Rightarrow> redis \<Rightarrow> (exn + json list) \<times> redis" where
  "find_external_stations cfg prims w lib up now query r =
     (let cache_key = external_cache_key prims lib query in
      case read_cache cfg prims (up 1) now cache_key r of
        Some cached \<Rightarrow> (Inr cached, r)
      | None \<Rightarrow>
          if \<not> truthy (OPEN_CHARGE_MAP_API_KEY cfg) then (Inl ExternalStationProviderError, r)
          else (case fetch_open_charge_map_stations lib query (the (OPEN_CHARGE_MAP_API_KEY cfg)) of
             Inl e \<Rightarrow> (Inl e, r)
           | Inr stations \<Rightarrow> (Inr stations, write_cache cfg w (up 2) now cache_key stations r)))"

subsection \<open>The route\<close>

fun external_errors :: "exn \<Rightarrow> response option" where
  "external_errors ExternalStationProviderError = Some (error_response ''external_station_provider_unavailable''
     ''External charging stations are temporarily unavailable.'' 503)"
| "external_errors _ = None"

definition external_answer :: "json list \<Rightarrow> response" where
  "external_answer stations = answer (JObj [(''stations'', JList stations),
     (''source'', JStr ''open_charge_map''), (''bookable'', JBool False)], 200)"

definition list_external_charging_stations ::
    "ExternalStationSearchQuery model \<Rightarrow> external_library \<Rightarrow> environment \<Rightarrow> moment \<Rightarrow> http_request
     \<Rightarrow> database \<times> redis \<Rightarrow> served" where
  "list_external_charging_stations m lib env mo rq s =
     limited ''stations:external'' EXTERNAL_STATION_RATE_LIMIT_REQUESTS env mo rq (\<lambda>(d, r).
       case model_validate m (checked ExternalStationSearchQuery_valid) (hq_args rq) of
         Inl found \<Rightarrow> (Inr (validation_response ''The request data is invalid.'' issue_json found), (d, r))
       | Inr query \<Rightarrow>
           (case find_external_stations (en_config env) (en_prims env) (en_writer env) lib (mo_up mo)
                   (mo_now mo) query r of
              (Inl e, r') \<Rightarrow>
                ((case external_errors e of Some x \<Rightarrow> Inr x | None \<Rightarrow> Inl e), (d, r'))
            | (Inr stations, r') \<Rightarrow> (Inr (external_answer stations), (d, r')))) s"

subsection \<open>A provider on which the properties are evaluated\<close>

definition sample_record :: "json \<Rightarrow> json" where
  "sample_record latitude = JObj [(''ID'', JInt 7), (''AddressInfo'', JObj
     [(''Latitude'', latitude), (''Longitude'', JFloat (Finite 73))])]"

definition sample_records :: "json list \<Rightarrow> external_library" where
  "sample_records items = \<lparr>poi_get = (\<lambda>_ _. Some (JList items)), decimal_str = (\<lambda>_. ''18''),
     canonical_external = (\<lambda>_. ''{}''), py_repr = (\<lambda>_. ''[]'')\<rparr>"

definition sample_around :: ExternalStationSearchQuery where
  "sample_around = \<lparr>ex_latitude = 18, ex_longitude = 73, ex_radius_km = 10, ex_max_results = 20\<rparr>"

definition external_config :: config where
  "external_config = sample_config\<lparr>OPEN_CHARGE_MAP_API_KEY := Some ''key''\<rparr>"

lemma sample_fetched:
  obtains stations where "fetch_open_charge_map_stations (sample_records
    [sample_record (JFloat (Finite 18)), JNull]) sample_around ''key'' = Inr stations" "length stations = 1"
proof -
  have "case fetch_open_charge_map_stations (sample_records [sample_record (JFloat (Finite 18)), JNull])
      sample_around ''key'' of Inr stations \<Rightarrow> length stations = 1 | _ \<Rightarrow> False"
    by code_simp
  then show thesis by (auto split: sum.splits intro: that)
qed

lemma external_config_sound:
  "\<not> TESTING external_config" "OPEN_CHARGE_MAP_API_KEY external_config = Some ''key''"
  "truthy (OPEN_CHARGE_MAP_API_KEY external_config)" "truthy (Some ''key'')"
  by code_simp+

lemma nothing_cached: "read_cache cfg prims True now key Map.empty = None"
  by (simp add: read_cache_def redis_get_def live_def)

lemma sample_searched:
  obtains stations r where "find_external_stations external_config counting_primitives counting_writer
      (sample_records [sample_record (JFloat (Finite 18)), JNull]) (\<lambda>_. True) 0 sample_around Map.empty
      = (Inr stations, r)" "length stations = 1"
proof (rule sample_fetched)
  fix stations
  assume "fetch_open_charge_map_stations (sample_records [sample_record (JFloat (Finite 18)), JNull])
      sample_around ''key'' = Inr stations" "length stations = 1"
  then show thesis
    by (intro that) (simp add: find_external_stations_def Let_def nothing_cached external_config_sound,
        assumption)
qed

subsection \<open>What the provider's records become\<close>

text \<open>The records that can be shown: an object with an identifier and coordinates on the globe.\<close>

definition usable :: "json \<Rightarrow> bool" where
  "usable poi \<longleftrightarrow> is_dict poi \<and> json_get poi ''ID'' \<noteq> JNull
     \<and> (let address = mapping (json_get poi ''AddressInfo'') in
          case (py_float (json_get address ''Latitude''), py_float (json_get address ''Longitude'')) of
            (Inr x, Inr y) \<Rightarrow> float_between (- 90) 90 x \<and> float_between (- 180) 180 y
          | _ \<Rightarrow> False)"

definition shown :: "external_library \<Rightarrow> json \<Rightarrow> json \<Rightarrow> bool" where
  "shown lib poi station \<longleftrightarrow> json_get station ''source'' = JStr ''open_charge_map''
     \<and> json_get station ''external_id'' = JStr (py_str lib (json_get poi ''ID''))
     \<and> json_get station ''bookable'' = JBool False \<and> json_truthy (json_get station ''name'')
     \<and> (\<exists>x y. json_get station ''latitude'' = JFloat (Finite x) \<and> -90 \<le> x \<and> x \<le> 90
          \<and> json_get station ''longitude'' = JFloat (Finite y) \<and> -180 \<le> y \<and> y \<le> 180)"

lemma all_rendered_error:
  "\<forall>x \<in> set xs. \<exists>y. f x = Inr y \<Longrightarrow> f z = Inl e \<Longrightarrow> all_rendered (map f (xs @ z # ys)) = Inl e"
  by (induction xs) auto

lemma float_betweenE: "float_between low high x \<Longrightarrow> \<exists>r. x = Finite r \<and> of_int low \<le> r \<and> r \<le> of_int high"
  by (cases x) auto

lemma valid_coordinates_True:
  "valid_coordinates latitude longitude = Inr True \<longleftrightarrow>
     (\<exists>x y. py_float latitude = Inr x \<and> py_float longitude = Inr y
        \<and> float_between (- 90) 90 x \<and> float_between (- 180) 180 y)"
  by (auto simp: valid_coordinates_def split: sum.splits if_splits)

lemma usable_iff:
  "usable poi \<longleftrightarrow> is_dict poi \<and> json_get poi ''ID'' \<noteq> JNull
     \<and> valid_coordinates (json_get (mapping (json_get poi ''AddressInfo'')) ''Latitude'')
         (json_get (mapping (json_get poi ''AddressInfo'')) ''Longitude'') = Inr True"
  unfolding usable_def valid_coordinates_True Let_def by (auto split: sum.splits)

lemma normalize_station_result:
  assumes "normalize_station lib poi = Inr r"
  shows "(r = None \<longleftrightarrow> \<not> usable poi) \<and> (\<forall>station. r = Some station \<longrightarrow> shown lib poi station)"
proof (cases "usable poi")
  case True
  then obtain x y where xy:
    "py_float (json_get (mapping (json_get poi ''AddressInfo'')) ''Latitude'') = Inr (Finite x)"
    "py_float (json_get (mapping (json_get poi ''AddressInfo'')) ''Longitude'') = Inr (Finite y)"
    "-90 \<le> x" "x \<le> 90" "-180 \<le> y" "y \<le> 180"
    by (auto simp: usable_iff valid_coordinates_True dest!: float_betweenE)
  from True assms xy(1,2) obtain distance connections where
    r: "r = Some (station_json lib poi (Finite x) (Finite y) distance connections)"
    unfolding usable_iff normalize_station_def Let_def by (auto split: sum.splits)
  have "shown lib poi (station_json lib poi (Finite x) (Finite y) distance connections)"
    using xy(3-6) by (simp add: shown_def station_json_def Let_def)
  with r True show ?thesis by simp
next
  case False
  with assms have "r = None"
    unfolding usable_iff normalize_station_def Let_def by (auto split: sum.splits if_splits bool.splits)
  with False show ?thesis by simp
qed

lemma present_shown:
  assumes "map (normalize_station lib) items = map Inr rs"
  shows "list_all2 (shown lib) (filter usable items) (present rs)"
  using assms
proof (induction items arbitrary: rs)
  case (Cons poi items)
  then obtain r rs' where rs: "rs = r # rs'" "normalize_station lib poi = Inr r"
    "map (normalize_station lib) items = map Inr rs'" by (cases rs) auto
  from normalize_station_result [OF rs(2)] Cons.IH [OF rs(3)] rs(1) show ?case
    by (cases r) auto
qed simp

text \<open>
  C32. Provider data is sanitised: when the provider's list is accepted, the stations shown are
  exactly its usable records (objects with an identifier and coordinates on the globe), in
  their order, each with a name, finite coordinates within the bounds, its identifier as
  text, and marked as not bookable; every other record is dropped.
\<close>

theorem external_stations_sanitised:
  assumes "fetch_open_charge_map_stations lib query api_key = Inr stations"
  shows "\<exists>params items. poi_get lib OPEN_CHARGE_MAP_POI_URL params = Some (JList items)
    \<and> list_all2 (shown lib) (filter usable items) stations"
proof -
  from assms obtain params items rs where
    i: "poi_get lib OPEN_CHARGE_MAP_POI_URL params = Some (JList items)"
       "all_rendered (map (normalize_station lib) items) = Inr rs" "stations = present rs"
    by (auto simp: fetch_open_charge_map_stations_def split: option.splits json.splits sum.splits)
  from present_shown [OF all_rendered_map [OF i(2)]] i(1,3) show ?thesis by blast
qed

theorem external_stations_sanitised_witness:
  "\<exists>stations params items. fetch_open_charge_map_stations (sample_records
       [sample_record (JFloat (Finite 18)), JNull]) sample_around ''key'' = Inr stations \<and> length stations = 1
     \<and> poi_get (sample_records [sample_record (JFloat (Finite 18)), JNull]) OPEN_CHARGE_MAP_POI_URL params
         = Some (JList items)
     \<and> list_all2 (shown (sample_records [sample_record (JFloat (Finite 18)), JNull])) (filter usable items) stations"
proof (rule sample_fetched)
  fix stations
  assume f: "fetch_open_charge_map_stations (sample_records [sample_record (JFloat (Finite 18)), JNull])
      sample_around ''key'' = Inr stations" "length stations = 1"
  from external_stations_sanitised [OF f(1)] f show ?thesis by blast
qed

text \<open>
  One record breaks the whole answer: a record with an identifier whose latitude is an
  integer beyond every double raises OverflowError, which the client does not catch; the
  search fails with it, whatever the other records are, and nothing is cached.
\<close>

theorem external_overflow_escapes:
  assumes "read_cache cfg prims (up 1) now (external_cache_key prims lib query) r = None"
    and "truthy (OPEN_CHARGE_MAP_API_KEY cfg)"
    and "\<forall>url params. poi_get lib url params = Some (JList (before @ poi # after))"
    and "\<forall>other \<in> set before. \<exists>x. normalize_station lib other = Inr x"
    and "is_dict poi" "json_get poi ''ID'' \<noteq> JNull"
    and "json_get (mapping (json_get poi ''AddressInfo'')) ''Latitude'' = JInt n" "2 ^ 1024 \<le> n"
  shows "find_external_stations cfg prims w lib up now query r = (Inl OverflowError, r)"
proof -
  have "normalize_station lib poi = Inl OverflowError"
    using assms(5-7) py_float_huge [OF assms(8)] unfolding normalize_station_def Let_def
    by (simp add: valid_coordinates_def del: py_float.simps)
  from all_rendered_error [OF assms(4) this]
  have "all_rendered (map (normalize_station lib) (before @ poi # after)) = Inl OverflowError" .
  with assms(1-3) show ?thesis
    by (simp add: find_external_stations_def fetch_open_charge_map_stations_def Let_def)
qed

theorem external_overflow_escapes_witness:
  "find_external_stations external_config counting_primitives counting_writer
     (sample_records [JNull, sample_record (JInt (2 ^ 1024))]) (\<lambda>_. True) 0 sample_around Map.empty
     = (Inl OverflowError, Map.empty)"
proof -
  have "normalize_station lib JNull = Inr None" for lib
    by (simp add: normalize_station_def)
  with external_overflow_escapes [of external_config counting_primitives "\<lambda>_. True" 0
      "sample_records [JNull, sample_record (JInt (2 ^ 1024))]" sample_around Map.empty "[JNull]"
      "sample_record (JInt (2 ^ 1024))" "[]" "2 ^ 1024" counting_writer]
  show ?thesis
    by (simp add: nothing_cached external_config_sound sample_records_def sample_record_def mapping_def)
qed

text \<open>
  A search is served from the cache for five minutes: after stations were fetched and
  stored, the same query within 300 seconds returns the same stations and leaves the cache
  as it is, without asking the provider, whatever it would answer by then.
\<close>

theorem external_search_cached:
  assumes "\<not> TESTING cfg" "json_roundtrip prims w" "up 2" "up' 1"
    and "read_cache cfg prims (up 1) now (external_cache_key prims lib query) r = None"
    and "find_external_stations cfg prims w lib up now query r = (Inr stations, r')"
    and "later < now + seconds 300"
  shows "find_external_stations cfg prims w (lib\<lparr>poi_get := provider\<rparr>) up' later query r' = (Inr stations, r')"
proof -
  let ?key = "external_cache_key prims lib query"
  have "r' = r(?key \<mapsto> (dumps w (JList stations), Some (now + seconds 300)))"
    using assms(1,3,5,6)
    by (auto simp: find_external_stations_def Let_def write_cache_def redis_setex_def
        EXTERNAL_CACHE_TTL_SECONDS_def split: if_splits sum.splits)
  then have "read_cache cfg prims True later ?key r' = Some stations"
    using assms(1,2,7) by (simp add: read_cache_def redis_get_def live_def json_roundtrip_def)
  moreover have "external_cache_key prims (lib\<lparr>poi_get := provider\<rparr>) query = ?key"
    by (simp add: external_cache_key_def)
  ultimately show ?thesis
    using assms(4) by (simp add: find_external_stations_def Let_def)
qed

theorem external_search_cached_witness:
  "\<exists>stations r. length stations = 1
     \<and> find_external_stations external_config counting_primitives counting_writer
         ((sample_records [sample_record (JFloat (Finite 18)), JNull])\<lparr>poi_get := \<lambda>_ _. None\<rparr>) (\<lambda>_. True) 60
         sample_around r = (Inr stations, r)"
proof (rule sample_searched)
  fix stations r
  assume f: "find_external_stations external_config counting_primitives counting_writer
      (sample_records [sample_record (JFloat (Finite 18)), JNull]) (\<lambda>_. True) 0 sample_around Map.empty
      = (Inr stations, r)" "length stations = 1"
  from external_search_cached [OF external_config_sound(1) counting_sound(1) _ _ _ f(1), of "\<lambda>_. True" 60 "\<lambda>_ _. None"]
  show ?thesis using f(2) by (auto simp: nothing_cached seconds_def)
qed

end
