(* ===== verification/AuthRoutes.thy ===== *)
theory AuthRoutes
  imports Http
begin

text \<open>
  The account routes (\<open>auth/routes.py\<close>): registration, login, refresh with its cookie,
  logout and the change of password. The login, registration and refresh views are rate
  limited.
\<close>

subsection \<open>Responses\<close>

definition refresh_cookie_attributes :: "config \<Rightarrow> cookie_attributes" where
  "refresh_cookie_attributes cfg = \<lparr>ck_key = REFRESH_COOKIE_NAME cfg, ck_path = REFRESH_COOKIE_PATH cfg,
     ck_httponly = REFRESH_COOKIE_HTTPONLY cfg, ck_secure = REFRESH_COOKIE_SECURE cfg,
     ck_samesite = REFRESH_COOKIE_SAMESITE cfg\<rparr>"

definition set_refresh_cookie :: "config \<Rightarrow> IssuedRefreshToken \<Rightarrow> response \<Rightarrow> response" where
  "set_refresh_cookie cfg refresh_token response = response\<lparr>rsp_cookies := rsp_cookies response
     @ [SetCookie (refresh_cookie_attributes cfg) (rt_value refresh_token) (rt_expires_at refresh_token)]\<rparr>"

definition clear_refresh_cookie :: "config \<Rightarrow> response \<Rightarrow> response" where
  "clear_refresh_cookie cfg response = response\<lparr>rsp_cookies := rsp_cookies response
     @ [DeleteCookie (refresh_cookie_attributes cfg)]\<rparr>"

definition serialize_user :: "user \<Rightarrow> json" where
  "serialize_user u = JObj
     [(''id'', JStr (uuid_str (usr_id u))),
      (''email'', JStr (usr_email u)),
      (''username'', JStr (usr_username u)),
      (''full_name'', JStr (usr_full_name u)),
      (''phone'', json_opt (usr_phone u)),
      (''role'', JStr (UserRole_value (usr_role u))),
      (''created_at'', JStr (isoformat (usr_created_at u)))]"

definition token_response :: "environment \<Rightarrow> user \<Rightarrow> IssuedSessionTokens \<Rightarrow> response" where
  "token_response env u issued = set_refresh_cookie (en_config env) (is_refresh_token issued)
     (answer (JObj
       [(''access_token'', JStr (at_value (is_access_token issued))),
        (''token_type'', JStr ''Bearer''),
        (''expires_in'', JInt (JWT_ACCESS_TOKEN_MINUTES (en_config env) * 60)),
        (''user'', serialize_user u)], 200))"

fun location_text :: "location \<Rightarrow> string" where
  "location_text (Key k) = k"
| "location_text (Position n) = int_str n"

definition field_issue :: "issue \<Rightarrow> json" where
  "field_issue i = JObj [(''field'', JStr (join ''.'' (map location_text (iss_loc i)))),
     (''message'', JStr (iss_msg i)), (''type'', JStr (iss_type i))]"

definition auth_data_invalid :: "string \<Rightarrow> issue list \<Rightarrow> response" where
  "auth_data_invalid message = validation_response message field_issue"

text \<open>What registration and login require of the request before they read its fields.\<close>

definition json_object_body :: "http_request \<Rightarrow> (json \<Rightarrow> response outcome) \<Rightarrow> database \<Rightarrow> response outcome" where
  "json_object_body rq view d =
     (if \<not> hq_is_json rq
      then (Inr (error_response ''unsupported_media_type'' ''Content-Type must be application/json.'' 415), d)
      else if \<not> is_dict (hq_json rq)
      then (Inr (error_response ''invalid_json'' ''Request body must be a valid JSON object.'' 400), d)
      else view (hq_json rq))"

subsection \<open>The views\<close>

fun register_errors :: "exn \<Rightarrow> response option" where
  "register_errors (RegistrationConflictError m) = Some (error_response ''registration_conflict'' m 409)"
| "register_errors _ = None"

definition register ::
    "RegisterUserRequest model \<Rightarrow> environment \<Rightarrow> moment \<Rightarrow> http_request \<Rightarrow> database \<Rightarrow> response outcome" where
  "register m env mo rq d = json_object_body rq (\<lambda>payload.
     validated m (validate_registration (en_email_str env) (en_is_digit env)) payload
       (auth_data_invalid ''Registration data is invalid.'') (\<lambda>registration_data.
         concluded register_errors
           (\<lambda>u _. Inr (answer (JObj [(''user'', serialize_user u)], 201)))
           (register_user (en_hashing env) (mo_others mo) (mo_now mo) (mo_new_id mo) (mo_salt mo)
              registration_data d)) d) d"

fun login_errors :: "exn \<Rightarrow> response option" where
  "login_errors (AuthenticationError m) = Some (error_response ''invalid_credentials'' m 401)"
| "login_errors _ = None"

definition login ::
    "LoginRequest model \<Rightarrow> environment \<Rightarrow> moment \<Rightarrow> http_request \<Rightarrow> database \<Rightarrow> response outcome" where
  "login m env mo rq d = json_object_body rq (\<lambda>payload.
     validated m validate_login payload (auth_data_invalid ''Login data is invalid.'') (\<lambda>login_data.
       case authenticate_user (en_config env) (en_hashing env) (mo_others mo) (mo_now mo) login_data d of
         (Inl e, d') \<Rightarrow> concluded login_errors (\<lambda>x _. Inr x) (Inl e, d')
       | (Inr u, d') \<Rightarrow>
           concluded (\<lambda>_. None) (\<lambda>issued _. Inr (token_response env u issued))
             (create_auth_session (en_prims env) (en_jwt env) (en_config env) (mo_later mo)
                (mo_fresh mo) u d')) d) d"

definition invalid_refresh_response :: "string \<Rightarrow> response" where
  "invalid_refresh_response message = error_response ''invalid_refresh_token'' message 401"

fun refresh_errors :: "config \<Rightarrow> exn \<Rightarrow> response option" where
  "refresh_errors cfg (RefreshTokenError m) = Some (clear_refresh_cookie cfg (invalid_refresh_response m))"
| "refresh_errors cfg _ = None"

definition refresh ::
    "environment \<Rightarrow> moment \<Rightarrow> http_request \<Rightarrow> database \<Rightarrow> response outcome" where
  "refresh env mo rq d =
     (let raw_refresh_token = hq_cookie rq (REFRESH_COOKIE_NAME (en_config env)) in
      if \<not> truthy raw_refresh_token
      then (Inr (invalid_refresh_response ''Refresh token is invalid or expired.''), d)
      else concluded (refresh_errors (en_config env))
        (\<lambda>issued d'. related (row_by usr_id (users d') (as_user_id (is_session issued))) (\<lambda>u.
           Inr (token_response env u issued)))
        (rotate_auth_session (en_prims env) (en_jwt env) (en_config env) (mo_now mo) (mo_fresh mo)
           (the raw_refresh_token) d))"

definition current_user_view ::
    "environment \<Rightarrow> moment \<Rightarrow> http_request \<Rightarrow> database \<Rightarrow> response outcome" where
  "current_user_view env mo rq d = access_token_view env mo rq (\<lambda>u _.
     (Inr (answer (JObj [(''user'', serialize_user u)], 200)), d)) d"

definition signed_out :: "environment \<Rightarrow> response" where
  "signed_out env = clear_refresh_cookie (en_config env) no_content"

definition logout ::
    "environment \<Rightarrow> moment \<Rightarrow> http_request \<Rightarrow> database \<Rightarrow> response outcome" where
  "logout env mo rq d = access_token_view env mo rq (\<lambda>u access_claims.
     case claim_uuid access_claims ''sid'' of
       Inl e \<Rightarrow> (Inl e, d)
     | Inr session_id \<Rightarrow> concluded (\<lambda>_. None) (\<lambda>_ _. Inr (signed_out env))
         (revoke_auth_session (mo_now mo) session_id (usr_id u) d)) d"

definition logout_all ::
    "environment \<Rightarrow> moment \<Rightarrow> http_request \<Rightarrow> database \<Rightarrow> response outcome" where
  "logout_all env mo rq d = access_token_view env mo rq (\<lambda>u _.
     concluded (\<lambda>_. None) (\<lambda>_ _. Inr (signed_out env))
       (revoke_all_auth_sessions (mo_now mo) (usr_id u) d)) d"

fun password_errors :: "exn \<Rightarrow> response option" where
  "password_errors (PasswordChangeError m) = Some (error_response ''password_change_rejected'' m 422)"
| "password_errors _ = None"

definition change_password ::
    "ChangePasswordRequest model \<Rightarrow> environment \<Rightarrow> moment \<Rightarrow> http_request \<Rightarrow> database
     \<Rightarrow> response outcome" where
  "change_password m env mo rq d = access_token_view env mo rq (\<lambda>u _.
     validated m (checked ChangePasswordRequest_valid) (hq_json rq)
       (auth_data_invalid ''Password data is invalid.'') (\<lambda>payload.
         concluded password_errors (\<lambda>_ _. Inr (signed_out env))
           (change_user_password (en_hashing env) (mo_now mo) (mo_salt mo) (usr_id u) payload d)) d) d"

end
