(* ===== verification/BookingRoutes.thy ===== *)
theory BookingRoutes
  imports Http Cancellation
begin

text \<open>
  The booking routes (\<open>bookings/routes.py\<close>): the JSON of a booking with its charge point,
  station, payments and refunds, and the four views with the status code of every outcome.
\<close>

subsection \<open>The JSON of bookings\<close>

fun BookingStatus_value :: "BookingStatus \<Rightarrow> string" where
  "BookingStatus_value HELD = ''held''"
| "BookingStatus_value PAYMENT_PENDING = ''payment_pending''"
| "BookingStatus_value CONFIRMED = ''confirmed''"
| "BookingStatus_value ACTIVE = ''active''"
| "BookingStatus_value COMPLETED = ''completed''"
| "BookingStatus_value CANCELLED = ''cancelled''"
| "BookingStatus_value EXPIRED = ''expired''"

fun PaymentStatus_value :: "PaymentStatus \<Rightarrow> string" where
  "PaymentStatus_value INITIATED = ''initiated''"
| "PaymentStatus_value ORDER_CREATED = ''order_created''"
| "PaymentStatus_value AUTHORIZED = ''authorized''"
| "PaymentStatus_value CAPTURED = ''captured''"
| "PaymentStatus_value FAILED = ''failed''"
| "PaymentStatus_value REFUNDED = ''refunded''"

fun RefundStatus_value :: "RefundStatus \<Rightarrow> string" where
  "RefundStatus_value REQUESTED = ''requested''"
| "RefundStatus_value R_PENDING = ''pending''"
| "RefundStatus_value R_PROCESSED = ''processed''"
| "RefundStatus_value R_FAILED = ''failed''"

definition serialize_refund :: "refund \<Rightarrow> json" where
  "serialize_refund r = JObj
     [(''id'', JStr (uuid_str (rf_id r))),
      (''payment_id'', JStr (uuid_str (rf_payment_id r))),
      (''status'', JStr (RefundStatus_value (rf_status r))),
      (''amount'', JFloat (double_of (rf_amount r))),
      (''currency'', JStr (rf_currency r)),
      (''provider_refund_id'', json_opt (rf_provider_refund_id r)),
      (''processed_at'', json_time (rf_processed_at r))]"

definition serialize_payment :: "database \<Rightarrow> payment \<Rightarrow> json" where
  "serialize_payment d p = JObj
     [(''id'', JStr (uuid_str (pay_id p))),
      (''status'', JStr (PaymentStatus_value (pay_status p))),
      (''amount'', JFloat (double_of (pay_amount p))),
      (''currency'', JStr (pay_currency p)),
      (''provider_payment_id'', json_opt (pay_provider_payment_id p)),
      (''created_at'', JStr (isoformat (pay_created_at p))),
      (''refund'', case select_scalar (\<lambda>r. rf_payment_id r = pay_id p) (refunds d) of
          None \<Rightarrow> JNull | Some r \<Rightarrow> serialize_refund r)]"

text \<open>The payments of a booking, newest first; the sort is stable as Python's.\<close>

definition booking_payments :: "database \<Rightarrow> booking \<Rightarrow> payment list" where
  "booking_payments d b = sort_key (\<lambda>p. - pay_created_at p)
     (filter (\<lambda>p. pay_booking_id p = bk_id b) (payments d))"

definition serialize_station_summary :: "charging_station \<Rightarrow> json" where
  "serialize_station_summary s = JObj
     [(''id'', JStr (uuid_str (st_id s))), (''name'', JStr (st_name s)),
      (''city'', JStr (st_city s)), (''state'', JStr (st_state s))]"

definition serialize_booking :: "database \<Rightarrow> booking \<Rightarrow> exn + json" where
  "serialize_booking d b = read_slot b (
     related (row_by cp_id (charge_points d) (bk_charge_point_id b)) (\<lambda>c.
     related (row_by st_id (charging_stations d) (cp_station_id c)) (\<lambda>s.
     related (bk_hold_expires_at b) (\<lambda>hold_expires_at. Inr (JObj
       [(''id'', JStr (uuid_str (bk_id b))),
        (''user_id'', JStr (uuid_str (bk_user_id b))),
        (''charge_point_id'', JStr (uuid_str (bk_charge_point_id b))),
        (''charge_point'', JObj
          [(''id'', JStr (uuid_str (cp_id c))), (''code'', JStr (cp_code c)),
           (''connector_type'', JStr (ConnectorType_value (cp_connector_type c))),
           (''power_type'', JStr (PowerType_value (cp_power_type c))),
           (''max_power_kw'', JFloat (double_of (cp_max_power_kw c))),
           (''station'', serialize_station_summary s)]),
        (''starts_at'', JStr (isoformat (bk_starts_at b))),
        (''ends_at'', JStr (isoformat (bk_ends_at b))),
        (''hold_expires_at'', JStr (isoformat hold_expires_at)),
        (''status'', JStr (BookingStatus_value (bk_status b))),
        (''total_amount'', json_decimal (bk_total_amount b)),
        (''currency'', JStr (bk_currency b)),
        (''version'', JInt (bk_version b)),
        (''payments'', JList (map (serialize_payment d) (booking_payments d b))),
        (''created_at'', JStr (isoformat (bk_created_at b)))])))))"

subsection \<open>The views\<close>

definition booking_data_invalid :: "issue list \<Rightarrow> response" where
  "booking_data_invalid = validation_response ''The booking data is invalid.'' issue_json"

definition booking_not_found_response :: response where
  "booking_not_found_response = error_response ''booking_not_found'' ''The booking was not found.'' 404"

definition list_my_bookings ::
    "BookingListQuery model \<Rightarrow> environment \<Rightarrow> moment \<Rightarrow> http_request \<Rightarrow> database \<Rightarrow> response outcome" where
  "list_my_bookings m env mo rq d = access_token_view env mo rq (\<lambda>current_user _.
     validated m (checked BookingListQuery_valid) (hq_args rq) booking_data_invalid (\<lambda>query.
       concluded (\<lambda>_. None)
         (\<lambda>booking_page d'. rendered (\<lambda>items. JObj [(''bookings'', JList items),
               (''pagination'', pagination booking_page)]) 200
            (all_rendered (map (serialize_booking d') (pg_items booking_page))))
         (find_user_bookings (mo_now mo) (usr_id current_user) query d)) d) d"

definition get_my_booking ::
    "environment \<Rightarrow> moment \<Rightarrow> http_request \<Rightarrow> uuid \<Rightarrow> database \<Rightarrow> response outcome" where
  "get_my_booking env mo rq booking_id d = access_token_view env mo rq (\<lambda>current_user _.
     concluded (\<lambda>_. None)
       (\<lambda>found d'. case found of
           None \<Rightarrow> Inr booking_not_found_response
         | Some b \<Rightarrow> rendered (\<lambda>j. JObj [(''booking'', j)]) 200 (serialize_booking d' b))
       (get_user_booking (mo_now mo) (usr_id current_user) booking_id d)) d"

text \<open>The body and status of a cancellation, by what became of its refund.\<close>

definition refund_attention :: "(string \<times> json) list" where
  "refund_attention = [(''error'', JObj [(''code'', JStr ''refund_provider_unavailable''),
     (''message'', JStr ''The booking was cancelled, but the refund requires attention.'')])]"

definition cancellation_response :: "CancellationOutcome \<Rightarrow> json \<Rightarrow> response" where
  "cancellation_response outcome booking_json =
     (case cn_refund outcome of
        None \<Rightarrow> answer (JObj [(''booking'', booking_json)], 200)
      | Some r \<Rightarrow>
          let response = [(''booking'', booking_json), (''refund'', serialize_refund r)]
          in if cn_provider_error outcome \<or> rf_status r = R_FAILED
             then answer (JObj (response @ refund_attention), 502)
             else if rf_status r \<in> {REQUESTED, R_PENDING} then answer (JObj response, 202)
             else answer (JObj response, 200))"

fun cancel_errors :: "exn \<Rightarrow> response option" where
  "cancel_errors BookingStateConflictError = Some (error_response ''booking_state_conflict''
     ''The booking changed or can no longer be cancelled.'' 409)"
| "cancel_errors _ = None"

definition cancel_my_booking ::
    "int model \<Rightarrow> environment \<Rightarrow> moment \<Rightarrow> http_request \<Rightarrow> uuid \<Rightarrow> database \<Rightarrow> response outcome" where
  "cancel_my_booking m env mo rq booking_id d = access_token_view env mo rq (\<lambda>current_user _.
     validated m (checked CancelBookingRequest_valid) (hq_json rq) booking_data_invalid (\<lambda>version.
       concluded cancel_errors
         (\<lambda>outcome d'. related (cn_booking outcome) (\<lambda>b.
            case serialize_booking d' b of
              Inl e \<Rightarrow> Inl e
            | Inr j \<Rightarrow> Inr (cancellation_response outcome j)))
         (cancel_booking_with_refund (en_config env) (en_provider env) (mo_others mo) (mo_now mo)
            (mo_later mo) (mo_new_id mo) (usr_id current_user) booking_id version d)) d) d"

fun hold_errors :: "exn \<Rightarrow> response option" where
  "hold_errors BookingTimeError = Some (error_response ''invalid_booking_time''
     ''The booking must start in the future.'' 422)"
| "hold_errors BookingUnavailableError = Some (error_response ''booking_unavailable''
     ''The charging slot is unavailable.'' 409)"
| "hold_errors _ = None"

definition hold_request :: "BookingHoldRequest \<Rightarrow> BookingHoldRequest option" where
  "hold_request raw = (case validate_time_range raw of Inl _ \<Rightarrow> None | Inr payload \<Rightarrow> Some payload)"

definition create_booking ::
    "BookingHoldRequest model \<Rightarrow> environment \<Rightarrow> moment \<Rightarrow> http_request \<Rightarrow> database \<Rightarrow> response outcome" where
  "create_booking m env mo rq d = access_token_view env mo rq (\<lambda>current_user _.
     validated m hold_request (hq_json rq) booking_data_invalid (\<lambda>payload.
       concluded hold_errors
         (\<lambda>b d'. rendered (\<lambda>j. JObj [(''booking'', j)]) 201 (serialize_booking d' b))
         (create_booking_hold (en_config env) (mo_now mo) (mo_new_id mo) current_user payload d)) d) d"

end
