(* ===== verification/SessionRoutes.thy ===== *)
theory SessionRoutes
  imports BookingRoutes ChargingSessions
begin

text \<open>
  The charging session routes (\<open>charging_sessions/routes.py\<close>): the operator's queue, start
  and completion, and the driver's history.
\<close>

subsection \<open>The JSON of sessions and operations\<close>

fun ChargingSessionStatus_value :: "ChargingSessionStatus \<Rightarrow> string" where
  "ChargingSessionStatus_value CS_ACTIVE = ''active''"
| "ChargingSessionStatus_value CS_COMPLETED = ''completed''"
| "ChargingSessionStatus_value CS_INTERRUPTED = ''interrupted''"

definition serialize_session :: "database \<Rightarrow> charging_session \<Rightarrow> exn + json" where
  "serialize_session d s =
     related (row_by cp_id (charge_points d) (cs_charge_point_id s)) (\<lambda>c.
     related (row_by st_id (charging_stations d) (cp_station_id c)) (\<lambda>station.
     related (row_by bk_id (bookings d) (cs_booking_id s)) (\<lambda>b. read_slot b (Inr (JObj
       [(''id'', JStr (uuid_str (cs_id s))),
        (''booking_id'', JStr (uuid_str (cs_booking_id s))),
        (''charge_point_id'', JStr (uuid_str (cs_charge_point_id s))),
        (''charge_point'', JObj
          [(''id'', JStr (uuid_str (cp_id c))), (''code'', JStr (cp_code c)),
           (''connector_type'', JStr (ConnectorType_value (cp_connector_type c))),
           (''power_type'', JStr (PowerType_value (cp_power_type c))),
           (''max_power_kw'', JFloat (double_of (cp_max_power_kw c))),
           (''station'', serialize_station_summary station)]),
        (''booking_window'', JObj
          [(''starts_at'', JStr (isoformat (bk_starts_at b))),
           (''ends_at'', JStr (isoformat (bk_ends_at b)))]),
        (''status'', JStr (ChargingSessionStatus_value (cs_status s))),
        (''started_at'', JStr (isoformat (cs_started_at s))),
        (''ended_at'', json_time (cs_ended_at s)),
        (''meter_start_kwh'', JFloat (double_of (cs_meter_start_kwh s))),
        (''meter_end_kwh'', json_decimal (cs_meter_end_kwh s)),
        (''energy_consumed_kwh'', json_decimal (cs_energy_consumed_kwh s)),
        (''version'', JInt (cs_version s)),
        (''created_at'', JStr (isoformat (cs_created_at s)))])))))"

definition serialize_operation :: "database \<Rightarrow> booking \<Rightarrow> exn + json" where
  "serialize_operation d b = read_slot b (
     related (row_by usr_id (users d) (bk_user_id b)) (\<lambda>u.
     related (row_by cp_id (charge_points d) (bk_charge_point_id b)) (\<lambda>c.
     related (row_by st_id (charging_stations d) (cp_station_id c)) (\<lambda>station. Inr (JObj
       [(''booking'', JObj
          [(''id'', JStr (uuid_str (bk_id b))),
           (''status'', JStr (BookingStatus_value (bk_status b))),
           (''version'', JInt (bk_version b)),
           (''starts_at'', JStr (isoformat (bk_starts_at b))),
           (''ends_at'', JStr (isoformat (bk_ends_at b)))]),
        (''customer'', JObj
          [(''id'', JStr (uuid_str (usr_id u))), (''full_name'', JStr (usr_full_name u)),
           (''email'', JStr (usr_email u))]),
        (''charge_point'', JObj
          [(''id'', JStr (uuid_str (cp_id c))), (''code'', JStr (cp_code c)),
           (''connector_type'', JStr (ConnectorType_value (cp_connector_type c))),
           (''max_power_kw'', JFloat (double_of (cp_max_power_kw c)))]),
        (''station'', serialize_station_summary station),
        (''charging_session'',
          case select_scalar (\<lambda>s. cs_booking_id s = bk_id b) (charging_sessions d) of
            None \<Rightarrow> JNull
          | Some s \<Rightarrow> JObj
              [(''id'', JStr (uuid_str (cs_id s))),
               (''status'', JStr (ChargingSessionStatus_value (cs_status s))),
               (''version'', JInt (cs_version s)),
               (''started_at'', JStr (isoformat (cs_started_at s))),
               (''meter_start_kwh'', JFloat (double_of (cs_meter_start_kwh s)))])])))))"

subsection \<open>The views\<close>

definition session_data_invalid :: "issue list \<Rightarrow> response" where
  "session_data_invalid = validation_response ''The charging-session data is invalid.'' issue_json"

definition session_state_conflict_response :: response where
  "session_state_conflict_response = error_response ''charging_session_state_conflict''
     ''The booking or charging session state has changed.'' 409"

definition session_forbidden_response :: response where
  "session_forbidden_response = error_response ''forbidden''
     ''You do not control this charge point.'' 403"

definition OPERATOR_ROLES :: "UserRole list" where
  "OPERATOR_ROLES = [STATION_ADMIN, SYSTEM_ADMIN]"

definition list_operator_operations ::
    "ChargingOperationListQuery model \<Rightarrow> environment \<Rightarrow> moment \<Rightarrow> http_request \<Rightarrow> database
     \<Rightarrow> response outcome" where
  "list_operator_operations m env mo rq d = roles_view OPERATOR_ROLES env mo rq (\<lambda>current_user _.
     validated m (checked ChargingOperationListQuery_valid) (hq_args rq) session_data_invalid (\<lambda>query.
       let page = find_operator_charging_operations (mo_now mo) current_user query d
       in (rendered (\<lambda>items. JObj [(''operations'', JList items), (''pagination'', pagination page)]) 200
             (all_rendered (map (serialize_operation d) (pg_items page))), d)) d) d"

fun start_errors :: "exn \<Rightarrow> response option" where
  "start_errors ChargingSessionTimeError = Some (error_response ''outside_charging_window''
     ''The booking cannot be started at this time.'' 422)"
| "start_errors ChargingSessionForbiddenError = Some session_forbidden_response"
| "start_errors ChargingSessionStateConflictError = Some session_state_conflict_response"
| "start_errors _ = None"

definition session_answer :: "int \<Rightarrow> charging_session \<Rightarrow> database \<Rightarrow> exn + response" where
  "session_answer status s d =
     rendered (\<lambda>j. JObj [(''charging_session'', j)]) status (serialize_session d s)"

definition start_session ::
    "StartChargingSessionRequest model \<Rightarrow> environment \<Rightarrow> moment \<Rightarrow> http_request \<Rightarrow> database
     \<Rightarrow> response outcome" where
  "start_session m env mo rq d = roles_view OPERATOR_ROLES env mo rq (\<lambda>current_user _.
     validated m (checked StartChargingSessionRequest_valid) (hq_json rq) session_data_invalid (\<lambda>payload.
       concluded start_errors (session_answer 201)
         (start_charging_session (mo_now mo) (mo_new_id mo) current_user payload d)) d) d"

fun complete_errors :: "exn \<Rightarrow> response option" where
  "complete_errors ChargingSessionMeterError = Some (error_response ''invalid_meter_reading''
     ''The final meter reading cannot move backwards.'' 422)"
| "complete_errors ChargingSessionForbiddenError = Some session_forbidden_response"
| "complete_errors ChargingSessionStateConflictError = Some session_state_conflict_response"
| "complete_errors _ = None"

definition complete_session ::
    "CompleteChargingSessionRequest model \<Rightarrow> environment \<Rightarrow> moment \<Rightarrow> http_request \<Rightarrow> uuid \<Rightarrow> database
     \<Rightarrow> response outcome" where
  "complete_session m env mo rq session_id d = roles_view OPERATOR_ROLES env mo rq (\<lambda>current_user _.
     validated m (checked CompleteChargingSessionRequest_valid) (hq_json rq) session_data_invalid (\<lambda>payload.
       concluded complete_errors (session_answer 200)
         (complete_charging_session (mo_now mo) current_user session_id payload d)) d) d"

definition list_my_sessions ::
    "ChargingSessionListQuery model \<Rightarrow> environment \<Rightarrow> moment \<Rightarrow> http_request \<Rightarrow> database
     \<Rightarrow> response outcome" where
  "list_my_sessions m env mo rq d = access_token_view env mo rq (\<lambda>current_user _.
     validated m (checked ChargingSessionListQuery_valid) (hq_args rq) session_data_invalid (\<lambda>query.
       let page = find_user_charging_sessions (usr_id current_user) query d
       in (rendered (\<lambda>items. JObj [(''charging_sessions'', JList items), (''pagination'', pagination page)])
             200 (all_rendered (map (serialize_session d) (pg_items page))), d)) d) d"

definition get_my_session ::
    "environment \<Rightarrow> moment \<Rightarrow> http_request \<Rightarrow> uuid \<Rightarrow> database \<Rightarrow> response outcome" where
  "get_my_session env mo rq session_id d = access_token_view env mo rq (\<lambda>current_user _.
     (case get_user_charging_session (usr_id current_user) session_id d of
        None \<Rightarrow> (Inr (error_response ''charging_session_not_found''
                  ''The charging session was not found.'' 404), d)
      | Some s \<Rightarrow> (session_answer 200 s d, d))) d"

end
