(* ===== verification/StationRoutes.thy ===== *)
theory StationRoutes
  imports SessionRoutes
begin

text \<open>
  The station owner's routes (\<open>stations/routes.py\<close>): the dashboard listing, creation and the
  two guarded updates. The public search and the station page are in \<open>StationSearch\<close>.
\<close>

type_synonym cached_view = "(exn + response) \<times> (database \<times> redis)"

definition station_data_invalid :: "issue list \<Rightarrow> response" where
  "station_data_invalid = validation_response ''The request data is invalid.'' issue_json"

definition station_state_conflict_response :: response where
  "station_state_conflict_response = error_response ''station_state_conflict''
     ''The station data changed or violates an operational rule.'' 409"

definition station_conflict_response :: response where
  "station_conflict_response = error_response ''station_conflict''
     ''The station conflicts with existing data.'' 409"

fun create_station_errors :: "exn \<Rightarrow> response option" where
  "create_station_errors StationConflictError = Some station_conflict_response"
| "create_station_errors _ = None"

fun update_station_errors :: "exn \<Rightarrow> response option" where
  "update_station_errors StationNotFoundError = Some (answer station_not_found_response)"
| "update_station_errors StationStateConflictError = Some station_state_conflict_response"
| "update_station_errors StationConflictError = Some station_conflict_response"
| "update_station_errors _ = None"

text \<open>A view of a service that also writes to the search cache.\<close>

definition with_redis ::
    "(exn \<Rightarrow> response option) \<Rightarrow> ('a \<Rightarrow> database \<Rightarrow> exn + response)
     \<Rightarrow> (exn + 'a) \<times> database \<times> redis \<Rightarrow> cached_view" where
  "with_redis handlers render out =
     (case out of (res, d, r) \<Rightarrow>
        case concluded handlers render (res, d) of (res', d') \<Rightarrow> (res', (d', r)))"

definition with_roles ::
    "UserRole list \<Rightarrow> environment \<Rightarrow> moment \<Rightarrow> http_request \<Rightarrow> (user \<Rightarrow> cached_view)
     \<Rightarrow> database \<times> redis \<Rightarrow> cached_view" where
  "with_roles allowed env mo rq view s =
     (case roles_required allowed (en_jwt env) (en_config env) (mo_now mo) (hq_authorization rq) (fst s) of
        Inl e \<Rightarrow> (Inl e, s)
      | Inr Unauthorized \<Rightarrow> (Inr unauthorized_response, s)
      | Inr Forbidden \<Rightarrow> (Inr permission_response, s)
      | Inr (Granted current_user _) \<Rightarrow> view current_user)"

definition with_payload ::
    "'a model \<Rightarrow> ('a \<Rightarrow> 'a option) \<Rightarrow> json \<Rightarrow> ('a \<Rightarrow> cached_view) \<Rightarrow> database \<times> redis \<Rightarrow> cached_view" where
  "with_payload m check v view s =
     (case model_validate m check v of
        Inl found \<Rightarrow> (Inr (station_data_invalid found), s) | Inr x \<Rightarrow> view x)"

definition station_answer :: "int \<Rightarrow> charging_station \<Rightarrow> database \<Rightarrow> exn + response" where
  "station_answer status s d = Inr (answer (JObj [(''station'',
     serialize_station (charge_points_of (st_id s) d) None s)], status))"

definition list_my_stations ::
    "OwnedStationListQuery model \<Rightarrow> environment \<Rightarrow> moment \<Rightarrow> http_request \<Rightarrow> database
     \<Rightarrow> response outcome" where
  "list_my_stations m env mo rq d = roles_view OPERATOR_ROLES env mo rq (\<lambda>current_user _.
     validated m (checked OwnedStationListQuery_valid) (hq_args rq) station_data_invalid (\<lambda>query.
       let page = find_owned_stations (usr_id current_user) query d
       in (Inr (answer (JObj
             [(''stations'', JList (map (\<lambda>s. serialize_station 
                  (charge_points_of (st_id s) d) None s) (pg_items page))),
              (''pagination'', pagination page)], 200)), d)) d) d"

definition create_charging_station ::
    "StationCreateRequest model \<Rightarrow> environment \<Rightarrow> moment \<Rightarrow> http_request \<Rightarrow> database \<times> redis \<Rightarrow> cached_view" where
  "create_charging_station m env mo rq s = with_roles OPERATOR_ROLES env mo rq (\<lambda>current_user.
     with_payload m validate_station (hq_json rq) (\<lambda>payload.
       with_redis create_station_errors (station_answer 201)
         (create_station (en_config env) (mo_up mo 1) (mo_now mo) (mo_new_id mo) (mo_ids mo)
            current_user payload (fst s) (snd s))) s) s"

definition update_my_station ::
    "StationUpdateRequest model \<Rightarrow> environment \<Rightarrow> moment \<Rightarrow> http_request \<Rightarrow> uuid \<Rightarrow> database \<times> redis
     \<Rightarrow> cached_view" where
  "update_my_station m env mo rq station_id s = with_roles OPERATOR_ROLES env mo rq (\<lambda>current_user.
     with_payload m validate_station_update (hq_json rq) (\<lambda>payload.
       with_redis update_station_errors (station_answer 200)
         (update_station (en_config env) (mo_up mo 1) (mo_now mo) current_user station_id payload
            (fst s) (snd s))) s) s"

definition update_my_charge_point ::
    "ChargePointUpdateRequest model \<Rightarrow> environment \<Rightarrow> moment \<Rightarrow> http_request \<Rightarrow> uuid \<Rightarrow> uuid
     \<Rightarrow> database \<times> redis \<Rightarrow> cached_view" where
  "update_my_charge_point m env mo rq station_id charge_point_id s =
     with_roles OPERATOR_ROLES env mo rq (\<lambda>current_user.
     with_payload m validate_charge_point_update (hq_json rq) (\<lambda>payload.
       with_redis update_station_errors
         (\<lambda>c _. Inr (answer (JObj [(''charge_point'', serialize_charge_point c)], 200)))
         (update_charge_point (en_config env) (mo_up mo 1) (mo_now mo) current_user station_id
            charge_point_id payload (fst s) (snd s))) s) s"

end
