(* ===== verification/PaymentRoutes.thy ===== *)
theory PaymentRoutes
  imports BookingRoutes Webhooks
begin

text \<open>
  The payment routes (\<open>payments/routes.py\<close>): opening a checkout, the signed browser
  callback and the provider's webhook.
\<close>

fun PaymentProvider_value :: "PaymentProvider \<Rightarrow> string" where
  "PaymentProvider_value RAZORPAY = ''razorpay''"

definition payment_data_invalid :: "issue list \<Rightarrow> response" where
  "payment_data_invalid = validation_response ''The payment data is invalid.'' issue_json"

definition provider_not_configured_response :: response where
  "provider_not_configured_response = error_response ''payment_provider_not_configured''
     ''The payment provider is unavailable.'' 503"

fun verify_errors :: "exn \<Rightarrow> response option" where
  "verify_errors PaymentConfigurationError = Some provider_not_configured_response"
| "verify_errors PaymentVerificationError = Some (error_response ''payment_verification_failed''
     ''The payment details could not be verified.'' 400)"
| "verify_errors _ = None"

definition verified_payment_json :: "payment \<Rightarrow> json" where
  "verified_payment_json p = JObj [(''payment'', JObj
     [(''id'', JStr (uuid_str (pay_id p))),
      (''status'', JStr (PaymentStatus_value (pay_status p))),
      (''provider_order_id'', json_opt (pay_provider_order_id p)),
      (''provider_payment_id'', json_opt (pay_provider_payment_id p))])]"

definition verify_checkout ::
    "VerifyCheckoutPaymentRequest model \<Rightarrow> environment \<Rightarrow> moment \<Rightarrow> http_request \<Rightarrow> database
     \<Rightarrow> response outcome" where
  "verify_checkout m env mo rq d = access_token_view env mo rq (\<lambda>current_user _.
     validated m (checked VerifyCheckoutPaymentRequest_valid) (hq_json rq) payment_data_invalid (\<lambda>payload.
       concluded verify_errors (\<lambda>p _. Inr (answer (verified_payment_json p, 200)))
         (verify_checkout_payment (en_prims env) (en_config env) current_user payload d)) d) d"

fun webhook_errors :: "exn \<Rightarrow> response option" where
  "webhook_errors WebhookAuthenticationError = Some (error_response ''invalid_webhook_signature''
     ''The webhook could not be authenticated.'' 400)"
| "webhook_errors WebhookPayloadError = Some (error_response ''invalid_webhook_payload''
     ''The webhook payload is invalid.'' 400)"
| "webhook_errors _ = None"

text \<open>
  The duplicate check of the service reads the events before the insertion; \<open>mo_others\<close>
  takes that earlier database to the one at the insertion.
\<close>

definition razorpay_webhook ::
    "environment \<Rightarrow> moment \<Rightarrow> http_request \<Rightarrow> database \<Rightarrow> response outcome" where
  "razorpay_webhook env mo rq d =
     (if \<not> truthy (RAZORPAY_WEBHOOK_SECRET (en_config env))
      then (Inr provider_not_configured_response, d)
      else concluded webhook_errors (\<lambda>status _. Inr (answer (JObj [(''status'', JStr status)], 200)))
        (process_razorpay_webhook (en_prims env) (mo_now mo) (mo_new_id mo) (hq_body rq)
           (hq_header rq ''X-Razorpay-Signature'') (hq_header rq ''X-Razorpay-Event-Id'')
           (the (RAZORPAY_WEBHOOK_SECRET (en_config env))) d (mo_others mo d)))"

fun order_errors :: "exn \<Rightarrow> response option" where
  "order_errors PaymentConfigurationError = Some provider_not_configured_response"
| "order_errors PaymentStateConflictError = Some (error_response ''payment_state_conflict''
     ''Payment cannot be started for this booking state.'' 409)"
| "order_errors PaymentProviderError = Some (error_response ''payment_provider_unavailable''
     ''The payment provider is temporarily unavailable.'' 502)"
| "order_errors _ = None"

definition checkout_json :: "CheckoutOrder \<Rightarrow> booking \<Rightarrow> json" where
  "checkout_json checkout b =
     (let p = co_payment checkout in JObj
       [(''payment'', JObj
          [(''id'', JStr (uuid_str (pay_id p))),
           (''status'', JStr (PaymentStatus_value (pay_status p))),
           (''amount'', JFloat (double_of (pay_amount p))),
           (''amount_subunits'', JInt (pay_amount_subunits p)),
           (''currency'', JStr (pay_currency p)),
           (''provider'', JStr (PaymentProvider_value (pay_provider p))),
           (''provider_order_id'', json_opt (pay_provider_order_id p))]),
        (''booking'', JObj
          [(''id'', JStr (uuid_str (bk_id b))),
           (''status'', JStr (BookingStatus_value (bk_status b))),
           (''version'', JInt (bk_version b))]),
        (''checkout'', JObj
          [(''key_id'', JStr (co_public_key_id checkout)),
           (''order_id'', json_opt (pay_provider_order_id p)),
           (''amount'', JInt (pay_amount_subunits p)),
           (''currency'', JStr (pay_currency p))])])"

definition create_checkout_order ::
    "CreatePaymentOrderRequest model \<Rightarrow> environment \<Rightarrow> moment \<Rightarrow> http_request \<Rightarrow> database
     \<Rightarrow> response outcome" where
  "create_checkout_order m env mo rq d = access_token_view env mo rq (\<lambda>current_user _.
     validated m (checked CreatePaymentOrderRequest_valid) (hq_json rq) payment_data_invalid (\<lambda>payload.
       concluded order_errors
         (\<lambda>checkout _. related (co_booking checkout) (\<lambda>b.
            read_slot b (Inr (answer (checkout_json checkout b, 201)))))
         (create_payment_order (en_config env) (en_provider env) (mo_others mo) (mo_now mo)
            (mo_later mo) (mo_new_id mo) current_user payload d)) d) d"

end
