(* ===== verification/Api.thy ===== *)
theory Api
  imports AuthRoutes StationRoutes PaymentRoutes ExternalStations
begin

text \<open>
  The HTTP interface as \<open>create_app\<close> assembles it: the URL rules of the six blueprints, the
  view behind each rule, and the middleware around every response. Flask matches the
  rules; a \<open><uuid:...>\<close> segment is text of the form 8-4-4-4-12.
\<close>

subsection \<open>Requests of the interface\<close>

datatype call =
    Register | Login | Refresh | Me | Logout | LogoutAll | ChangePassword
  | ListMyBookings | GetMyBooking uuid | CancelMyBooking uuid | CreateBooking
  | ListOperations | StartSession | CompleteSession uuid | ListMySessions | GetMySession uuid
  | VerifyCheckout | RazorpayWebhook | CreateCheckoutOrder
  | ListExternalStations | ListStations | GetStation uuid
  | ListMyStations | CreateStation | UpdateStation uuid | UpdateChargePoint uuid uuid
  | HealthLive | HealthReady

datatype segment = Lit string | Uuid

type_synonym url_rule = "string \<times> segment list \<times> (uuid list \<Rightarrow> call)"

definition auth_rules :: "url_rule list" where
  "auth_rules =
     [(''POST'', [Lit ''auth'', Lit ''register''], \<lambda>_. Register),
      (''POST'', [Lit ''auth'', Lit ''login''], \<lambda>_. Login),
      (''POST'', [Lit ''auth'', Lit ''refresh''], \<lambda>_. Refresh),
      (''GET'', [Lit ''auth'', Lit ''me''], \<lambda>_. Me),
      (''POST'', [Lit ''auth'', Lit ''logout''], \<lambda>_. Logout),
      (''POST'', [Lit ''auth'', Lit ''logout-all''], \<lambda>_. LogoutAll),
      (''POST'', [Lit ''auth'', Lit ''change-password''], \<lambda>_. ChangePassword)]"

definition bookings_rules :: "url_rule list" where
  "bookings_rules =
     [(''GET'', [Lit ''bookings'', Lit ''me''], \<lambda>_. ListMyBookings),
      (''GET'', [Lit ''bookings'', Uuid], \<lambda>ids. GetMyBooking (ids ! 0)),
      (''POST'', [Lit ''bookings'', Uuid, Lit ''cancel''], \<lambda>ids. CancelMyBooking (ids ! 0)),
      (''POST'', [Lit ''bookings''], \<lambda>_. CreateBooking)]"

definition charging_sessions_rules :: "url_rule list" where
  "charging_sessions_rules =
     [(''GET'', [Lit ''charging-sessions'', Lit ''operations''], \<lambda>_. ListOperations),
      (''POST'', [Lit ''charging-sessions''], \<lambda>_. StartSession),
      (''POST'', [Lit ''charging-sessions'', Uuid, Lit ''complete''], \<lambda>ids. CompleteSession (ids ! 0)),
      (''GET'', [Lit ''charging-sessions'', Lit ''me''], \<lambda>_. ListMySessions),
      (''GET'', [Lit ''charging-sessions'', Uuid], \<lambda>ids. GetMySession (ids ! 0))]"

definition payments_rules :: "url_rule list" where
  "payments_rules =
     [(''POST'', [Lit ''payments'', Lit ''verify''], \<lambda>_. VerifyCheckout),
      (''POST'', [Lit ''payments'', Lit ''webhooks'', Lit ''razorpay''], \<lambda>_. RazorpayWebhook),
      (''POST'', [Lit ''payments'', Lit ''orders''], \<lambda>_. CreateCheckoutOrder)]"

definition stations_rules :: "url_rule list" where
  "stations_rules =
     [(''GET'', [Lit ''stations'', Lit ''external''], \<lambda>_. ListExternalStations),
      (''GET'', [Lit ''stations''], \<lambda>_. ListStations),
      (''GET'', [Lit ''stations'', Uuid], \<lambda>ids. GetStation (ids ! 0)),
      (''GET'', [Lit ''stations'', Lit ''mine''], \<lambda>_. ListMyStations),
      (''POST'', [Lit ''stations''], \<lambda>_. CreateStation),
      (''PATCH'', [Lit ''stations'', Uuid], \<lambda>ids. UpdateStation (ids ! 0)),
      (''PATCH'', [Lit ''stations'', Uuid, Lit ''charge-points'', Uuid],
         \<lambda>ids. UpdateChargePoint (ids ! 0) (ids ! 1))]"

definition health_rules :: "url_rule list" where
  "health_rules =
     [(''GET'', [Lit ''health''], \<lambda>_. HealthLive),
      (''GET'', [Lit ''health'', Lit ''live''], \<lambda>_. HealthLive),
      (''GET'', [Lit ''health'', Lit ''ready''], \<lambda>_. HealthReady)]"

definition url_rules :: "url_rule list" where
  "url_rules = auth_rules @ bookings_rules @ charging_sessions_rules @ payments_rules
     @ stations_rules @ health_rules"

definition uuid_shape :: "string \<Rightarrow> bool" where
  "uuid_shape s \<longleftrightarrow> length s = 36
     \<and> list_all (\<lambda>i. if i = 8 \<or> i = 13 \<or> i = 18 \<or> i = 23 then s ! i = CHR ''-''
          else hex_value (s ! i) \<noteq> None) [0..<36]"

fun match_segments :: "segment list \<Rightarrow> string list \<Rightarrow> uuid list option" where
  "match_segments [] [] = Some []"
| "match_segments (Lit t # ps) (s # path) = (if s = t then match_segments ps path else None)"
| "match_segments (Uuid # ps) (s # path) =
     (if \<not> uuid_shape s then None
      else case parse_uuid_text s of
        Inl _ \<Rightarrow> None | Inr i \<Rightarrow> map_option (Cons i) (match_segments ps path))"
| "match_segments _ _ = None"

definition matches :: "string \<Rightarrow> string list \<Rightarrow> url_rule \<Rightarrow> bool" where
  "matches method path rule \<longleftrightarrow> fst rule = method \<and> match_segments (fst (snd rule)) path \<noteq> None"

definition resolve :: "string \<Rightarrow> string list \<Rightarrow> call option" where
  "resolve method path = (case filter (matches method path) url_rules of
     [] \<Rightarrow> None | rule # _ \<Rightarrow> Some (snd (snd rule) (the (match_segments (fst (snd rule)) path))))"

subsection \<open>The views\<close>

record request_models =
  m_register :: "RegisterUserRequest model"
  m_login :: "LoginRequest model"
  m_password :: "ChangePasswordRequest model"
  m_booking_list :: "BookingListQuery model"
  m_cancel :: "int model"
  m_hold :: "BookingHoldRequest model"
  m_operations :: "ChargingOperationListQuery model"
  m_start :: "StartChargingSessionRequest model"
  m_complete :: "CompleteChargingSessionRequest model"
  m_session_list :: "ChargingSessionListQuery model"
  m_verify :: "VerifyCheckoutPaymentRequest model"
  m_order :: "CreatePaymentOrderRequest model"
  m_external :: "ExternalStationSearchQuery model"
  m_search :: "StationSearchQuery model"
  m_owned :: "OwnedStationListQuery model"
  m_station :: "StationCreateRequest model"
  m_edit_station :: "StationUpdateRequest model"
  m_edit_point :: "ChargePointUpdateRequest model"

definition search_stations ::
    "StationSearchQuery model \<Rightarrow> environment \<Rightarrow> moment \<Rightarrow> http_request \<Rightarrow> database \<times> redis \<Rightarrow> cached_view" where
  "search_stations m env mo rq s = with_payload m validate_search (hq_args rq) (\<lambda>query.
     case list_charging_stations (en_config env) (en_prims env) (en_writer env) (en_functions env)
            (mo_up mo) (mo_now mo) (\<lambda>(d, r). (mo_others mo d, r)) query s of
       (r, s') \<Rightarrow> (Inr (answer r), s')) s"

definition unlimited :: "cached_view \<Rightarrow> served" where
  "unlimited v = (fst v, snd v, None)"

definition plain :: "(database \<Rightarrow> response outcome) \<Rightarrow> database \<times> redis \<Rightarrow> served" where
  "plain view s = unlimited (on_database view s)"

fun dispatch ::
    "request_models \<Rightarrow> external_library \<Rightarrow> environment \<Rightarrow> moment \<Rightarrow> http_request \<Rightarrow> call
     \<Rightarrow> database \<times> redis \<Rightarrow> served" where
  "dispatch ms lib env mo rq Register s = limited ''auth:register'' REGISTER_RATE_LIMIT_REQUESTS env mo rq
     (on_database (register (m_register ms) env mo rq)) s"
| "dispatch ms lib env mo rq Login s = limited ''auth:login'' LOGIN_RATE_LIMIT_REQUESTS env mo rq
     (on_database (login (m_login ms) env mo rq)) s"
| "dispatch ms lib env mo rq Refresh s = limited ''auth:refresh'' REFRESH_RATE_LIMIT_REQUESTS env mo rq
     (on_database (refresh env mo rq)) s"
| "dispatch ms lib env mo rq Me s = plain (current_user_view env mo rq) s"
| "dispatch ms lib env mo rq Logout s = plain (logout env mo rq) s"
| "dispatch ms lib env mo rq LogoutAll s = plain (logout_all env mo rq) s"
| "dispatch ms lib env mo rq ChangePassword s = plain (change_password (m_password ms) env mo rq) s"
| "dispatch ms lib env mo rq ListMyBookings s = plain (list_my_bookings (m_booking_list ms) env mo rq) s"
| "dispatch ms lib env mo rq (GetMyBooking i) s = plain (get_my_booking env mo rq i) s"
| "dispatch ms lib env mo rq (CancelMyBooking i) s = plain (cancel_my_booking (m_cancel ms) env mo rq i) s"
| "dispatch ms lib env mo rq CreateBooking s = plain (create_booking (m_hold ms) env mo rq) s"
| "dispatch ms lib env mo rq ListOperations s =
     plain (list_operator_operations (m_operations ms) env mo rq) s"
| "dispatch ms lib env mo rq StartSession s = plain (start_session (m_start ms) env mo rq) s"
| "dispatch ms lib env mo rq (CompleteSession i) s =
     plain (\<lambda>d. complete_session (m_complete ms) env mo rq i d) s"
| "dispatch ms lib env mo rq ListMySessions s = plain (list_my_sessions (m_session_list ms) env mo rq) s"
| "dispatch ms lib env mo rq (GetMySession i) s = plain (get_my_session env mo rq i) s"
| "dispatch ms lib env mo rq VerifyCheckout s = plain (verify_checkout (m_verify ms) env mo rq) s"
| "dispatch ms lib env mo rq RazorpayWebhook s = plain (razorpay_webhook env mo rq) s"
| "dispatch ms lib env mo rq CreateCheckoutOrder s = plain (create_checkout_order (m_order ms) env mo rq) s"
| "dispatch ms lib env mo rq ListExternalStations s =
     list_external_charging_stations (m_external ms) lib env mo rq s"
| "dispatch ms lib env mo rq ListStations s = unlimited (search_stations (m_search ms) env mo rq s)"
| "dispatch ms lib env mo rq (GetStation i) s =
     plain (\<lambda>d. (Inr (answer (get_charging_station i d)), d)) s"
| "dispatch ms lib env mo rq ListMyStations s = plain (list_my_stations (m_owned ms) env mo rq) s"
| "dispatch ms lib env mo rq CreateStation s =
     unlimited (create_charging_station (m_station ms) env mo rq s)"
| "dispatch ms lib env mo rq (UpdateStation i) s =
     unlimited (update_my_station (m_edit_station ms) env mo rq i s)"
| "dispatch ms lib env mo rq (UpdateChargePoint i j) s =
     unlimited (update_my_charge_point (m_edit_point ms) env mo rq i j s)"
| "dispatch ms lib env mo rq HealthLive s = plain (\<lambda>d. (Inr (answer liveness), d)) s"
| "dispatch ms lib env mo rq HealthReady s =
     plain (\<lambda>d. (Inr (answer (readiness (mo_up mo 0) (mo_up mo 1))), d)) s"

text \<open>The middleware completes every response; \<open>fresh\<close> is the identifier it would draw.\<close>

definition handle ::
    "request_models \<Rightarrow> external_library \<Rightarrow> environment \<Rightarrow> moment \<Rightarrow> uuid \<Rightarrow> http_request \<Rightarrow> call
     \<Rightarrow> database \<times> redis \<Rightarrow> (exn + response) \<times> (database \<times> redis)" where
  "handle ms lib env mo fresh rq c s =
     (case dispatch ms lib env mo rq c s of
        (Inl e, s', _) \<Rightarrow> (Inl e, s')
      | (Inr r, s', info) \<Rightarrow>
          (Inr (r\<lparr>rsp_headers := rsp_headers r @ secure_headers (en_config env)
              (request_id (rq_request_id (hq_client rq)) fresh) info\<rparr>), s'))"

end
