(* ===== verification/ApiSamples.thy ===== *)
theory ApiSamples
  imports Api SampleRun
begin

text \<open>
  A concrete interface on which the properties of the API are evaluated: the sample
  configuration with the sample libraries, request models that accept one document, and a
  database in which the sample driver is signed in with the token \<open>token\<close>.
\<close>

definition refusing :: "'a model" where
  "refusing = \<lparr>coerce = (\<lambda>_. Inl []), issues = (\<lambda>_. [])\<rparr>"

definition accepting :: "'a \<Rightarrow> 'a model" where
  "accepting x = \<lparr>coerce = (\<lambda>_. Inr x), issues = (\<lambda>_. [])\<rparr>"

lemma model_validate_refusing [simp]: "model_validate refusing check v = Inl []"
  by (simp add: model_validate_def refusing_def)

lemma model_validate_accepting [simp]: "check x = Some y \<Longrightarrow> model_validate (accepting x) check v = Inr y"
  by (simp add: model_validate_def accepting_def)

text \<open>The hold that a driver asks for on a charge point that does not exist.\<close>

definition missing_point :: BookingHoldRequest where
  "missing_point = sample_hold_request\<lparr>hr_charge_point_id := 21\<rparr>"

definition sample_models :: request_models where
  "sample_models = \<lparr>m_register = refusing, m_login = refusing, m_password = refusing,
     m_booking_list = refusing, m_cancel = refusing, m_hold = accepting missing_point, m_operations = refusing,
     m_start = refusing, m_complete = refusing, m_session_list = refusing, m_verify = refusing,
     m_order = refusing, m_external = refusing, m_search = refusing, m_owned = refusing,
     m_station = refusing, m_edit_station = refusing, m_edit_point = refusing\<rparr>"

definition sample_environment :: environment where
  "sample_environment = \<lparr>en_config = sample_config, en_prims = plain_primitives,
     en_jwt = sample_jwt sample_claims, en_hashing = plain_hashing, en_provider = (\<lambda>_. None),
     en_functions = flat_earth, en_writer = counting_writer,
     en_email_str = Some, en_is_digit = (\<lambda>_. True)\<rparr>"

definition sample_moment :: moment where
  "sample_moment = \<lparr>mo_now = minutes 10, mo_later = minutes 11, mo_new_id = 700, mo_ids = (\<lambda>n. 800 + of_nat n),
     mo_fresh = sample_fresh 2, mo_salt = ''salt'', mo_up = (\<lambda>_. True), mo_others = id\<rparr>"

definition bearer_request :: http_request where
  "bearer_request = \<lparr>hq_client = sample_request_from ''10.0.0.1'', hq_authorization = ''Bearer token'',
     hq_is_json = True, hq_json = JObj [], hq_args = JObj [], hq_body = ''{}'',
     hq_cookie = (\<lambda>_. None), hq_header = (\<lambda>_. None)\<rparr>"

definition signed_in_db :: database where
  "signed_in_db = snd (create_auth_session plain_primitives (sample_jwt sample_claims) sample_config 5
     (sample_fresh 1) sample_driver sample_db)"

lemma signed_in_sound:
  "db_ok signed_in_db" "core_tables signed_in_db = ([], [], [], [])" "version_headroom signed_in_db"
  "families_single signed_in_db" "slots_readable signed_in_db"
proof -
  have "case create_auth_session plain_primitives (sample_jwt sample_claims) sample_config 5
      (sample_fresh 1) sample_driver sample_db of (_, d) \<Rightarrow>
        db_ok d \<and> core_tables d = ([], [], [], []) \<and> version_headroom d \<and> families_single d"
    by code_simp
  then show sound: "db_ok signed_in_db" "core_tables signed_in_db = ([], [], [], [])"
    "version_headroom signed_in_db" "families_single signed_in_db"
    by (simp_all add: signed_in_db_def case_prod_beta)
  from sound(2) show "slots_readable signed_in_db" by (simp add: slots_readable_def)
qed

lemma signed_in_reachable: "reachable sample_config plain_primitives ''whsec'' (running signed_in_db [])"
  unfolding reachable_def using signed_in_sound
  by (intro exI [of _ "running signed_in_db []"]) (simp add: initial_system_def running_def)

lemma signed_in_granted:
  obtains claims where "access_token_required (en_jwt sample_environment) (en_config sample_environment)
    (mo_now sample_moment) (hq_authorization bearer_request) signed_in_db = Inr (Granted sample_driver claims)"
proof (rule sample_created)
  fix issued d'
  assume r: "create_auth_session plain_primitives (sample_jwt sample_claims) sample_config 5
      (sample_fresh 1) sample_driver sample_db = (Inr issued, d')"
    "at_value (is_access_token issued) = ''token''" "at_expires_at (is_access_token issued) = Aware (minutes 15 + 5) 0"
    "as_expires_at (is_session issued) = days 30 + 5"
  have j: "jwt_roundtrip (sample_jwt sample_claims) (access_payload sample_config sample_driver
      (fv_session_id (sample_fresh 1)) (fv_token_id (sample_fresh 1)) (Aware 5 0)
      (at_expires_at (is_access_token issued)))"
    unfolding r(3) sample_claims_payload by (rule sample_jwt_roundtrip)
  have d: "signed_in_db = d'" unfolding signed_in_db_def r(1) by simp
  from issued_token_granted [OF sample_db_ok sample_driver_active r(1) j, of "minutes 10"] sample_times
  show thesis
    unfolding r d [symmetric] by (auto simp: sample_environment_def sample_moment_def bearer_request_def intro: that)
qed

end
