(* ===== verification/Rendering.thy ===== *)
theory Rendering
  imports SessionRoutes Platform
begin

text \<open>
  The JSON of the routes reads related rows without asking whether they are there. The
  foreign keys, and a hold's expiry time that every booking keeps, make it total: in every
  state the platform reaches, every booking, queue entry and charging session is rendered.
\<close>

lemma point_and_station:
  assumes "db_ok d" "i \<in> cp_id ` set (charge_points d)"
  shows "\<exists>c s. row_by cp_id (charge_points d) i = Some c
    \<and> row_by st_id (charging_stations d) (cp_station_id c) = Some s"
proof -
  from assms(2) obtain c where c: "row_by cp_id (charge_points d) i = Some c"
    by (cases "row_by cp_id (charge_points d) i") (auto simp: row_by_None)
  then have "c \<in> set (charge_points d)" by (auto dest: row_by_Some)
  with assms(1) have "cp_station_id c \<in> st_id ` set (charging_stations d)"
    by (auto simp: db_ok_parts charge_points_constraints_def list_all_iff)
  then obtain s where "row_by st_id (charging_stations d) (cp_station_id c) = Some s"
    by (cases "row_by st_id (charging_stations d) (cp_station_id c)") (auto simp: row_by_None)
  with c show ?thesis by blast
qed

lemma booking_keys:
  assumes "db_ok d" "b \<in> set (bookings d)"
  shows "bk_user_id b \<in> usr_id ` set (users d)" "bk_charge_point_id b \<in> cp_id ` set (charge_points d)"
  using assms by (auto simp: db_ok_parts bookings_constraints_def list_all_iff)

lemma session_keys:
  assumes "db_ok d" "s \<in> set (charging_sessions d)"
  shows "cs_booking_id s \<in> bk_id ` set (bookings d)"
    "cs_charge_point_id s \<in> cp_id ` set (charge_points d)"
  using assms by (auto simp: db_ok_parts charging_sessions_constraints_def list_all_iff)

lemma booking_renders:
  assumes "db_ok d" "b \<in> set (bookings d)" "slot_readable b" "bk_hold_expires_at b \<noteq> None"
  shows "\<exists>j. serialize_booking d b = Inr j"
  using point_and_station [OF assms(1) booking_keys(2) [OF assms(1,2)]] assms(3,4)
  by (auto simp: serialize_booking_def related_def)

lemma operation_renders:
  assumes "db_ok d" "b \<in> set (bookings d)" "slot_readable b"
  shows "\<exists>j. serialize_operation d b = Inr j"
proof -
  from booking_keys(1) [OF assms(1,2)] obtain u where "row_by usr_id (users d) (bk_user_id b) = Some u"
    by (cases "row_by usr_id (users d) (bk_user_id b)") (auto simp: row_by_None)
  with point_and_station [OF assms(1) booking_keys(2) [OF assms(1,2)]] assms(3) show ?thesis
    by (auto simp: serialize_operation_def related_def)
qed

lemma session_renders:
  assumes "db_ok d" "s \<in> set (charging_sessions d)" "slots_readable d"
  shows "\<exists>j. serialize_session d s = Inr j"
proof -
  from session_keys(1) [OF assms(1,2)] obtain b where b: "row_by bk_id (bookings d) (cs_booking_id s) = Some b"
    by (cases "row_by bk_id (bookings d) (cs_booking_id s)") (auto simp: row_by_None)
  with assms(3) have "slot_readable b" by (auto dest!: row_by_Some intro: slots_readableD)
  with b point_and_station [OF assms(1) session_keys(2) [OF assms(1,2)]] show ?thesis
    by (auto simp: serialize_session_def related_def)
qed

subsection \<open>Reachable states\<close>

definition holds_dated :: "database \<Rightarrow> bool" where
  "holds_dated d \<longleftrightarrow> list_all (\<lambda>b. bk_hold_expires_at b \<noteq> None) (bookings d)"

lemma core_evolves_dated: "core_evolves d d' \<Longrightarrow> holds_dated d \<Longrightarrow> holds_dated d'"
  unfolding core_evolves_def holds_dated_def
  by (rule booking_life.evolves_invariant [of "bookings d" "bookings d'"])
     (auto simp: booking_move_same new_booking_def)

lemma core_run_dated: "core_evolves\<^sup>*\<^sup>* d d' \<Longrightarrow> holds_dated d \<Longrightarrow> holds_dated d'"
  by (induction rule: rtranclp_induct) (auto intro: core_evolves_dated)

end
