(* ===== verification/ViewContract.thy ===== *)
theory ViewContract
  imports Http
begin

text \<open>
  What a guarantee about a view's outcome needs so that the guards and the request models
  keep it: the contract that the properties of the API are proved against.
\<close>

locale view_contract =
  fixes ok :: "database \<Rightarrow> response outcome \<Rightarrow> bool"
  assumes client_error: "rsp_status r \<in> {401, 403, 404, 422} \<Longrightarrow> ok d (Inr r, d)"
begin

lemma guarded_view:
  assumes "acc = Inr a" "\<And>u c. acc = Inr (Granted u c) \<Longrightarrow> ok d (view u c)"
  shows "ok d (with_access acc view d)"
  using assms by (cases a) (auto simp: with_access_def intro!: client_error)

lemma checked_view:
  assumes "\<And>found. rsp_status (refuse found) = 422" "\<And>x. ok d (view x)"
  shows "ok d (validated m check v refuse view d)"
  using assms by (cases "model_validate m check v") (auto simp: validated_def intro!: client_error)

end

text \<open>A guarantee that every outcome meets that leaves the database as it was.\<close>

locale transactional_contract = view_contract +
  assumes unchanged: "ok d (res, d)"
begin

lemma guarded_transaction:
  "(\<And>u c. acc = Inr (Granted u c) \<Longrightarrow> ok d (view u c)) \<Longrightarrow> ok d (with_access acc view d)"
  by (auto simp: with_access_def intro: unchanged split: sum.split access.split)

lemma checked_transaction: "(\<And>x. ok d (view x)) \<Longrightarrow> ok d (validated m check v refuse view d)"
  by (auto simp: validated_def intro: unchanged split: sum.split)

lemma concluded_transaction:
  assumes "\<And>e d'. out = (Inl e, d') \<Longrightarrow> d' = d"
    and "\<And>x d'. out = (Inr x, d') \<Longrightarrow> ok d (render x d', d')"
  shows "ok d (concluded handlers render out)"
proof (cases out)
  case (Pair res d')
  show ?thesis
  proof (cases res)
    case (Inl e)
    with Pair assms(1) have "d' = d" by simp
    with Pair Inl show ?thesis by (simp add: concluded_def unchanged)
  next
    case (Inr x)
    with Pair assms(2) show ?thesis by (simp add: concluded_def)
  qed
qed

end

end
