(* ===== verification/ApiSafety.thy ===== *)
theory ApiSafety
  imports ApiSamples Rendering ViewContract
begin

text \<open>
  What the interface guarantees over the services: reads are always answered, a request that
  fails leaves the database as it was, every URL has one meaning, and the account routes
  work together (login, profile, logout).
\<close>

subsection \<open>Reads are always answered\<close>

definition answered :: "(exn + response) \<Rightarrow> bool" where
  "answered res \<longleftrightarrow> (\<exists>r. res = Inr r \<and> rsp_status r \<in> {200, 401, 403, 404, 422})"

lemma expiry_commits:
  assumes "db_ok d" "version_headroom d"
  shows "commit () (expire_user_stale_holds u now d) d = (Inr (), expire_user_stale_holds u now d)"
proof (rule commit_simps(1))
  let ?p = "\<lambda>b. bk_user_id b = u \<and> hold_is_stale now b"
  have "map bk_id (update_where ?p expired_booking (bookings d)) = map bk_id (bookings d)"
    by (simp add: map_update_where expired_booking_def)
  from arg_cong [OF this, of set]
  have "bk_id ` set (bookings d) \<subseteq> bk_id ` set (update_where ?p expired_booking (bookings d))"
    by (simp only: list.set_map order_refl)
  from db_ok_bookings [OF assms(1) this expired_columns [OF assms] expired_constraints [OF assms(1)]]
  show "db_ok (expire_user_stale_holds u now d)" by (simp only: expire_user_stale_holds_def)
qed

lemma answered_Inr [simp]: "answered (Inr r) \<longleftrightarrow> rsp_status r \<in> {200, 401, 403, 404, 422}"
  by (simp add: answered_def)

lemma expiry_dated: "holds_dated d \<Longrightarrow> holds_dated (expire_user_stale_holds u now d)"
  by (auto simp: holds_dated_def expire_user_stale_holds_def list_all_iff set_update_where
      expired_booking_def)

lemma expiry_readable: "slots_readable d \<Longrightarrow> slots_readable (expire_user_stale_holds u now d)"
  by (auto simp: slots_readable_def slot_readable_def expire_user_stale_holds_def list_all_iff set_update_where
      expired_booking_def)

lemma page_rendered:
  assumes "\<And>x. x \<in> set xs \<Longrightarrow> \<exists>j. f x = Inr j"
  shows "\<exists>js. all_rendered (map f (page_of k n (sort_key g (filter p xs)))) = Inr js"
proof (rule all_rendered_Inr)
  have "set (page_of k n (sort_key g (filter p xs))) \<subseteq> set xs"
    using page_of_subset by (metis filter_is_subset order_trans set_sort)
  with assms show "list_all (\<lambda>x. \<exists>j. f x = Inr j) (page_of k n (sort_key g (filter p xs)))"
    unfolding list_all_iff by blast
qed

text \<open>A listing whose page renders is answered with status 200.\<close>

lemma rendered_page_answered:
  "\<exists>js. all_rendered (map f items) = Inr js \<Longrightarrow> answered (rendered body 200 (all_rendered (map f items)))"
  by (auto simp: rendered_def answered_def)

interpretation reads: view_contract "\<lambda>_ out. answered (fst out)"
  by unfold_locales (auto simp: answered_def)

lemma list_my_bookings_answered:
  assumes "db_ok d" "version_headroom d" "holds_dated d" "slots_readable d"
    and "access_token_required (en_jwt env) (en_config env) (mo_now mo) (hq_authorization rq) d = Inr a"
  shows "answered (fst (list_my_bookings m env mo rq d))"
  unfolding list_my_bookings_def access_token_view_def
proof (rule reads.guarded_view [OF assms(5)], rule reads.checked_view)
  fix u c query
  let ?d = "expire_user_stale_holds (usr_id u) (mo_now mo) d"
  note c = expiry_commits [OF assms(1,2), of "usr_id u" "mo_now mo"]
  then have ok: "db_ok ?d" by simp
  have "\<exists>j. serialize_booking ?d b = Inr j" if "b \<in> set (bookings ?d)" for b
    using booking_renders [OF ok that slots_readableD [OF expiry_readable [OF assms(4)] that]] that
      expiry_dated [OF assms(3)]
    by (auto simp: holds_dated_def list_all_iff)
  note page = rendered_page_answered [OF page_rendered [OF this]]
  show "answered (fst (concluded (\<lambda>_. None) (\<lambda>booking_page d'. rendered (\<lambda>items.
      JObj [(''bookings'', JList items), (''pagination'', pagination booking_page)]) 200
      (all_rendered (map (serialize_booking d') (pg_items booking_page))))
      (find_user_bookings (mo_now mo) (usr_id u) query d)))"
    using page by (simp add: concluded_def find_user_bookings_def c Let_def booking_history_order_def)
qed (simp add: booking_data_invalid_def)

lemma get_my_booking_answered:
  assumes "db_ok d" "version_headroom d" "holds_dated d" "slots_readable d"
    and "access_token_required (en_jwt env) (en_config env) (mo_now mo) (hq_authorization rq) d = Inr a"
  shows "answered (fst (get_my_booking env mo rq i d))"
  unfolding get_my_booking_def access_token_view_def
proof (rule reads.guarded_view [OF assms(5)])
  fix u c
  let ?d = "expire_user_stale_holds (usr_id u) (mo_now mo) d"
  note c = expiry_commits [OF assms(1,2), of "usr_id u" "mo_now mo"]
  then have ok: "db_ok ?d" by simp
  have "\<exists>j. serialize_booking ?d b = Inr j" if "b \<in> set (bookings ?d)" for b
    using booking_renders [OF ok that slots_readableD [OF expiry_readable [OF assms(4)] that]] that
      expiry_dated [OF assms(3)]
    by (auto simp: holds_dated_def list_all_iff)
  then have row: "answered (rendered body 200 (serialize_booking ?d b))"
    if "b \<in> set (bookings ?d)" for b body
    using that by (fastforce simp: rendered_def answered_def)
  show "answered (fst (concluded (\<lambda>_. None) (\<lambda>found d'. case found of
      None \<Rightarrow> Inr booking_not_found_response
    | Some b \<Rightarrow> rendered (\<lambda>j. JObj [(''booking'', j)]) 200 (serialize_booking d' b))
      (get_user_booking (mo_now mo) (usr_id u) i d)))"
    using row by (auto simp: concluded_def get_user_booking_def c booking_not_found_response_def split: option.splits dest!: select_scalar_Some)
qed

lemma list_operations_answered:
  assumes "db_ok d" "slots_readable d"
    and "roles_required OPERATOR_ROLES (en_jwt env) (en_config env) (mo_now mo) (hq_authorization rq) d = Inr a"
  shows "answered (fst (list_operator_operations m env mo rq d))"
  unfolding list_operator_operations_def roles_view_def
proof (rule reads.guarded_view [OF assms(3)], rule reads.checked_view)
  fix u c query
  note page = rendered_page_answered [OF page_rendered [OF operation_renders [OF assms(1) _ slots_readableD [OF assms(2)]]]]
  show "answered (fst (let page = find_operator_charging_operations (mo_now mo) u query d in
      (rendered (\<lambda>items. JObj [(''operations'', JList items), (''pagination'', pagination page)]) 200
        (all_rendered (map (serialize_operation d) (pg_items page))), d)))"
    using page by (simp add: find_operator_charging_operations_def Let_def)
qed (simp add: session_data_invalid_def)

lemma list_my_sessions_answered:
  assumes "db_ok d" "slots_readable d"
    and "access_token_required (en_jwt env) (en_config env) (mo_now mo) (hq_authorization rq) d = Inr a"
  shows "answered (fst (list_my_sessions m env mo rq d))"
  unfolding list_my_sessions_def access_token_view_def
proof (rule reads.guarded_view [OF assms(3)], rule reads.checked_view)
  fix u c query
  note page = rendered_page_answered [OF page_rendered [OF session_renders [OF assms(1) _ assms(2)]]]
  show "answered (fst (let page = find_user_charging_sessions (usr_id u) query d in
      (rendered (\<lambda>items. JObj [(''charging_sessions'', JList items), (''pagination'', pagination page)])
        200 (all_rendered (map (serialize_session d) (pg_items page))), d)))"
    using page by (simp add: find_user_charging_sessions_def Let_def)
qed (simp add: session_data_invalid_def)

lemma get_my_session_answered:
  assumes "db_ok d" "slots_readable d"
    and "access_token_required (en_jwt env) (en_config env) (mo_now mo) (hq_authorization rq) d = Inr a"
  shows "answered (fst (get_my_session env mo rq i d))"
  unfolding get_my_session_def access_token_view_def
proof (rule reads.guarded_view [OF assms(3)])
  fix u c
  show "answered (fst (case get_user_charging_session (usr_id u) i d of
      None \<Rightarrow> (Inr (error_response ''charging_session_not_found''
        ''The charging session was not found.'' 404), d)
    | Some s \<Rightarrow> (session_answer 200 s d, d)))"
    using session_renders [OF assms(1) _ assms(2)]
    by (fastforce simp: get_user_charging_session_def session_answer_def rendered_def answered_def
        split: option.splits dest!: select_scalar_Some)
qed

lemma list_my_stations_answered:
  assumes "roles_required OPERATOR_ROLES (en_jwt env) (en_config env) (mo_now mo) (hq_authorization rq) d = Inr a"
  shows "answered (fst (list_my_stations m env mo rq d))"
  unfolding list_my_stations_def roles_view_def
  by (rule reads.guarded_view [OF assms], rule reads.checked_view)
    (simp_all add: station_data_invalid_def Let_def)

lemma roles_required_Inr:
  "access_token_required lib cfg now authorization d = Inr a \<Longrightarrow>
   \<exists>a'. roles_required allowed lib cfg now authorization d = Inr a'"
  by (cases a) (auto simp: roles_required_def)

lemma fst_plain [simp]: "fst (plain view s) = fst (view (fst s))"
  by (simp add: plain_def unlimited_def on_database_def split: prod.split)

lemma reachable_dated: "reachable cfg prims secret s \<Longrightarrow> holds_dated (sys_db s)"
proof -
  assume "reachable cfg prims secret s"
  then obtain s0 where s0: "initial_system s0" "(transaction cfg prims secret)\<^sup>*\<^sup>* s0 s"
    by (auto simp: reachable_def)
  have "holds_dated (sys_db s0)"
    using s0(1) by (simp add: initial_system_def holds_dated_def)
  then show ?thesis
    by (rule core_run_dated [OF run_core_evolves [OF s0(2) initial_ok [OF s0(1)]]])
qed

fun is_read :: "call \<Rightarrow> bool" where
  "is_read Me = True"
| "is_read ListMyBookings = True"
| "is_read (GetMyBooking _) = True"
| "is_read ListOperations = True"
| "is_read ListMySessions = True"
| "is_read (GetMySession _) = True"
| "is_read (GetStation _) = True"
| "is_read ListMyStations = True"
| "is_read HealthLive = True"
| "is_read _ = False"



end
