(* ===== verification/ApiAtomicity.thy ===== *)
theory ApiAtomicity
  imports ApiSafety
begin

text \<open>
  All or nothing: a request that changes the database in one transaction either answers
  with success or leaves the database as it found it, whatever refuses it on the way: the
  guard, the validation, the service, a constraint, or an exception nobody catches.
\<close>

definition succeeded :: "response \<Rightarrow> bool" where
  "succeeded r \<longleftrightarrow> rsp_status r \<in> {200, 201, 204}"

lemma succeeded_answer [simp]: "succeeded (answer (j, status)) \<longleftrightarrow> status \<in> {200, 201, 204}"
  by (simp add: succeeded_def)

text \<open>
  A booking whose slot no datetime represents is excepted: it is stored, and its response
  cannot be rendered (see \<open>hold_beyond_calendar\<close> below).
\<close>

definition settled :: "database \<Rightarrow> response outcome \<Rightarrow> bool" where
  "settled d out \<longleftrightarrow> snd out = d \<or> \<not> slots_readable (snd out) \<or> (\<exists>r. fst out = Inr r \<and> succeeded r)"

lemma settled_unchanged [simp]: "settled d (r, d)"
  by (simp add: settled_def)

lemma settled_success: "succeeded r \<Longrightarrow> settled d (Inr r, d')"
  by (simp add: settled_def)

interpretation changes: transactional_contract settled
  by unfold_locales simp_all

lemma settled_concluded:
  assumes "\<And>e d'. out = (Inl e, d') \<Longrightarrow> d' = d"
    and "\<And>x d'. out = (Inr x, d') \<Longrightarrow> slots_readable d' \<Longrightarrow> \<exists>r. render x d' = Inr r \<and> succeeded r"
  shows "settled d (concluded handlers render out)"
  using assms by (intro changes.concluded_transaction) (auto simp: settled_def)

lemmas settled_views = changes.guarded_transaction changes.checked_transaction settled_concluded

subsection \<open>A service that raises has rolled back\<close>

lemma commit_raises: "commit x d1 d = (Inl e, d') \<Longrightarrow> d' = d"
  by (simp add: commit_Inl)

lemma guarded_commit_raises: "on_integrity_error e (commit x d1 d) = (Inl e', d') \<Longrightarrow> d' = d"
  by (auto simp: on_integrity_error_def commit_def split: option.splits)

lemma hold_raises: "create_booking_hold cfg now i u payload d = (Inl e, d') \<Longrightarrow> d' = d"
  by (auto simp: create_booking_hold_def Let_def dest!: guarded_commit_raises split: if_splits)

lemma start_raises: "start_charging_session now i u payload d = (Inl e, d') \<Longrightarrow> d' = d"
  by (auto simp: start_charging_session_def Let_def dest!: guarded_commit_raises
      split: if_splits option.splits)

lemma complete_raises: "complete_charging_session now u i payload d = (Inl e, d') \<Longrightarrow> d' = d"
  by (auto simp: complete_charging_session_def Let_def dest!: commit_raises
      split: if_splits option.splits)

lemma verify_raises: "verify_checkout_payment prims cfg u payload d = (Inl e, d') \<Longrightarrow> d' = d"
  by (auto simp: verify_checkout_payment_def Let_def dest!: guarded_commit_raises
      split: if_splits option.splits)

lemma password_raises: "change_user_password h now salt i payload d = (Inl e, d') \<Longrightarrow> d' = d"
  by (auto simp: change_user_password_def dest!: commit_raises split: if_splits option.splits)

lemma revoke_raises:
  "revoke_auth_session now i u d = (Inl e, d') \<Longrightarrow> d' = d"
  "revoke_all_auth_sessions now u d = (Inl e, d') \<Longrightarrow> d' = d"
  by (auto simp: revoke_auth_session_def revoke_all_auth_sessions_def dest!: commit_raises
      split: if_splits option.splits)

lemma then_invalidate_raises: "then_invalidate cfg up now r out = (Inl e, d', r') \<Longrightarrow> out = (Inl e, d')"
  by (auto simp: then_invalidate_def split: prod.splits sum.splits)

lemma station_raises:
  "create_station cfg up now i ids u payload d r = (Inl e, d', r') \<Longrightarrow> d' = d"
  "update_station cfg up now u i edit d r = (Inl e, d', r') \<Longrightarrow> d' = d"
  "update_charge_point cfg up now u i j point_edit d r = (Inl e, d', r') \<Longrightarrow> d' = d"
  unfolding create_station_def update_station_def update_charge_point_def Let_def
  by (drule then_invalidate_raises;
      auto dest!: guarded_commit_raises split: if_splits option.splits)+

subsection \<open>A service that succeeds has stored what the response renders\<close>

lemma hold_stored:
  assumes "create_booking_hold cfg now i u payload d = (Inr b, d')"
  shows "db_ok d' \<and> b \<in> set (bookings d') \<and> bk_hold_expires_at b \<noteq> None"
  using assms
  by (auto simp: create_booking_hold_def Let_def insert_row_def held_booking_def split: if_splits)

lemma start_stored:
  assumes "start_charging_session now i u payload d = (Inr s, d')"
  shows "db_ok d' \<and> s \<in> set (charging_sessions d')"
  using assms
  by (auto simp: start_charging_session_def Let_def insert_row_def split: if_splits option.splits)

lemma complete_stored:
  assumes "complete_charging_session now u i payload d = (Inr s, d')"
  shows "db_ok d' \<and> s \<in> set (charging_sessions d')"
proof -
  from assms obtain s0 where s0: "row_by cs_id (charging_sessions d) i = Some s0"
    "s = completed_session now s0 payload" "db_ok d'"
    "charging_sessions d' = store_row cs_id s (charging_sessions d)"
    by (auto simp: complete_charging_session_def Let_def split: if_splits option.splits)
  then have "cs_id s = cs_id s0" by (simp add: completed_session_def)
  moreover from row_by_Some [OF s0(1)] have "s0 \<in> set (charging_sessions d)" by simp
  ultimately have "cs_id s \<in> cs_id ` set (charging_sessions d)" by (metis imageI)
  with s0(3,4) show ?thesis by (simp add: set_store_row)
qed

subsection \<open>The views\<close>

lemma create_booking_settled: "settled d (create_booking m env mo rq d)"
  unfolding create_booking_def access_token_view_def
proof (intro settled_views)
  fix u c payload b d'
  assume "create_booking_hold (en_config env) (mo_now mo) (mo_new_id mo) u payload d = (Inr b, d')"
    and "slots_readable d'"
  with hold_stored [OF this(1)] booking_renders [of d' b] slots_readableD [of d' b] obtain j
    where "serialize_booking d' b = Inr j" by blast
  then show "\<exists>r. rendered (\<lambda>j. JObj [(''booking'', j)]) 201 (serialize_booking d' b) = Inr r
      \<and> succeeded r"
    by (simp add: rendered_def)
qed (rule hold_raises)

lemma session_answered:
  assumes "db_ok d" "s \<in> set (charging_sessions d)" "slots_readable d" "status = 200 \<or> status = 201"
  shows "\<exists>r. session_answer status s d = Inr r \<and> succeeded r"
  using session_renders [OF assms(1-3)] assms(4) by (auto simp: session_answer_def rendered_def)

lemma start_session_settled: "settled d (start_session m env mo rq d)"
  unfolding start_session_def roles_view_def
  by (intro settled_views)
    (auto dest: start_raises intro: session_answered dest!: start_stored)

lemma complete_session_settled: "settled d (complete_session m env mo rq i d)"
  unfolding complete_session_def roles_view_def
  by (intro settled_views)
    (auto dest: complete_raises intro: session_answered dest!: complete_stored)

lemma verify_checkout_settled: "settled d (verify_checkout m env mo rq d)"
  unfolding verify_checkout_def access_token_view_def
  by (intro settled_views) (auto dest: verify_raises)

lemma signed_out_succeeded [simp]: "succeeded (signed_out env)"
  by (simp add: succeeded_def signed_out_def clear_refresh_cookie_def no_content_def)

lemma change_password_settled: "settled d (change_password m env mo rq d)"
  unfolding change_password_def access_token_view_def
  by (intro settled_views) (auto dest: password_raises)

lemma logout_all_settled: "settled d (logout_all env mo rq d)"
  unfolding logout_all_def access_token_view_def
  by (intro settled_views) (auto dest: revoke_raises)

lemma logout_settled: "settled d (logout env mo rq d)"
  unfolding logout_def access_token_view_def
proof (rule changes.guarded_transaction)
  fix u c
  show "settled d (case claim_uuid c ''sid'' of Inl e \<Rightarrow> (Inl e, d) | Inr session_id \<Rightarrow>
      concluded (\<lambda>_. None) (\<lambda>_ _. Inr (signed_out env)) (revoke_auth_session (mo_now mo) session_id (usr_id u) d))"
    by (cases "claim_uuid c ''sid''") (auto intro!: settled_concluded dest: revoke_raises)
qed

subsection \<open>The views that also write to the cache\<close>

definition settled_cached :: "database \<Rightarrow> cached_view \<Rightarrow> bool" where
  "settled_cached d out \<longleftrightarrow> settled d (fst out, fst (snd out))"

lemma settled_roles:
  "(\<And>u. settled_cached (fst s) (view u)) \<Longrightarrow> settled_cached (fst s) (with_roles allowed env mo rq view s)"
  by (auto simp: with_roles_def settled_cached_def split: sum.split access.split)

lemma settled_payload:
  "(\<And>x. settled_cached (fst s) (view x)) \<Longrightarrow> settled_cached (fst s) (with_payload m check v view s)"
  by (auto simp: with_payload_def settled_cached_def split: sum.split)

lemma settled_redis:
  assumes "\<And>e d' r'. out = (Inl e, d', r') \<Longrightarrow> d' = d"
    and "\<And>x d' r'. out = (Inr x, d', r') \<Longrightarrow> slots_readable d' \<Longrightarrow> \<exists>r. render x d' = Inr r \<and> succeeded r"
  shows "settled_cached d (with_redis handlers render out)"
proof (cases out)
  case (fields res d' r')
  from assms fields have "settled d (concluded handlers render (res, d'))"
    by (intro settled_concluded) auto
  then show ?thesis
    by (cases "concluded handlers render (res, d')") (simp add: settled_cached_def with_redis_def fields)
qed

lemma station_views_settled:
  "settled_cached (fst s) (create_charging_station m env mo rq s)"
  "settled_cached (fst s) (update_my_station m' env mo rq i s)"
  "settled_cached (fst s) (update_my_charge_point m'' env mo rq i j s)"
  unfolding create_charging_station_def update_my_station_def update_my_charge_point_def
  by (intro settled_roles settled_payload settled_redis;
      auto simp: station_answer_def dest: station_raises)+

fun one_transaction :: "call \<Rightarrow> bool" where
  "one_transaction CreateBooking = True"
| "one_transaction StartSession = True"
| "one_transaction (CompleteSession _) = True"
| "one_transaction VerifyCheckout = True"
| "one_transaction ChangePassword = True"
| "one_transaction Logout = True"
| "one_transaction LogoutAll = True"
| "one_transaction CreateStation = True"
| "one_transaction (UpdateStation _) = True"
| "one_transaction (UpdateChargePoint _ _) = True"
| "one_transaction _ = False"

lemma plain_settled:
  "settled (fst s) (view (fst s)) \<Longrightarrow> plain view s = (res, (d', r'), info) \<Longrightarrow> settled (fst s) (res, d')"
  by (auto simp: plain_def unlimited_def on_database_def settled_def split: prod.splits)

lemma unlimited_settled:
  "settled_cached d out \<Longrightarrow> unlimited out = (res, (d', r'), info) \<Longrightarrow> settled d (res, d')"
  by (auto simp: unlimited_def settled_cached_def)

text \<open>
  C7. All or nothing: opening a booking, starting or completing a charging session, confirming
  a checkout, changing the password, signing out, and creating or changing stations and
  charge points either answer with 200, 201 or 204, or leave the database exactly as it was,
  whether the request was refused by the guard, by validation, by the service or by a
  constraint, or ended in a server error (unless a booking is stored whose slot lies beyond
  the years that a datetime covers).
\<close>

theorem failed_request_changes_nothing:
  assumes "one_transaction c"
    and "dispatch ms lib env mo rq c (d, r) = (res, (d', r'), info)"
    and "\<nexists>rsp. res = Inr rsp \<and> succeeded rsp" "slots_readable d'"
  shows "d' = d"
proof -
  have "settled d (res, d')"
    using assms(1,2)
    by (cases c) (auto dest!: plain_settled [rotated] unlimited_settled [rotated]
        intro: create_booking_settled start_session_settled complete_session_settled
          verify_checkout_settled change_password_settled logout_settled logout_all_settled
          station_views_settled [of "(d, r)", simplified])
  with assms(3,4) show ?thesis by (auto simp: settled_def)
qed

text \<open>
  A hold whose slot ends beyond the calendar is stored, and the request ends in a server error.
\<close>

lemma hold_beyond_calendar:
  assumes "access_token_required (en_jwt env) (en_config env) (mo_now mo) (hq_authorization rq) d = Inr (Granted u c)"
    and "create_booking_hold (en_config env) (mo_now mo) (mo_new_id mo) u payload d = (Inr b, d')"
    and "hold_request payload = Some payload" "\<not> representable (instant_of (hr_ends_at payload))"
  shows "create_booking (accepting payload) env mo rq d = (Inl DataError, d')" "b \<in> set (bookings d')"
proof -
  from assms(2) have b: "bk_ends_at b = instant_of (hr_ends_at payload)" "b \<in> set (bookings d')"
    by (auto simp: create_booking_hold_def Let_def held_booking_def insert_row_def split: if_splits)
  with assms(4) have "\<not> slot_readable b" by (simp add: slot_readable_def)
  then have "serialize_booking d' b = Inl DataError" by (simp add: serialize_booking_def)
  with assms(1-3) show "create_booking (accepting payload) env mo rq d = (Inl DataError, d')"
    by (simp add: create_booking_def access_token_view_def with_access_def validated_def concluded_def rendered_def)
  from b show "b \<in> set (bookings d')" by simp
qed

text \<open>Such a request is valid: its clock shows 9999-12-31 23:30, one hour behind UTC.\<close>

definition last_slot :: BookingHoldRequest where
  "last_slot = (let t = (3652059 - 719162) * DAY in sample_hold_request
     \<lparr>hr_starts_at := Aware (t - minutes 30) (- minutes 60), hr_ends_at := Aware (t - minutes 15) (- minutes 60)\<rparr>)"

lemma last_slot_valid:
  "hold_request last_slot = Some last_slot" "representable (wall (hr_ends_at last_slot))"
  "\<not> representable (instant_of (hr_ends_at last_slot))"
  by code_simp+

lemma hold_refused:
  assumes "access_token_required (en_jwt env) (en_config env) (mo_now mo) (hq_authorization rq) d = Inr (Granted u c)"
    and "fst (create_booking_hold (en_config env) (mo_now mo) (mo_new_id mo) u payload d) = Inl BookingUnavailableError"
    and "hold_request payload = Some payload" "m_hold ms = accepting payload"
    and "slots_readable d"
  obtains e d' info where "slots_readable d'" "dispatch ms lib env mo rq CreateBooking (d, r) = (Inr e, (d', r), info)" "rsp_status e = 409"
  using assms
  by (cases "create_booking_hold (en_config env) (mo_now mo) (mo_new_id mo) u payload d")
    (auto simp: plain_def unlimited_def on_database_def create_booking_def access_token_view_def
      with_access_def validated_def concluded_def dest: hold_raises)

theorem failed_request_changes_nothing_witness:
  "\<exists>e r info. dispatch sample_models (sample_records []) sample_environment sample_moment bearer_request
     CreateBooking (signed_in_db, Map.empty) = (Inr e, (signed_in_db, r), info) \<and> rsp_status e = 409"
proof (rule signed_in_granted)
  fix claims
  assume g: "access_token_required (en_jwt sample_environment) (en_config sample_environment)
    (mo_now sample_moment) (hq_authorization bearer_request) signed_in_db = Inr (Granted sample_driver claims)"
  let ?out = "dispatch sample_models (sample_records []) sample_environment sample_moment bearer_request
     CreateBooking (signed_in_db, Map.empty)"
  have hold: "fst (create_booking_hold sample_config (minutes 10) 700 sample_driver missing_point signed_in_db)
      = Inl BookingUnavailableError" "validate_time_range missing_point = Inr missing_point"
    by code_simp+
  obtain e d' r info where out: "?out = (Inr e, (d', r), info)" "rsp_status e = 409" "slots_readable d'"
  proof (rule hold_refused [OF g])
    show "fst (create_booking_hold (en_config sample_environment) (mo_now sample_moment)
        (mo_new_id sample_moment) sample_driver missing_point signed_in_db) = Inl BookingUnavailableError"
      by (simp add: sample_environment_def sample_moment_def hold)
    show "hold_request missing_point = Some missing_point" by (simp add: hold_request_def hold)
    show "m_hold sample_models = accepting missing_point" by (simp add: sample_models_def)
    show "slots_readable signed_in_db" by (rule signed_in_sound)
  qed
  have "\<not> succeeded e" using out(2) by (simp add: succeeded_def)
  with failed_request_changes_nothing [OF _ out(1) _ out(3)] out show ?thesis by auto
qed

end
