(* ===== verification/AccountFlow.thy ===== *)
theory AccountFlow
  imports ApiSamples
begin

text \<open>
  How the account routes work together: the token of a login opens the profile, and the
  token of a signed-out session opens nothing.
\<close>

subsection \<open>Login and profile\<close>

text \<open>Documented: a JWT is base64url text, and what a token carries does not depend on the time.\<close>

definition jwt_tokens_plain :: "jwt_library \<Rightarrow> bool" where
  "jwt_tokens_plain lib \<longleftrightarrow> (\<forall>payload key alg. header_token (jwt_encode lib payload key alg))"

definition jwt_reads_token :: "jwt_library \<Rightarrow> bool" where
  "jwt_reads_token lib \<longleftrightarrow> (\<forall>token key algs audience issuer required now now' payload payload'.
     jwt_decode lib token key algs audience issuer required now = Some payload \<longrightarrow>
     jwt_decode lib token key algs audience issuer required now' = Some payload' \<longrightarrow> payload' = payload)"

definition token_lives :: "config \<Rightarrow> instant \<Rightarrow> instant \<Rightarrow> bool" where
  "token_lives cfg issued t \<longleftrightarrow> issued \<le> t
     \<and> t < whole_seconds (issued + minutes (JWT_ACCESS_TOKEN_MINUTES cfg)) * 1000000
     \<and> t < issued + days (JWT_REFRESH_TOKEN_DAYS cfg)"

lemma limited_passed:
  assumes "limited scope requests env mo rq view s = (Inr rsp, s', info)" "rsp_status rsp = 200"
  obtains r where "view (fst s, r) = (Inr rsp, s')"
  using assms by (auto simp: limited_def too_many_requests_def split: prod.splits rate_decision.splits)

lemma authenticated_user:
  assumes "authenticate_user cfg h others now credentials_given d = (Inr u, d')"
    and "db_ok (others d)" "users (others d) = users d"
  shows "db_ok d' \<and> u \<in> set (users d') \<and> usr_is_active u"
proof -
  from assms(1) obtain u0 where u0: "u0 \<in> set (users d)"
    "select_scalar (\<lambda>u. usr_email u = li_identifier credentials_given
       \<or> usr_username u = li_identifier credentials_given) (users d) = Some u0"
    by (auto simp: authenticate_user_def raising_def dest: select_scalar_Some split: option.splits)
  obtain u' ok where l: "login_decision cfg now (check_password h (li_password credentials_given) u0) u0 = (u', ok)"
    by (cases "login_decision cfg now (check_password h (li_password credentials_given) u0) u0")
  let ?d2 = "(others d)\<lparr>users := update_where (\<lambda>r. usr_id r = usr_id u0) (flush_login u0 u') (users d)\<rparr>"
  from assms(1,3) l u0(2) have run: "ok" "commit () ?d2 (others d) = (Inr (), d')"
    "row_by usr_id (users d') (usr_id u0) = Some u"
    by (auto simp: authenticate_user_def Let_def split: prod.splits sum.splits option.splits if_splits)
  from run(2) have d': "d' = ?d2" "db_ok d'" by (auto simp: commit_Inr)
  note u = row_by_Some [OF run(3)]
  with d'(1) obtain r where r: "r \<in> set (users d)" "usr_id r = usr_id u0" "u = flush_login u0 u' r"
    by (auto simp: set_update_where flush_login_def split: if_splits)
  have "distinct (map usr_id (users (others d)))"
    using assms(2) by (simp add: db_ok_parts users_constraints_def)
  with r(1,2) u0(1) assms(3) have "r = u0" by (auto dest: distinct_map_unique)
  moreover have "usr_is_active u0"
    using l run(1) by (auto simp: login_decision_def Let_def split: if_splits)
  ultimately show ?thesis using r(3) u d'(2) by (simp add: flush_login_def)
qed

lemma created_session:
  assumes "create_auth_session prims lib cfg now fv u d = (Inr issued, d')"
  shows "db_ok d' \<and> users d' = users d
    \<and> at_value (is_access_token issued) = jwt_encode lib (access_payload cfg u (fv_session_id fv) (fv_token_id fv)
         (Aware now 0) (at_expires_at (is_access_token issued))) (JWT_SECRET_KEY cfg) (JWT_ALGORITHM cfg)
    \<and> at_expires_at (is_access_token issued) = Aware (now + minutes (JWT_ACCESS_TOKEN_MINUTES cfg)) 0
    \<and> as_expires_at (is_session issued) = now + days (JWT_REFRESH_TOKEN_DAYS cfg)"
  using assms
  by (auto simp: create_auth_session_def issue_refresh_token_def issue_access_token_def aware_utc_def
      plus_duration_def new_auth_session_def Let_def)

lemma login_succeeded:
  assumes "login m env mo rq d = (Inr rsp, d')" "rsp_status rsp = 200"
  obtains data u issued d1 where
    "authenticate_user (en_config env) (en_hashing env) (mo_others mo) (mo_now mo) data d = (Inr u, d1)"
    "create_auth_session (en_prims env) (en_jwt env) (en_config env) (mo_later mo) (mo_fresh mo) u d1 = (Inr issued, d')"
    "rsp = token_response env u issued"
proof -
  from assms obtain data where data: "(case authenticate_user (en_config env) (en_hashing env) (mo_others mo)
        (mo_now mo) data d of
      (Inl e, d') \<Rightarrow> concluded login_errors (\<lambda>x _. Inr x) (Inl e, d')
    | (Inr u, d') \<Rightarrow> concluded (\<lambda>_. None) (\<lambda>issued _. Inr (token_response env u issued))
        (create_auth_session (en_prims env) (en_jwt env) (en_config env) (mo_later mo) (mo_fresh mo) u d'))
      = (Inr rsp, d')"
    by (auto simp: login_def json_object_body_def validated_def auth_data_invalid_def
        split: if_splits sum.splits)
  have refused: "login_errors e = Some r \<Longrightarrow> rsp_status r = 401" for e r
    by (cases e) auto
  show thesis
    using data assms(2)
    by (auto simp: concluded_def dest!: refused split: prod.splits sum.splits option.splits intro: that)
qed

definition profile_of :: "json \<Rightarrow> json" where
  "profile_of body = JObj [(''user'', json_get body ''user'')]"


subsection \<open>Signing out\<close>

fun guarded :: "call \<Rightarrow> bool" where
  "guarded Register = False"
| "guarded Login = False"
| "guarded Refresh = False"
| "guarded RazorpayWebhook = False"
| "guarded ListExternalStations = False"
| "guarded ListStations = False"
| "guarded (GetStation _) = False"
| "guarded HealthLive = False"
| "guarded HealthReady = False"
| "guarded _ = True"

fun signs_out :: "call \<Rightarrow> bool" where
  "signs_out Logout = True"
| "signs_out LogoutAll = True"
| "signs_out ChangePassword = True"
| "signs_out _ = False"

lemma guarded_unauthorized:
  assumes "guarded c"
    and "access_token_required (en_jwt env) (en_config env) (mo_now mo) (hq_authorization rq) d = Inr Unauthorized"
  shows "dispatch ms lib env mo rq c (d, r) = (Inr unauthorized_response, (d, r), None)"
  using assms
  by (cases c) (simp_all add: plain_def unlimited_def on_database_def access_token_view_def roles_view_def
      with_access_def with_roles_def roles_required_def current_user_view_def logout_def logout_all_def
      change_password_def list_my_bookings_def get_my_booking_def cancel_my_booking_def create_booking_def
      list_operator_operations_def start_session_def complete_session_def list_my_sessions_def
      get_my_session_def verify_checkout_def create_checkout_order_def list_my_stations_def
      create_charging_station_def update_my_station_def update_my_charge_point_def)

text \<open>The session that a granted request names, and its revocation.\<close>

lemma granted_session:
  assumes "access_token_required lib cfg now authorization d = Inr (Granted u claims)"
  obtains i s where "claim_uuid claims ''sid'' = Inr i" "s \<in> set (auth_sessions d)" "as_id s = i"
    "as_user_id s = usr_id u" "u \<in> set (users d)"
  using access_granted_claims(1) [OF assms] by (rule check_claims_granted) (auto simp: active_session_def)

lemma revoked_by_row:
  assumes "revoke_auth_session now i u d = (Inr x, d')" "s \<in> set (auth_sessions d)" "as_id s = i" "as_user_id s = u"
    and "db_ok d"
  obtains s' where "s' \<in> set (auth_sessions d')" "as_id s' = i" "is_revoked s'"
proof -
  let ?p = "\<lambda>s. as_id s = i \<and> as_user_id s = u"
  have "select_scalar ?p (auth_sessions d) = Some s"
    using assms(2-4) db_ok_session_ids [OF assms(5)]
    by (intro select_scalar_unique) (auto dest: distinct_map_unique)
  with assms(1-3) show thesis
    by (auto simp: revoke_auth_session_def store_auth_session_def set_store_row is_revoked_def
        split: if_splits intro: that)
qed

lemma revoked_by_user:
  assumes "s \<in> set (auth_sessions d)" "as_user_id s = u"
    and "auth_sessions d' = auth_sessions (revoke_sessions (\<lambda>s. as_user_id s = u) now d)"
  obtains s' where "s' \<in> set (auth_sessions d')" "as_id s' = as_id s" "is_revoked s'"
proof (cases "as_revoked_at s = None")
  case True
  with assms show thesis
    by (intro that [of "s\<lparr>as_revoked_at := Some now\<rparr>"])
      (force simp: revoke_sessions_def set_update_where is_revoked_def)+
next
  case False
  with assms show thesis
    by (intro that [of s]) (force simp: revoke_sessions_def set_update_where is_revoked_def)+
qed

lemma concluded_signed_out:
  assumes "concluded handlers (\<lambda>_ _. Inr (signed_out env)) out = (Inr rsp, d')" "rsp_status rsp = 204"
    and "\<And>e r. handlers e = Some r \<Longrightarrow> rsp_status r \<noteq> 204"
  obtains x where "out = (Inr x, d')"
  using assms by (auto simp: concluded_def split: prod.splits sum.splits option.splits)

lemma granted_view:
  assumes "with_access acc view d = (Inr rsp, d')" "rsp_status rsp = 204"
  obtains u c where "acc = Inr (Granted u c)" "view u c = (Inr rsp, d')"
  using assms by (auto simp: with_access_def split: sum.splits access.splits)

lemma plain_result: "plain view (d, r) = (Inr rsp, (d', r'), info) \<Longrightarrow> view d = (Inr rsp, d')"
  by (auto simp: plain_def unlimited_def on_database_def split: prod.splits)

definition session_ended :: "database \<Rightarrow> json \<Rightarrow> database \<Rightarrow> bool" where
  "session_ended d claims d' \<longleftrightarrow> auth_step d d' \<and>
     (\<exists>i s. claim_uuid claims ''sid'' = Inr i \<and> s \<in> set (auth_sessions d') \<and> as_id s = i \<and> is_revoked s)"

lemma logout_ends:
  assumes "logout env mo rq d = (Inr rsp, d')" "rsp_status rsp = 204" "db_ok d"
  shows "\<exists>u claims. access_token_required (en_jwt env) (en_config env) (mo_now mo) (hq_authorization rq) d
      = Inr (Granted u claims) \<and> session_ended d claims d'"
proof (rule granted_view [OF assms(1) [unfolded logout_def access_token_view_def] assms(2)])
  fix u c
  assume g: "access_token_required (en_jwt env) (en_config env) (mo_now mo) (hq_authorization rq) d = Inr (Granted u c)"
    "(case claim_uuid c ''sid'' of Inl e \<Rightarrow> (Inl e, d) | Inr session_id \<Rightarrow>
       concluded (\<lambda>_. None) (\<lambda>_ _. Inr (signed_out env)) (revoke_auth_session (mo_now mo) session_id (usr_id u) d))
       = (Inr rsp, d')"
  from g(1) show ?thesis
  proof (rule granted_session)
    fix i s
    assume s: "claim_uuid c ''sid'' = Inr i" "s \<in> set (auth_sessions d)" "as_id s = i" "as_user_id s = usr_id u"
    with g(2) have "concluded (\<lambda>_. None) (\<lambda>_ _. Inr (signed_out env)) (revoke_auth_session (mo_now mo) i (usr_id u) d)
      = (Inr rsp, d')" by simp
    from concluded_signed_out [OF this assms(2)] obtain x where
      x: "revoke_auth_session (mo_now mo) i (usr_id u) d = (Inr x, d')" by auto
    from revoked_by_row [OF x s(2-4) assms(3)] obtain s' where
      "s' \<in> set (auth_sessions d')" "as_id s' = i" "is_revoked s'" by blast
    with g(1) s(1) x auth_step.revoke [of d "mo_now mo" i "usr_id u"] show ?thesis
      by (auto simp: session_ended_def)
  qed
qed

lemma user_sessions_end:
  assumes "access_token_required lib cfg now authorization d = Inr (Granted u claims)" "auth_step d d'"
    and "auth_sessions d' = auth_sessions (revoke_sessions (\<lambda>s. as_user_id s = usr_id u) t d)"
  shows "session_ended d claims d'"
proof (rule granted_session [OF assms(1)])
  fix i s
  assume s: "claim_uuid claims ''sid'' = Inr i" "s \<in> set (auth_sessions d)" "as_id s = i" "as_user_id s = usr_id u"
  from revoked_by_user [OF s(2,4) assms(3)] obtain s' where
    "s' \<in> set (auth_sessions d')" "as_id s' = as_id s" "is_revoked s'" by blast
  with s(1,3) assms(2) show ?thesis by (auto simp: session_ended_def)
qed

lemma logout_all_ends:
  assumes "logout_all env mo rq d = (Inr rsp, d')" "rsp_status rsp = 204"
  shows "\<exists>u claims. access_token_required (en_jwt env) (en_config env) (mo_now mo) (hq_authorization rq) d
      = Inr (Granted u claims) \<and> session_ended d claims d'"
proof (rule granted_view [OF assms(1) [unfolded logout_all_def access_token_view_def] assms(2)])
  fix u c
  assume g: "access_token_required (en_jwt env) (en_config env) (mo_now mo) (hq_authorization rq) d = Inr (Granted u c)"
    "concluded (\<lambda>_. None) (\<lambda>_ _. Inr (signed_out env)) (revoke_all_auth_sessions (mo_now mo) (usr_id u) d) = (Inr rsp, d')"
  from concluded_signed_out [OF g(2) assms(2)] obtain x where
    x: "revoke_all_auth_sessions (mo_now mo) (usr_id u) d = (Inr x, d')" by auto
  then have "d' = revoke_sessions (\<lambda>s. as_user_id s = usr_id u) (mo_now mo) d"
    by (auto simp: revoke_all_auth_sessions_def)
  with g(1) user_sessions_end [OF g(1), of d' "mo_now mo"] auth_step.revoke_all [of d "mo_now mo" "usr_id u"] x
  show ?thesis by auto
qed

lemma change_password_ends:
  assumes "change_password m env mo rq d = (Inr rsp, d')" "rsp_status rsp = 204" "db_ok d"
  shows "\<exists>u claims. access_token_required (en_jwt env) (en_config env) (mo_now mo) (hq_authorization rq) d
      = Inr (Granted u claims) \<and> session_ended d claims d'"
proof (rule granted_view [OF assms(1) [unfolded change_password_def access_token_view_def] assms(2)])
  fix u c
  assume g: "access_token_required (en_jwt env) (en_config env) (mo_now mo) (hq_authorization rq) d = Inr (Granted u c)"
    "validated m (Http.checked ChangePasswordRequest_valid) (hq_json rq) (auth_data_invalid ''Password data is invalid.'')
       (\<lambda>payload. concluded password_errors (\<lambda>_ _. Inr (signed_out env))
          (change_user_password (en_hashing env) (mo_now mo) (mo_salt mo) (usr_id u) payload d)) d = (Inr rsp, d')"
  have refused: "rsp_status r \<noteq> 204" if "password_errors e = Some r" for e r
    using that by (cases e) auto
  from g(2) assms(2) obtain payload where "concluded password_errors (\<lambda>_ _. Inr (signed_out env))
      (change_user_password (en_hashing env) (mo_now mo) (mo_salt mo) (usr_id u) payload d) = (Inr rsp, d')"
    by (auto simp: validated_def auth_data_invalid_def split: sum.splits)
  then obtain x where
    x: "change_user_password (en_hashing env) (mo_now mo) (mo_salt mo) (usr_id u) payload d = (Inr x, d')"
    by (rule concluded_signed_out [OF _ assms(2) refused]) blast+
  then have "auth_sessions d' = auth_sessions (revoke_sessions (\<lambda>s. as_user_id s = usr_id u) (mo_now mo) d)"
    by (auto simp: change_user_password_def raising_def revoke_sessions_def dest!: row_by_Some split: option.splits if_splits)
  moreover have "auth_step d d'"
    using auth_step.change_password [of d "en_hashing env" "mo_now mo" "mo_salt mo" "usr_id u" payload] x by simp
  ultimately show ?thesis using g(1) user_sessions_end [OF g(1)] by blast
qed

lemma signed_out_effect:
  assumes "signs_out c" "db_ok d"
    and "dispatch ms lib env mo rq c (d, r) = (Inr rsp, (d', r'), info)" "rsp_status rsp = 204"
  obtains u claims where "access_token_required (en_jwt env) (en_config env) (mo_now mo) (hq_authorization rq) d
      = Inr (Granted u claims)" "session_ended d claims d'"
  using assms
  by (cases c) (auto dest!: plain_result dest: logout_ends logout_all_ends change_password_ends)

text \<open>The same header later: it is refused as unauthorized or accepted with the same claims.\<close>

lemma check_claims_again:
  assumes "check_claims now claims d = Inr (Granted u claims)"
  shows "check_claims now' claims d' = Inr Unauthorized \<or> (\<exists>u'. check_claims now' claims d' = Inr (Granted u' claims))"
  using assms by (auto simp: check_claims_def split: sum.splits option.splits if_splits)

lemma decode_again:
  assumes "jwt_reads_token lib" "decode_access_token lib cfg now token = Inr claims"
  shows "decode_access_token lib cfg now' token \<in> {Inl invalid_token, Inr claims}"
proof (cases "jwt_decode lib token (JWT_SECRET_KEY cfg) [JWT_ALGORITHM cfg] (JWT_AUDIENCE cfg) (JWT_ISSUER cfg)
    REQUIRED_CLAIMS now'")
  case (Some payload)
  from assms(2) have c: "jwt_decode lib token (JWT_SECRET_KEY cfg) [JWT_ALGORITHM cfg] (JWT_AUDIENCE cfg)
      (JWT_ISSUER cfg) REQUIRED_CLAIMS now = Some claims" "claims_error claims = None"
    by (auto simp: decode_access_token_def split: option.splits)
  with assms(1) Some have "payload = claims" unfolding jwt_reads_token_def by blast
  with c Some show ?thesis by (simp add: decode_access_token_def)
qed (simp add: decode_access_token_def)

lemma token_again:
  assumes "jwt_reads_token lib" "access_token_required lib cfg now authorization d = Inr (Granted u claims)"
  shows "access_token_required lib cfg now' authorization d' = Inr Unauthorized
    \<or> (\<exists>u'. access_token_required lib cfg now' authorization d' = Inr (Granted u' claims))"
proof -
  let ?token = "py_split authorization ! 1"
  from assms(2) obtain c where c: "length (py_split authorization) = 2" "lower (py_split authorization ! 0) = ''bearer''"
    "decode_access_token lib cfg now ?token = Inr c" "check_claims now c d = Inr (Granted u claims)"
    by (auto simp: access_token_required_def Let_def split: if_splits sum.splits exn.splits)
  from c(4) have "c = claims" by (rule check_claims_granted) simp
  with c decode_again [OF assms(1) c(3), of now'] check_claims_again [of now claims d u now' d']
  show ?thesis by (auto simp: access_token_required_def invalid_token_def)
qed

text \<open>
  C9. Signing out is final for the token used: after logout, logout everywhere or a change of
  password answered 204, any later request that carries the same Authorization header is
  refused with 401 by every guarded route, at any time and whatever account operations ran
  in between, even though the token itself has not expired.
\<close>

theorem logout_locks_out:
  assumes "jwt_reads_token (en_jwt env)" "db_ok d" "families_single d" "signs_out c"
    and "dispatch ms lib env mo rq c (d, r) = (Inr rsp, (d', r'), info)" "rsp_status rsp = 204"
    and "auth_step\<^sup>*\<^sup>* d' d''" "guarded c'" "hq_authorization rq' = hq_authorization rq"
  shows "dispatch ms lib env mo' rq' c' (d'', r'') = (Inr unauthorized_response, (d'', r''), None)"
proof (rule guarded_unauthorized [OF assms(8)], rule signed_out_effect [OF assms(4,2,5,6)])
  fix u claims
  assume g: "access_token_required (en_jwt env) (en_config env) (mo_now mo) (hq_authorization rq) d
      = Inr (Granted u claims)" "session_ended d claims d'"
  from g(2) obtain i s where s: "claim_uuid claims ''sid'' = Inr i" "s \<in> set (auth_sessions d')" "as_id s = i"
    "is_revoked s" "auth_step d d'" by (auto simp: session_ended_def)
  note ok = auth_run [OF r_into_rtranclp [of auth_step, OF s(5)] assms(2,3)]
  from s(1,3) have sid: "claim_uuid claims ''sid'' = Inr (as_id s)" by simp
  have never: "access_token_required (en_jwt env) (en_config env) (mo_now mo') (hq_authorization rq') d''
      \<noteq> Inr (Granted u' claims)" for u'
    using revoked_session_never_granted [OF _ _ s(2,4) assms(7) sid] ok by blast
  show "access_token_required (en_jwt env) (en_config env) (mo_now mo') (hq_authorization rq') d'' = Inr Unauthorized"
    using token_again [OF assms(1) g(1)] sid never unfolding assms(9) by blast
qed

subsection \<open>A login on the sample platform\<close>

definition counting_jwt :: jwt_library where
  "counting_jwt = \<lparr>
     jwt_encode = (\<lambda>payload key alg. nat_str (to_nat payload)),
     jwt_decode = (\<lambda>token key algs audience issuer required now.
       let payload = from_nat (nat_of_digits token) in
       if claims_valid audience issuer required now payload then Some payload else None)\<rparr>"

lemma header_token_digits: "list_all is_digit t \<Longrightarrow> t \<noteq> [] \<Longrightarrow> header_token t"
  unfolding header_token_def is_ascii_def list_all_iff by (fastforce simp: is_digit_def dest: is_space_byte)

lemma counting_jwt_sound:
  "jwt_roundtrip counting_jwt payload" "jwt_tokens_plain counting_jwt" "jwt_reads_token counting_jwt"
  unfolding jwt_roundtrip_def jwt_tokens_plain_def jwt_reads_token_def counting_jwt_def
  by (auto simp: Let_def intro!: header_token_digits nat_str_digits simp: nat_str_nonempty)

definition login_asha :: LoginRequest where
  "login_asha = \<lparr>li_identifier = ''asha'', li_password = ''h1''\<rparr>"

definition login_models :: request_models where
  "login_models = sample_models\<lparr>m_login := accepting login_asha\<rparr>"

definition login_environment :: environment where
  "login_environment = sample_environment\<lparr>en_jwt := counting_jwt\<rparr>"

definition offline_moment :: moment where
  "offline_moment = sample_moment\<lparr>mo_up := \<lambda>_. False\<rparr>"

lemma login_asha_valid: "validate_login login_asha = Some login_asha"
proof -
  have "plain_text ''asha''" "lower ''asha'' = ''asha''" "pylen ''asha'' = 4" "pylen ''h1'' = 2" by code_simp+
  then show ?thesis
    by (simp add: validate_login_def normalize_identifier_def login_asha_def strip_plain)
qed

lemma login_asha_authenticated:
  "authenticate_user sample_config plain_hashing id (minutes 10) login_asha sample_db = (Inr sample_driver, sample_db)"
  by code_simp

lemma login_session_stored:
  "db_ok (sample_db\<lparr>auth_sessions := insert_row (new_auth_session (fv_session_id (sample_fresh 2)) (usr_id sample_driver)
     (fv_family_id (sample_fresh 2)) \<lparr>rt_value = fv_token (sample_fresh 2),
        rt_digest = hash_refresh_token plain_primitives (fv_token (sample_fresh 2)),
        rt_expires_at = plus_duration (Aware (minutes 11) 0) (days (JWT_REFRESH_TOKEN_DAYS sample_config))\<rparr>
     (minutes 11)) (auth_sessions sample_db)\<rparr>)"
  by code_simp

lemma sample_login_created:
  obtains issued d' where "create_auth_session plain_primitives lib sample_config (minutes 11) (sample_fresh 2)
    sample_driver sample_db = (Inr issued, d')"
  using login_session_stored
  by (auto simp: create_auth_session_def issue_refresh_token_def issue_access_token_def aware_utc_def Let_def
      commit_simps)

lemma sample_signed_in:
  obtains rsp d' where "dispatch login_models (sample_records []) login_environment offline_moment bearer_request
    Login (sample_db, Map.empty) = (Inr rsp, (d', Map.empty), None)" "rsp_status rsp = 200"
proof (rule sample_login_created [of counting_jwt])
  fix issued d'
  assume c: "create_auth_session plain_primitives counting_jwt sample_config (minutes 11) (sample_fresh 2)
    sample_driver sample_db = (Inr issued, d')"
  have env: "en_config login_environment = sample_config" "en_prims login_environment = plain_primitives"
    "en_jwt login_environment = counting_jwt" "en_hashing login_environment = plain_hashing"
    "mo_now offline_moment = minutes 10" "mo_later offline_moment = minutes 11"
    "mo_fresh offline_moment = sample_fresh 2" "mo_others offline_moment = id" "mo_up offline_moment = (\<lambda>_. False)"
    "hq_is_json bearer_request" "is_dict (hq_json bearer_request)" "m_login login_models = accepting login_asha"
    by (simp_all add: login_environment_def sample_environment_def offline_moment_def sample_moment_def
        bearer_request_def login_models_def)
  have "login (m_login login_models) login_environment offline_moment bearer_request sample_db
      = (Inr (token_response login_environment sample_driver issued), d')"
    by (simp add: login_def json_object_body_def env validated_def login_asha_valid login_asha_authenticated c
        concluded_def)
  moreover have "rsp_status (token_response login_environment sample_driver issued) = 200"
    by (simp add: token_response_def set_refresh_cookie_def)
  moreover have "rate_limit cfg prims scope requests False now rq r = (Passed None, r)" for cfg prims scope requests now rq r
    by (simp add: rate_limit_def RATE_LIMIT_SCRIPT_def redis_incr_def Let_def)
  ultimately show thesis
    by (intro that) (simp_all add: limited_def env on_database_def)
qed


lemma sample_logged_out:
  obtains rsp d' where "dispatch sample_models (sample_records []) sample_environment sample_moment bearer_request
    LogoutAll (signed_in_db, Map.empty) = (Inr rsp, (d', Map.empty), None)" "rsp_status rsp = 204"
proof (rule signed_in_granted)
  fix claims
  assume g: "access_token_required (en_jwt sample_environment) (en_config sample_environment)
    (mo_now sample_moment) (hq_authorization bearer_request) signed_in_db = Inr (Granted sample_driver claims)"
  have "case fst (revoke_all_auth_sessions (mo_now sample_moment) (usr_id sample_driver) signed_in_db) of
      Inr n \<Rightarrow> True | _ \<Rightarrow> False" by code_simp
  then obtain n d' where "revoke_all_auth_sessions (mo_now sample_moment) (usr_id sample_driver) signed_in_db = (Inr n, d')"
    by (cases "revoke_all_auth_sessions (mo_now sample_moment) (usr_id sample_driver) signed_in_db")
      (auto split: sum.splits)
  with g have "logout_all sample_environment sample_moment bearer_request signed_in_db
      = (Inr (signed_out sample_environment), d')"
    by (simp add: logout_all_def access_token_view_def with_access_def concluded_def)
  moreover have "rsp_status (signed_out sample_environment) = 204"
    by (simp add: signed_out_def clear_refresh_cookie_def no_content_def)
  ultimately show thesis
    by (intro that [of "signed_out sample_environment" d']) (simp_all add: plain_def unlimited_def on_database_def)
qed

theorem logout_locks_out_witness:
  "\<exists>rsp d'. dispatch sample_models (sample_records []) sample_environment sample_moment bearer_request
       LogoutAll (signed_in_db, Map.empty) = (Inr rsp, (d', Map.empty), None)
     \<and> dispatch sample_models (sample_records []) sample_environment sample_moment bearer_request
         CreateBooking (d', Map.empty) = (Inr unauthorized_response, (d', Map.empty), None)"
proof (rule sample_logged_out)
  fix rsp d'
  assume l: "dispatch sample_models (sample_records []) sample_environment sample_moment bearer_request
    LogoutAll (signed_in_db, Map.empty) = (Inr rsp, (d', Map.empty), None)" "rsp_status rsp = 204"
  have "jwt_reads_token (en_jwt sample_environment)"
    by (auto simp: jwt_reads_token_def sample_environment_def sample_jwt_def)
  then show ?thesis
    using logout_locks_out [OF _ signed_in_sound(1,4) _ l rtranclp.rtrancl_refl, of CreateBooking bearer_request] l(1)
    by (intro exI conjI) simp_all
qed

end
