(* ===== verification/Routing.thy ===== *)
theory Routing
  imports Api
begin

text \<open>
  The table of URL rules: every request has at most one rule, so the order in which the
  blueprints are registered does not matter, and the identifiers that responses render are
  the identifiers that the rules read back.
\<close>

subsection \<open>Rules that could share a request\<close>

fun clash :: "segment list \<Rightarrow> segment list \<Rightarrow> bool" where
  "clash [] [] = True"
| "clash (Lit s # ps) (Lit t # qs) = (s = t \<and> clash ps qs)"
| "clash (Lit s # ps) (Uuid # qs) = (uuid_shape s \<and> clash ps qs)"
| "clash (Uuid # ps) (Lit t # qs) = (uuid_shape t \<and> clash ps qs)"
| "clash (Uuid # ps) (Uuid # qs) = clash ps qs"
| "clash _ _ = False"

lemma match_segments_Cons:
  assumes "match_segments (p # ps) path = Some ids"
  obtains s rest ids' where "path = s # rest" "match_segments ps rest = Some ids'"
    "case p of Lit t \<Rightarrow> s = t | Uuid \<Rightarrow> uuid_shape s"
  using assms by (cases p; cases path) (auto split: if_splits sum.splits)

lemma both_match_clash:
  "match_segments ps path = Some ids \<Longrightarrow> match_segments qs path = Some ids' \<Longrightarrow> clash ps qs"
  by (induction ps qs arbitrary: path ids ids' rule: clash.induct)
    (auto elim!: match_segments_Cons elim: match_segments.elims simp del: match_segments.simps(2,3))

definition apart :: "url_rule \<Rightarrow> url_rule \<Rightarrow> bool" where
  "apart r r' \<longleftrightarrow> \<not> (fst r = fst r' \<and> clash (fst (snd r)) (fst (snd r')))"

lemma apart_not_both: "apart r r' \<Longrightarrow> \<not> (matches method path r \<and> matches method path r')"
  unfolding apart_def matches_def not_None_eq by (metis both_match_clash)

lemma rules_apart: "sorted_wrt apart url_rules"
  by code_simp

lemma one_match:
  "sorted_wrt apart rules \<Longrightarrow> rule \<in> set rules \<Longrightarrow> matches method path rule \<Longrightarrow>
     filter (matches method path) rules = [rule]"
proof (induction rules)
  case (Cons r rules)
  show ?case
  proof (cases "rule = r")
    case True
    with Cons.prems have "\<forall>r' \<in> set rules. \<not> matches method path r'"
      by (auto dest: apart_not_both)
    with True Cons.prems(3) show ?thesis by (simp add: filter_False)
  next
    case False
    with Cons.prems have "rule \<in> set rules" "\<not> matches method path r" by (auto dest: apart_not_both)
    with Cons.IH Cons.prems show ?thesis by simp
  qed
qed simp

lemma rule_serves:
  assumes "rule \<in> set url_rules" "fst rule = verb" "match_segments (fst (snd rule)) path = Some ids"
  shows "resolve verb path = Some (snd (snd rule) ids)"
  using one_match [OF rules_apart assms(1), of verb path] assms(2,3) by (simp add: resolve_def matches_def)

text \<open>
  C36. Routing is unambiguous: whichever URL rule matches a request, it is the one that serves
  it, with the identifiers read from its path; no second rule of any blueprint matches, so
  neither \<open>/bookings/me\<close> nor \<open>/stations/external\<close> is ever taken for an identifier.
\<close>

theorem routes_unambiguous:
  assumes "rule \<in> set url_rules" "matches method path rule"
  shows "filter (matches method path) url_rules = [rule]
    \<and> resolve method path = Some (snd (snd rule) (the (match_segments (fst (snd rule)) path)))"
  using one_match [OF rules_apart assms] by (simp add: resolve_def)

theorem routes_unambiguous_witness:
  "resolve ''GET'' [''bookings'', ''me''] = Some ListMyBookings"
proof -
  let ?rule = "hd bookings_rules"
  have r: "?rule \<in> set url_rules" "snd (snd ?rule) ids = ListMyBookings" for ids
    by (simp_all add: url_rules_def bookings_rules_def)
  have "matches ''GET'' [''bookings'', ''me''] ?rule"
    by (simp add: matches_def bookings_rules_def)
  with routes_unambiguous [OF r(1), of "''GET''" "[''bookings'', ''me'']"] r(2) show ?thesis by simp
qed

subsection \<open>Identifiers in URLs\<close>

lemma uuid_hex_value: "i < 32 \<Longrightarrow> \<exists>v. hex_value (uuid_hex u ! i) = Some v"
proof -
  assume "i < 32"
  then have "uuid_hex u ! i \<in> set (uuid_hex u)" by simp
  then have "hex_char (uuid_hex u ! i)" by (rule uuid_hex_char)
  moreover have "list_all (\<lambda>c. hex_value c \<noteq> None) ''0123456789abcdef''" by code_simp
  ultimately have "hex_value (uuid_hex u ! i) \<noteq> None" by (rule hex_char_all [rotated])
  then show ?thesis by simp
qed

lemma uuid_str_shape: "uuid_shape (uuid_str u)"
  unfolding uuid_shape_def list_all_iff
  by (auto simp: uuid_str_def Let_def nth_append nth_Cons' uuid_hex_value)

lemma match_uuid [simp]:
  "match_segments (Uuid # ps) (uuid_str u # path) = map_option (Cons u) (match_segments ps path)"
  by (simp add: uuid_str_shape parse_uuid_str)

text \<open>
  The identifier of a resource, as every response renders it, addresses that resource: put
  into the URL it is read back unchanged, for the booking, charging session, station and
  charge point routes, whatever the identifier is.
\<close>

theorem rendered_identifiers_address:
  "resolve ''GET'' [''bookings'', uuid_str i] = Some (GetMyBooking i)
   \<and> resolve ''POST'' [''bookings'', uuid_str i, ''cancel''] = Some (CancelMyBooking i)
   \<and> resolve ''GET'' [''charging-sessions'', uuid_str i] = Some (GetMySession i)
   \<and> resolve ''POST'' [''charging-sessions'', uuid_str i, ''complete''] = Some (CompleteSession i)
   \<and> resolve ''GET'' [''stations'', uuid_str i] = Some (GetStation i)
   \<and> resolve ''PATCH'' [''stations'', uuid_str i] = Some (UpdateStation i)
   \<and> resolve ''PATCH'' [''stations'', uuid_str i, ''charge-points'', uuid_str j] = Some (UpdateChargePoint i j)"
proof -
  have rules: "bookings_rules ! 1 \<in> set url_rules" "bookings_rules ! 2 \<in> set url_rules"
    "charging_sessions_rules ! 2 \<in> set url_rules" "charging_sessions_rules ! 4 \<in> set url_rules"
    "stations_rules ! 2 \<in> set url_rules" "stations_rules ! 5 \<in> set url_rules" "stations_rules ! 6 \<in> set url_rules"
    by (simp_all add: url_rules_def bookings_rules_def charging_sessions_rules_def stations_rules_def)
  show ?thesis
    using rule_serves [OF rules(1), of "''GET''" "[''bookings'', uuid_str i]" "[i]"]
      rule_serves [OF rules(2), of "''POST''" "[''bookings'', uuid_str i, ''cancel'']" "[i]"]
      rule_serves [OF rules(3), of "''POST''" "[''charging-sessions'', uuid_str i, ''complete'']" "[i]"]
      rule_serves [OF rules(4), of "''GET''" "[''charging-sessions'', uuid_str i]" "[i]"]
      rule_serves [OF rules(5), of "''GET''" "[''stations'', uuid_str i]" "[i]"]
      rule_serves [OF rules(6), of "''PATCH''" "[''stations'', uuid_str i]" "[i]"]
      rule_serves [OF rules(7), of "''PATCH''" "[''stations'', uuid_str i, ''charge-points'', uuid_str j]" "[i, j]"]
    by (simp add: bookings_rules_def charging_sessions_rules_def stations_rules_def del: match_segments.simps(3))
qed

end
