(* ===== verification/Application.thy ===== *)
theory Application
  imports Api
begin

text \<open>
  The application factory (\<open>__init__.py\<close>, \<open>extensions.py\<close>, \<open>wsgi.py\<close>): the configuration it
  loads, the connections to Redis and the job queue that it opens from it, the URL rules of
  the blueprints it registers and the commands it adds.
\<close>

record redis_client =
  rc_url :: "string option"
  rc_decode_responses :: bool
  rc_connect_timeout :: int
  rc_timeout :: int

record job_queue =
  jq_name :: string
  jq_connection :: redis_client
  jq_default_timeout :: int

record application =
  app_config :: config
  app_redis :: "redis_client option"
  app_rq_redis :: "redis_client option"
  app_maintenance_queue :: "job_queue option"
  app_secured :: bool
  app_rules :: "url_rule list"
  app_commands :: "string list"

definition blank_application :: "config \<Rightarrow> application" where
  "blank_application cfg = \<lparr>app_config = cfg, app_redis = None, app_rq_redis = None,
     app_maintenance_queue = None, app_secured = False, app_rules = [], app_commands = []\<rparr>"

definition from_url :: "string option \<Rightarrow> bool \<Rightarrow> redis_client" where
  "from_url url decode_responses = \<lparr>rc_url = url, rc_decode_responses = decode_responses,
     rc_connect_timeout = 1, rc_timeout = 1\<rparr>"

definition init_extensions :: "application \<Rightarrow> application" where
  "init_extensions app =
     (let rq_redis = from_url (REDIS_URL (app_config app)) False
      in app\<lparr>app_redis := Some (from_url (REDIS_URL (app_config app)) True),
             app_rq_redis := Some rq_redis,
             app_maintenance_queue := Some \<lparr>jq_name = RQ_MAINTENANCE_QUEUE (app_config app),
               jq_connection = rq_redis, jq_default_timeout = RQ_JOB_TIMEOUT_SECONDS (app_config app)\<rparr>\<rparr>)"

definition init_security_middleware :: "application \<Rightarrow> application" where
  "init_security_middleware app = app\<lparr>app_secured := True\<rparr>"

definition register_blueprint :: "url_rule list \<Rightarrow> application \<Rightarrow> application" where
  "register_blueprint rules app = app\<lparr>app_rules := app_rules app @ rules\<rparr>"

definition add_command :: "string \<Rightarrow> application \<Rightarrow> application" where
  "add_command name app = app\<lparr>app_commands := app_commands app @ [name]\<rparr>"

definition create_app :: "config option \<Rightarrow> environ \<Rightarrow> exn + application" where
  "create_app cfg getenv =
     (case (case cfg of Some c \<Rightarrow> Inr c | None \<Rightarrow> get_config getenv) of
        Inl e \<Rightarrow> Inl e
      | Inr c \<Rightarrow> Inr (add_command ''maintenance''
          (register_blueprint health_rules (register_blueprint stations_rules
          (register_blueprint payments_rules (register_blueprint charging_sessions_rules
          (register_blueprint bookings_rules (register_blueprint auth_rules
          (init_security_middleware (init_extensions (blank_application c)))))))))))"

text \<open>The entry point of the server: the factory run on the process environment.\<close>

definition wsgi_app :: "environ \<Rightarrow> exn + application" where
  "wsgi_app getenv = create_app None getenv"

lemmas application_defs = create_app_def add_command_def register_blueprint_def init_security_middleware_def
  init_extensions_def blank_application_def from_url_def

text \<open>
  An application that starts serves exactly the rules that \<open>resolve\<close> works on, behind the
  middleware, reads texts from Redis for its caches and bytes for the job queue, and runs on a
  configuration that has its required values; a server with a broken environment does not start.
\<close>

lemma create_app_Inr:
  assumes "create_app cfg getenv = Inr app"
  shows "app_rules app = url_rules" "app_secured app" "app_commands app = [''maintenance'']"
    "app_redis app = Some (from_url (REDIS_URL (app_config app)) True)"
    "\<exists>q. app_maintenance_queue app = Some q \<and> jq_name q = RQ_MAINTENANCE_QUEUE (app_config app)
       \<and> jq_connection q = from_url (REDIS_URL (app_config app)) False"
    "case cfg of Some c \<Rightarrow> app_config app = c | None \<Rightarrow> get_config getenv = Inr (app_config app)"
  using assms by (auto simp: application_defs url_rules_def Let_def split: sum.splits option.splits)

lemma wsgi_app_configured:
  assumes "wsgi_app getenv = Inr app"
  shows "truthy (SECRET_KEY (app_config app)) \<and> truthy (JWT_SECRET_KEY (app_config app))
    \<and> truthy (SQLALCHEMY_DATABASE_URI (app_config app)) \<and> truthy (REDIS_URL (app_config app))"
    "0 < MAINTENANCE_BATCH_SIZE (app_config app)"
  using create_app_Inr(6) [OF assms [unfolded wsgi_app_def]]
    get_config_required [of getenv "app_config app"] get_config_limits [of getenv "app_config app"]
  by simp_all

end
