(* ===== verification/Enqueue.thy ===== *)
theory Enqueue
  imports PyDatetime
begin

text \<open>
  The command that a scheduler runs to queue the maintenance jobs (\<open>maintenance/cli.py\<close>). The
  RQ queue is a parameter; what is relied on is that \<open>enqueue(unique=True)\<close> refuses the
  identifier of a job that the queue still holds.
\<close>

datatype maintenance_task = ExpireStaleBookingHolds | ReconcilePendingRefunds

text \<open>\<open>DuplicateJobError\<close>, or an error of the connection to Redis.\<close>

datatype queue_error = DuplicateJobError | ConnectionError

record 'q work_queue =
  held_jobs :: "'q \<Rightarrow> string set"
  queue_enqueue :: "maintenance_task \<Rightarrow> string \<Rightarrow> int \<Rightarrow> int \<Rightarrow> 'q \<Rightarrow> queue_error + 'q"

text \<open>
  The documented behaviour of \<open>enqueue\<close>: a held identifier is refused as a duplicate, and
  only such a one; another one is added. Redis may be out of reach at any time.
\<close>

definition refuses_duplicates :: "'q work_queue \<Rightarrow> bool" where
  "refuses_duplicates rq \<longleftrightarrow> (\<forall>task i r f q. case queue_enqueue rq task i r f q of
       Inl DuplicateJobError \<Rightarrow> i \<in> held_jobs rq q
     | Inl ConnectionError \<Rightarrow> True
     | Inr q' \<Rightarrow> i \<notin> held_jobs rq q \<and> held_jobs rq q' = insert i (held_jobs rq q))"

definition maintenance_jobs :: "instant \<Rightarrow> (maintenance_task \<times> string) list" where
  "maintenance_jobs now =
     [(ExpireStaleBookingHolds, ''maintenance-expire-holds-'' @ minute_bucket now),
      (ReconcilePendingRefunds, ''maintenance-reconcile-refunds-'' @ minute_bucket now)]"

text \<open>The loop, with the lines it prints.\<close>

fun enqueue_all :: "'q work_queue \<Rightarrow> (maintenance_task \<times> string) list \<Rightarrow> 'q \<Rightarrow> (queue_error + string list) \<times> 'q" where
  "enqueue_all rq [] q = (Inr [], q)"
| "enqueue_all rq ((task, job_id) # jobs) q =
     (case queue_enqueue rq task job_id 30 3600 q of
        Inl ConnectionError \<Rightarrow> (Inl ConnectionError, q)
      | Inl DuplicateJobError \<Rightarrow>
          (case enqueue_all rq jobs q of
             (Inl e, q') \<Rightarrow> (Inl e, q')
           | (Inr ls, q') \<Rightarrow> (Inr ((''Skipped duplicate '' @ job_id @ ''.'') # ls), q'))
      | Inr q1 \<Rightarrow>
          (case enqueue_all rq jobs q1 of
             (Inl e, q') \<Rightarrow> (Inl e, q')
           | (Inr ls, q') \<Rightarrow> (Inr ((''Enqueued '' @ job_id @ ''.'') # ls), q')))"

definition enqueue_maintenance_jobs :: "'q work_queue \<Rightarrow> instant \<Rightarrow> 'q \<Rightarrow> (queue_error + string list) \<times> 'q" where
  "enqueue_maintenance_jobs rq now q = enqueue_all rq (maintenance_jobs now) q"

definition job_ids :: "instant \<Rightarrow> string set" where
  "job_ids now = snd ` set (maintenance_jobs now)"

lemma enqueue_cases:
  assumes "refuses_duplicates rq"
  shows "queue_enqueue rq task i r f q = Inl DuplicateJobError \<Longrightarrow> i \<in> held_jobs rq q"
    "queue_enqueue rq task i r f q = Inr q' \<Longrightarrow> held_jobs rq q' = insert i (held_jobs rq q)"
  using assms unfolding refuses_duplicates_def by (auto dest!: spec split: sum.splits queue_error.splits)

lemma enqueue_held:
  assumes "refuses_duplicates rq" "i \<in> held_jobs rq q"
  obtains e where "queue_enqueue rq task i r f q = Inl e"
proof (cases "queue_enqueue rq task i r f q")
  case (Inr q')
  with assms show ?thesis unfolding refuses_duplicates_def by (auto dest!: spec split: sum.splits queue_error.splits)
qed (rule that)

text \<open>A run that does not fail leaves all its jobs in the queue, and removes none.\<close>

lemma enqueue_all_holds:
  "refuses_duplicates rq \<Longrightarrow> enqueue_all rq jobs q = (Inr ls, q')
     \<Longrightarrow> held_jobs rq q' = held_jobs rq q \<union> snd ` set jobs"
proof (induction rq jobs q arbitrary: ls rule: enqueue_all.induct)
  case (2 rq task job_id jobs q)
  then show ?case
    using enqueue_cases [OF 2(3), of task job_id 30 3600 q]
    by (auto split: sum.splits queue_error.splits prod.splits)
qed simp

text \<open>A run whose jobs are all held queues nothing, and reports each as skipped if it gets through.\<close>

lemma enqueue_all_duplicates:
  "refuses_duplicates rq \<Longrightarrow> snd ` set jobs \<subseteq> held_jobs rq q \<Longrightarrow> enqueue_all rq jobs q = (out, q')
     \<Longrightarrow> q' = q \<and> (out = Inl ConnectionError \<or> out = Inr (map (\<lambda>(_, i). ''Skipped duplicate '' @ i @ ''.'') jobs))"
proof (induction rq jobs q arbitrary: out q' rule: enqueue_all.induct)
  case (2 rq task job_id jobs q)
  then have "job_id \<in> held_jobs rq q" by simp
  from enqueue_held [OF 2(3) this] obtain e where e: "queue_enqueue rq task job_id 30 3600 q = Inl e" .
  show ?case
  proof (cases e)
    case DuplicateJobError
    from 2(4) have held: "snd ` set jobs \<subseteq> held_jobs rq q" by simp
    obtain o1 q1 where rest: "enqueue_all rq jobs q = (o1, q1)" by (cases "enqueue_all rq jobs q")
    from 2(1) [OF e DuplicateJobError 2(3) held rest] rest 2(5) e DuplicateJobError show ?thesis
      by (auto split: sum.splits)
  qed (use 2(5) e in simp)
qed simp

lemma job_ids_disjoint:
  assumes "representable s" "representable t" "s div minutes 1 \<noteq> t div minutes 1"
  shows "job_ids s \<inter> job_ids t = {}"
proof -
  from assms have "minute_bucket s \<noteq> minute_bucket t" by (simp add: minute_bucket_iff minutes_def)
  then show ?thesis by (auto simp: job_ids_def maintenance_jobs_def)
qed

text \<open>
  C37. A scheduler may fire more than once: after a run of the command both jobs are held; another
  run in the same minute queues nothing while they are, whatever else was queued in between,
  and says so if it gets through; in another minute the identifiers are new, so neither run
  hides the other's jobs.
\<close>

theorem enqueue_once_per_minute:
  assumes "refuses_duplicates rq" "enqueue_maintenance_jobs rq s q = (Inr ls, q1)"
    and "representable s" "representable t" "enqueue_maintenance_jobs rq t q2 = (out, q3)"
  shows "job_ids s \<subseteq> held_jobs rq q1
    \<and> (s div minutes 1 = t div minutes 1 \<and> job_ids s \<subseteq> held_jobs rq q2 \<longrightarrow>
         q3 = q2 \<and> (out = Inl ConnectionError
           \<or> out = Inr (map (\<lambda>(_, i). ''Skipped duplicate '' @ i @ ''.'') (maintenance_jobs s))))
    \<and> (s div minutes 1 \<noteq> t div minutes 1 \<longrightarrow> job_ids s \<inter> job_ids t = {})"
proof (intro conjI impI)
  show "job_ids s \<subseteq> held_jobs rq q1"
    using enqueue_all_holds [OF assms(1) assms(2) [unfolded enqueue_maintenance_jobs_def]]
    by (simp add: job_ids_def)
next
  assume same: "s div minutes 1 = t div minutes 1 \<and> job_ids s \<subseteq> held_jobs rq q2"
  with assms(3,4) have jobs: "maintenance_jobs s = maintenance_jobs t"
    by (simp add: maintenance_jobs_def minute_bucket_iff minutes_def)
  from same jobs have held: "snd ` set (maintenance_jobs t) \<subseteq> held_jobs rq q2" by (simp add: job_ids_def)
  note again = enqueue_all_duplicates [OF assms(1) held assms(5) [unfolded enqueue_maintenance_jobs_def]]
  then show "q3 = q2" by simp
  from again show "out = Inl ConnectionError
      \<or> out = Inr (map (\<lambda>(_, i). ''Skipped duplicate '' @ i @ ''.'') (maintenance_jobs s))"
    unfolding jobs by simp
next
  show "s div minutes 1 \<noteq> t div minutes 1 \<Longrightarrow> job_ids s \<inter> job_ids t = {}"
    by (rule job_ids_disjoint [OF assms(3,4)])
qed

text \<open>A queue that is the list of the identifiers it holds.\<close>

definition list_queue :: "string list work_queue" where
  "list_queue = \<lparr>held_jobs = set,
     queue_enqueue = (\<lambda>_ i _ _ q. if i \<in> set q then Inl DuplicateJobError else Inr (i # q))\<rparr>"

theorem enqueue_once_per_minute_witness:
  "\<exists>ls q1. enqueue_maintenance_jobs list_queue 0 [] = (Inr ls, q1)
     \<and> snd (enqueue_maintenance_jobs list_queue (minutes 1 - 1) q1) = q1 \<and> job_ids 0 \<inter> job_ids (minutes 1) = {}"
proof -
  have law: "refuses_duplicates list_queue"
    by (auto simp: refuses_duplicates_def list_queue_def split: if_splits)
  have r: "representable 0" "representable (minutes 1 - 1)" "representable (minutes 1)"
    by (simp_all add: representable_def calendar_day_def minutes_def)
  have "\<exists>ls q1. enqueue_maintenance_jobs list_queue 0 [] = (Inr ls, q1)"
    by (simp add: enqueue_maintenance_jobs_def maintenance_jobs_def list_queue_def)
  then obtain ls q1 where run: "enqueue_maintenance_jobs list_queue 0 [] = (Inr ls, q1)" by blast
  obtain out q3 where again: "enqueue_maintenance_jobs list_queue (minutes 1 - 1) q1 = (out, q3)"
    by (cases "enqueue_maintenance_jobs list_queue (minutes 1 - 1) q1")
  obtain out' q4 where later: "enqueue_maintenance_jobs list_queue (minutes 1) q1 = (out', q4)"
    by (cases "enqueue_maintenance_jobs list_queue (minutes 1) q1")
  from enqueue_once_per_minute [OF law run r(1,2) again] have "q3 = q1" by (simp add: minutes_def)
  moreover from enqueue_once_per_minute [OF law run r(1,3) later] have "job_ids 0 \<inter> job_ids (minutes 1) = {}"
    by (simp add: minutes_def)
  ultimately show ?thesis using run again by auto
qed

end
