(* ===== verification/Migrations.thy ===== *)
theory Migrations
  imports Models
begin

text \<open>
  The schema history (\<open>migrations/versions\<close>): the operations that each Alembic revision
  issues, upwards and downwards, with what PostgreSQL documents of them (what it refuses,
  what a dropped table takes with it).
\<close>

subsection \<open>Schemas\<close>

datatype column_type = Varchar nat | TextColumn | UuidColumn | BooleanColumn | SmallIntegerColumn
  | IntegerColumn | TimestampTz | NumericColumn nat nat | EnumColumn string "string list"

record column =
  col_name :: string
  col_type :: column_type
  col_nullable :: bool
  col_default :: "string option"

definition required :: "string \<Rightarrow> column_type \<Rightarrow> column" where
  "required n t = \<lparr>col_name = n, col_type = t, col_nullable = False, col_default = None\<rparr>"

definition optional :: "string \<Rightarrow> column_type \<Rightarrow> column" where
  "optional n t = \<lparr>col_name = n, col_type = t, col_nullable = True, col_default = None\<rparr>"

definition defaulted :: "string \<Rightarrow> column_type \<Rightarrow> string \<Rightarrow> column" where
  "defaulted n t v = \<lparr>col_name = n, col_type = t, col_nullable = False, col_default = Some v\<rparr>"

text \<open>
  A foreign key carries its column, the table and column it refers to and its \<open>ondelete\<close>; an
  exclusion constraint its columns, the statuses of its \<open>WHERE\<close> clause and the extension
  whose operator class it needs.
\<close>

datatype constraint =
    Check string string
  | PrimaryKey string "string list"
  | Unique string "string list"
  | ForeignKey string string string string string
  | Exclude string "string list" "string list" string

fun constraint_name :: "constraint \<Rightarrow> string" where
  "constraint_name (Check n _) = n"
| "constraint_name (PrimaryKey n _) = n"
| "constraint_name (Unique n _) = n"
| "constraint_name (ForeignKey n _ _ _ _) = n"
| "constraint_name (Exclude n _ _ _) = n"

text \<open>Keys and exclusions are backed by an index, whose name is the name of a relation.\<close>

fun index_backed :: "constraint \<Rightarrow> bool" where
  "index_backed (PrimaryKey _ _) = True"
| "index_backed (Unique _ _) = True"
| "index_backed (Exclude _ _ _ _) = True"
| "index_backed _ = False"

fun constraint_columns :: "constraint \<Rightarrow> string list" where
  "constraint_columns (Check _ _) = []"
| "constraint_columns (PrimaryKey _ cs) = cs"
| "constraint_columns (Unique _ cs) = cs"
| "constraint_columns (ForeignKey _ c _ _ _) = [c]"
| "constraint_columns (Exclude _ cs _ _) = cs"

record table =
  tb_name :: string
  tb_columns :: "column list"
  tb_constraints :: "constraint list"

record index =
  ix_name :: string
  ix_table :: string
  ix_columns :: "string list"

record schema =
  sc_tables :: "table list"
  sc_indexes :: "index list"
  sc_types :: "(string \<times> string list) list"
  sc_extensions :: "string list"

datatype operation =
    CreateTable string "column list" "constraint list"
  | DropTable string
  | CreateIndex string string "string list" "string option"
  | DropIndex string
  | DropIndexIfExists string
  | AddColumn string column
  | DropColumn string string
  | AddConstraint string constraint
  | DropConstraint string string
  | CreateExtension string
  | DropType string
  | DropTypeIfExists string

subsection \<open>What the database does with an operation\<close>

definition table_of :: "schema \<Rightarrow> string \<Rightarrow> table option" where
  "table_of s t = find (\<lambda>tb. tb_name tb = t) (sc_tables s)"

definition column_names :: "table \<Rightarrow> string list" where
  "column_names tb = map col_name (tb_columns tb)"

definition relation_names :: "schema \<Rightarrow> string list" where
  "relation_names s = map tb_name (sc_tables s) @ map ix_name (sc_indexes s)
     @ concat (map (\<lambda>tb. map constraint_name (filter index_backed (tb_constraints tb))) (sc_tables s))"

fun enum_types :: "column list \<Rightarrow> (string \<times> string list) list" where
  "enum_types [] = []"
| "enum_types (c # cs) = (case col_type c of EnumColumn n vs \<Rightarrow> (n, vs) # enum_types cs | _ \<Rightarrow> enum_types cs)"

definition set_table :: "table \<Rightarrow> schema \<Rightarrow> schema" where
  "set_table tb s = s\<lparr>sc_tables := map (\<lambda>x. if tb_name x = tb_name tb then tb else x) (sc_tables s)\<rparr>"

text \<open>A constraint that a table of the schema can carry.\<close>

definition constraint_fits :: "schema \<Rightarrow> table \<Rightarrow> constraint \<Rightarrow> bool" where
  "constraint_fits s tb c \<longleftrightarrow>
     list_all (\<lambda>n. n \<in> set (column_names tb)) (constraint_columns c)
     \<and> (index_backed c \<longrightarrow> constraint_name c \<notin> set (relation_names s))
     \<and> (case c of
          ForeignKey _ _ t target _ \<Rightarrow>
            (case (if t = tb_name tb then Some tb else table_of s t) of
               None \<Rightarrow> False | Some other \<Rightarrow> target \<in> set (column_names other))
        | Exclude _ _ _ extension \<Rightarrow> extension \<in> set (sc_extensions s)
        | _ \<Rightarrow> True)"

definition refers_to :: "string \<Rightarrow> constraint \<Rightarrow> bool" where
  "refers_to t c = (case c of ForeignKey _ _ t' _ _ \<Rightarrow> t' = t | _ \<Rightarrow> False)"

definition type_used :: "schema \<Rightarrow> string \<Rightarrow> bool" where
  "type_used s n \<longleftrightarrow> list_ex (\<lambda>tb. n \<in> set (map fst (enum_types (tb_columns tb)))) (sc_tables s)"

text \<open>
  None is an error of the database, at which Alembic stops. A new column must be nullable or
  have a default, since the table may hold rows.
\<close>

fun apply_operation :: "operation \<Rightarrow> schema \<Rightarrow> schema option" where
  "apply_operation (CreateTable t cols cons) s =
     (let tb = \<lparr>tb_name = t, tb_columns = cols, tb_constraints = cons\<rparr>; types = enum_types cols in
      if t \<notin> set (relation_names s) \<and> distinct (map col_name cols) \<and> distinct (map constraint_name cons)
         \<and> list_all (constraint_fits s tb) cons
         \<and> distinct (map fst types) \<and> list_all (\<lambda>n. n \<notin> set (map fst (sc_types s))) (map fst types)
      then Some (s\<lparr>sc_tables := sc_tables s @ [tb], sc_types := sc_types s @ types\<rparr>) else None)"
| "apply_operation (DropTable t) s =
     (case table_of s t of
        None \<Rightarrow> None
      | Some tb \<Rightarrow>
          if list_ex (\<lambda>x. tb_name x \<noteq> t \<and> list_ex (refers_to t) (tb_constraints x)) (sc_tables s) then None
          else Some (s\<lparr>sc_tables := filter (\<lambda>x. tb_name x \<noteq> t) (sc_tables s),
                       sc_indexes := filter (\<lambda>i. ix_table i \<noteq> t) (sc_indexes s)\<rparr>))"
| "apply_operation (CreateIndex n t cs extension) s =
     (case table_of s t of
        None \<Rightarrow> None
      | Some tb \<Rightarrow>
          if n \<notin> set (relation_names s) \<and> list_all (\<lambda>c. c \<in> set (column_names tb)) cs
             \<and> (case extension of None \<Rightarrow> True | Some e \<Rightarrow> e \<in> set (sc_extensions s))
          then Some (s\<lparr>sc_indexes := sc_indexes s @ [\<lparr>ix_name = n, ix_table = t, ix_columns = cs\<rparr>]\<rparr>)
          else None)"
| "apply_operation (DropIndex n) s =
     (if n \<in> set (map ix_name (sc_indexes s))
      then Some (s\<lparr>sc_indexes := filter (\<lambda>i. ix_name i \<noteq> n) (sc_indexes s)\<rparr>) else None)"
| "apply_operation (DropIndexIfExists n) s = Some (s\<lparr>sc_indexes := filter (\<lambda>i. ix_name i \<noteq> n) (sc_indexes s)\<rparr>)"
| "apply_operation (AddColumn t c) s =
     (case table_of s t of
        None \<Rightarrow> None
      | Some tb \<Rightarrow>
          if col_name c \<notin> set (column_names tb) \<and> (col_nullable c \<or> col_default c \<noteq> None)
          then Some (set_table (tb\<lparr>tb_columns := tb_columns tb @ [c]\<rparr>) s) else None)"
| "apply_operation (DropColumn t n) s =
     (case table_of s t of
        None \<Rightarrow> None
      | Some tb \<Rightarrow>
          if n \<in> set (column_names tb)
          then Some ((set_table (tb\<lparr>tb_columns := filter (\<lambda>c. col_name c \<noteq> n) (tb_columns tb),
                 tb_constraints := filter (\<lambda>c. n \<notin> set (constraint_columns c)) (tb_constraints tb)\<rparr>) s)
               \<lparr>sc_indexes := filter (\<lambda>i. \<not> (ix_table i = t \<and> n \<in> set (ix_columns i))) (sc_indexes s)\<rparr>)
          else None)"
| "apply_operation (AddConstraint t c) s =
     (case table_of s t of
        None \<Rightarrow> None
      | Some tb \<Rightarrow>
          if constraint_fits s tb c \<and> constraint_name c \<notin> set (map constraint_name (tb_constraints tb))
          then Some (set_table (tb\<lparr>tb_constraints := tb_constraints tb @ [c]\<rparr>) s) else None)"
| "apply_operation (DropConstraint t n) s =
     (case table_of s t of
        None \<Rightarrow> None
      | Some tb \<Rightarrow>
          if n \<in> set (map constraint_name (tb_constraints tb))
          then Some (set_table (tb\<lparr>tb_constraints := filter (\<lambda>c. constraint_name c \<noteq> n) (tb_constraints tb)\<rparr>) s)
          else None)"
| "apply_operation (CreateExtension e) s =
     Some (if e \<in> set (sc_extensions s) then s else s\<lparr>sc_extensions := sc_extensions s @ [e]\<rparr>)"
| "apply_operation (DropType n) s =
     (if n \<in> set (map fst (sc_types s)) \<and> \<not> type_used s n
      then Some (s\<lparr>sc_types := filter (\<lambda>x. fst x \<noteq> n) (sc_types s)\<rparr>) else None)"
| "apply_operation (DropTypeIfExists n) s =
     (if type_used s n then None else Some (s\<lparr>sc_types := filter (\<lambda>x. fst x \<noteq> n) (sc_types s)\<rparr>))"

fun run_operations :: "operation list \<Rightarrow> schema \<Rightarrow> schema option" where
  "run_operations [] s = Some s"
| "run_operations (op # ops) s = (case apply_operation op s of None \<Rightarrow> None | Some s' \<Rightarrow> run_operations ops s')"

subsection \<open>The revisions\<close>

record migration =
  mg_revision :: string
  mg_down_revision :: "string option"
  mg_upgrade :: "operation list"
  mg_downgrade :: "operation list"

text \<open>create users table (\<open>cd5feb75aef9\<close>)\<close>

definition users_upgrade :: "operation list" where
  "users_upgrade =
    [CreateTable ''users''
      [required ''email'' (Varchar 255),
       required ''username'' (Varchar 50),
       required ''password_hash'' (Varchar 255),
       required ''full_name'' (Varchar 100),
       optional ''phone'' (Varchar 20),
       defaulted ''role'' (EnumColumn ''user_role'' [''user'', ''station_admin'',
         ''system_admin'']) ''user'',
       defaulted ''is_active'' BooleanColumn ''true'',
       optional ''email_verified_at'' TimestampTz,
       defaulted ''failed_login_attempts'' SmallIntegerColumn ''0'',
       optional ''locked_until'' TimestampTz,
       required ''id'' UuidColumn,
       defaulted ''created_at'' TimestampTz ''now()'',
       defaulted ''updated_at'' TimestampTz ''now()'']
      [Check ''ck_users_email_lowercase'' ''email = lower(email)'',
       Check ''ck_users_non_negative_failed_login_attempts'' ''failed_login_attempts >= 0'',
       Check ''ck_users_username_lowercase'' ''username = lower(username)'',
       PrimaryKey ''pk_users'' [''id''],
       Unique ''uq_users_email'' [''email''],
       Unique ''uq_users_phone'' [''phone''],
       Unique ''uq_users_username'' [''username'']]]"

definition users_downgrade :: "operation list" where
  "users_downgrade =
    [DropTable ''users'',
     DropType ''user_role'']"

text \<open>create auth sessions table (\<open>49f82644800a\<close>)\<close>

definition auth_sessions_upgrade :: "operation list" where
  "auth_sessions_upgrade =
    [CreateTable ''auth_sessions''
      [required ''user_id'' UuidColumn,
       required ''token_hash'' (Varchar 64),
       required ''family_id'' UuidColumn,
       required ''expires_at'' TimestampTz,
       optional ''revoked_at'' TimestampTz,
       optional ''last_used_at'' TimestampTz,
       optional ''replaced_by_id'' UuidColumn,
       required ''id'' UuidColumn,
       defaulted ''created_at'' TimestampTz ''now()'',
       defaulted ''updated_at'' TimestampTz ''now()'']
      [Check ''ck_auth_sessions_expires_after_creation'' ''expires_at > created_at'',
       ForeignKey ''fk_auth_sessions_replaced_by_id_auth_sessions'' ''replaced_by_id''
         ''auth_sessions'' ''id'' ''SET NULL'',
       ForeignKey ''fk_auth_sessions_user_id_users'' ''user_id'' ''users'' ''id'' ''CASCADE'',
       PrimaryKey ''pk_auth_sessions'' [''id''],
       Unique ''uq_auth_sessions_replaced_by_id'' [''replaced_by_id''],
       Unique ''uq_auth_sessions_token_hash'' [''token_hash'']],
     CreateIndex ''ix_auth_sessions_expires_at'' ''auth_sessions'' [''expires_at''] None,
     CreateIndex ''ix_auth_sessions_family_id'' ''auth_sessions'' [''family_id''] None,
     CreateIndex ''ix_auth_sessions_user_id'' ''auth_sessions'' [''user_id''] None]"

definition auth_sessions_downgrade :: "operation list" where
  "auth_sessions_downgrade =
    [DropIndex ''ix_auth_sessions_user_id'',
     DropIndex ''ix_auth_sessions_family_id'',
     DropIndex ''ix_auth_sessions_expires_at'',
     DropTable ''auth_sessions'']"

text \<open>create charging stations and charge (\<open>11b18d6722e7\<close>)\<close>

definition stations_upgrade :: "operation list" where
  "stations_upgrade =
    [CreateTable ''charging_stations''
      [required ''owner_id'' UuidColumn,
       required ''name'' (Varchar 120),
       optional ''description'' TextColumn,
       required ''address_line_1'' (Varchar 255),
       optional ''address_line_2'' (Varchar 255),
       required ''city'' (Varchar 100),
       required ''state'' (Varchar 100),
       required ''postal_code'' (Varchar 20),
       defaulted ''country_code'' (Varchar 2) ''IN'',
       required ''latitude'' (NumericColumn 9 6),
       required ''longitude'' (NumericColumn 9 6),
       defaulted ''timezone'' (Varchar 64) ''Asia/Kolkata'',
       optional ''phone'' (Varchar 20),
       defaulted ''is_24_hours'' BooleanColumn ''false'',
       defaulted ''status'' (EnumColumn ''station_status'' [''draft'', ''active'', ''inactive'',
         ''maintenance'']) ''draft'',
       required ''id'' UuidColumn,
       defaulted ''created_at'' TimestampTz ''now()'',
       defaulted ''updated_at'' TimestampTz ''now()'']
      [Check ''ck_charging_stations_country_code_uppercase'' ''country_code = upper(country_code)'',
       Check ''ck_charging_stations_valid_latitude'' ''latitude >= -90 AND latitude <= 90'',
       Check ''ck_charging_stations_valid_longitude'' ''longitude >= -180 AND longitude <= 180'',
       ForeignKey ''fk_charging_stations_owner_id_users'' ''owner_id'' ''users'' ''id''
         ''RESTRICT'',
       PrimaryKey ''pk_charging_stations'' [''id'']],
     CreateIndex ''ix_charging_stations_city_status'' ''charging_stations'' [''city'', ''status'']
       None,
     CreateIndex ''ix_charging_stations_owner_id'' ''charging_stations'' [''owner_id''] None,
     CreateTable ''charge_points''
      [required ''station_id'' UuidColumn,
       required ''code'' (Varchar 50),
       required ''connector_type'' (EnumColumn ''connector_type'' [''ccs_2'', ''type_2'',
         ''chademo'', ''gb_t'', ''bharat_dc_001'']),
       required ''power_type'' (EnumColumn ''power_type'' [''ac'', ''dc'']),
       required ''max_power_kw'' (NumericColumn 7 2),
       defaulted ''is_bookable'' BooleanColumn ''true'',
       defaulted ''status'' (EnumColumn ''charge_point_status'' [''available'', ''out_of_service'',
         ''maintenance'', ''retired'']) ''available'',
       required ''id'' UuidColumn,
       defaulted ''created_at'' TimestampTz ''now()'',
       defaulted ''updated_at'' TimestampTz ''now()'']
      [Check ''ck_charge_points_positive_max_power_kw'' ''max_power_kw > 0'',
       ForeignKey ''fk_charge_points_station_id_charging_stations'' ''station_id''
         ''charging_stations'' ''id'' ''CASCADE'',
       PrimaryKey ''pk_charge_points'' [''id''],
       Unique ''station_code'' [''station_id'', ''code'']],
     CreateIndex ''ix_charge_points_station_id'' ''charge_points'' [''station_id''] None]"

definition stations_downgrade :: "operation list" where
  "stations_downgrade =
    [DropIndex ''ix_charge_points_station_id'',
     DropTable ''charge_points'',
     DropIndex ''ix_charging_stations_owner_id'',
     DropIndex ''ix_charging_stations_city_status'',
     DropTable ''charging_stations'',
     DropTypeIfExists ''charge_point_status'',
     DropTypeIfExists ''power_type'',
     DropTypeIfExists ''connector_type'',
     DropTypeIfExists ''station_status'']"

text \<open>add station spatial index (\<open>f69515989ba0\<close>)\<close>

definition spatial_index_upgrade :: "operation list" where
  "spatial_index_upgrade =
    [CreateIndex ''ix_charging_stations_location_gist'' ''charging_stations''
       [''longitude'', ''latitude''] (Some ''postgis'')]"

definition spatial_index_downgrade :: "operation list" where
  "spatial_index_downgrade =
    [DropIndexIfExists ''ix_charging_stations_location_gist'']"

text \<open>create bookings table (\<open>c2b1ba3c8886\<close>)\<close>

definition bookings_upgrade :: "operation list" where
  "bookings_upgrade =
    [CreateExtension ''btree_gist'',
     CreateTable ''bookings''
      [required ''user_id'' UuidColumn,
       required ''charge_point_id'' UuidColumn,
       required ''starts_at'' TimestampTz,
       required ''ends_at'' TimestampTz,
       optional ''hold_expires_at'' TimestampTz,
       defaulted ''status'' (EnumColumn ''booking_status'' [''held'', ''payment_pending'',
         ''confirmed'', ''active'', ''completed'', ''cancelled'', ''expired'']) ''held'',
       optional ''total_amount'' (NumericColumn 10 2),
       defaulted ''currency'' (Varchar 3) ''INR'',
       defaulted ''version'' IntegerColumn ''1'',
       optional ''cancelled_at'' TimestampTz,
       required ''id'' UuidColumn,
       defaulted ''created_at'' TimestampTz ''now()'',
       defaulted ''updated_at'' TimestampTz ''now()'']
      [Check ''ck_bookings_positive_duration'' ''ends_at > starts_at'',
       Check ''ck_bookings_non_negative_total_amount''
         ''total_amount IS NULL OR total_amount >= 0'',
       Check ''ck_bookings_positive_version'' ''version > 0'',
       ForeignKey ''fk_bookings_charge_point_id_charge_points'' ''charge_point_id''
         ''charge_points'' ''id'' ''RESTRICT'',
       ForeignKey ''fk_bookings_user_id_users'' ''user_id'' ''users'' ''id'' ''RESTRICT'',
       PrimaryKey ''pk_bookings'' [''id'']],
     CreateIndex ''ix_bookings_charge_point_start'' ''bookings'' [''charge_point_id'',
       ''starts_at''] None,
     CreateIndex ''ix_bookings_user_status'' ''bookings'' [''user_id'', ''status''] None,
     AddConstraint ''bookings'' (Exclude ''prevent_overlapping_bookings''
       [''charge_point_id'', ''starts_at'', ''ends_at'', ''status'']
       [''held'', ''payment_pending'', ''confirmed'', ''active''] ''btree_gist'')]"

definition bookings_downgrade :: "operation list" where
  "bookings_downgrade =
    [DropIndex ''ix_bookings_user_status'',
     DropIndex ''ix_bookings_charge_point_start'',
     DropTable ''bookings'',
     DropTypeIfExists ''booking_status'']"

text \<open>add booking fees and payments (\<open>7f0aa2673fae\<close>)\<close>

definition payments_upgrade :: "operation list" where
  "payments_upgrade =
    [CreateTable ''payments''
      [required ''booking_id'' UuidColumn,
       required ''user_id'' UuidColumn,
       defaulted ''provider'' (EnumColumn ''payment_provider'' [''razorpay'']) ''razorpay'',
       defaulted ''status'' (EnumColumn ''payment_status'' [''initiated'', ''order_created'',
         ''authorized'', ''captured'', ''failed'', ''refunded'']) ''initiated'',
       required ''amount'' (NumericColumn 10 2),
       required ''amount_subunits'' IntegerColumn,
       defaulted ''currency'' (Varchar 3) ''INR'',
       required ''idempotency_key'' UuidColumn,
       optional ''provider_order_id'' (Varchar 100),
       optional ''provider_payment_id'' (Varchar 100),
       optional ''last_error_code'' (Varchar 100),
       required ''id'' UuidColumn,
       defaulted ''created_at'' TimestampTz ''now()'',
       defaulted ''updated_at'' TimestampTz ''now()'']
      [Check ''ck_payments_positive_amount'' ''amount > 0'',
       Check ''ck_payments_positive_amount_subunits'' ''amount_subunits > 0'',
       ForeignKey ''fk_payments_booking_id_bookings'' ''booking_id'' ''bookings'' ''id''
         ''RESTRICT'',
       ForeignKey ''fk_payments_user_id_users'' ''user_id'' ''users'' ''id'' ''RESTRICT'',
       PrimaryKey ''pk_payments'' [''id''],
       Unique ''uq_payments_idempotency_key'' [''idempotency_key''],
       Unique ''uq_payments_provider_order_id'' [''provider_order_id''],
       Unique ''uq_payments_provider_payment_id'' [''provider_payment_id'']],
     CreateIndex ''ix_payments_booking_status'' ''payments'' [''booking_id'', ''status''] None,
     CreateIndex ''ix_payments_user_created'' ''payments'' [''user_id'', ''created_at''] None,
     AddColumn ''charge_points'' (defaulted ''booking_fee'' (NumericColumn 10 2) ''50.00''),
     AddConstraint ''charge_points'' (Check ''ck_charge_points_non_negative_booking_fee''
       ''booking_fee >= 0'')]"

definition payments_downgrade :: "operation list" where
  "payments_downgrade =
    [DropConstraint ''charge_points'' ''ck_charge_points_non_negative_booking_fee'',
     DropColumn ''charge_points'' ''booking_fee'',
     DropIndex ''ix_payments_user_created'',
     DropIndex ''ix_payments_booking_status'',
     DropTable ''payments'',
     DropTypeIfExists ''payment_status'',
     DropTypeIfExists ''payment_provider'']"

text \<open>add payment webhook events (\<open>df408d92b97e\<close>)\<close>

definition webhook_events_upgrade :: "operation list" where
  "webhook_events_upgrade =
    [CreateTable ''payment_webhook_events''
      [defaulted ''provider'' (Varchar 30) ''razorpay'',
       required ''provider_event_id'' (Varchar 100),
       required ''event_type'' (Varchar 100),
       required ''payload_hash'' (Varchar 64),
       defaulted ''status'' (EnumColumn ''webhook_event_status'' [''received'', ''processed'',
         ''ignored'']) ''received'',
       optional ''processed_at'' TimestampTz,
       required ''id'' UuidColumn,
       defaulted ''created_at'' TimestampTz ''now()'',
       defaulted ''updated_at'' TimestampTz ''now()'']
      [PrimaryKey ''pk_payment_webhook_events'' [''id''],
       Unique ''uq_payment_webhook_events_provider_event_id'' [''provider_event_id'']]]"

definition webhook_events_downgrade :: "operation list" where
  "webhook_events_downgrade =
    [DropTable ''payment_webhook_events'',
     DropTypeIfExists ''webhook_event_status'']"

text \<open>add payment refunds (\<open>9a789f0119ea\<close>)\<close>

definition refunds_upgrade :: "operation list" where
  "refunds_upgrade =
    [CreateTable ''refunds''
      [required ''payment_id'' UuidColumn,
       defaulted ''status'' (EnumColumn ''refund_status'' [''requested'', ''pending'',
         ''processed'', ''failed'']) ''requested'',
       required ''amount'' (NumericColumn 10 2),
       required ''amount_subunits'' IntegerColumn,
       required ''currency'' (Varchar 3),
       required ''receipt'' (Varchar 40),
       optional ''provider_refund_id'' (Varchar 100),
       optional ''last_error_code'' (Varchar 100),
       optional ''processed_at'' TimestampTz,
       required ''id'' UuidColumn,
       defaulted ''created_at'' TimestampTz ''now()'',
       defaulted ''updated_at'' TimestampTz ''now()'']
      [Check ''ck_refunds_positive_amount'' ''amount > 0'',
       Check ''ck_refunds_positive_amount_subunits'' ''amount_subunits > 0'',
       ForeignKey ''fk_refunds_payment_id_payments'' ''payment_id'' ''payments'' ''id''
         ''RESTRICT'',
       PrimaryKey ''pk_refunds'' [''id''],
       Unique ''uq_refunds_payment_id'' [''payment_id''],
       Unique ''uq_refunds_provider_refund_id'' [''provider_refund_id''],
       Unique ''uq_refunds_receipt'' [''receipt'']]]"

definition refunds_downgrade :: "operation list" where
  "refunds_downgrade =
    [DropTable ''refunds'',
     DropTypeIfExists ''refund_status'']"

text \<open>add charging sessions (\<open>bff01686c1c8\<close>)\<close>

definition charging_sessions_upgrade :: "operation list" where
  "charging_sessions_upgrade =
    [CreateTable ''charging_sessions''
      [required ''booking_id'' UuidColumn,
       required ''user_id'' UuidColumn,
       required ''charge_point_id'' UuidColumn,
       defaulted ''status'' (EnumColumn ''charging_session_status'' [''active'', ''completed'',
         ''interrupted'']) ''active'',
       required ''started_at'' TimestampTz,
       optional ''ended_at'' TimestampTz,
       required ''meter_start_kwh'' (NumericColumn 12 3),
       optional ''meter_end_kwh'' (NumericColumn 12 3),
       optional ''energy_consumed_kwh'' (NumericColumn 12 3),
       defaulted ''version'' IntegerColumn ''1'',
       required ''id'' UuidColumn,
       defaulted ''created_at'' TimestampTz ''now()'',
       defaulted ''updated_at'' TimestampTz ''now()'']
      [Check ''ck_charging_sessions_valid_end_time'' ''ended_at IS NULL OR ended_at >= started_at'',
       Check ''ck_charging_sessions_non_negative_energy_consumed''
         ''energy_consumed_kwh IS NULL OR energy_consumed_kwh >= 0'',
       Check ''ck_charging_sessions_valid_meter_end''
         ''meter_end_kwh IS NULL OR meter_end_kwh >= meter_start_kwh'',
       Check ''ck_charging_sessions_non_negative_meter_start'' ''meter_start_kwh >= 0'',
       Check ''ck_charging_sessions_positive_version'' ''version > 0'',
       ForeignKey ''fk_charging_sessions_booking_id_bookings'' ''booking_id'' ''bookings'' ''id''
         ''RESTRICT'',
       ForeignKey ''fk_charging_sessions_charge_point_id_charge_points'' ''charge_point_id''
         ''charge_points'' ''id'' ''RESTRICT'',
       ForeignKey ''fk_charging_sessions_user_id_users'' ''user_id'' ''users'' ''id'' ''RESTRICT'',
       PrimaryKey ''pk_charging_sessions'' [''id''],
       Unique ''uq_charging_sessions_booking_id'' [''booking_id'']],
     CreateIndex ''ix_charging_sessions_charge_point_status'' ''charging_sessions''
       [''charge_point_id'', ''status''] None,
     CreateIndex ''ix_charging_sessions_user_status'' ''charging_sessions'' [''user_id'',
       ''status''] None]"

definition charging_sessions_downgrade :: "operation list" where
  "charging_sessions_downgrade =
    [DropIndex ''ix_charging_sessions_user_status'',
     DropIndex ''ix_charging_sessions_charge_point_status'',
     DropTable ''charging_sessions'',
     DropTypeIfExists ''charging_session_status'']"

text \<open>add station management versions (\<open>258cf6121335\<close>)\<close>

definition station_versions_upgrade :: "operation list" where
  "station_versions_upgrade =
    [AddColumn ''charge_points'' (defaulted ''version'' IntegerColumn ''1''),
     AddConstraint ''charge_points'' (Check ''ck_charge_points_positive_version'' ''version > 0''),
     AddColumn ''charging_stations'' (defaulted ''version'' IntegerColumn ''1''),
     AddConstraint ''charging_stations'' (Check ''ck_charging_stations_positive_version''
       ''version > 0'')]"

definition station_versions_downgrade :: "operation list" where
  "station_versions_downgrade =
    [DropConstraint ''charging_stations'' ''ck_charging_stations_positive_version'',
     DropColumn ''charging_stations'' ''version'',
     DropConstraint ''charge_points'' ''ck_charge_points_positive_version'',
     DropColumn ''charge_points'' ''version'']"

definition migrations :: "migration list" where
  "migrations =
    [\<lparr>mg_revision = ''cd5feb75aef9'', mg_down_revision = None,
       mg_upgrade = users_upgrade, mg_downgrade = users_downgrade\<rparr>,
     \<lparr>mg_revision = ''49f82644800a'', mg_down_revision = Some ''cd5feb75aef9'',
       mg_upgrade = auth_sessions_upgrade, mg_downgrade = auth_sessions_downgrade\<rparr>,
     \<lparr>mg_revision = ''11b18d6722e7'', mg_down_revision = Some ''49f82644800a'',
       mg_upgrade = stations_upgrade, mg_downgrade = stations_downgrade\<rparr>,
     \<lparr>mg_revision = ''f69515989ba0'', mg_down_revision = Some ''11b18d6722e7'',
       mg_upgrade = spatial_index_upgrade, mg_downgrade = spatial_index_downgrade\<rparr>,
     \<lparr>mg_revision = ''c2b1ba3c8886'', mg_down_revision = Some ''f69515989ba0'',
       mg_upgrade = bookings_upgrade, mg_downgrade = bookings_downgrade\<rparr>,
     \<lparr>mg_revision = ''7f0aa2673fae'', mg_down_revision = Some ''c2b1ba3c8886'',
       mg_upgrade = payments_upgrade, mg_downgrade = payments_downgrade\<rparr>,
     \<lparr>mg_revision = ''df408d92b97e'', mg_down_revision = Some ''7f0aa2673fae'',
       mg_upgrade = webhook_events_upgrade, mg_downgrade = webhook_events_downgrade\<rparr>,
     \<lparr>mg_revision = ''9a789f0119ea'', mg_down_revision = Some ''df408d92b97e'',
       mg_upgrade = refunds_upgrade, mg_downgrade = refunds_downgrade\<rparr>,
     \<lparr>mg_revision = ''bff01686c1c8'', mg_down_revision = Some ''9a789f0119ea'',
       mg_upgrade = charging_sessions_upgrade, mg_downgrade = charging_sessions_downgrade\<rparr>,
     \<lparr>mg_revision = ''258cf6121335'', mg_down_revision = Some ''bff01686c1c8'',
       mg_upgrade = station_versions_upgrade, mg_downgrade = station_versions_downgrade\<rparr>]"

end
