(* ===== verification/Metadata.thy ===== *)
theory Metadata
  imports Migrations
begin

text \<open>
  The schema that the model classes declare (\<open>models\<close>), with the names that SQLAlchemy gives to
  constraints and indexes by the naming convention (\<open>extensions.py\<close>), against the schema
  that the migrations build: what Alembic compares when it looks for pending changes.
\<close>

subsection \<open>The naming convention\<close>

definition NAMING_CONVENTION :: "string \<Rightarrow> string option" where
  "NAMING_CONVENTION = map_of
    [(''ix'', ''ix_%(column_0_label)s''),
     (''uq'', ''uq_%(table_name)s_%(column_0_name)s''),
     (''ck'', ''ck_%(table_name)s_%(constraint_name)s''),
     (''fk'', ''fk_%(table_name)s_%(column_0_name)s_%(referred_table_name)s''),
     (''pk'', ''pk_%(table_name)s'')]"

text \<open>Python's \<open>template % values\<close> for the conversions \<open>%(name)s\<close>.\<close>

function expand :: "(string \<times> string) list \<Rightarrow> string \<Rightarrow> string" where
  "expand values template =
     (case template of
        [] \<Rightarrow> []
      | c # cs \<Rightarrow>
          if c = CHR ''%'' then
            (let name = takeWhile (\<lambda>x. x \<noteq> CHR '')'') (drop 1 cs)
             in (case map_of values name of None \<Rightarrow> [] | Some v \<Rightarrow> v)
                  @ expand values (drop (length name + 3) cs))
          else c # expand values cs)"
  by pat_completeness auto
termination by (relation "measure (length o snd)") auto

declare expand.simps [simp del]

definition named :: "string \<Rightarrow> (string \<times> string) list \<Rightarrow> string" where
  "named kind values = expand values (the (NAMING_CONVENTION kind))"

subsection \<open>Declarations\<close>

record declared_column =
  dc_name :: string
  dc_type :: column_type
  dc_nullable :: bool
  dc_server_default :: "string option"
  dc_primary_key :: bool
  dc_unique :: bool
  dc_index :: bool
  dc_foreign_key :: "(string \<times> string \<times> string) option"

text \<open>\<open>Mapped[T]\<close> is not nullable, \<open>Mapped[T | None]\<close> is.\<close>

definition mapped :: "string \<Rightarrow> column_type \<Rightarrow> declared_column" where
  "mapped n t = \<lparr>dc_name = n, dc_type = t, dc_nullable = False, dc_server_default = None,
     dc_primary_key = False, dc_unique = False, dc_index = False, dc_foreign_key = None\<rparr>"

definition mapped_optional :: "string \<Rightarrow> column_type \<Rightarrow> declared_column" where
  "mapped_optional n t = (mapped n t)\<lparr>dc_nullable := True\<rparr>"

definition unique :: "declared_column \<Rightarrow> declared_column" where
  "unique c = c\<lparr>dc_unique := True\<rparr>"

definition indexed :: "declared_column \<Rightarrow> declared_column" where
  "indexed c = c\<lparr>dc_index := True\<rparr>"

definition server_default :: "string \<Rightarrow> declared_column \<Rightarrow> declared_column" where
  "server_default v c = c\<lparr>dc_server_default := Some v\<rparr>"

definition foreign_key :: "string \<Rightarrow> string \<Rightarrow> string \<Rightarrow> declared_column
          \<Rightarrow> declared_column" where
  "foreign_key table column ondelete c = c\<lparr>dc_foreign_key := Some (table, column, ondelete)\<rparr>"

datatype table_arg =
    CheckConstraint string string
  | UniqueConstraint "string list" string
  | Index string "string list"

record declared_model =
  md_table :: string
  md_args :: "table_arg list"
  md_columns :: "declared_column list"

text \<open>The columns of \<open>UUIDPrimaryKeyMixin\<close> and \<open>TimestampMixin\<close>, which
          every model has.\<close>

definition mixin_columns :: "declared_column list" where
  "mixin_columns =
    [(mapped ''id'' UuidColumn)\<lparr>dc_primary_key := True\<rparr>,
     server_default ''now()'' (mapped ''created_at'' TimestampTz),
     server_default ''now()'' (mapped ''updated_at'' TimestampTz)]"

definition all_columns :: "declared_model \<Rightarrow> declared_column list" where
  "all_columns m = md_columns m @ mixin_columns"

subsection \<open>What a declaration creates\<close>

definition created_column :: "declared_column \<Rightarrow> column" where
  "created_column c = \<lparr>col_name = dc_name c, col_type = dc_type c, col_nullable = dc_nullable c,
     col_default = dc_server_default c\<rparr>"

text \<open>
  A convention that mentions the constraint's own name is applied to that name; the others
  name what the declaration leaves unnamed.
\<close>

fun arg_constraints :: "string \<Rightarrow> table_arg \<Rightarrow> constraint list" where
  "arg_constraints t (CheckConstraint sql n) =
     [Check (named ''ck'' [(''table_name'', t), (''constraint_name'', n)]) sql]"
| "arg_constraints t (UniqueConstraint cols n) = [Unique n cols]"
| "arg_constraints t (Index n cols) = []"

definition column_constraints :: "string \<Rightarrow> declared_column \<Rightarrow> constraint list" where
  "column_constraints t c =
     (let values = [(''table_name'', t), (''column_0_name'', dc_name c)] in
      (if dc_primary_key c then [PrimaryKey (named ''pk'' values) [dc_name c]] else [])
      @ (if dc_unique c then [Unique (named ''uq'' values) [dc_name c]] else [])
      @ (case dc_foreign_key c of None \<Rightarrow> []
         | Some (target, column, ondelete) \<Rightarrow>
             [ForeignKey (named ''fk'' (values @ [(''referred_table_name'', target)])) (dc_name c) target
          column ondelete]))"

definition created_table :: "declared_model \<Rightarrow> table" where
  "created_table m = \<lparr>tb_name = md_table m, tb_columns = map created_column (all_columns m),
     tb_constraints = concat (map (arg_constraints (md_table m)) (md_args m))
       @ concat (map (column_constraints (md_table m)) (all_columns m))\<rparr>"

fun arg_indexes :: "string \<Rightarrow> table_arg \<Rightarrow> index list" where
  "arg_indexes t (Index n cols) = [\<lparr>ix_name = n, ix_table = t, ix_columns = cols\<rparr>]"
| "arg_indexes t _ = []"

definition column_indexes :: "string \<Rightarrow> declared_column \<Rightarrow> index list" where
  "column_indexes t c = (if dc_index c
     then [\<lparr>ix_name = named ''ix'' [(''column_0_label'', t @ ''_'' @ dc_name c)], ix_table = t,
            ix_columns = [dc_name c]\<rparr>]
     else [])"

definition created_indexes :: "declared_model \<Rightarrow> index list" where
  "created_indexes m = concat (map (arg_indexes (md_table m)) (md_args m))
     @ concat (map (column_indexes (md_table m)) (all_columns m))"

subsection \<open>The models\<close>

definition User_model :: declared_model where
  "User_model = \<lparr>md_table = ''users'',
     md_args =
       [CheckConstraint ''email = lower(email)'' ''email_lowercase'',
        CheckConstraint ''username = lower(username)'' ''username_lowercase'',
        CheckConstraint ''failed_login_attempts >= 0'' ''non_negative_failed_login_attempts''],
     md_columns =
       [unique (mapped ''email'' (Varchar 255)),
        unique (mapped ''username'' (Varchar 50)),
        mapped ''password_hash'' (Varchar 255),
        mapped ''full_name'' (Varchar 100),
        unique (mapped_optional ''phone'' (Varchar 20)),
        server_default ''user'' (mapped ''role'' (EnumColumn ''user_role'' [''user'', ''station_admin'',
          ''system_admin''])),
        server_default ''true'' (mapped ''is_active'' BooleanColumn),
        mapped_optional ''email_verified_at'' TimestampTz,
        server_default ''0'' (mapped ''failed_login_attempts'' SmallIntegerColumn),
        mapped_optional ''locked_until'' TimestampTz]\<rparr>"

definition AuthSession_model :: declared_model where
  "AuthSession_model = \<lparr>md_table = ''auth_sessions'',
     md_args =
       [CheckConstraint ''expires_at > created_at'' ''expires_after_creation''],
     md_columns =
       [indexed (foreign_key ''users'' ''id'' ''CASCADE'' (mapped ''user_id'' UuidColumn)),
        unique (mapped ''token_hash'' (Varchar 64)),
        indexed (mapped ''family_id'' UuidColumn),
        indexed (mapped ''expires_at'' TimestampTz),
        mapped_optional ''revoked_at'' TimestampTz,
        mapped_optional ''last_used_at'' TimestampTz,
        unique (foreign_key ''auth_sessions'' ''id'' ''SET NULL'' (mapped_optional ''replaced_by_id''
          UuidColumn))]\<rparr>"

definition ChargingStation_model :: declared_model where
  "ChargingStation_model = \<lparr>md_table = ''charging_stations'',
     md_args =
       [CheckConstraint ''latitude >= -90 AND latitude <= 90'' ''valid_latitude'',
        CheckConstraint ''longitude >= -180 AND longitude <= 180'' ''valid_longitude'',
        CheckConstraint ''country_code = upper(country_code)'' ''country_code_uppercase'',
        CheckConstraint ''version > 0'' ''positive_version'',
        Index ''ix_charging_stations_city_status'' [''city'', ''status'']],
     md_columns =
       [indexed (foreign_key ''users'' ''id'' ''RESTRICT'' (mapped ''owner_id'' UuidColumn)),
        mapped ''name'' (Varchar 120),
        mapped_optional ''description'' TextColumn,
        mapped ''address_line_1'' (Varchar 255),
        mapped_optional ''address_line_2'' (Varchar 255),
        mapped ''city'' (Varchar 100),
        mapped ''state'' (Varchar 100),
        mapped ''postal_code'' (Varchar 20),
        server_default ''IN'' (mapped ''country_code'' (Varchar 2)),
        mapped ''latitude'' (NumericColumn 9 6),
        mapped ''longitude'' (NumericColumn 9 6),
        server_default ''Asia/Kolkata'' (mapped ''timezone'' (Varchar 64)),
        mapped_optional ''phone'' (Varchar 20),
        server_default ''false'' (mapped ''is_24_hours'' BooleanColumn),
        server_default ''draft'' (mapped ''status'' (EnumColumn ''station_status'' [''draft'', ''active'',
          ''inactive'', ''maintenance''])),
        server_default ''1'' (mapped ''version'' IntegerColumn)]\<rparr>"

definition ChargePoint_model :: declared_model where
  "ChargePoint_model = \<lparr>md_table = ''charge_points'',
     md_args =
       [UniqueConstraint [''station_id'', ''code''] ''station_code'',
        CheckConstraint ''max_power_kw > 0'' ''positive_max_power_kw'',
        CheckConstraint ''booking_fee >= 0'' ''non_negative_booking_fee'',
        CheckConstraint ''version > 0'' ''positive_version''],
     md_columns =
       [indexed (foreign_key ''charging_stations'' ''id'' ''CASCADE'' (mapped ''station_id'' UuidColumn)),
        mapped ''code'' (Varchar 50),
        mapped ''connector_type'' (EnumColumn ''connector_type'' [''ccs_2'', ''type_2'', ''chademo'',
          ''gb_t'', ''bharat_dc_001'']),
        mapped ''power_type'' (EnumColumn ''power_type'' [''ac'', ''dc'']),
        mapped ''max_power_kw'' (NumericColumn 7 2),
        server_default ''50.00'' (mapped ''booking_fee'' (NumericColumn 10 2)),
        server_default ''true'' (mapped ''is_bookable'' BooleanColumn),
        server_default ''available'' (mapped ''status'' (EnumColumn ''charge_point_status'' [''available'',
          ''out_of_service'', ''maintenance'', ''retired''])),
        server_default ''1'' (mapped ''version'' IntegerColumn)]\<rparr>"

definition Booking_model :: declared_model where
  "Booking_model = \<lparr>md_table = ''bookings'',
     md_args =
       [CheckConstraint ''ends_at > starts_at'' ''positive_duration'',
        CheckConstraint ''version > 0'' ''positive_version'',
        CheckConstraint ''total_amount IS NULL OR total_amount >= 0'' ''non_negative_total_amount'',
        Index ''ix_bookings_user_status'' [''user_id'', ''status''],
        Index ''ix_bookings_charge_point_start'' [''charge_point_id'', ''starts_at'']],
     md_columns =
       [foreign_key ''users'' ''id'' ''RESTRICT'' (mapped ''user_id'' UuidColumn),
        foreign_key ''charge_points'' ''id'' ''RESTRICT'' (mapped ''charge_point_id'' UuidColumn),
        mapped ''starts_at'' TimestampTz,
        mapped ''ends_at'' TimestampTz,
        mapped_optional ''hold_expires_at'' TimestampTz,
        server_default ''held'' (mapped ''status'' (EnumColumn ''booking_status'' [''held'',
          ''payment_pending'', ''confirmed'', ''active'', ''completed'', ''cancelled'', ''expired''])),
        mapped_optional ''total_amount'' (NumericColumn 10 2),
        server_default ''INR'' (mapped ''currency'' (Varchar 3)),
        server_default ''1'' (mapped ''version'' IntegerColumn),
        mapped_optional ''cancelled_at'' TimestampTz]\<rparr>"

definition Payment_model :: declared_model where
  "Payment_model = \<lparr>md_table = ''payments'',
     md_args =
       [CheckConstraint ''amount > 0'' ''positive_amount'',
        CheckConstraint ''amount_subunits > 0'' ''positive_amount_subunits'',
        Index ''ix_payments_booking_status'' [''booking_id'', ''status''],
        Index ''ix_payments_user_created'' [''user_id'', ''created_at'']],
     md_columns =
       [foreign_key ''bookings'' ''id'' ''RESTRICT'' (mapped ''booking_id'' UuidColumn),
        foreign_key ''users'' ''id'' ''RESTRICT'' (mapped ''user_id'' UuidColumn),
        server_default ''razorpay'' (mapped ''provider'' (EnumColumn ''payment_provider'' [''razorpay''])),
        server_default ''initiated'' (mapped ''status'' (EnumColumn ''payment_status'' [''initiated'',
          ''order_created'', ''authorized'', ''captured'', ''failed'', ''refunded''])),
        mapped ''amount'' (NumericColumn 10 2),
        mapped ''amount_subunits'' IntegerColumn,
        server_default ''INR'' (mapped ''currency'' (Varchar 3)),
        unique (mapped ''idempotency_key'' UuidColumn),
        unique (mapped_optional ''provider_order_id'' (Varchar 100)),
        unique (mapped_optional ''provider_payment_id'' (Varchar 100)),
        mapped_optional ''last_error_code'' (Varchar 100)]\<rparr>"

definition PaymentWebhookEvent_model :: declared_model where
  "PaymentWebhookEvent_model = \<lparr>md_table = ''payment_webhook_events'',
     md_args =
       [],
     md_columns =
       [server_default ''razorpay'' (mapped ''provider'' (Varchar 30)),
        unique (mapped ''provider_event_id'' (Varchar 100)),
        mapped ''event_type'' (Varchar 100),
        mapped ''payload_hash'' (Varchar 64),
        server_default ''received'' (mapped ''status'' (EnumColumn ''webhook_event_status'' [''received'',
          ''processed'', ''ignored''])),
        mapped_optional ''processed_at'' TimestampTz]\<rparr>"

definition Refund_model :: declared_model where
  "Refund_model = \<lparr>md_table = ''refunds'',
     md_args =
       [CheckConstraint ''amount > 0'' ''positive_amount'',
        CheckConstraint ''amount_subunits > 0'' ''positive_amount_subunits''],
     md_columns =
       [unique (foreign_key ''payments'' ''id'' ''RESTRICT'' (mapped ''payment_id'' UuidColumn)),
        server_default ''requested'' (mapped ''status'' (EnumColumn ''refund_status'' [''requested'',
          ''pending'', ''processed'', ''failed''])),
        mapped ''amount'' (NumericColumn 10 2),
        mapped ''amount_subunits'' IntegerColumn,
        mapped ''currency'' (Varchar 3),
        unique (mapped ''receipt'' (Varchar 40)),
        unique (mapped_optional ''provider_refund_id'' (Varchar 100)),
        mapped_optional ''last_error_code'' (Varchar 100),
        mapped_optional ''processed_at'' TimestampTz]\<rparr>"

definition ChargingSession_model :: declared_model where
  "ChargingSession_model = \<lparr>md_table = ''charging_sessions'',
     md_args =
       [CheckConstraint ''meter_start_kwh >= 0'' ''non_negative_meter_start'',
        CheckConstraint ''meter_end_kwh IS NULL OR meter_end_kwh >= meter_start_kwh'' ''valid_meter_end'',
        CheckConstraint ''energy_consumed_kwh IS NULL OR energy_consumed_kwh >= 0'' ''non_negative_energy_consumed'',
        CheckConstraint ''ended_at IS NULL OR ended_at >= started_at'' ''valid_end_time'',
        CheckConstraint ''version > 0'' ''positive_version'',
        Index ''ix_charging_sessions_user_status'' [''user_id'', ''status''],
        Index ''ix_charging_sessions_charge_point_status'' [''charge_point_id'', ''status'']],
     md_columns =
       [unique (foreign_key ''bookings'' ''id'' ''RESTRICT'' (mapped ''booking_id'' UuidColumn)),
        foreign_key ''users'' ''id'' ''RESTRICT'' (mapped ''user_id'' UuidColumn),
        foreign_key ''charge_points'' ''id'' ''RESTRICT'' (mapped ''charge_point_id'' UuidColumn),
        server_default ''active'' (mapped ''status'' (EnumColumn ''charging_session_status'' [''active'',
          ''completed'', ''interrupted''])),
        mapped ''started_at'' TimestampTz,
        mapped_optional ''ended_at'' TimestampTz,
        mapped ''meter_start_kwh'' (NumericColumn 12 3),
        mapped_optional ''meter_end_kwh'' (NumericColumn 12 3),
        mapped_optional ''energy_consumed_kwh'' (NumericColumn 12 3),
        server_default ''1'' (mapped ''version'' IntegerColumn)]\<rparr>"

text \<open>The models of \<open>chargemate.models\<close>, in the order in which the migrations create
          their tables.\<close>

definition models :: "declared_model list" where
  "models = [User_model, AuthSession_model, ChargingStation_model, ChargePoint_model, Booking_model,
     Payment_model, PaymentWebhookEvent_model, Refund_model, ChargingSession_model]"

subsection \<open>Against the migrations\<close>

text \<open>
  What the revisions add by statements that SQLAlchemy's metadata does not express: the
  exclusion constraint on bookings and the spatial index on stations.
\<close>

definition raw_constraints :: "string \<Rightarrow> constraint list" where
  "raw_constraints t = (if t = ''bookings'' then [Exclude ''prevent_overlapping_bookings''
     [''charge_point_id'', ''starts_at'', ''ends_at'', ''status'']
     [''held'', ''payment_pending'', ''confirmed'', ''active''] ''btree_gist''] else [])"

definition raw_indexes :: "index list" where
  "raw_indexes = [\<lparr>ix_name = ''ix_charging_stations_location_gist'', ix_table = ''charging_stations'',
     ix_columns = [''longitude'', ''latitude'']\<rparr>]"

text \<open>Two lists with the same elements, compared by looking each element up by its name.\<close>

definition same_named :: "('a \<Rightarrow> string) \<Rightarrow> 'a list \<Rightarrow> 'a list \<Rightarrow> bool" where
  "same_named name xs ys \<longleftrightarrow> list_all (\<lambda>x. find (\<lambda>y. name y = name x) ys = Some x) xs
     \<and> list_all (\<lambda>y. find (\<lambda>x. name x = name y) xs = Some y) ys"

definition table_matches :: "table \<Rightarrow> declared_model \<Rightarrow> bool" where
  "table_matches tb m \<longleftrightarrow> tb_name tb = md_table m
     \<and> same_named col_name (tb_columns tb) (tb_columns (created_table m))
     \<and> same_named constraint_name (tb_constraints tb)
         (tb_constraints (created_table m) @ raw_constraints (md_table m))"

definition metadata_matches :: "schema \<Rightarrow> bool" where
  "metadata_matches s \<longleftrightarrow> list_all2 table_matches (sc_tables s) models
     \<and> same_named ix_name (sc_indexes s) (concat (map created_indexes models) @ raw_indexes)"

lemma find_Some_member: "find p xs = Some x \<Longrightarrow> x \<in> set xs"
  by (auto simp: find_Some_iff)

lemma same_named_set: "same_named name xs ys \<Longrightarrow> set xs = set ys"
  unfolding same_named_def list_all_iff using find_Some_member by fast

end
