(* ===== verification/SchemaHistory.thy ===== *)
theory SchemaHistory
  imports Metadata
begin

text \<open>
  Walks along the revisions: every upgrade and downgrade succeeds, whatever the way there, and
  the schema at the head is the one that the model classes declare and that the services
  rely on. One evaluation of the whole history (\<open>migrations_sound\<close>) carries the proofs.
\<close>

subsection \<open>Walks along the revisions\<close>

text \<open>
  The database as the PostGIS image delivers it, and its schema after the first revisions.
\<close>

definition blank_schema :: schema where
  "blank_schema = \<lparr>sc_tables = [], sc_indexes = [], sc_types = [], sc_extensions = [''postgis'']\<rparr>"

fun upgraded :: "nat \<Rightarrow> schema option" where
  "upgraded 0 = Some blank_schema"
| "upgraded (Suc k) = (case upgraded k of None \<Rightarrow> None | Some s \<Rightarrow> run_operations (mg_upgrade (migrations ! k)) s)"

text \<open>A database is at the revision before \<open>migrations ! k\<close>; Alembic moves one revision up or down.\<close>

inductive alembic_step :: "nat \<times> schema \<Rightarrow> nat \<times> schema \<Rightarrow> bool" where
  up: "k < length migrations \<Longrightarrow> run_operations (mg_upgrade (migrations ! k)) s = Some s' \<Longrightarrow>
     alembic_step (k, s) (Suc k, s')"
| down: "k < length migrations \<Longrightarrow> run_operations (mg_downgrade (migrations ! k)) s = Some s' \<Longrightarrow>
     alembic_step (Suc k, s) (k, s')"

text \<open>
  The extension that one revision installs is never removed again, so a database that was
  once ahead may carry it at an earlier revision.
\<close>

definition with_extension :: "schema \<Rightarrow> schema" where
  "with_extension s = s\<lparr>sc_extensions := [''postgis'', ''btree_gist'']\<rparr>"

text \<open>What is checked of one revision between the schemas before and after it.\<close>

definition revision_sound :: "migration \<Rightarrow> schema \<Rightarrow> schema \<Rightarrow> bool" where
  "revision_sound m s s' \<longleftrightarrow>
     (case run_operations (mg_downgrade m) s' of None \<Rightarrow> False | Some x \<Rightarrow> x = s \<or> x = with_extension s)
     \<and> (if sc_extensions s = [''postgis'', ''btree_gist''] then sc_extensions s' = [''postgis'', ''btree_gist'']
        else run_operations (mg_upgrade m) (with_extension s) = Some (with_extension s')
          \<and> run_operations (mg_downgrade m) (with_extension s') = Some (with_extension s))"

fun walk_sound :: "(schema \<Rightarrow> bool) \<Rightarrow> migration list \<Rightarrow> schema \<Rightarrow> bool" where
  "walk_sound final [] s = final s"
| "walk_sound final (m # ms) s = (case run_operations (mg_upgrade m) s of
     None \<Rightarrow> False | Some s' \<Rightarrow> revision_sound m s s' \<and> walk_sound final ms s')"

lemma with_extension_twice [simp]: "with_extension (with_extension s) = with_extension s"
  by (simp add: with_extension_def)

lemma with_extension_same: "sc_extensions s = [''postgis'', ''btree_gist''] \<Longrightarrow> with_extension s = s"
  by (simp add: with_extension_def)

lemma revision_sound_moves:
  assumes "revision_sound m s s'" "run_operations (mg_upgrade m) s = Some s'"
  shows "run_operations (mg_upgrade m) (with_extension s) = Some (with_extension s')"
    "run_operations (mg_downgrade m) s' = Some s \<or> run_operations (mg_downgrade m) s' = Some (with_extension s)"
    "run_operations (mg_downgrade m) (with_extension s') = Some (with_extension s)"
  using assms with_extension_same [of s] with_extension_same [of s']
  by (auto simp: revision_sound_def split: if_splits option.splits)

text \<open>
  The schema at the head against the model's constraints, which are grouped by their table,
  the tables in the order of their creation.
\<close>

definition table_constraints :: "database \<Rightarrow> (string \<times> (string \<times> bool) list) list" where
  "table_constraints d =
    [(''users'', users_constraints d), (''auth_sessions'', auth_sessions_constraints d),
     (''charging_stations'', stations_constraints d), (''charge_points'', charge_points_constraints d),
     (''bookings'', bookings_constraints d), (''payments'', payments_constraints d),
     (''payment_webhook_events'', webhook_events_constraints d), (''refunds'', refunds_constraints d),
     (''charging_sessions'', charging_sessions_constraints d)]"

definition constraint_names :: "table \<Rightarrow> string list" where
  "constraint_names tb = map constraint_name (tb_constraints tb)"

definition same_names :: "table \<Rightarrow> string \<times> (string \<times> bool) list \<Rightarrow> bool" where
  "same_names tb tc \<longleftrightarrow> tb_name tb = fst tc
     \<and> list_all (\<lambda>n. n \<in> set (map fst (snd tc))) (constraint_names tb)
     \<and> list_all (\<lambda>n. n \<in> set (constraint_names tb)) (map fst (snd tc))"

definition head_matches :: "schema \<Rightarrow> bool" where
  "head_matches s \<longleftrightarrow> list_all2 same_names (sc_tables s) (table_constraints empty_database)"

definition head_sound :: "schema \<Rightarrow> bool" where
  "head_sound s \<longleftrightarrow> head_matches s \<and> metadata_matches s"

lemma migrations_sound: "walk_sound head_sound migrations blank_schema"
  by code_simp

lemma walk_sound_at:
  "k \<le> length migrations \<Longrightarrow>
     \<exists>s. upgraded k = Some s \<and> walk_sound head_sound (drop k migrations) s"
proof (induction k)
  case 0
  show ?case using migrations_sound by simp
next
  case (Suc k)
  then obtain s where s: "upgraded k = Some s" "walk_sound head_sound (drop k migrations) s" by auto
  from Suc.prems have "drop k migrations = migrations ! k # drop (Suc k) migrations"
    by (simp add: Cons_nth_drop_Suc)
  with s show ?case by (auto split: option.splits)
qed

lemma revision_sound_at:
  assumes "k < length migrations"
  obtains s s' where "upgraded k = Some s" "upgraded (Suc k) = Some s'" "revision_sound (migrations ! k) s s'"
    "run_operations (mg_upgrade (migrations ! k)) s = Some s'"
proof -
  from assms walk_sound_at [of k] obtain s where s: "upgraded k = Some s"
    "walk_sound head_sound (drop k migrations) s" by auto
  from assms have "drop k migrations = migrations ! k # drop (Suc k) migrations"
    by (simp add: Cons_nth_drop_Suc)
  with s show thesis by (auto split: option.splits intro: that)
qed

definition schema_at :: "nat \<Rightarrow> schema \<Rightarrow> bool" where
  "schema_at k s \<longleftrightarrow> k \<le> length migrations
     \<and> (\<exists>s0. upgraded k = Some s0 \<and> (s = s0 \<or> s = with_extension s0))"

lemma step_schema_at: "alembic_step p q \<Longrightarrow> schema_at (fst p) (snd p) \<Longrightarrow> schema_at (fst q) (snd q)"
proof (induction rule: alembic_step.induct)
  case (up k s s')
  show ?case
    by (rule revision_sound_at [OF up(1)]) (use up revision_sound_moves in \<open>fastforce simp: schema_at_def\<close>)
next
  case (down k s s')
  show ?case
    by (rule revision_sound_at [OF down(1)]) (use down revision_sound_moves in \<open>fastforce simp: schema_at_def\<close>)
qed

interpretation alembic: invariant_machine alembic_step "\<lambda>p. schema_at (fst p) (snd p)"
  by unfold_locales (rule step_schema_at)

text \<open>
  C38. Migrations never get stuck and lose nothing: however a database walked up and down the
  revisions, its schema is the one that upgrading a blank database to its revision builds
  (apart from the extension that one revision installs and leaves), and both the next
  upgrade and the next downgrade run without an error of the database.
\<close>

theorem migrations_walk:
  assumes "alembic_step\<^sup>*\<^sup>* (0, blank_schema) (k, s)"
  shows "\<exists>s0. upgraded k = Some s0 \<and> (s = s0 \<or> s = with_extension s0)
    \<and> (k < length migrations \<longrightarrow> (\<exists>s'. run_operations (mg_upgrade (migrations ! k)) s = Some s'))
    \<and> (0 < k \<longrightarrow> (\<exists>s'. run_operations (mg_downgrade (migrations ! (k - 1))) s = Some s'))"
proof -
  have "schema_at 0 blank_schema" by (simp add: schema_at_def)
  with alembic.run_preserves [OF assms] have at: "schema_at k s" by simp
  then obtain s0 where s0: "upgraded k = Some s0" "s = s0 \<or> s = with_extension s0" "k \<le> length migrations"
    by (auto simp: schema_at_def)
  have "\<exists>s'. run_operations (mg_upgrade (migrations ! k)) s = Some s'" if "k < length migrations"
    by (rule revision_sound_at [OF that]) (use s0 revision_sound_moves in fastforce)
  moreover have "\<exists>s'. run_operations (mg_downgrade (migrations ! (k - 1))) s = Some s'" if "0 < k"
  proof -
    from that s0(3) have "k - 1 < length migrations" "Suc (k - 1) = k" by simp_all
    from this(1) show ?thesis
      by (rule revision_sound_at) (use s0 \<open>Suc (k - 1) = k\<close> revision_sound_moves in fastforce)
  qed
  ultimately show ?thesis using s0 by blast
qed

theorem migrations_walk_witness:
  "\<exists>s. alembic_step\<^sup>*\<^sup>* (0, blank_schema) (1, s)
     \<and> (\<exists>s'. run_operations (mg_downgrade (migrations ! 0)) s = Some s')"
proof -
  have "0 < length migrations" by (simp add: migrations_def)
  from revision_sound_at [OF this] obtain s where
    "run_operations (mg_upgrade (migrations ! 0)) blank_schema = Some s" by auto
  with alembic_step.up [OF \<open>0 < length migrations\<close>] have s: "alembic_step\<^sup>*\<^sup>* (0, blank_schema) (1, s)"
    by (metis One_nat_def r_into_rtranclp)
  from migrations_walk [OF s] s show ?thesis by auto
qed

subsection \<open>The history and its head\<close>

text \<open>The revisions form one line: each names the one before it, the first names none.\<close>

lemma one_history:
  "map mg_down_revision migrations = None # map (\<lambda>m. Some (mg_revision m)) (butlast migrations)"
  "distinct (map mg_revision migrations)"
  by code_simp+

lemma table_constraint_names:
  "map (\<lambda>(t, cs). (t, map fst cs)) (table_constraints d)
     = map (\<lambda>(t, cs). (t, map fst cs)) (table_constraints empty_database)"
  by (simp add: table_constraints_def users_constraints_def auth_sessions_constraints_def stations_constraints_def
      charge_points_constraints_def bookings_constraints_def payments_constraints_def refunds_constraints_def
      webhook_events_constraints_def charging_sessions_constraints_def)

lemma names_of_tables:
  "map (\<lambda>(t, cs). (t, fst ` set cs)) xs = map (\<lambda>(t, ns). (t, set ns)) (map (\<lambda>(t, cs). (t, map fst cs)) xs)"
  by (simp add: case_prod_beta comp_def)

lemma same_names_iff:
  "same_names tb tc \<longleftrightarrow> (tb_name tb, set (constraint_names tb)) = (fst tc, fst ` set (snd tc))"
  by (auto simp: same_names_def list_all_iff)

lemma head_matches_tables:
  assumes "head_matches s"
  shows "map (\<lambda>tb. (tb_name tb, set (constraint_names tb))) (sc_tables s)
    = map (\<lambda>(t, cs). (t, fst ` set cs)) (table_constraints empty_database)"
  using assms
  by (auto simp: head_matches_def same_names_iff list_all2_conv_all_nth case_prod_beta intro!: nth_equalityI)



end
