(* ===== verification/MigrationEnv.thy ===== *)
theory MigrationEnv
  imports Metadata
begin

text \<open>
  Alembic's environment (\<open>migrations/env.py\<close>): where the database URL comes from and how it
  passes through the configuration file's interpolation, which objects autogenerate looks at,
  and the two modes of a run. The extension of Flask-Migrate and Alembic are parameters.
\<close>

subsection \<open>The database URL\<close>

text \<open>
  What the code asks of the database extension: \<open>get_engine()\<close>, which newer versions do not
  have or refuse, and the attribute \<open>engine\<close>; of an engine, its URL with the password and
  its plain text.
\<close>

record engine =
  render_as_string :: "exn + string"
  url_text :: string

record database_extension =
  call_get_engine :: "exn + engine"
  engine_attribute :: engine

definition get_engine :: "database_extension \<Rightarrow> exn + engine" where
  "get_engine db = (case call_get_engine db of
       Inl e \<Rightarrow> if e = TypeError \<or> e = AttributeError then Inr (engine_attribute db) else Inl e
     | Inr engine \<Rightarrow> Inr engine)"

text \<open>\<open>text.replace('%', '%%')\<close>\<close>

definition escape_percent :: "string \<Rightarrow> string" where
  "escape_percent s = concat (map (\<lambda>c. if c = CHR ''%'' then ''%%'' else [c]) s)"

definition get_engine_url :: "database_extension \<Rightarrow> exn + string" where
  "get_engine_url db =
     (case (case get_engine db of Inl e \<Rightarrow> Inl e | Inr engine \<Rightarrow>
              (case render_as_string engine of Inl e \<Rightarrow> Inl e | Inr t \<Rightarrow> Inr (escape_percent t))) of
        Inl e \<Rightarrow> if e = AttributeError
          then (case get_engine db of Inl e' \<Rightarrow> Inl e' | Inr engine \<Rightarrow> Inr (escape_percent (url_text engine)))
          else Inl e
      | Inr t \<Rightarrow> Inr t)"

text \<open>
  \<open>ConfigParser\<close> reads an option back by replacing \<open>%%\<close> by a percent sign; a percent sign
  before anything else is a reference to another option or an error.
\<close>

fun interpolated :: "string \<Rightarrow> string option" where
  "interpolated [] = Some []"
| "interpolated [c] = (if c = CHR ''%'' then None else Some [c])"
| "interpolated (c # c' # cs) =
     (if c \<noteq> CHR ''%'' then map_option (Cons c) (interpolated (c' # cs))
      else if c' = CHR ''%'' then map_option (Cons c) (interpolated cs) else None)"

lemma interpolated_Cons: "c \<noteq> CHR ''%'' \<Longrightarrow> interpolated (c # cs) = map_option (Cons c) (interpolated cs)"
  by (cases cs) auto

lemma interpolated_escaped [simp]: "interpolated (escape_percent s) = Some s"
  by (induction s) (auto simp: escape_percent_def interpolated_Cons)

text \<open>Any URL, with any password, reaches the migration run as it is.\<close>

lemma url_survives_interpolation:
  assumes "get_engine db = Inr e" "render_as_string e = Inr url"
  shows "\<exists>t. get_engine_url db = Inr t \<and> interpolated t = Some url"
  using assms by (simp add: get_engine_url_def)

subsection \<open>Metadata and autogenerate\<close>

text \<open>Flask-SQLAlchemy 3 keeps a metadata per bind, older versions a single one.\<close>

record 'm target_database =
  metadatas :: "(string option \<Rightarrow> 'm) option"
  metadata_attribute :: 'm

definition get_metadata :: "'m target_database \<Rightarrow> 'm" where
  "get_metadata db = (case metadatas db of Some ms \<Rightarrow> ms None | None \<Rightarrow> metadata_attribute db)"

definition include_object :: "string \<Rightarrow> bool \<Rightarrow> 'c option \<Rightarrow> bool" where
  "include_object kind reflected compare_to
     \<longleftrightarrow> \<not> (kind = ''table'' \<and> reflected \<and> compare_to = None)"

text \<open>
  Alembic proposes to drop a table of the database that the metadata does not have, if the
  filter includes it.
\<close>

definition proposed_drops ::
    "(string \<Rightarrow> bool \<Rightarrow> declared_model option \<Rightarrow> bool) \<Rightarrow> declared_model list \<Rightarrow> schema \<Rightarrow> string list" where
  "proposed_drops include ms s =
     filter (\<lambda>t. find (\<lambda>m. md_table m = t) ms = None \<and> include ''table'' True None) (map tb_name (sc_tables s))"

lemma unmanaged_tables_kept: "proposed_drops include_object ms s = []"
  by (simp add: proposed_drops_def include_object_def)

text \<open>
  An autogenerated script without operations is not written; None is the \<open>IndexError\<close> of
  \<open>directives[0]\<close>.
\<close>

definition process_revision_directives :: "bool \<Rightarrow> ('s \<Rightarrow> bool) \<Rightarrow> 's list \<Rightarrow> 's list option" where
  "process_revision_directives autogenerate is_empty directives =
     (if autogenerate then
        (case directives of [] \<Rightarrow> None
         | script # _ \<Rightarrow> Some (if is_empty script then [] else directives))
      else Some directives)"

lemma empty_revision_dropped:
  "process_revision_directives True is_empty (script # rest) = Some ds \<Longrightarrow>
     (ds = [] \<longleftrightarrow> is_empty script) \<and> (ds \<noteq> [] \<longrightarrow> ds = script # rest)"
  by (auto simp: process_revision_directives_def split: if_splits)

subsection \<open>The two modes\<close>

text \<open>The keyword arguments that the application configured, completed by the defaults here.\<close>

record 's configure_args =
  ca_directives :: "('s list \<Rightarrow> 's list option) option"
  ca_include :: "(string \<Rightarrow> bool \<Rightarrow> declared_model option \<Rightarrow> bool) option"

definition conf_args :: "bool \<Rightarrow> ('s \<Rightarrow> bool) \<Rightarrow> 's configure_args \<Rightarrow> 's configure_args" where
  "conf_args autogenerate is_empty args = args\<lparr>
     ca_directives := (case ca_directives args of
        None \<Rightarrow> Some (process_revision_directives autogenerate is_empty) | Some f \<Rightarrow> Some f),
     ca_include := (case ca_include args of None \<Rightarrow> Some include_object | Some f \<Rightarrow> Some f)\<rparr>"

datatype ('m, 's) run =
    Offline "string option" 'm
  | Online engine 'm "'s configure_args"

definition run_migrations_offline :: "string \<Rightarrow> 'm target_database \<Rightarrow> ('m, 's) run" where
  "run_migrations_offline option db = Offline (interpolated option) (get_metadata db)"

definition run_migrations_online ::
    "database_extension \<Rightarrow> 'm target_database \<Rightarrow> bool \<Rightarrow> ('s \<Rightarrow> bool) \<Rightarrow> 's configure_args \<Rightarrow> exn + ('m, 's) run" where
  "run_migrations_online db target autogenerate is_empty args =
     (case get_engine db of Inl e \<Rightarrow> Inl e
      | Inr engine \<Rightarrow> Inr (Online engine (get_metadata target) (conf_args autogenerate is_empty args)))"

text \<open>The module: the URL is put into the configuration first, in either mode.\<close>

definition run_env ::
    "bool \<Rightarrow> database_extension \<Rightarrow> 'm target_database \<Rightarrow> bool \<Rightarrow> ('s \<Rightarrow> bool) \<Rightarrow> 's configure_args \<Rightarrow> exn + ('m, 's) run" where
  "run_env is_offline_mode db target autogenerate is_empty args =
     (case get_engine_url db of
        Inl e \<Rightarrow> Inl e
      | Inr option \<Rightarrow>
          if is_offline_mode then Inr (run_migrations_offline option target)
          else run_migrations_online db target autogenerate is_empty args)"

text \<open>
  Both modes work on the application's own database and metadata, and an online run never
  drops what belongs to an extension, unless the application configured another filter.
\<close>

lemma run_env_cases:
  assumes "get_engine db = Inr e" "render_as_string e = Inr url"
  shows "run_env True db target auto is_empty args = Inr (Offline (Some url) (get_metadata target))"
    "run_env False db target auto is_empty args
       = Inr (Online e (get_metadata target) (conf_args auto is_empty args))"
    "ca_include args = None \<Longrightarrow> \<exists>include. ca_include (conf_args auto is_empty args) = Some include
       \<and> proposed_drops include ms s = []"
  using assms
  by (auto simp: run_env_def run_migrations_offline_def run_migrations_online_def get_engine_url_def
      conf_args_def unmanaged_tables_kept)

end
