(* ===== verification/Spec2Isabelle.thy ===== *)
theory Spec2Isabelle
  imports Config Models Lifecycle Bookings Razorpay Payments Webhooks Cancellation
    ChargingSessions Maintenance MaintenanceDrain Access Platform Requests Stations StationSearch
    ExternalStations ApiAtomicity AccountFlow Routing Application Enqueue SchemaHistory MigrationEnv
begin

text \<open>
  ChargeMate is the backend of a booking service for charging stations: drivers hold a slot on
  a charge point, pay for it through Razorpay, charge, and may cancel with a refund; operators
  manage stations and run the charging sessions. It is a Flask application over PostgreSQL and
  Redis. This library models its Python code (\<open>src/chargemate\<close> and \<open>migrations\<close>)
  operation by operation and proves what makes it correct.

  \<^bold>\<open>State and effects.\<close> A database is a record of tables, a table a list of rows, a row a record
  with the columns of its model class (\<open>Models\<close>). A service is a function from the database to
  an outcome, an exception or a result with the database it leaves. \<open>commit\<close> ends a
  transaction: the pending database is installed when its columns and constraints hold, else
  the statement raises what PostgreSQL raises and the transaction is rolled back, as every
  service does in its \<open>except\<close> clause. The row locks (\<open>SELECT ... FOR UPDATE\<close>) make each
  transaction one step; where a service takes no lock or works in two transactions, what the
  others do in between is an argument (\<open>others\<close>). Redis is a map from keys to texts with an
  expiry time (\<open>Redis\<close>). Times are microseconds since the epoch, UUIDs 128-bit words, decimals
  rationals with the precision of their column checked, strings UTF-8 byte lists.

  \<^bold>\<open>Shared theories.\<close> \<open>Prelude\<close>: exceptions, table statements, and the locales \<open>row_store\<close>
  (lookup and update of rows), \<open>row_lifecycle\<close> and \<open>terminating_lifecycle\<close> (how the rows of a
  table evolve), \<open>invariant_machine\<close> and \<open>refining_machine\<close> (invariants and simulations along
  runs). \<open>PyValues\<close>, \<open>PyText\<close>, \<open>PyFloat\<close>, \<open>PyDatetime\<close>: the Python values and library functions the
  code uses, down to the rounding of \<open>float\<close> and the calendar behind \<open>isoformat\<close>. \<open>Samples\<close>, \<open>SampleRun\<close>, \<open>ApiSamples\<close>: the concrete states on which witnesses evaluate.
  \<open>Lifecycle\<close> is the abstract specification: the status graphs of bookings, payments, refunds
  and charging sessions, the coherence between the tables, and \<open>safe_step\<close>, what one
  transaction may do to them.

  \<^bold>\<open>Components.\<close> Each theory models the files it names and proves, for every operation, that
  its transactions are safe steps, and the properties of the component.
    \<^item> \<open>Config\<close> (\<open>config.py\<close>), \<open>Models\<close> (\<open>models\<close>): the configuration classes; tables, enums, columns,
      constraints by the names the migrations give them, transactions.
    \<^item> \<open>Bookings\<close> (\<open>bookings/schemas.py\<close>, \<open>bookings/service.py\<close>): holds, expiry of stale holds, overlap check,
      listings, plain cancellation. \<open>Cancellation\<close> (\<open>bookings/cancellation.py\<close>): cancellation with refund in
      two transactions around the provider call.
    \<^item> \<open>Razorpay\<close> (\<open>payments/razorpay.py\<close>, \<open>payments/signatures.py\<close>): provider answers and signatures.
      \<open>Payments\<close> (\<open>payments/service.py\<close>): idempotent checkout orders, compensation, verification.
      \<open>Webhooks\<close> (\<open>payments/webhooks.py\<close>): authentication, deduplication and application of events.
    \<^item> \<open>ChargingSessions\<close> (\<open>charging_sessions/service.py\<close>): start, completion, the operator's queue.
    \<^item> \<open>Maintenance\<close> (\<open>maintenance/service.py\<close>, \<open>maintenance/tasks.py\<close>): batch expiry and refund
      reconciliation. \<open>MaintenanceDrain\<close>: repeating the expiry job terminates. \<open>Enqueue\<close>
      (\<open>maintenance/cli.py\<close>): the command that queues both jobs under an identifier of the minute.
    \<^item> \<open>Tokens\<close>, \<open>Auth\<close>, \<open>Access\<close> (\<open>auth/tokens.py\<close>, \<open>auth/service.py\<close>, \<open>auth/schemas.py\<close>,
      \<open>auth/decorators.py\<close>): tokens, registration, login with lockout, rotating refresh sessions, route guards.
    \<^item> \<open>Requests\<close> (\<open>security\<close>, \<open>health.py\<close>): the fixed-window limiter with its Redis script, request
      identity, response headers, health routes.
    \<^item> \<open>StationCache\<close>, \<open>Stations\<close>, \<open>StationSearch\<close> (\<open>stations/cache.py\<close>, \<open>stations/schemas.py\<close>,
      \<open>stations/service.py\<close>, \<open>stations/spatial.py\<close>): station management, public search and its versioned cache.
      \<open>ExternalStations\<close> (\<open>stations/external_service.py\<close>, \<open>stations/providers/open_charge_map.py\<close>): the open-data
      client, what it makes of the provider's records, its cache and its route.
    \<^item> \<open>Http\<close>, \<open>BookingRoutes\<close>, \<open>SessionRoutes\<close>, \<open>PaymentRoutes\<close>, \<open>AuthRoutes\<close>, \<open>StationRoutes\<close> (the
      \<open>routes.py\<close> files): every view with its guard, request model, \<open>except\<close> clauses and response body.
      \<open>Api\<close> (\<open>__init__.py\<close>, \<open>security/middleware.py\<close>): the URL rules, the view behind each, and the middleware.
      \<open>Application\<close> (\<open>__init__.py\<close>, \<open>extensions.py\<close>, \<open>wsgi.py\<close>): the factory that puts configuration,
      connections, job queue, middleware and rules together.
    \<^item> \<open>Migrations\<close> (\<open>migrations/versions\<close>): the operations of every revision on a schema. \<open>Metadata\<close>
      (\<open>models\<close>, \<open>extensions.py\<close>): the tables that the model classes declare, under the naming
      convention. \<open>SchemaHistory\<close>: every walk along the revisions succeeds, the head is what the
      models declare, and the services' constraints are its constraints. \<open>MigrationEnv\<close>
      (\<open>migrations/env.py\<close>): the database URL, the autogenerate filter, the two modes of a run.

  \<^bold>\<open>Interaction.\<close> \<open>System\<close> interleaves the transactions of all services, provider deliveries,
  jobs and crashes as one step relation; a step is one committed transaction, and the provider
  calls under way are part of the state. \<open>Platform\<close> holds the properties of every reachable
  state: no double booking, used bookings are paid, refunds are backed by captures, one vehicle
  per charge point, finished bookings are final, and the refinement of the ledger of statuses.
  \<open>Rendering\<close> shows that whatever the platform stores can be rendered. On top of it, \<open>ViewContract\<close>
  states what a guarantee about views needs to pass guards and request models, \<open>ApiSafety\<close>
  (reads are always answered) and \<open>ApiAtomicity\<close> (a failed request changes nothing) instantiate
  it, \<open>AccountFlow\<close> connects login, profile and logout, and \<open>Routing\<close> shows that the URL rules are
  unambiguous and read back every identifier that a response renders.

  \<^bold>\<open>Parameters and hypotheses.\<close> Third-party code is an argument of the definitions that use it:
  the HTTP client of the provider (\<open>provider\<close>) and of the open-data service (\<open>poi_get\<close>), HMAC,
  SHA-256 and the JSON reader (\<open>primitives\<close>), the JSON writer (\<open>json_writer\<close>), the JWT library
  (\<open>jwt_library\<close>), password hashing (\<open>hashing\<close>), the e-mail validator, PostGIS and collation
  (\<open>database_functions\<close>), pydantic's coercions (\<open>model\<close>), Flask's request (\<open>http_request\<close>), the RQ queue
  (\<open>work_queue\<close>) and Flask-Migrate's extension (\<open>database_extension\<close>). What is assumed of them
  is named: \<open>jwt_roundtrip\<close>, \<open>jwt_checks_expiry\<close>, \<open>jwt_reads_token\<close>, \<open>jwt_tokens_plain\<close>, \<open>json_roundtrip\<close>, \<open>digests_differ\<close>, \<open>hashing_sound\<close>, \<open>hashes_fit\<close>,
  \<open>hexdigests_ascii\<close>, \<open>refuses_duplicates\<close>; each is met by a concrete instance
  in a witness. The behaviour of PostgreSQL, Redis and Alembic is modelled as far as they document it. \<open>version_headroom\<close> says that no version counter has
  reached the end of its four-byte column, \<open>slots_readable\<close> that no stored slot lies beyond the
  year 9999, which a client can break (\<open>hold_beyond_calendar\<close>).

  \<^bold>\<open>Termination.\<close> The code has no unbounded loop; recursion over the rows is structural, the
  remaining functions have measures, and the one repetition of interest, the scheduled expiry
  job, is a \<open>while_option\<close> that is proved to end. No fuel is used.

  \<^bold>\<open>Simplifications.\<close> A guard reads the database that its view works on. Floats drop the sign
  of zero; digits and letters outside ASCII are neither lowered nor parsed as numbers. The
  database session runs in UTC, so that is the offset of every rendered time. A booking whose
  slot no datetime represents fails where its row is rendered; the services, which would fail
  already when they load it, work on it. \<open>updated_at\<close> is declared but never read, and not part
  of the rows. Log lines and timings are left out.

  \<^bold>\<open>Not modelled.\<close> Flask, SQLAlchemy, Alembic, pydantic, Redis and RQ themselves, except for
  the behaviour stated above; the ORM's relationships, which only the joins and the rendering
  follow, and which are lookups by key here. Tests, documentation and deployment files are
  not code of the service.
\<close>

end
